(* ===== verification/Prelude.thy ===== *)
theory Prelude imports Main "HOL-Library.AList" "HOL-Library.List_Lexorder" "HOL-Library.Sublist" begin

text \<open>
  Shared ground of the development: Python text as lists of code points, insertion-ordered
  dictionaries as association lists, the exceptions of the services as one datatype, the result
  type of an operation that may raise, and the rule collections that the component theories fill.
\<close>

named_theorems dict_simps "lookups in updated dictionaries"
named_theorems frame_simps "what an operation leaves unchanged"
named_theorems inv_intros "an operation keeps the component's invariant"

section \<open>Text\<close>

text \<open>
  A Python \<open>str\<close> is a sequence of Unicode code points, so it is a list of naturals here; \<open>U\<close>
  turns an ASCII literal into one. Comparison of such lists is Python's order on \<open>str\<close>.
\<close>

type_synonym ustring = "nat list"

definition U :: "string \<Rightarrow> ustring" where
  "U s = map of_char s"

lemma U_inject [simp]: "U s = U t \<longleftrightarrow> s = t"
  unfolding U_def by (rule inj_map_eq_map) (simp add: inj_on_def)

lemma U_Nil_iff [simp]: "U s = [] \<longleftrightarrow> s = []" "[] = U s \<longleftrightarrow> s = []"
  by (auto simp: U_def)

lemma U_Nil: "U [] = []"
  by (simp add: U_def)

lemma U_append: "U (s @ t) = U s @ U t"
  by (simp add: U_def)

lemma length_U [simp]: "length (U s) = length s"
  by (simp add: U_def)

section \<open>Dictionaries\<close>

text \<open>
  A Python \<open>dict\<close> keeps insertion order: assignment replaces in place or appends at the back
  (\<open>AList.update\<close>), \<open>pop\<close> and \<open>del\<close> remove a key (\<open>AList.delete\<close>), \<open>get\<close> is \<open>map_of\<close>.
\<close>

type_synonym ('k, 'v) dict = "('k \<times> 'v) list"

abbreviation dget :: "('k, 'v) dict \<Rightarrow> 'k \<Rightarrow> 'v option" where
  "dget d k \<equiv> map_of d k"

abbreviation dput :: "'k \<Rightarrow> 'v \<Rightarrow> ('k, 'v) dict \<Rightarrow> ('k, 'v) dict" where
  "dput k v d \<equiv> AList.update k v d"

abbreviation ddel :: "'k \<Rightarrow> ('k, 'v) dict \<Rightarrow> ('k, 'v) dict" where
  "ddel k d \<equiv> AList.delete k d"

definition dict_ok :: "('k, 'v) dict \<Rightarrow> bool" where
  "dict_ok d \<longleftrightarrow> distinct (map fst d)"

lemma dget_dput [dict_simps]: "dget (dput k v d) k' = (if k' = k then Some v else dget d k')"
  by (simp add: update_conv')

lemma dget_ddel [dict_simps]: "dget (ddel k d) k' = (if k' = k then None else dget d k')"
  by (simp add: delete_conv')

lemma key_iff: "k \<in> fst ` set d \<longleftrightarrow> dget d k \<noteq> None"
  by (simp add: map_of_eq_None_iff)

lemma dput_not_Nil [simp]: "dput k v d \<noteq> []"
  by (cases d) auto

lemma set_dput: "set (dput k v d) \<subseteq> insert (k, v) (set d)"
  by (induction d) auto

lemma set_ddel: "set (ddel k d) \<subseteq> set d"
  by (induction d) auto

lemma dput_dput: "dput k v (dput k v' d) = dput k v d"
  by (induction d) auto

lemma dict_ok_Nil [simp]: "dict_ok []"
  by (simp add: dict_ok_def)

lemma dict_ok_dput [inv_intros]: "dict_ok d \<Longrightarrow> dict_ok (dput k v d)"
  by (simp add: dict_ok_def distinct_update)

lemma dict_ok_ddel [inv_intros]: "dict_ok d \<Longrightarrow> dict_ok (ddel k d)"
  by (simp add: dict_ok_def distinct_delete)

text \<open>A dictionary comprehension \<open>{f(x): g(x) for x in xs}\<close>: the last pair of a key wins.\<close>

definition dict_comp :: "('a \<Rightarrow> 'k) \<Rightarrow> ('a \<Rightarrow> 'v) \<Rightarrow> 'a list \<Rightarrow> ('k, 'v) dict" where
  "dict_comp f g xs = fold (\<lambda>x d. dput (f x) (g x) d) xs []"

lemma dget_fold_dput_cases:
  "dget (fold (\<lambda>x d. dput (f x) (g x) d) xs d) k = Some v \<Longrightarrow>
     dget d k = Some v \<or> (\<exists>x \<in> set xs. f x = k \<and> v = g x)"
proof (induction xs arbitrary: d)
  case Nil
  then show ?case by simp
next
  case (Cons x xs)
  then have "dget (dput (f x) (g x) d) k = Some v \<or> (\<exists>y \<in> set xs. f y = k \<and> v = g y)"
    by simp
  then show ?case by (auto simp: dget_dput split: if_splits)
qed

lemma dget_fold_dput_None_iff:
  "dget (fold (\<lambda>x d. dput (f x) (g x) d) xs d) k = None \<longleftrightarrow> dget d k = None \<and> k \<notin> f ` set xs"
  by (induction xs arbitrary: d) (auto simp: dget_dput)

lemma dget_dict_comp_SomeD:
  "dget (dict_comp f g xs) k = Some v \<Longrightarrow> \<exists>x \<in> set xs. f x = k \<and> v = g x"
  unfolding dict_comp_def by (drule dget_fold_dput_cases) simp

lemma dget_dict_comp_None_iff [dict_simps]:
  "dget (dict_comp f g xs) k = None \<longleftrightarrow> k \<notin> f ` set xs"
  unfolding dict_comp_def by (subst dget_fold_dput_None_iff) simp

text \<open>Where the keys are distinct the comprehension loses nothing.\<close>

lemma dget_dict_comp_distinct:
  assumes "distinct (map f xs)" and "x \<in> set xs"
  shows "dget (dict_comp f g xs) (f x) = Some (g x)"
proof (cases "dget (dict_comp f g xs) (f x)")
  case None
  with assms(2) show ?thesis by (simp add: dget_dict_comp_None_iff)
next
  case (Some v)
  then obtain y where "y \<in> set xs" "f y = f x" "v = g y"
    by (blast dest: dget_dict_comp_SomeD)
  moreover from this assms have "y = x"
    by (metis distinct_map inj_onD)
  ultimately show ?thesis using Some by simp
qed

lemma dict_ok_dict_comp [inv_intros]: "dict_ok (dict_comp f g xs)"
proof -
  have "dict_ok d \<Longrightarrow> dict_ok (fold (\<lambda>x d. dput (f x) (g x) d) xs d)" for d
    by (induction xs arbitrary: d) (auto intro: inv_intros)
  then show ?thesis by (simp add: dict_comp_def)
qed

section \<open>Exceptions and results\<close>

text \<open>
  The application errors of \<open>services/exceptions.py\<close>, one constructor per class; the text they
  carry is what \<open>str(exc)\<close> prints.
\<close>

datatype app_kind =
    InvalidFileId | InvalidFileFormat | FileNotFound | MatchesNotComputed
  | InvalidMatchSelection | TransactionNotFound | InvalidSecretId | SecretNotAccessible
  | VaultNotConfigured | VaultAlreadyConfigured | VaultLocked | VaultSessionExpired
  | InvalidVaultPassphrase | SecretDecryptionFailed | ExternalServiceFailed

text \<open>
  All exceptions the modelled code raises or catches: application errors, the service errors with
  their fields, the errors of the two remote clients, the built-in ones, the ORM's, and \<open>OtherError\<close> for whatever else a client of
  a third-party service may raise.
\<close>

datatype exn =
    AppError app_kind ustring
  | FireflyAPIError ustring "int option"
  | FireflyServiceError ustring "int option"
  | AllegroServiceError ustring ustring
  | AllegroAuthError ustring
  | AllegroApiError ustring
  | ValueError ustring
  | TypeError ustring
  | OverflowError ustring
  | NotImplemented ustring
  | NoResultFound
  | MultipleResultsFound
  | IntegrityError
  | BootstrapAlreadyDone ustring
  | HTTPException int ustring
  | OtherError ustring

type_synonym 'a res = "exn + 'a"

text \<open>\<open>str(exc)\<close>.\<close>

fun exn_str :: "exn \<Rightarrow> ustring" where
  "exn_str (AppError _ m) = m"
| "exn_str (FireflyAPIError m _) = m"
| "exn_str (FireflyServiceError m _) = m"
| "exn_str (AllegroServiceError m _) = m"
| "exn_str (AllegroAuthError m) = m"
| "exn_str (AllegroApiError m) = m"
| "exn_str (ValueError m) = m"
| "exn_str (TypeError m) = m"
| "exn_str (OverflowError m) = m"
| "exn_str (NotImplemented m) = m"
| "exn_str NoResultFound = U ''No row was found when one was required''"
| "exn_str MultipleResultsFound = U ''Multiple rows were found when exactly one was required''"
| "exn_str IntegrityError = U ''integrity error''"
| "exn_str (BootstrapAlreadyDone m) = m"
| "exn_str (HTTPException _ m) = m"
| "exn_str (OtherError m) = m"

text \<open>Running a step for every element of a list, stopping at the first exception.\<close>

fun mapE :: "('a \<Rightarrow> 'b res) \<Rightarrow> 'a list \<Rightarrow> 'b list res" where
  "mapE f [] = Inr []"
| "mapE f (x # xs) =
     (case f x of Inl e \<Rightarrow> Inl e
      | Inr y \<Rightarrow> (case mapE f xs of Inl e \<Rightarrow> Inl e | Inr ys \<Rightarrow> Inr (y # ys)))"

lemma mapE_Inr_iff: "mapE f xs = Inr ys \<longleftrightarrow> list_all2 (\<lambda>x y. f x = Inr y) xs ys"
proof (induction xs arbitrary: ys)
  case Nil
  then show ?case by auto
next
  case (Cons x xs)
  show ?case
    by (cases "f x"; cases "mapE f xs") (auto simp: list_all2_Cons1 Cons.IH [symmetric])
qed

lemma mapE_Inr_length: "mapE f xs = Inr ys \<Longrightarrow> length ys = length xs"
  by (auto simp: mapE_Inr_iff dest: list_all2_lengthD)

lemma mapE_total: "(\<And>x. x \<in> set xs \<Longrightarrow> f x = Inr (g x)) \<Longrightarrow> mapE f xs = Inr (map g xs)"
  by (induction xs) auto

text \<open>\<open>except (A, B) as exc: raise ... from exc\<close> for application errors of the given classes.\<close>

definition catch_kinds :: "app_kind list \<Rightarrow> (exn \<Rightarrow> exn) \<Rightarrow> 'a res \<Rightarrow> 'a res" where
  "catch_kinds kinds h r =
     (case r of
        Inl (AppError k m) \<Rightarrow> if k \<in> set kinds then Inl (h (AppError k m)) else r
      | _ \<Rightarrow> r)"

lemma catch_kinds_Inr [simp]: "catch_kinds ks h r = Inr x \<longleftrightarrow> r = Inr x"
  by (auto simp: catch_kinds_def split: sum.splits exn.splits)

lemma catch_kinds_of_Inr [simp]: "catch_kinds ks h (Inr x) = Inr x"
  by (simp add: catch_kinds_def)

section \<open>Lists\<close>

lemma filter_partition_length:
  "length (filter P xs) + length (filter (\<lambda>x. \<not> P x) xs) = length xs"
  by (rule sum_length_filter_compl)

lemma length_filter_le_filter:
  "(\<And>x. x \<in> set xs \<Longrightarrow> P x \<Longrightarrow> Q x) \<Longrightarrow> length (filter P xs) \<le> length (filter Q xs)"
  by (induction xs) auto

lemma foldl_extend: "foldl (\<lambda>ys x. ys @ f x) a xs = a @ concat (map f xs)"
  by (induction xs arbitrary: a) auto

section \<open>Step systems\<close>

text \<open>
  The contract of a state machine's invariant: it holds at the start and every step keeps it. What
  it gives its users is that it holds in every state the machine can reach.
\<close>

locale invariant_system =
  fixes start :: "'s \<Rightarrow> bool"
    and step :: "'s \<Rightarrow> 's \<Rightarrow> bool"
    and inv :: "'s \<Rightarrow> bool"
  assumes inv_start: "start s \<Longrightarrow> inv s"
    and inv_step: "inv s \<Longrightarrow> step s s' \<Longrightarrow> inv s'"
begin

lemma inv_steps: "step\<^sup>*\<^sup>* s s' \<Longrightarrow> inv s \<Longrightarrow> inv s'"
  by (induction rule: rtranclp_induct) (auto intro: inv_step)

lemma inv_reached: "start s \<Longrightarrow> step\<^sup>*\<^sup>* s s' \<Longrightarrow> inv s'"
  by (rule inv_steps) (auto intro: inv_start)

end

lemma star2: "R a b \<Longrightarrow> R b c \<Longrightarrow> R\<^sup>*\<^sup>* a c"
  by (rule rtranclp.rtrancl_into_rtrancl [OF r_into_rtranclp])

end
