(* ===== verification/PyText.thy ===== *)
theory PyText imports Prelude begin

text \<open>
  The \<open>str\<close> methods the program uses. Character tables are exact for the code points below 384
  (Basic Latin, Latin-1 Supplement, Latin Extended-A: everything Polish bank text needs) and for
  white space everywhere; other code points have no case and are not letters here.
\<close>

section \<open>Character classes\<close>

definition is_space :: "nat \<Rightarrow> bool" where
  "is_space c \<longleftrightarrow> (9 \<le> c \<and> c \<le> 13) \<or> (28 \<le> c \<and> c \<le> 32) \<or> c = 133 \<or> c = 160 \<or> c = 5760
     \<or> (8192 \<le> c \<and> c \<le> 8202) \<or> c = 8232 \<or> c = 8233 \<or> c = 8239 \<or> c = 8287 \<or> c = 12288"

definition is_linebreak :: "nat \<Rightarrow> bool" where
  "is_linebreak c \<longleftrightarrow> (10 \<le> c \<and> c \<le> 13) \<or> (28 \<le> c \<and> c \<le> 30) \<or> c = 133 \<or> c = 8232 \<or> c = 8233"

definition is_digit :: "nat \<Rightarrow> bool" where
  "is_digit c \<longleftrightarrow> 48 \<le> c \<and> c \<le> 57"

definition is_alpha :: "nat \<Rightarrow> bool" where
  "is_alpha c \<longleftrightarrow> (65 \<le> c \<and> c \<le> 90) \<or> (97 \<le> c \<and> c \<le> 122) \<or> c = 170 \<or> c = 181 \<or> c = 186
     \<or> (192 \<le> c \<and> c \<le> 214) \<or> (216 \<le> c \<and> c \<le> 246) \<or> (248 \<le> c \<and> c \<le> 383)"

definition lower_cp :: "nat \<Rightarrow> ustring" where
  "lower_cp c =
     (if 65 \<le> c \<and> c \<le> 90 then [c + 32]
      else if 192 \<le> c \<and> c \<le> 222 \<and> c \<noteq> 215 then [c + 32]
      else if c = 304 then [105, 775]
      else if 256 \<le> c \<and> c \<le> 311 then (if even c then [c + 1] else [c])
      else if 313 \<le> c \<and> c \<le> 328 then (if odd c then [c + 1] else [c])
      else if 330 \<le> c \<and> c \<le> 375 then (if even c then [c + 1] else [c])
      else if c = 376 then [255]
      else if 377 \<le> c \<and> c \<le> 382 then (if odd c then [c + 1] else [c])
      else [c])"

definition upper_cp :: "nat \<Rightarrow> ustring" where
  "upper_cp c =
     (if 97 \<le> c \<and> c \<le> 122 then [c - 32]
      else if c = 181 then [924]
      else if c = 223 then [83, 83]
      else if 224 \<le> c \<and> c \<le> 254 \<and> c \<noteq> 247 then [c - 32]
      else if c = 255 then [376]
      else if c = 305 then [73]
      else if 256 \<le> c \<and> c \<le> 311 then (if odd c then [c - 1] else [c])
      else if 313 \<le> c \<and> c \<le> 328 then (if even c then [c - 1] else [c])
      else if c = 329 then [700, 78]
      else if 330 \<le> c \<and> c \<le> 375 then (if odd c then [c - 1] else [c])
      else if 377 \<le> c \<and> c \<le> 382 then (if even c then [c - 1] else [c])
      else if c = 383 then [83]
      else [c])"

definition lower :: "ustring \<Rightarrow> ustring" where
  "lower s = concat (map lower_cp s)"

definition upper :: "ustring \<Rightarrow> ustring" where
  "upper s = concat (map upper_cp s)"

lemma lower_lower_cp: "lower (lower_cp c) = lower_cp c"
  by (auto simp: lower_cp_def lower_def)

lemma lower_append: "lower (s @ t) = lower s @ lower t"
  by (simp add: lower_def)

lemma lower_lower [simp]: "lower (lower s) = lower s"
proof (induction s)
  case Nil
  then show ?case by (simp add: lower_def)
next
  case (Cons c s)
  have "lower (c # s) = lower_cp c @ lower s" for s
    by (simp add: lower_def)
  then show ?case
    by (simp add: lower_append lower_lower_cp Cons.IH)
qed

text \<open>\<open>needle in haystack\<close>\<close>

abbreviation contains :: "ustring \<Rightarrow> ustring \<Rightarrow> bool" where
  "contains hay needle \<equiv> sublist needle hay"

lemma sublist_lower: "sublist s t \<Longrightarrow> sublist (lower s) (lower t)"
  unfolding sublist_def by (metis lower_append)

section \<open>Trimming, splitting, joining\<close>

definition strip_by :: "(nat \<Rightarrow> bool) \<Rightarrow> ustring \<Rightarrow> ustring" where
  "strip_by P s = rev (dropWhile P (rev (dropWhile P s)))"

definition rstrip_by :: "(nat \<Rightarrow> bool) \<Rightarrow> ustring \<Rightarrow> ustring" where
  "rstrip_by P s = rev (dropWhile P (rev s))"

definition strip :: "ustring \<Rightarrow> ustring" where
  "strip s = strip_by is_space s"

lemma strip_by_decomp: "\<exists>p q. s = p @ strip_by P s @ q \<and> (\<forall>c \<in> set p \<union> set q. P c)"
proof -
  let ?r = "rev (dropWhile P s)"
  have "s = takeWhile P s @ rev (takeWhile P ?r @ dropWhile P ?r)"
    by simp
  then have "s = takeWhile P s @ strip_by P s @ rev (takeWhile P ?r)"
    by (metis rev_append strip_by_def)
  moreover have "\<forall>c \<in> set (takeWhile P s) \<union> set (rev (takeWhile P ?r)). P c"
    by (auto dest: set_takeWhileD)
  ultimately show ?thesis by blast
qed

lemma strip_by_id: "s = [] \<or> \<not> P (hd s) \<and> \<not> P (last s) \<Longrightarrow> strip_by P s = s"
proof -
  assume "s = [] \<or> \<not> P (hd s) \<and> \<not> P (last s)"
  then have "dropWhile P s = s" and "dropWhile P (rev s) = rev s"
    by (auto simp: dropWhile_eq_self_iff hd_rev)
  then show ?thesis by (simp add: strip_by_def)
qed

definition remove_char :: "nat \<Rightarrow> ustring \<Rightarrow> ustring" where
  "remove_char c s = filter (\<lambda>x. x \<noteq> c) s"

definition replace_char :: "nat \<Rightarrow> nat \<Rightarrow> ustring \<Rightarrow> ustring" where
  "replace_char c d s = map (\<lambda>x. if x = c then d else x) s"

definition startswith :: "ustring \<Rightarrow> ustring \<Rightarrow> bool" where
  "startswith s p = prefix p s"

definition endswith :: "ustring \<Rightarrow> ustring \<Rightarrow> bool" where
  "endswith s p = suffix p s"

definition removesuffix :: "ustring \<Rightarrow> ustring \<Rightarrow> ustring" where
  "removesuffix s p = (if p \<noteq> [] \<and> suffix p s then take (length s - length p) s else s)"

lemma removesuffix_append: "removesuffix (s @ p) p = s"
  by (cases "p = []") (simp_all add: removesuffix_def suffix_def)

fun join :: "ustring \<Rightarrow> ustring list \<Rightarrow> ustring" where
  "join sep [] = []"
| "join sep [x] = x"
| "join sep (x # y # xs) = x @ sep @ join sep (y # xs)"

text \<open>\<open>s.split()\<close>, \<open>s.split(c)\<close> and \<open>s.splitlines()\<close>, with the current piece as accumulator.\<close>

fun split_ws_go :: "ustring \<Rightarrow> ustring \<Rightarrow> ustring list" where
  "split_ws_go w [] = (if w = [] then [] else [rev w])"
| "split_ws_go w (c # cs) =
     (if is_space c then (if w = [] then split_ws_go [] cs else rev w # split_ws_go [] cs)
      else split_ws_go (c # w) cs)"

definition split_ws :: "ustring \<Rightarrow> ustring list" where
  "split_ws s = split_ws_go [] s"

fun split_on_go :: "nat \<Rightarrow> ustring \<Rightarrow> ustring \<Rightarrow> ustring list" where
  "split_on_go d w [] = [rev w]"
| "split_on_go d w (c # cs) =
     (if c = d then rev w # split_on_go d [] cs else split_on_go d (c # w) cs)"

definition split_on :: "nat \<Rightarrow> ustring \<Rightarrow> ustring list" where
  "split_on d s = split_on_go d [] s"

function splitlines_go :: "ustring \<Rightarrow> ustring \<Rightarrow> ustring list" where
  "splitlines_go w [] = (if w = [] then [] else [rev w])"
| "splitlines_go w (c # cs) =
     (if is_linebreak c
      then rev w # splitlines_go [] (if c = 13 \<and> cs \<noteq> [] \<and> hd cs = 10 then tl cs else cs)
      else splitlines_go (c # w) cs)"
  by pat_completeness auto
termination
  by (relation "measure (\<lambda>(w, s). length s)") (auto simp: less_Suc_eq_le)

definition splitlines :: "ustring \<Rightarrow> ustring list" where
  "splitlines s = splitlines_go [] s"

lemma split_on_go_join: "join [d] (split_on_go d w s) = rev w @ s"
proof (induction d w s rule: split_on_go.induct)
  case (1 d w)
  then show ?case by simp
next
  case (2 d w c cs)
  have "split_on_go d w s \<noteq> []" for d w s
    by (induction d w s rule: split_on_go.induct) auto
  then obtain y ys where "split_on_go d [] cs = y # ys"
    by (meson list.exhaust)
  with 2 show ?case by auto
qed

lemma join_split_on: "join [d] (split_on d s) = s"
  by (simp add: split_on_def split_on_go_join)

lemma split_ws_nonempty: "w \<in> set (split_ws s) \<Longrightarrow> w \<noteq> []"
proof -
  have "w \<in> set (split_ws_go a s) \<Longrightarrow> w \<noteq> []" for a
    by (induction a s rule: split_ws_go.induct) (auto split: if_splits)
  then show "w \<in> set (split_ws s) \<Longrightarrow> w \<noteq> []" by (simp add: split_ws_def)
qed

section \<open>Decimal integers\<close>

fun str_nat :: "nat \<Rightarrow> ustring" where
  "str_nat n = (if n < 10 then [48 + n] else str_nat (n div 10) @ [48 + n mod 10])"

declare str_nat.simps [simp del]

definition str_int :: "int \<Rightarrow> ustring" where
  "str_int i = (if i < 0 then 45 # str_nat (nat (- i)) else str_nat (nat i))"

text \<open>
  \<open>int(s)\<close>: surrounding white space, one optional sign, digits with single underscores between
  them; \<open>None\<close> is \<open>ValueError\<close>.
\<close>

fun digits_val :: "nat \<Rightarrow> bool \<Rightarrow> ustring \<Rightarrow> nat option" where
  "digits_val acc prev [] = (if prev then Some acc else None)"
| "digits_val acc prev (c # cs) =
     (if is_digit c then digits_val (acc * 10 + (c - 48)) True cs
      else if c = 95 \<and> prev then digits_val acc False cs
      else None)"

definition int_of_str :: "ustring \<Rightarrow> int option" where
  "int_of_str s =
     (case strip s of
        [] \<Rightarrow> None
      | c # cs \<Rightarrow>
          if c = 45 then map_option (\<lambda>n. - int n) (digits_val 0 False cs)
          else if c = 43 then map_option int (digits_val 0 False cs)
          else map_option int (digits_val 0 False (c # cs)))"

lemma str_nat_digits: "c \<in> set (str_nat n) \<Longrightarrow> is_digit c"
proof (induction n rule: str_nat.induct)
  case (1 n)
  then show ?case
    by (cases "n < 10") (auto simp: str_nat.simps [of n] is_digit_def)
qed

lemma str_nat_nonempty [simp]: "str_nat n \<noteq> []"
  by (subst str_nat.simps) simp

lemma digits_val_append_digit:
  "digits_val acc True s = Some m \<Longrightarrow> d < 10 \<Longrightarrow>
     digits_val acc True (s @ [48 + d]) = Some (m * 10 + d)"
  "digits_val acc False s = Some m \<Longrightarrow> d < 10 \<Longrightarrow>
     digits_val acc False (s @ [48 + d]) = Some (m * 10 + d)"
  by (induction s arbitrary: acc) (auto simp: is_digit_def split: if_splits)

lemma digits_val_str_nat: "digits_val 0 False (str_nat n) = Some n"
proof (induction n rule: str_nat.induct)
  case (1 n)
  show ?case
  proof (cases "n < 10")
    case True
    then show ?thesis by (simp add: str_nat.simps [of n] is_digit_def)
  next
    case False
    with 1 have "digits_val 0 False (str_nat (n div 10)) = Some (n div 10)" by simp
    with False show ?thesis
      by (simp add: str_nat.simps [of n] digits_val_append_digit)
  qed
qed

lemma digit_not_space: "is_digit c \<Longrightarrow> \<not> is_space c"
  by (auto simp: is_digit_def is_space_def)

lemma int_of_str_int: "int_of_str (str_int i) = Some i"
proof -
  have last_digit: "is_digit (last (str_nat n))" and hd_digit: "is_digit (hd (str_nat n))" for n
    by (meson str_nat_digits str_nat_nonempty last_in_set hd_in_set)+
  have "\<not> is_space 45" by (simp add: is_space_def)
  then have "strip (str_int i) = str_int i"
    unfolding strip_def
    by (intro strip_by_id disjI2)
       (auto simp: str_int_def digit_not_space last_digit hd_digit)
  moreover obtain c cs where cs: "str_nat (nat i) = c # cs"
    by (meson str_nat_nonempty neq_Nil_conv)
  moreover from cs hd_digit [of "nat i"] have "c \<noteq> 45" "c \<noteq> 43"
    by (auto simp: is_digit_def)
  moreover have "digits_val 0 False (c # cs) = Some (nat i)"
    by (metis cs digits_val_str_nat)
  ultimately show ?thesis
    by (auto simp: int_of_str_def str_int_def digits_val_str_nat simp del: digits_val.simps)
qed

lemma str_int_inject [simp]: "str_int i = str_int j \<longleftrightarrow> i = j"
  by (metis int_of_str_int option.inject)

text \<open>\<open>str(n).zfill\<close>-style padding, as \<open>strftime\<close> and \<open>isoformat\<close> use it.\<close>

definition pad_left :: "nat \<Rightarrow> nat \<Rightarrow> ustring \<Rightarrow> ustring" where
  "pad_left w c s = replicate (w - length s) c @ s"

definition pad_num :: "nat \<Rightarrow> nat \<Rightarrow> ustring" where
  "pad_num w n = pad_left w 48 (str_nat n)"

lemma digits_val_zeros: "digits_val 0 b (replicate k 48 @ s) =
    (if k = 0 then digits_val 0 b s else digits_val 0 True s)"
  by (induction k arbitrary: b) (auto simp: is_digit_def)

lemma digits_val_true: "s \<noteq> [] \<Longrightarrow> is_digit (hd s) \<Longrightarrow> digits_val a True s = digits_val a False s"
  by (cases s) auto

lemma digits_val_pad_num: "digits_val 0 False (pad_num w n) = Some n"
proof -
  have "is_digit (hd (str_nat n))" by (rule str_nat_digits [OF hd_in_set]) simp
  then show ?thesis
    by (simp add: pad_num_def pad_left_def digits_val_zeros digits_val_true digits_val_str_nat)
qed

lemma pad_num_inject: "pad_num w m = pad_num w n \<Longrightarrow> m = n"
  by (metis digits_val_pad_num option.inject)

end
