(* ===== verification/PyDate.thy ===== *)
theory PyDate imports PyText begin

text \<open>
  \<open>datetime.date\<close> and \<open>datetime.datetime\<close>: calendar dates of the proleptic Gregorian calendar with
  Python's order, range and day arithmetic, and wall-clock times with an optional UTC offset.
\<close>

section \<open>Dates\<close>

datatype date = Date (d_year: nat) (d_month: nat) (d_day: nat)

instantiation date :: linorder
begin

definition less_eq_date :: "date \<Rightarrow> date \<Rightarrow> bool" where
  "a \<le> b \<longleftrightarrow> d_year a < d_year b \<or> d_year a = d_year b \<and>
     (d_month a < d_month b \<or> d_month a = d_month b \<and> d_day a \<le> d_day b)"

definition less_date :: "date \<Rightarrow> date \<Rightarrow> bool" where
  "a < b \<longleftrightarrow> d_year a < d_year b \<or> d_year a = d_year b \<and>
     (d_month a < d_month b \<or> d_month a = d_month b \<and> d_day a < d_day b)"

instance
  by standard (auto simp: less_eq_date_def less_date_def intro: date.expand)

end

definition is_leap :: "nat \<Rightarrow> bool" where
  "is_leap y \<longleftrightarrow> y mod 4 = 0 \<and> (y mod 100 \<noteq> 0 \<or> y mod 400 = 0)"

definition days_in_month :: "nat \<Rightarrow> nat \<Rightarrow> nat" where
  "days_in_month y m =
     (if m = 2 then (if is_leap y then 29 else 28)
      else if m \<in> {4, 6, 9, 11} then 30 else 31)"

fun valid_date :: "date \<Rightarrow> bool" where
  "valid_date (Date y m d) \<longleftrightarrow>
     1 \<le> y \<and> y \<le> 9999 \<and> 1 \<le> m \<and> m \<le> 12 \<and> 1 \<le> d \<and> d \<le> days_in_month y m"

text \<open>\<open>date(y, m, d)\<close>; \<open>None\<close> is \<open>ValueError\<close>.\<close>

definition mk_date :: "int \<Rightarrow> int \<Rightarrow> int \<Rightarrow> date option" where
  "mk_date y m d =
     (let x = Date (nat y) (nat m) (nat d)
      in if 0 \<le> y \<and> 0 \<le> m \<and> 0 \<le> d \<and> valid_date x then Some x else None)"

lemma mk_date_valid: "mk_date y m d = Some x \<Longrightarrow> valid_date x"
  by (auto simp: mk_date_def Let_def split: if_splits)

text \<open>One day later or earlier; \<open>None\<close> where Python raises \<open>OverflowError\<close>.\<close>

fun next_day :: "date \<Rightarrow> date option" where
  "next_day (Date y m d) =
     (if d < days_in_month y m then Some (Date y m (d + 1))
      else if m < 12 then Some (Date y (m + 1) 1)
      else if y < 9999 then Some (Date (y + 1) 1 1)
      else None)"

fun prev_day :: "date \<Rightarrow> date option" where
  "prev_day (Date y m d) =
     (if 1 < d then Some (Date y m (d - 1))
      else if 1 < m then Some (Date y (m - 1) (days_in_month y (m - 1)))
      else if 1 < y then Some (Date (y - 1) 12 31)
      else None)"

fun iter_day :: "(date \<Rightarrow> date option) \<Rightarrow> nat \<Rightarrow> date \<Rightarrow> date option" where
  "iter_day f 0 d = Some d"
| "iter_day f (Suc n) d = (case f d of None \<Rightarrow> None | Some d' \<Rightarrow> iter_day f n d')"

text \<open>\<open>d + timedelta(days=n)\<close>\<close>

definition add_days :: "date \<Rightarrow> int \<Rightarrow> date option" where
  "add_days d n = (if 0 \<le> n then iter_day next_day (nat n) d else iter_day prev_day (nat (- n)) d)"

section \<open>Ordinals\<close>

fun days_before_month :: "nat \<Rightarrow> nat \<Rightarrow> nat" where
  "days_before_month y 0 = 0"
| "days_before_month y (Suc 0) = 0"
| "days_before_month y (Suc (Suc m)) = days_before_month y (Suc m) + days_in_month y (Suc m)"

fun days_before_year :: "nat \<Rightarrow> nat" where
  "days_before_year 0 = 0"
| "days_before_year (Suc 0) = 0"
| "days_before_year (Suc (Suc y)) =
     days_before_year (Suc y) + (if is_leap (Suc y) then 366 else 365)"

text \<open>\<open>date.toordinal()\<close>: 1 January of year 1 is day 1.\<close>

fun ordinal :: "date \<Rightarrow> nat" where
  "ordinal (Date y m d) = days_before_year y + days_before_month y m + d"

lemma days_in_month_pos [simp]: "0 < days_in_month y m"
  by (simp add: days_in_month_def)

lemma days_before_month_Suc:
  "1 \<le> m \<Longrightarrow> days_before_month y (Suc m) = days_before_month y m + days_in_month y m"
  by (cases m) auto

lemma days_before_year_Suc:
  "1 \<le> y \<Longrightarrow> days_before_year (Suc y) = days_before_year y + (if is_leap y then 366 else 365)"
  by (cases y) auto

lemma days_before_month_13:
  "days_before_month y 12 + days_in_month y 12 = (if is_leap y then 366 else 365)"
  by (simp add: eval_nat_numeral days_in_month_def)

lemma days_before_month_mono:
  "1 \<le> m \<Longrightarrow> m < n \<Longrightarrow> days_before_month y m + days_in_month y m \<le> days_before_month y n"
proof (induction n)
  case 0
  then show ?case by simp
next
  case (Suc n)
  then show ?case
    by (cases "m = n") (auto simp: days_before_month_Suc)
qed

lemma days_before_month_bound:
  assumes "1 \<le> m" and "m \<le> 12" and "d \<le> days_in_month y m"
  shows "days_before_month y m + d \<le> (if is_leap y then 366 else 365)"
proof (cases "m = 12")
  case True
  with assms days_before_month_13 [of y] show ?thesis by simp
next
  case False
  with assms have "days_before_month y m + days_in_month y m \<le> days_before_month y 12"
    by (intro days_before_month_mono) auto
  with assms days_before_month_13 [of y] show ?thesis by linarith
qed

lemma days_before_year_mono:
  "1 \<le> y \<Longrightarrow> y < z \<Longrightarrow> days_before_year y + (if is_leap y then 366 else 365) \<le> days_before_year z"
proof (induction z)
  case 0
  then show ?case by simp
next
  case (Suc z)
  show ?case
  proof (cases "y = z")
    case True
    with Suc.prems show ?thesis by (simp add: days_before_year_Suc)
  next
    case False
    with Suc.prems have "days_before_year y + (if is_leap y then 366 else 365) \<le> days_before_year z"
      by (intro Suc.IH) auto
    also have "\<dots> \<le> days_before_year (Suc z)"
      using Suc.prems by (simp add: days_before_year_Suc)
    finally show ?thesis .
  qed
qed

lemma ordinal_less:
  assumes "valid_date a" and "valid_date b" and "a < b"
  shows "ordinal a < ordinal b"
proof -
  obtain y m d where a: "a = Date y m d" by (cases a)
  obtain y' m' d' where b: "b = Date y' m' d'" by (cases b)
  from assms(3) a b consider "y < y'" | "y = y'" "m < m'" | "y = y'" "m = m'" "d < d'"
    by (auto simp: less_date_def)
  then show ?thesis
  proof cases
    case 1
    with assms a b days_before_year_mono [of y y'] days_before_month_bound [of m d y]
    show ?thesis by auto
  next
    case 2
    with assms a b days_before_month_mono [of m m' y] show ?thesis by auto
  next
    case 3
    with a b show ?thesis by simp
  qed
qed

lemma ordinal_less_iff:
  "valid_date a \<Longrightarrow> valid_date b \<Longrightarrow> ordinal a < ordinal b \<longleftrightarrow> a < b"
  by (metis linorder_cases order_less_asym ordinal_less order_less_irrefl)

lemma ordinal_le_iff:
  "valid_date a \<Longrightarrow> valid_date b \<Longrightarrow> ordinal a \<le> ordinal b \<longleftrightarrow> a \<le> b"
  by (metis linorder_not_less ordinal_less_iff)

lemma ordinal_inject:
  "valid_date a \<Longrightarrow> valid_date b \<Longrightarrow> ordinal a = ordinal b \<longleftrightarrow> a = b"
  by (metis linorder_cases ordinal_less order_less_irrefl)

lemma next_day_ordinal:
  assumes "valid_date d" and "next_day d = Some d'"
  shows "valid_date d' \<and> ordinal d' = ordinal d + 1"
proof -
  obtain y m k where d: "d = Date y m k" by (cases d)
  from assms d have k: "k \<le> days_in_month y m" "1 \<le> m" "m \<le> 12" "1 \<le> y" by auto
  consider "k < days_in_month y m" | "k = days_in_month y m" "m < 12"
    | "k = days_in_month y m" "m = 12" "y < 9999"
    using assms d k by (auto split: if_splits)
  then show ?thesis
  proof cases
    case 1
    with assms d show ?thesis by auto
  next
    case 2
    with assms d have "d' = Date y (Suc m) 1" by simp
    with 2 k assms d days_before_month_Suc [of m y] days_in_month_pos [of y "Suc m"]
    show ?thesis by (auto simp: Suc_le_eq)
  next
    case 3
    with assms d k show ?thesis
      using days_before_month_13 [of y]
      by (auto simp: days_before_year_Suc days_in_month_def)
  qed
qed

lemma iter_next_day_ordinal:
  "valid_date d \<Longrightarrow> iter_day next_day n d = Some d' \<Longrightarrow> valid_date d' \<and> ordinal d' = ordinal d + n"
  by (induction n arbitrary: d) (auto dest: next_day_ordinal split: option.splits)

lemma add_days_ordinal:
  "valid_date d \<Longrightarrow> 0 \<le> n \<Longrightarrow> add_days d n = Some d' \<Longrightarrow>
     valid_date d' \<and> ordinal d' = ordinal d + nat n"
  by (simp add: add_days_def iter_next_day_ordinal)

lemma iter_next_day_Some:
  assumes "valid_date d" and "d_year d + n div 365 < 9998" 
  shows "\<exists>d'. iter_day next_day n d = Some d'"
proof (rule ccontr)
  assume "\<nexists>d'. iter_day next_day n d = Some d'"
  then have "iter_day next_day n d = None" by simp
  have "valid_date e \<Longrightarrow> iter_day next_day k e = None \<Longrightarrow> ordinal (Date 9999 12 31) < ordinal e + k" for k e
  proof (induction k arbitrary: e)
    case 0
    then show ?case by simp
  next
    case (Suc k)
    show ?case
    proof (cases "next_day e")
      case None
      with Suc.prems(1) have "e = Date 9999 12 31"
        by (cases e) (auto simp: days_in_month_def split: if_splits)
      then show ?thesis by simp
    next
      case (Some e')
      with Suc.prems have "valid_date e'" "ordinal e' = ordinal e + 1"
        and "iter_day next_day k e' = None"
        by (auto dest: next_day_ordinal)
      with Suc.IH [of e'] show ?thesis by simp
    qed
  qed
  from this [OF assms(1) \<open>iter_day next_day n d = None\<close>]
  have over: "ordinal (Date 9999 12 31) < ordinal d + n" .
  obtain y m k where d: "d = Date y m k" by (cases d)
  have step: "1 \<le> y \<Longrightarrow> days_before_year y + 365 * j \<le> days_before_year (y + j)" for y j
    by (induction j) (auto simp: days_before_year_Suc)
  let ?j = "n div 365 + 1"
  from assms d have "1 \<le> y" "y + ?j < 9999" by auto
  with step [of y ?j] days_before_year_mono [of "y + ?j" 9999]
  have "days_before_year y + 365 * ?j + 365 \<le> days_before_year 9999"
    by (auto split: if_splits)
  moreover have "n < 365 * ?j"
    by (metis Suc_eq_plus1 dividend_less_times_div mult_Suc_right zero_less_numeral add.commute)
  moreover from assms d have "ordinal d \<le> days_before_year y + 366"
    using days_before_month_bound [of m k y] by (auto split: if_splits)
  ultimately have "ordinal d + n \<le> days_before_year 9999 + 1" by linarith
  moreover have "days_before_year 9999 + 31 \<le> ordinal (Date 9999 12 31)" by simp
  ultimately show False using over by linarith
qed

section \<open>Rendering\<close>

text \<open>\<open>date.isoformat()\<close> and \<open>strftime("%Y%m%d")\<close> (the C library's \<open>%Y\<close> pads to four digits only
  from year 1000 on; earlier years keep their own width on Linux).\<close>

fun isoformat :: "date \<Rightarrow> ustring" where
  "isoformat (Date y m d) = pad_num 4 y @ U ''-'' @ pad_num 2 m @ U ''-'' @ pad_num 2 d"

fun strftime_ymd :: "date \<Rightarrow> ustring" where
  "strftime_ymd (Date y m d) = str_nat y @ pad_num 2 m @ pad_num 2 d"

section \<open>Times\<close>

text \<open>A \<open>datetime\<close>: the date, microseconds since midnight, and the UTC offset if it has one.\<close>

record pydatetime =
  dt_date :: date
  dt_us :: int
  dt_offset :: "int option"

text \<open>Instants made by \<open>datetime.now(UTC)\<close> are kept as microseconds of UTC.\<close>

type_synonym instant = int

definition us_per_second :: int where
  "us_per_second = 1000000"

definition us_per_day :: int where
  "us_per_day = 86400 * us_per_second"

definition naive_us :: "pydatetime \<Rightarrow> int" where
  "naive_us t = int (ordinal (dt_date t)) * us_per_day + dt_us t"

text \<open>\<open>replace(tzinfo=UTC)\<close> keeps the wall clock and sets the offset to zero.\<close>

definition replace_utc :: "pydatetime \<Rightarrow> pydatetime" where
  "replace_utc t = t\<lparr>dt_offset := Some 0\<rparr>"

definition ensure_aware :: "pydatetime \<Rightarrow> pydatetime" where
  "ensure_aware t = (case dt_offset t of None \<Rightarrow> replace_utc t | Some _ \<Rightarrow> t)"

text \<open>The instant an aware time denotes.\<close>

definition utc_us :: "pydatetime \<Rightarrow> instant" where
  "utc_us t = naive_us t - (case dt_offset t of None \<Rightarrow> 0 | Some z \<Rightarrow> z)"

lemma ensure_aware_offset: "dt_offset (ensure_aware t) \<noteq> None"
  by (auto simp: ensure_aware_def replace_utc_def split: option.splits)

lemma ensure_aware_idem [simp]: "ensure_aware (ensure_aware t) = ensure_aware t"
  by (auto simp: ensure_aware_def replace_utc_def split: option.splits)

lemma ensure_aware_date [simp]: "dt_date (ensure_aware t) = dt_date t"
  by (auto simp: ensure_aware_def replace_utc_def split: option.splits)

lemma utc_us_ensure_aware [simp]: "utc_us (ensure_aware t) = utc_us t"
  by (auto simp: ensure_aware_def replace_utc_def utc_us_def naive_us_def split: option.splits)

end
