(* ===== verification/PyDecimal.thy ===== *)
theory PyDecimal imports PyText Complex_Main begin

text \<open>
  \<open>decimal.Decimal\<close>: a finite number is a sign, a coefficient and an exponent, so that trailing
  zeros are kept as Python keeps them. Arithmetic rounds to the 28 digits of the default context.
\<close>

section \<open>Numbers\<close>

text \<open>
  \<open>DNaN\<close> carries its own text. A signalling NaN, which only a text that says so can make, is
  read as a quiet one.
\<close>

datatype decimal = DFin bool nat int | DInf bool | DNaN ustring

definition dec_sgn :: "bool \<Rightarrow> int" where
  "dec_sgn s = (if s then - 1 else 1)"

text \<open>The value of a finite number, in units of \<open>10 ^ m\<close> (for \<open>m\<close> at most its exponent).\<close>

definition dec_units :: "int \<Rightarrow> bool \<Rightarrow> nat \<Rightarrow> int \<Rightarrow> int" where
  "dec_units m s c e = dec_sgn s * int c * 10 ^ nat (e - m)"

text \<open>\<open>a == b\<close> compares values; a NaN is equal to nothing.\<close>

fun dec_eq :: "decimal \<Rightarrow> decimal \<Rightarrow> bool" where
  "dec_eq (DFin s c e) (DFin t d f) \<longleftrightarrow>
     (let m = min e f in dec_units m s c e = dec_units m t d f)"
| "dec_eq (DInf s) (DInf t) \<longleftrightarrow> s = t"
| "dec_eq _ _ \<longleftrightarrow> False"

text \<open>\<open>a <= b\<close>; \<open>None\<close> is \<open>InvalidOperation\<close>, raised when either side is a NaN.\<close>

fun dec_le :: "decimal \<Rightarrow> decimal \<Rightarrow> bool option" where
  "dec_le (DNaN _) _ = None"
| "dec_le _ (DNaN _) = None"
| "dec_le (DInf s) (DInf t) = Some (s \<or> \<not> t)"
| "dec_le (DInf s) (DFin _ _ _) = Some s"
| "dec_le (DFin _ _ _) (DInf t) = Some (\<not> t)"
| "dec_le (DFin s c e) (DFin t d f) =
     Some (let m = min e f in dec_units m s c e \<le> dec_units m t d f)"

fun dec_is_zero :: "decimal \<Rightarrow> bool" where
  "dec_is_zero (DFin _ c _) \<longleftrightarrow> c = 0"
| "dec_is_zero _ \<longleftrightarrow> False"

text \<open>The rational a finite number denotes.\<close>

fun dec_val :: "decimal \<Rightarrow> rat" where
  "dec_val (DFin s c e) = of_int (dec_sgn s) * of_nat c * 10 powi e"
| "dec_val _ = 0"

fun dec_finite :: "decimal \<Rightarrow> bool" where
  "dec_finite (DFin _ _ _) = True"
| "dec_finite _ = False"

lemma dec_units_val:
  assumes "m \<le> e"
  shows "of_int (dec_units m s c e) * 10 powi m = dec_val (DFin s c e)"
proof -
  have "(10::rat) powi e = 10 ^ nat (e - m) * 10 powi m"
    using assms by (simp flip: power_int_of_nat power_int_add)
  then show ?thesis by (simp add: dec_units_def)
qed

lemma dec_eq_val:
  "dec_eq (DFin s c e) (DFin t d f) \<longleftrightarrow> dec_val (DFin s c e) = dec_val (DFin t d f)"
proof -
  let ?m = "min e f"
  have "dec_val (DFin s c e) = dec_val (DFin t d f) \<longleftrightarrow>
      of_int (dec_units ?m s c e) * (10::rat) powi ?m = of_int (dec_units ?m t d f) * 10 powi ?m"
    by (simp only: dec_units_val min.cobounded1 min.cobounded2)
  then show ?thesis by (simp add: Let_def del: dec_val.simps)
qed

lemma dec_le_val:
  "dec_le (DFin s c e) (DFin t d f) = Some (dec_val (DFin s c e) \<le> dec_val (DFin t d f))"
proof -
  let ?m = "min e f"
  have "dec_val (DFin s c e) \<le> dec_val (DFin t d f) \<longleftrightarrow>
      of_int (dec_units ?m s c e) * (10::rat) powi ?m \<le> of_int (dec_units ?m t d f) * 10 powi ?m"
    by (simp only: dec_units_val min.cobounded1 min.cobounded2)
  then show ?thesis by (simp add: Let_def del: dec_val.simps)
qed

lemma dec_eq_finite_val:
  "dec_finite a \<Longrightarrow> dec_finite b \<Longrightarrow> dec_eq a b \<longleftrightarrow> dec_val a = dec_val b"
  by (cases a; cases b) (simp_all only: dec_eq_val dec_finite.simps)

lemma dec_le_finite_val:
  "dec_finite a \<Longrightarrow> dec_finite b \<Longrightarrow> dec_le a b = Some (dec_val a \<le> dec_val b)"
  by (cases a; cases b) (simp_all only: dec_le_val dec_finite.simps)

lemma dec_eq_sym: "dec_eq a b = dec_eq b a"
  by (cases a; cases b) (auto simp: Let_def min.commute)

section \<open>Arithmetic in the default context\<close>

definition ndigits :: "nat \<Rightarrow> nat" where
  "ndigits c = length (str_nat c)"

text \<open>Rounding a finite result to 28 significant digits, half to even.\<close>

definition dec_fix :: "bool \<Rightarrow> nat \<Rightarrow> int \<Rightarrow> decimal" where
  "dec_fix s c e =
     (if ndigits c \<le> 28 then DFin s c e
      else let k = ndigits c - 28; q = c div 10 ^ k; r = c mod 10 ^ k; h = 5 * 10 ^ (k - 1);
               q' = (if r > h \<or> r = h \<and> odd q then q + 1 else q)
           in if ndigits q' \<le> 28 then DFin s q' (e + int k)
              else DFin s (q' div 10) (e + int k + 1))"

lemma dec_fix_exact: "ndigits c \<le> 28 \<Longrightarrow> dec_fix s c e = DFin s c e"
  by (simp add: dec_fix_def)

lemma dec_fix_finite [simp]: "dec_finite (dec_fix s c e)"
  by (simp add: dec_fix_def Let_def)

text \<open>\<open>abs(d)\<close> is an operation of the context, so it rounds; an exponent so large that it overflows is
  not considered.\<close>

fun dec_abs :: "decimal \<Rightarrow> decimal" where
  "dec_abs (DFin s c e) = dec_fix False c e"
| "dec_abs (DInf s) = DInf False"
| "dec_abs (DNaN t) = DNaN t"

text \<open>A number that the context holds exactly.\<close>

fun dec_short :: "decimal \<Rightarrow> bool" where
  "dec_short (DFin s c e) \<longleftrightarrow> ndigits c \<le> 28"
| "dec_short _ \<longleftrightarrow> False"

lemma dec_abs_val: "dec_short a \<Longrightarrow> dec_val (dec_abs a) = \<bar>dec_val a\<bar>"
  by (cases a) (auto simp: dec_fix_exact dec_sgn_def abs_mult)

lemma dec_abs_finite [simp]: "dec_finite (dec_abs a) = dec_finite a"
  by (cases a) auto

lemma dec_short_finite: "dec_short a \<Longrightarrow> dec_finite a"
  by (cases a) auto

text \<open>Equality of magnitudes, the comparison every matching rule starts with.\<close>

definition same_abs :: "decimal \<Rightarrow> decimal \<Rightarrow> bool" where
  "same_abs a b = dec_eq (dec_abs a) (dec_abs b)"

lemma same_abs_val:
  "dec_short a \<Longrightarrow> dec_short b \<Longrightarrow> same_abs a b \<longleftrightarrow> \<bar>dec_val a\<bar> = \<bar>dec_val b\<bar>"
  by (simp add: same_abs_def dec_eq_finite_val dec_abs_val dec_short_finite)

lemma same_abs_sym: "same_abs a b = same_abs b a"
  by (simp add: same_abs_def dec_eq_sym)

lemma same_abs_NaN [simp]: "\<not> same_abs (DNaN t) b" "\<not> same_abs b (DNaN t)"
  by (cases "dec_abs b"; simp add: same_abs_def)+

text \<open>
  Sums, differences and products. With an infinity or a NaN Python propagates or raises; amounts
  that are added come from payloads whose validation admits finite numbers only, so those cases
  are a NaN here.
\<close>

fun dec_add :: "decimal \<Rightarrow> decimal \<Rightarrow> decimal" where
  "dec_add (DFin s c e) (DFin t d f) =
     (let m = min e f; u = dec_units m s c e + dec_units m t d f
      in dec_fix (if u = 0 then s \<and> t else u < 0) (nat \<bar>u\<bar>) m)"
| "dec_add _ _ = DNaN (U ''NaN'')"

definition dec_sub :: "decimal \<Rightarrow> decimal \<Rightarrow> decimal" where
  "dec_sub a b = (case b of DFin t d f \<Rightarrow> dec_add a (DFin (\<not> t) d f) | _ \<Rightarrow> DNaN (U ''NaN''))"

fun dec_mul :: "decimal \<Rightarrow> decimal \<Rightarrow> decimal" where
  "dec_mul (DFin s c e) (DFin t d f) = dec_fix (s \<noteq> t) (c * d) (e + f)"
| "dec_mul _ _ = DNaN (U ''NaN'')"

definition dec_of_int :: "int \<Rightarrow> decimal" where
  "dec_of_int i = DFin (i < 0) (nat \<bar>i\<bar>) 0"

definition dec_zero :: decimal where
  "dec_zero = DFin False 0 0"

text \<open>\<open>sum(xs, start=Decimal("0"))\<close>\<close>

definition dec_sum :: "decimal list \<Rightarrow> decimal" where
  "dec_sum xs = foldl dec_add dec_zero xs"

lemma dec_add_finite: "dec_finite a \<Longrightarrow> dec_finite b \<Longrightarrow> dec_finite (dec_add a b)"
  by (cases a; cases b) (simp_all add: Let_def)

text \<open>Addition is exact while the aligned sum has at most 28 digits.\<close>

lemma dec_add_exact:
  assumes "ndigits (nat \<bar>dec_units (min e f) s c e + dec_units (min e f) t d f\<bar>) \<le> 28"
  shows "dec_val (dec_add (DFin s c e) (DFin t d f)) = dec_val (DFin s c e) + dec_val (DFin t d f)"
proof -
  let ?m = "min e f"
  let ?u = "dec_units ?m s c e + dec_units ?m t d f"
  have "dec_val (dec_add (DFin s c e) (DFin t d f)) = of_int ?u * 10 powi ?m"
    using assms by (auto simp: Let_def dec_fix_exact dec_sgn_def)
  also have "\<dots> = of_int (dec_units ?m s c e) * 10 powi ?m + of_int (dec_units ?m t d f) * 10 powi ?m"
    by (simp add: algebra_simps)
  also have "\<dots> = dec_val (DFin s c e) + dec_val (DFin t d f)"
    by (simp only: dec_units_val min.cobounded1 min.cobounded2)
  finally show ?thesis .
qed

section \<open>Text\<close>

text \<open>
  \<open>str(d)\<close>: plain notation for exponents that keep at most six zeros after the point, scientific
  notation otherwise.
\<close>

fun dec_str :: "decimal \<Rightarrow> ustring" where
  "dec_str (DFin s c e) =
     (let ds = str_nat c; n = int (length ds); adj = e + n - 1; sg = (if s then U ''-'' else [])
      in if e \<le> 0 \<and> - 6 \<le> adj
         then (if e = 0 then sg @ ds
               else if 0 < n + e then sg @ take (nat (n + e)) ds @ U ''.'' @ drop (nat (n + e)) ds
               else sg @ U ''0.'' @ replicate (nat (- (n + e))) 48 @ ds)
         else sg @ (if n = 1 then ds else take 1 ds @ U ''.'' @ drop 1 ds)
                @ U ''E'' @ (if 0 \<le> adj then U ''+'' else []) @ str_int adj)"
| "dec_str (DInf s) = (if s then U ''-Infinity'' else U ''Infinity'')"
| "dec_str (DNaN t) = t"

text \<open>\<open>f"{d:.2f}"\<close> of a finite number: half-even rounding to two places, no exponent.\<close>

definition round_half_even :: "nat \<Rightarrow> nat \<Rightarrow> nat" where
  "round_half_even c k =
     (if k = 0 then c
      else let q = c div 10 ^ k; r = c mod 10 ^ k; h = 5 * 10 ^ (k - 1)
           in if r > h \<or> r = h \<and> odd q then q + 1 else q)"

fun dec_fmt2 :: "decimal \<Rightarrow> ustring" where
  "dec_fmt2 (DFin s c e) =
     (let u = (if - 2 \<le> e then c * 10 ^ nat (e + 2) else round_half_even c (nat (- 2 - e)))
      in (if s then U ''-'' else []) @ str_nat (u div 100) @ U ''.'' @ pad_num 2 (u mod 100))"
| "dec_fmt2 (DInf s) = (if s then U ''-Infinity'' else U ''Infinity'')"
| "dec_fmt2 (DNaN t) = t"

section \<open>Parsing\<close>

text \<open>
  The numeric-string grammar of \<open>Decimal(s)\<close> and \<open>float(s)\<close>: an optional sign, then digits with an
  optional point and exponent, or a name for infinity or NaN in any case. \<open>Decimal\<close> first drops
  every underscore; \<open>float\<close> wants each underscore between two digits, and knows neither \<open>snan\<close>
  nor NaN payloads.
\<close>

definition all_digits :: "ustring \<Rightarrow> bool" where
  "all_digits s \<longleftrightarrow> list_all is_digit s"

definition digits_nat :: "ustring \<Rightarrow> nat" where
  "digits_nat s = foldl (\<lambda>a c. a * 10 + (c - 48)) 0 s"

definition take_sign :: "ustring \<Rightarrow> bool \<times> ustring" where
  "take_sign s =
     (case s of [] \<Rightarrow> (False, [])
      | c # cs \<Rightarrow> if c = 45 then (True, cs) else if c = 43 then (False, cs) else (False, c # cs))"

text \<open>Digits, optional fraction, optional exponent: coefficient and exponent.\<close>

definition parse_plain :: "ustring \<Rightarrow> (nat \<times> int) option" where
  "parse_plain s =
     (let ip = takeWhile is_digit s; r1 = dropWhile is_digit s;
          has_pt = r1 \<noteq> [] \<and> hd r1 = 46;
          fp = (if has_pt then takeWhile is_digit (tl r1) else []);
          r2 = (if has_pt then dropWhile is_digit (tl r1) else r1)
      in if ip = [] \<and> fp = [] then None
         else if r2 = [] then Some (digits_nat (ip @ fp), - int (length fp))
         else if hd r2 = 101 \<or> hd r2 = 69
         then (let (neg, ex) = take_sign (tl r2)
               in if ex \<noteq> [] \<and> all_digits ex
                  then Some (digits_nat (ip @ fp),
                             (if neg then - int (digits_nat ex) else int (digits_nat ex))
                               - int (length fp))
                  else None)
         else None)"

definition nan_text :: "bool \<Rightarrow> ustring \<Rightarrow> ustring" where
  "nan_text neg payload =
     (if neg then U ''-'' else []) @ U ''NaN'' @
     (let p = dropWhile (\<lambda>c. c = 48) payload in p)"

definition parse_number :: "ustring \<Rightarrow> decimal option" where
  "parse_number t =
     (let (neg, r) = take_sign t; l = lower r
      in if l = U ''inf'' \<or> l = U ''infinity'' then Some (DInf neg)
         else if take 3 l = U ''nan'' \<and> all_digits (drop 3 r) then Some (DNaN (nan_text neg (drop 3 r)))
         else if take 4 l = U ''snan'' \<and> all_digits (drop 4 r) then Some (DNaN (nan_text neg (drop 4 r)))
         else map_option (\<lambda>(c, e). DFin neg c e) (parse_plain r))"

text \<open>\<open>Decimal(s)\<close>; \<open>None\<close> is \<open>InvalidOperation\<close>.\<close>

definition decimal_of_str :: "ustring \<Rightarrow> decimal option" where
  "decimal_of_str s = parse_number (remove_char 95 (strip s))"

fun underscores_ok :: "bool \<Rightarrow> ustring \<Rightarrow> bool" where
  "underscores_ok prev [] = True"
| "underscores_ok prev (c # cs) =
     (if c = 95 then prev \<and> cs \<noteq> [] \<and> is_digit (hd cs) \<and> underscores_ok False cs
      else underscores_ok (is_digit c) cs)"

definition float_word_ok :: "ustring \<Rightarrow> bool" where
  "float_word_ok s \<longleftrightarrow>
     (let l = lower (snd (take_sign s)) in take 4 l \<noteq> U ''snan'' \<and> (take 3 l = U ''nan'' \<longrightarrow> length l = 3))"

text \<open>Whether \<open>float(s)\<close> returns, and the number it rounds when it does.\<close>

definition float_text :: "ustring \<Rightarrow> decimal option" where
  "float_text s =
     (let t = strip s
      in if underscores_ok False t \<and> float_word_ok t then parse_number (remove_char 95 t) else None)"

text \<open>Whatever \<open>float\<close> reads, \<open>Decimal\<close> reads, and as the same number.\<close>

lemma float_text_decimal: "float_text s = Some d \<Longrightarrow> decimal_of_str s = Some d"
  by (simp add: float_text_def decimal_of_str_def Let_def split: if_splits)

text \<open>
  \<open>float(s) > 0\<close>: a NaN is not positive, and a value of at most half the least subnormal,
  \<open>2 ^ -1075\<close>, rounds to zero.
\<close>

fun float_positive :: "decimal \<Rightarrow> bool" where
  "float_positive (DFin s c e) \<longleftrightarrow>
     \<not> s \<and> (if 0 \<le> e then 0 < c else 10 ^ nat (- e) < c * 2 ^ 1075)"
| "float_positive (DInf s) \<longleftrightarrow> \<not> s"
| "float_positive (DNaN t) \<longleftrightarrow> False"

lemma float_positive_val: "float_positive (DFin s c e) \<Longrightarrow> 0 < dec_val (DFin s c e)"
  by (cases "c = 0") (auto simp: dec_sgn_def split: if_splits)

end
