(* ===== verification/Transactions.thy ===== *)
theory Transactions imports PyDate PyDecimal begin

text \<open>
  The domain data of \<open>services/domain\<close>: transactions and their parts, the update payload, match
  results; the mapping from the Firefly client's objects in \<open>services/mappers/firefly.py\<close>; and the
  description, category and tag filters of \<open>services/firefly_base_service.py\<close>.
\<close>

section \<open>Enumerations\<close>

datatype tx_tag = blik_done | allegro_done | rule_p | action_req

fun tag_value :: "tx_tag \<Rightarrow> ustring" where
  "tag_value blik_done = U ''blik_done''"
| "tag_value allegro_done = U ''allegro_done''"
| "tag_value rule_p = U ''rule_potential''"
| "tag_value action_req = U ''action_req''"

lemma tag_value_inject [simp]: "tag_value a = tag_value b \<longleftrightarrow> a = b"
  by (cases a; cases b) simp_all

datatype tx_type = WITHDRAWAL | DEPOSIT | TRANSFER

fun tx_type_value :: "tx_type \<Rightarrow> ustring" where
  "tx_type_value WITHDRAWAL = U ''withdrawal''"
| "tx_type_value DEPOSIT = U ''deposit''"
| "tx_type_value TRANSFER = U ''transfer''"

datatype account_type =
    ASSET | EXPENSE | REVENUE | LIABILITY | LOAN | DEBT | MORTGAGE | INITIAL_BALANCE
  | RECONCILIATION

fun account_type_value :: "account_type \<Rightarrow> ustring" where
  "account_type_value ASSET = U ''asset''"
| "account_type_value EXPENSE = U ''expense''"
| "account_type_value REVENUE = U ''revenue''"
| "account_type_value LIABILITY = U ''liability''"
| "account_type_value LOAN = U ''loan''"
| "account_type_value DEBT = U ''debt''"
| "account_type_value MORTGAGE = U ''mortgage''"
| "account_type_value INITIAL_BALANCE = U ''initial-balance''"
| "account_type_value RECONCILIATION = U ''reconciliation''"

text \<open>\<open>TxType(v)\<close> and \<open>AccountType(v)\<close>: the member with that value, or \<open>ValueError\<close>.\<close>

definition enum_of :: "ustring \<Rightarrow> ('a \<Rightarrow> ustring) \<Rightarrow> 'a list \<Rightarrow> ustring \<Rightarrow> 'a res" where
  "enum_of cls val members v =
     (case find (\<lambda>m. val m = v) members of
        Some m \<Rightarrow> Inr m
      | None \<Rightarrow> Inl (ValueError (U [CHR 0x27] @ v @ U [CHR 0x27] @ U '' is not a valid '' @ cls)))"

definition tx_type_of :: "ustring \<Rightarrow> tx_type res" where
  "tx_type_of v = enum_of (U ''TxType'') tx_type_value [WITHDRAWAL, DEPOSIT, TRANSFER] v"

definition account_type_of :: "ustring \<Rightarrow> account_type res" where
  "account_type_of v = enum_of (U ''AccountType'') account_type_value
     [ASSET, EXPENSE, REVENUE, LIABILITY, LOAN, DEBT, MORTGAGE, INITIAL_BALANCE, RECONCILIATION] v"

lemma tx_type_of_value [simp]: "tx_type_of (tx_type_value t) = Inr t"
  by (cases t) (simp_all add: tx_type_of_def enum_of_def)

lemma account_type_of_value [simp]: "account_type_of (account_type_value t) = Inr t"
  by (cases t) (simp_all add: account_type_of_def enum_of_def)

section \<open>Records\<close>

record category =
  cat_id :: int
  cat_name :: ustring

record account_ref =
  acc_id :: int
  acc_name :: ustring
  acc_type :: account_type
  acc_iban :: "ustring option"

record currency =
  cur_code :: ustring
  cur_symbol :: ustring
  cur_decimals :: int

record fx_context =
  fx_currency :: currency
  fx_amount :: decimal

text \<open>\<open>BaseMatchItem\<close>, which transactions, bank records and order payments extend.\<close>

record base_item =
  bi_date :: date
  bi_amount :: decimal

record transaction = base_item +
  tx_id :: int
  tx_type :: tx_type
  tx_description :: ustring
  tx_tags :: "ustring set"
  tx_notes :: "ustring option"
  tx_category :: "category option"
  tx_currency :: currency
  tx_fx :: "fx_context option"
  tx_source :: "account_ref option"
  tx_destination :: "account_ref option"

text \<open>
  A payload's tags are always \<open>list(s)\<close> of a set \<open>s\<close>, in hash order, which is unspecified: the
  payload keeps the set.
\<close>

record tx_update =
  up_description :: "ustring option"
  up_notes :: "ustring option"
  up_tags :: "ustring set option"
  up_category_id :: "int option"

definition no_update :: tx_update where
  "no_update = \<lparr>up_description = None, up_notes = None, up_tags = None, up_category_id = None\<rparr>"

definition has_tag :: "transaction \<Rightarrow> tx_tag \<Rightarrow> bool" where
  "has_tag t g \<longleftrightarrow> tag_value g \<in> tx_tags t"

datatype processing_status = NEW | ALREADY_PROCESSED

record 'i match_result =
  mr_tx :: transaction
  mr_matches :: "'i list"
  mr_status :: processing_status

section \<open>From the Firefly client's objects\<close>

text \<open>
  The attributes that \<open>tx_from_ff_tx\<close> reads of the client library's objects. An attribute that is
  absent and one that is \<open>None\<close> are treated alike by the code.
\<close>

record ff_account =
  ffa_id :: int
  ffa_name :: ustring
  ffa_type :: ustring
  ffa_iban :: "ustring option"

record ff_tx =
  ff_id :: int
  ff_date :: date
  ff_amount :: decimal
  ff_type :: ustring
  ff_description :: ustring
  ff_tags :: "ustring list"
  ff_notes :: "ustring option"
  ff_category :: "(int \<times> ustring) option"
  ff_currency :: "ustring \<times> ustring \<times> int"
  ff_fx :: "((ustring \<times> ustring \<times> int) \<times> decimal) option"
  ff_source :: "ff_account option"
  ff_destination :: "ff_account option"

definition currency_of :: "ustring \<times> ustring \<times> int \<Rightarrow> currency" where
  "currency_of c = (case c of (code, symb, dec) \<Rightarrow>
     \<lparr>cur_code = code, cur_symbol = symb, cur_decimals = dec\<rparr>)"

definition account_ref_from_ff_account_ref :: "ff_account \<Rightarrow> account_ref res" where
  "account_ref_from_ff_account_ref a =
     (case account_type_of (ffa_type a) of
        Inl e \<Rightarrow> Inl e
      | Inr t \<Rightarrow> Inr \<lparr>acc_id = ffa_id a, acc_name = ffa_name a, acc_type = t, acc_iban = ffa_iban a\<rparr>)"

definition map_account :: "ff_account option \<Rightarrow> account_ref option res" where
  "map_account oa =
     (case oa of None \<Rightarrow> Inr None
      | Some a \<Rightarrow> (case account_ref_from_ff_account_ref a of Inl e \<Rightarrow> Inl e | Inr r \<Rightarrow> Inr (Some r)))"

definition tx_from_ff_tx :: "ff_tx \<Rightarrow> transaction res" where
  "tx_from_ff_tx t =
     (let fx = map_option (\<lambda>(c, a). \<lparr>fx_currency = currency_of c, fx_amount = a\<rparr>) (ff_fx t)
      in case map_account (ff_source t) of Inl e \<Rightarrow> Inl e | Inr src \<Rightarrow>
        (case map_account (ff_destination t) of Inl e \<Rightarrow> Inl e | Inr dst \<Rightarrow>
        (case tx_type_of (ff_type t) of Inl e \<Rightarrow> Inl e | Inr ty \<Rightarrow>
           Inr \<lparr>bi_date = ff_date t, bi_amount = ff_amount t, tx_id = ff_id t, tx_type = ty,
                tx_description = ff_description t, tx_tags = set (ff_tags t),
                tx_notes = ff_notes t,
                tx_category = map_option (\<lambda>(i, n). \<lparr>cat_id = i, cat_name = n\<rparr>) (ff_category t),
                tx_currency = currency_of (ff_currency t), tx_fx = fx,
                tx_source = src, tx_destination = dst\<rparr>)))"

definition category_from_ff_category :: "int \<times> ustring \<Rightarrow> category" where
  "category_from_ff_category c = \<lparr>cat_id = fst c, cat_name = snd c\<rparr>"

text \<open>The client's update object, built field by field.\<close>

record ff_tx_update =
  ffu_description :: "ustring option"
  ffu_notes :: "ustring option"
  ffu_tags :: "ustring set option"
  ffu_category_id :: "int option"

definition tx_update_to_ff_tx_update :: "tx_update \<Rightarrow> ff_tx_update" where
  "tx_update_to_ff_tx_update u =
     \<lparr>ffu_description = up_description u, ffu_notes = up_notes u, ffu_tags = up_tags u,
      ffu_category_id = up_category_id u\<rparr>"

text \<open>The mapping changes no value the services look at.\<close>

lemma tx_from_ff_tx_fields [frame_simps]:
  assumes "tx_from_ff_tx t = Inr x"
  shows "bi_date x = ff_date t" "bi_amount x = ff_amount t" "tx_id x = ff_id t"
    "tx_description x = ff_description t" "tx_tags x = set (ff_tags t)" "tx_notes x = ff_notes t"
    "tx_category x = None \<longleftrightarrow> ff_category t = None"
    "tx_type_value (tx_type x) = ff_type t"
  using assms
  by (auto simp: tx_from_ff_tx_def tx_type_of_def enum_of_def Let_def
      split: sum.splits option.splits if_splits)

section \<open>Filters\<close>

definition desc_matches :: "ustring \<Rightarrow> bool \<Rightarrow> transaction \<Rightarrow> bool" where
  "desc_matches flt exact t =
     (let desc = lower flt; t_desc = lower (tx_description t)
      in if exact then t_desc = desc else contains t_desc desc)"

definition filter_by_description ::
    "transaction list \<Rightarrow> ustring \<Rightarrow> bool \<Rightarrow> bool \<Rightarrow> transaction list" where
  "filter_by_description txs flt exact_match exclude =
     filter (\<lambda>t. desc_matches flt exact_match t \<noteq> exclude) txs"

definition filter_out_categorized :: "transaction list \<Rightarrow> transaction list" where
  "filter_out_categorized txs = filter (\<lambda>t. tx_category t = None) txs"

fun filter_out_by_tag :: "transaction list \<Rightarrow> ustring \<Rightarrow> transaction list" where
  "filter_out_by_tag [] tag = []"
| "filter_out_by_tag (t # ts) tag =
     (if tag \<notin> tx_tags t then t # filter_out_by_tag ts tag else filter_out_by_tag ts tag)"

lemma filter_out_by_tag_eq: "filter_out_by_tag txs tag = filter (\<lambda>t. tag \<notin> tx_tags t) txs"
  by (induction txs) auto

lemma desc_exact_imp_partial: "desc_matches flt True t \<Longrightarrow> desc_matches flt False t"
  by (simp add: desc_matches_def Let_def)

lemma desc_matches_case:
  "lower flt = lower flt' \<Longrightarrow> desc_matches flt e t = desc_matches flt' e t"
  by (simp add: desc_matches_def)

text \<open>Including and excluding split the list.\<close>

lemma filter_by_description_split:
  "length (filter_by_description txs flt ex False) + length (filter_by_description txs flt ex True)
     = length txs"
  using filter_partition_length [of "desc_matches flt ex" txs]
  by (simp add: filter_by_description_def)

end
