(* ===== verification/Evidence.thy ===== *)
theory Evidence imports Transactions begin

text \<open>
  The two kinds of evidence that explain a transaction: bank records of BLIK files
  (\<open>services/domain/bank_record.py\<close>) and order payments (\<open>services/domain/order_payment.py\<close>,
  \<open>services/domain/allegro.py\<close>), their comparison with a transaction and the update they build.
\<close>

section \<open>Comparison\<close>

text \<open>\<open>BaseMatchItem.compare_amounts_abs\<close> and \<open>BaseMatchItem.compare\<close>\<close>

definition compare_amounts_abs :: "'a base_item_scheme \<Rightarrow> 'b base_item_scheme \<Rightarrow> bool" where
  "compare_amounts_abs a b = same_abs (bi_amount a) (bi_amount b)"

definition base_compare :: "'a base_item_scheme \<Rightarrow> 'b base_item_scheme \<Rightarrow> bool" where
  "base_compare a b =
     (if \<not> compare_amounts_abs a b then False else bi_date a = bi_date b)"

text \<open>\<open>services/domain/evidence.py\<close>\<close>

definition add_line :: "ustring option \<Rightarrow> ustring \<Rightarrow> ustring" where
  "add_line existing new_line =
     (case existing of
        Some e \<Rightarrow> if e \<noteq> [] then e @ [10] @ new_line else new_line
      | None \<Rightarrow> new_line)"

text \<open>A line is only ever added at the back: what was there stays as a prefix.\<close>

lemma add_line_prefix: "prefix (case existing of None \<Rightarrow> [] | Some e \<Rightarrow> e) (add_line existing l)"
  by (auto simp: add_line_def split: option.splits)

lemma add_line_suffix: "suffix l (add_line existing l)"
  by (auto simp: add_line_def suffix_def split: option.splits)

section \<open>Bank records\<close>

record bank_record = base_item +
  br_details :: ustring
  br_recipient :: ustring
  br_operation_amount :: decimal
  br_sender :: ustring
  br_operation_currency :: ustring
  br_account_currency :: ustring
  br_sender_account :: ustring
  br_recipient_account :: ustring

text \<open>The values of \<open>dataclasses.fields\<close>, in declaration order, the base class first.\<close>

datatype field_value = FDate date | FDec decimal | FStr ustring

definition bank_record_fields :: "bank_record \<Rightarrow> (ustring \<times> field_value) list" where
  "bank_record_fields r =
     [(U ''date'', FDate (bi_date r)), (U ''amount'', FDec (bi_amount r)),
      (U ''details'', FStr (br_details r)), (U ''recipient'', FStr (br_recipient r)),
      (U ''operation_amount'', FDec (br_operation_amount r)), (U ''sender'', FStr (br_sender r)),
      (U ''operation_currency'', FStr (br_operation_currency r)),
      (U ''account_currency'', FStr (br_account_currency r)),
      (U ''sender_account'', FStr (br_sender_account r)),
      (U ''recipient_account'', FStr (br_recipient_account r))]"

fun is_meaningful :: "field_value \<Rightarrow> bool" where
  "is_meaningful (FStr s) \<longleftrightarrow> strip s \<noteq> []"
| "is_meaningful (FDec d) \<longleftrightarrow> \<not> dec_is_zero d"
| "is_meaningful (FDate _) \<longleftrightarrow> True"

fun field_str :: "field_value \<Rightarrow> ustring" where
  "field_str (FStr s) = s"
| "field_str (FDec d) = dec_str d"
| "field_str (FDate d) = isoformat d"

definition hidden_currency_fields :: "ustring list" where
  "hidden_currency_fields = [U ''account_currency'', U ''operation_currency'']"

text \<open>One turn of the loop of \<open>pretty_print\<close>: the line of a field, unless it is skipped.\<close>

definition pretty_field ::
    "bank_record \<Rightarrow> bool \<Rightarrow> ustring list option \<Rightarrow> ustring list \<Rightarrow> ustring \<times> field_value
       \<Rightarrow> ustring list" where
  "pretty_field r only_meaningful incl excl f =
     (let name = fst f; value = snd f
      in if name \<in> set hidden_currency_fields then []
         else if (case incl of Some i \<Rightarrow> name \<notin> set i | None \<Rightarrow> name \<in> set excl) then []
         else if only_meaningful \<and> \<not> is_meaningful value then []
         else let v = (if name = U ''amount''
                       then field_str value @ U '' '' @ br_account_currency r
                       else if name = U ''operation_amount''
                       then field_str value @ U '' '' @ br_operation_currency r
                       else field_str value)
              in [name @ U '': '' @ v])"

definition pretty_print ::
    "bank_record \<Rightarrow> bool \<Rightarrow> ustring list option \<Rightarrow> ustring list option \<Rightarrow> ustring" where
  "pretty_print r only_meaningful incl excl =
     (let i = (case incl of Some (x # xs) \<Rightarrow> Some (x # xs) | _ \<Rightarrow> None);
          e = (case excl of Some xs \<Rightarrow> xs | None \<Rightarrow> [])
      in join [10] (concat (map (pretty_field r only_meaningful i e) (bank_record_fields r))))"

text \<open>\<open>BankRecord.build_tx_update\<close>\<close>

definition bank_build_tx_update :: "bank_record \<Rightarrow> transaction \<Rightarrow> tx_update res" where
  "bank_build_tx_update r t =
     (let new_description =
            (if \<not> contains (lower (tx_description t)) (lower (br_details r))
             then Some (tx_description t @ U '';'' @ br_details r) else None);
          notes = add_line (tx_notes t) (pretty_print r True None None);
          tags = insert (tag_value blik_done) (tx_tags t)
      in Inr \<lparr>up_description = new_description, up_notes = Some notes, up_tags = Some tags,
              up_category_id = None\<rparr>)"

section \<open>Order payments\<close>

record order_payment = base_item +
  op_details :: "ustring list"
  op_tag_done :: tx_tag

definition flatten_details :: "'a order_payment_scheme \<Rightarrow> ustring" where
  "flatten_details p = join [10] (op_details p)"

text \<open>
  \<open>OrderPayment.compare\<close>: the transaction's date lies in the seven days from the payment's. The
  end of the window is computed only for equal amounts, and may overflow the calendar.
\<close>

definition payment_compare :: "'a order_payment_scheme \<Rightarrow> 'b base_item_scheme \<Rightarrow> bool res" where
  "payment_compare p other =
     (if \<not> compare_amounts_abs p other then Inr False
      else case add_days (bi_date p) 6 of
             None \<Rightarrow> Inl (OverflowError (U ''date value out of range''))
           | Some latest \<Rightarrow> Inr (bi_date p \<le> bi_date other \<and> bi_date other \<le> latest))"

definition payment_build_tx_update ::
    "'a order_payment_scheme \<Rightarrow> transaction \<Rightarrow> tx_update res" where
  "payment_build_tx_update p t =
     (let details = flatten_details p
      in if details = [] then Inl (ValueError (U ''Details cannot be empty''))
         else let notes = (case tx_notes t of
                             Some n \<Rightarrow>
                               if n \<noteq> []
                               then (if \<not> contains (lower n) (lower details)
                                     then Some (add_line (Some n) details) else None)
                               else Some (add_line (Some n) details)
                           | None \<Rightarrow> Some (add_line None details));
                  tags = insert (tag_value (op_tag_done p)) (tx_tags t)
              in Inr \<lparr>up_description = None, up_notes = notes, up_tags = Some tags,
                      up_category_id = None\<rparr>)"

text \<open>\<open>services/domain/allegro.py\<close>\<close>

record allegro_order_payment = order_payment +
  ap_is_balanced :: bool
  ap_login :: ustring
  ap_external_short_id :: ustring
  ap_external_id :: ustring

section \<open>The interfaces\<close>

text \<open>
  \<open>Matchable\<close>: what the matcher calls. Whatever else a comparison asks for, a match has the
  transaction's amount up to sign and is not dated after it.
\<close>

locale matchable =
  fixes compare_item :: "'i \<Rightarrow> transaction \<Rightarrow> bool res"
    and item_amount :: "'i \<Rightarrow> decimal"
    and item_date :: "'i \<Rightarrow> date"
  assumes match_amount: "compare_item i t = Inr True \<Longrightarrow> same_abs (item_amount i) (bi_amount t)"
    and match_date: "compare_item i t = Inr True \<Longrightarrow> item_date i \<le> bi_date t"
begin

lemma no_match_other_amount:
  "\<not> same_abs (item_amount i) (bi_amount t) \<Longrightarrow> compare_item i t \<noteq> Inr True"
  using match_amount by blast

end

text \<open>
  \<open>Evidence\<close>: what applying a match relies on. An update adds the evidence's own done tag, keeps
  every tag the transaction has, and leaves its category alone.
\<close>

locale evidence =
  fixes build_tx_update :: "'i \<Rightarrow> transaction \<Rightarrow> tx_update res"
    and done_tag :: "'i \<Rightarrow> tx_tag"
  assumes build_tags:
      "build_tx_update i t = Inr u \<Longrightarrow>
         up_tags u = Some (insert (tag_value (done_tag i)) (tx_tags t))"
    and build_category: "build_tx_update i t = Inr u \<Longrightarrow> up_category_id u = None"
    and build_notes:
      "build_tx_update i t = Inr u \<Longrightarrow> up_notes u = Some n \<Longrightarrow>
         prefix (case tx_notes t of None \<Rightarrow> [] | Some m \<Rightarrow> m) n"
begin

lemma build_marks_done:
  "build_tx_update i t = Inr u \<Longrightarrow> up_tags u = Some T \<Longrightarrow>
     tag_value (done_tag i) \<in> T \<and> tx_tags t \<subseteq> T"
  by (auto dest: build_tags)

end

definition bank_compare :: "bank_record \<Rightarrow> transaction \<Rightarrow> bool res" where
  "bank_compare r t = Inr (base_compare r t)"

interpretation bank_m: matchable bank_compare bi_amount bi_date
  by unfold_locales
     (auto simp: bank_compare_def base_compare_def compare_amounts_abs_def split: if_splits)

interpretation pay_m: matchable
  "payment_compare :: allegro_order_payment \<Rightarrow> transaction \<Rightarrow> bool res" bi_amount bi_date
  by unfold_locales
     (auto simp: payment_compare_def compare_amounts_abs_def split: if_splits option.splits)

interpretation bank_e: evidence bank_build_tx_update "\<lambda>_. blik_done"
  by unfold_locales
     (auto simp: bank_build_tx_update_def Let_def simp del: tag_value.simps intro: add_line_prefix)

lemma payment_build_cases:
  assumes "payment_build_tx_update p t = Inr u"
  shows "up_tags u = Some (insert (tag_value (op_tag_done p)) (tx_tags t))"
    and "up_category_id u = None" and "up_description u = None"
    and "up_notes u = Some n \<Longrightarrow> n = add_line (tx_notes t) (flatten_details p)"
  using assms
  by (auto simp: payment_build_tx_update_def Let_def split: if_splits option.splits)

interpretation pay_e: evidence
  "payment_build_tx_update :: allegro_order_payment \<Rightarrow> transaction \<Rightarrow> tx_update res" op_tag_done
proof unfold_locales
  fix p :: allegro_order_payment and t u n
  assume b: "payment_build_tx_update p t = Inr u"
  then show "up_tags u = Some (insert (tag_value (op_tag_done p)) (tx_tags t))"
    by (rule payment_build_cases)
  show "up_category_id u = None" using b by (rule payment_build_cases)
  assume "up_notes u = Some n"
  with payment_build_cases(4) [OF b] have "n = add_line (tx_notes t) (flatten_details p)" by simp
  then show "prefix (case tx_notes t of None \<Rightarrow> [] | Some m \<Rightarrow> m) n"
    by (simp add: add_line_prefix)
qed

section \<open>What the comparisons and updates promise\<close>

lemma bank_compare_iff:
  "bank_compare r t = Inr b \<Longrightarrow>
     b = (same_abs (bi_amount r) (bi_amount t) \<and> bi_date r = bi_date t)"
  by (auto simp: bank_compare_def base_compare_def compare_amounts_abs_def split: if_splits)

text \<open>Away from the end of the calendar the payment window is the payment's day and the six after.\<close>

lemma payment_compare_window:
  assumes "valid_date (bi_date p)" and "d_year (bi_date p) \<le> 9990" and "valid_date (bi_date t)"
  shows "payment_compare p t =
    Inr (same_abs (bi_amount p) (bi_amount t) \<and>
         ordinal (bi_date p) \<le> ordinal (bi_date t) \<and>
         ordinal (bi_date t) \<le> ordinal (bi_date p) + 6)"
proof -
  have "\<exists>d'. iter_day next_day 6 (bi_date p) = Some d'"
    using assms by (intro iter_next_day_Some) auto
  then obtain l where l: "add_days (bi_date p) 6 = Some l"
    by (auto simp: add_days_def)
  with assms(1) add_days_ordinal [of "bi_date p" 6 l]
  have "valid_date l" "ordinal l = ordinal (bi_date p) + 6" by auto
  with l assms ordinal_le_iff show ?thesis
    by (auto simp: payment_compare_def compare_amounts_abs_def)
       (metis ordinal_le_iff)+
qed

text \<open>
  Applying the same order payment again adds nothing: with the notes the first update left, the
  second one finds its details there.
\<close>

lemma sublist_suffix: "suffix a b \<Longrightarrow> sublist a b"
  by (simp add: suffix_imp_sublist)

lemma payment_build_idempotent:
  assumes "payment_build_tx_update p t = Inr u" and "up_notes u = Some n" and "tx_notes t' = Some n"
  shows "\<exists>u'. payment_build_tx_update p t' = Inr u' \<and> up_notes u' = None"
proof -
  from assms have n: "n = add_line (tx_notes t) (flatten_details p)"
    by (auto dest: payment_build_cases(4))
  from assms(1) have ne: "flatten_details p \<noteq> []"
    by (auto simp: payment_build_tx_update_def Let_def split: if_splits)
  from n ne have "n \<noteq> []"
    by (auto simp: add_line_def split: option.splits if_splits)
  moreover from n have "contains (lower n) (lower (flatten_details p))"
    by (simp add: sublist_lower sublist_suffix add_line_suffix)
  ultimately show ?thesis
    using ne assms(3) by (simp add: payment_build_tx_update_def Let_def)
qed

text \<open>
  Applying the same bank record again keeps the description: the first update made sure that the
  details occur in it.
\<close>

lemma bank_build_description:
  assumes "bank_build_tx_update r t = Inr u"
    and "tx_description t' = (case up_description u of None \<Rightarrow> tx_description t | Some d \<Rightarrow> d)"
    and "bank_build_tx_update r t' = Inr u'"
  shows "up_description u' = None"
proof -
  have "contains (lower (tx_description t')) (lower (br_details r))"
  proof (cases "contains (lower (tx_description t)) (lower (br_details r))")
    case True
    with assms show ?thesis by (auto simp: bank_build_tx_update_def Let_def)
  next
    case False
    with assms have "tx_description t' = (tx_description t @ U '';'') @ br_details r"
      by (auto simp: bank_build_tx_update_def Let_def)
    then show ?thesis
      by (simp add: sublist_lower sublist_suffix suffix_def del: append_assoc)
  qed
  with assms(3) show ?thesis by (auto simp: bank_build_tx_update_def Let_def)
qed

text \<open>The printed record never shows the two currency fields as lines of their own.\<close>

lemma pretty_field_hidden:
  "fst f \<in> set hidden_currency_fields \<Longrightarrow> pretty_field r om i e f = []"
  by (simp add: pretty_field_def Let_def)

end
