(* ===== verification/Matcher.thy ===== *)
theory Matcher imports Evidence begin

text \<open>
  \<open>services/matcher.py\<close>: every transaction against every candidate, with the set of candidate
  positions that matched anything. The loops are translated as they are, accumulators included;
  \<open>match_spec\<close> is what they compute.
\<close>

section \<open>The loops\<close>

text \<open>The inner loop over \<open>enumerate(item_list)\<close> for one transaction.\<close>

fun scan_items ::
    "('i \<Rightarrow> transaction \<Rightarrow> bool res) \<Rightarrow> transaction \<Rightarrow> nat \<Rightarrow> 'i list \<Rightarrow> 'i list \<Rightarrow> nat set
       \<Rightarrow> ('i list \<times> nat set) res" where
  "scan_items cmp t index [] tx_matches matched = Inr (tx_matches, matched)"
| "scan_items cmp t index (item # items) tx_matches matched =
     (case cmp item t of
        Inl e \<Rightarrow> Inl e
      | Inr b \<Rightarrow>
          if b then scan_items cmp t (Suc index) items (tx_matches @ [item]) (insert index matched)
          else scan_items cmp t (Suc index) items tx_matches matched)"

fun scan_txs ::
    "('i \<Rightarrow> transaction \<Rightarrow> bool res) \<Rightarrow> 'i list \<Rightarrow> tx_tag \<Rightarrow> transaction list
       \<Rightarrow> 'i match_result list \<Rightarrow> nat set \<Rightarrow> ('i match_result list \<times> nat set) res" where
  "scan_txs cmp items tag_done [] results matched = Inr (results, matched)"
| "scan_txs cmp items tag_done (t # ts) results matched =
     (case scan_items cmp t 0 items [] matched of
        Inl e \<Rightarrow> Inl e
      | Inr (tx_matches, matched') \<Rightarrow>
          scan_txs cmp items tag_done ts
            (results @ [\<lparr>mr_tx = t, mr_matches = tx_matches,
                         mr_status = (if has_tag t tag_done then ALREADY_PROCESSED else NEW)\<rparr>])
            matched')"

definition match_transactions ::
    "('i \<Rightarrow> transaction \<Rightarrow> bool res) \<Rightarrow> transaction list \<Rightarrow> 'i list \<Rightarrow> tx_tag
       \<Rightarrow> ('i match_result list \<times> 'i list) res" where
  "match_transactions cmp txs items tag_done =
     (case scan_txs cmp items tag_done txs [] {} of
        Inl e \<Rightarrow> Inl e
      | Inr (results, matched) \<Rightarrow>
          Inr (results, map snd (filter (\<lambda>(i, _). i \<notin> matched) (enumerate 0 items))))"

section \<open>What they compute\<close>

definition match_entry ::
    "('i \<Rightarrow> transaction \<Rightarrow> bool) \<Rightarrow> 'i list \<Rightarrow> tx_tag \<Rightarrow> transaction \<Rightarrow> 'i match_result" where
  "match_entry m items tag_done t =
     \<lparr>mr_tx = t, mr_matches = filter (\<lambda>i. m i t) items,
      mr_status = (if has_tag t tag_done then ALREADY_PROCESSED else NEW)\<rparr>"

definition match_spec ::
    "('i \<Rightarrow> transaction \<Rightarrow> bool) \<Rightarrow> transaction list \<Rightarrow> 'i list \<Rightarrow> tx_tag
       \<Rightarrow> 'i match_result list \<times> 'i list" where
  "match_spec m txs items tag_done =
     (map (match_entry m items tag_done) txs, filter (\<lambda>i. \<forall>t \<in> set txs. \<not> m i t) items)"

definition agrees :: "('i \<Rightarrow> transaction \<Rightarrow> bool res) \<Rightarrow> ('i \<Rightarrow> transaction \<Rightarrow> bool)
    \<Rightarrow> 'i list \<Rightarrow> transaction list \<Rightarrow> bool" where
  "agrees cmp m items txs \<longleftrightarrow> (\<forall>i \<in> set items. \<forall>t \<in> set txs. cmp i t = Inr (m i t))"

lemma scan_items_pure:
  "(\<And>i. i \<in> set items \<Longrightarrow> cmp i t = Inr (m i t)) \<Longrightarrow>
     scan_items cmp t n items ms idx =
       Inr (ms @ filter (\<lambda>i. m i t) items,
            idx \<union> {n + k | k. k < length items \<and> m (items ! k) t})"
proof (induction items arbitrary: n ms idx)
  case Nil
  then show ?case by simp
next
  case (Cons x xs)
  have split: "{n + k | k. k < length (x # xs) \<and> m ((x # xs) ! k) t} =
      (if m x t then {n} else {}) \<union> {Suc n + k | k. k < length xs \<and> m (xs ! k) t}"
    by (auto simp: less_Suc_eq_0_disj)
  show ?case
    unfolding split using Cons by auto
qed

lemma scan_txs_pure:
  "agrees cmp m items txs \<Longrightarrow>
     scan_txs cmp items tag txs rs idx =
       Inr (rs @ map (match_entry m items tag) txs,
            idx \<union> {k. k < length items \<and> (\<exists>t \<in> set txs. m (items ! k) t)})"
proof (induction txs arbitrary: rs idx)
  case Nil
  then show ?case by simp
next
  case (Cons t ts)
  from Cons.prems have t: "\<And>i. i \<in> set items \<Longrightarrow> cmp i t = Inr (m i t)"
    and ts: "agrees cmp m items ts"
    by (auto simp: agrees_def)
  show ?case
    by (auto simp: scan_items_pure [of items cmp t m, OF t] Cons.IH [OF ts] match_entry_def)
qed

lemma enumerate_filter_notin:
  "map snd (filter (\<lambda>(i, _). i \<notin> {k. k < length items \<and> P (items ! k)}) (enumerate 0 items)) =
     filter (\<lambda>x. \<not> P x) items"
proof (induction items rule: rev_induct)
  case Nil
  then show ?case by simp
next
  case (snoc x xs)
  have "map snd (filter (\<lambda>(i, _). i \<notin> {k. k < length (xs @ [x]) \<and> P ((xs @ [x]) ! k)})
          (enumerate 0 xs)) =
        map snd (filter (\<lambda>(i, _). i \<notin> {k. k < length xs \<and> P (xs ! k)}) (enumerate 0 xs))"
    by (intro arg_cong [where f = "map snd"] filter_cong)
       (auto simp: in_set_enumerate_eq nth_append)
  with snoc.IH show ?case
    by (simp add: enumerate_append_eq nth_append)
qed

lemma match_transactions_spec:
  assumes "agrees cmp m items txs"
  shows "match_transactions cmp txs items tag = Inr (match_spec m txs items tag)"
  using enumerate_filter_notin [of items "\<lambda>x. \<exists>t \<in> set txs. m x t"]
  by (simp add: match_transactions_def scan_txs_pure [OF assms] match_spec_def)

text \<open>The general case: whatever is returned is what the specification says.\<close>

lemma scan_items_Inr:
  "scan_items cmp t n items ms idx = Inr r \<Longrightarrow> i \<in> set items \<Longrightarrow> \<exists>b. cmp i t = Inr b"
  by (induction items arbitrary: n ms idx) (auto split: sum.splits if_splits)

lemma scan_txs_Inr:
  "scan_txs cmp items tag txs rs idx = Inr r \<Longrightarrow> i \<in> set items \<Longrightarrow> t \<in> set txs \<Longrightarrow>
     \<exists>b. cmp i t = Inr b"
  by (induction txs arbitrary: rs idx) (auto split: sum.splits dest: scan_items_Inr)

lemma match_transactions_Inr:
  assumes "match_transactions cmp txs items tag = Inr r"
  shows "r = match_spec (\<lambda>i t. cmp i t = Inr True) txs items tag"
proof -
  have "agrees cmp (\<lambda>i t. cmp i t = Inr True) items txs"
    unfolding agrees_def
  proof (intro ballI)
    fix i t
    assume "i \<in> set items" and "t \<in> set txs"
    with assms obtain b where "cmp i t = Inr b"
      by (auto simp: match_transactions_def split: sum.splits dest: scan_txs_Inr)
    then show "cmp i t = Inr (cmp i t = Inr True)" by (cases b) auto
  qed
  from match_transactions_spec [OF this] assms show ?thesis by simp
qed

section \<open>Consequences for every kind of candidate\<close>

context matchable
begin

text \<open>Only candidates with the transaction's amount, dated no later, are ever proposed.\<close>

lemma proposed_sound:
  assumes "match_transactions compare_item txs items tag = Inr (results, unmatched)"
    and "r \<in> set results" and "i \<in> set (mr_matches r)"
  shows "i \<in> set items \<and> mr_tx r \<in> set txs \<and> same_abs (item_amount i) (bi_amount (mr_tx r))
    \<and> item_date i \<le> bi_date (mr_tx r)"
  using match_transactions_Inr [OF assms(1)] assms(2,3)
  by (auto simp: match_spec_def match_entry_def dest: match_amount match_date)

end

lemma match_transactions_txs:
  "match_transactions cmp txs items tag = Inr (results, unmatched) \<Longrightarrow> map mr_tx results = txs"
  by (drule match_transactions_Inr) (simp add: match_spec_def match_entry_def comp_def)

lemma match_transactions_status:
  "match_transactions cmp txs items tag = Inr (results, unmatched) \<Longrightarrow> r \<in> set results \<Longrightarrow>
     mr_status r = (if has_tag (mr_tx r) tag then ALREADY_PROCESSED else NEW)"
  by (drule match_transactions_Inr) (auto simp: match_spec_def match_entry_def)

text \<open>A candidate is reported unmatched exactly when no transaction got it.\<close>

lemma match_transactions_unmatched:
  assumes "match_transactions cmp txs items tag = Inr (results, unmatched)"
  shows "i \<in> set unmatched \<longleftrightarrow> i \<in> set items \<and> (\<forall>r \<in> set results. i \<notin> set (mr_matches r))"
  using match_transactions_Inr [OF assms]
  by (auto simp: match_spec_def match_entry_def)

lemma bank_compare_agrees: "agrees bank_compare (\<lambda>r t. base_compare r t) items txs"
  by (simp add: agrees_def bank_compare_def)

text \<open>Matching bank records always returns.\<close>

lemma match_bank_records:
  "match_transactions bank_compare txs items tag = Inr (match_spec (\<lambda>r t. base_compare r t) txs items tag)"
  by (rule match_transactions_spec [OF bank_compare_agrees])

end
