(* ===== verification/PyUuid.thy ===== *)
theory PyUuid imports PyText begin

text \<open>
  \<open>uuid.UUID\<close>: a 128-bit number, its canonical text \<open>str(u)\<close> and the texts \<open>UUID(s)\<close> accepts.
\<close>

type_synonym uuid = nat

definition hex_digit :: "nat \<Rightarrow> nat" where
  "hex_digit n = (if n < 10 then 48 + n else 87 + n)"

fun hex_fixed :: "nat \<Rightarrow> nat \<Rightarrow> ustring" where
  "hex_fixed 0 n = []"
| "hex_fixed (Suc k) n = hex_fixed k (n div 16) @ [hex_digit (n mod 16)]"

definition uuid_str :: "uuid \<Rightarrow> ustring" where
  "uuid_str n =
     (let h = hex_fixed 32 n
      in take 8 h @ U ''-'' @ take 4 (drop 8 h) @ U ''-'' @ take 4 (drop 12 h) @ U ''-'' @
         take 4 (drop 16 h) @ U ''-'' @ drop 20 h)"

text \<open>\<open>s.replace(p, "")\<close> for a non-empty \<open>p\<close>, from the left, without overlaps.\<close>

function remove_sub :: "ustring \<Rightarrow> ustring \<Rightarrow> ustring" where
  "remove_sub p s =
     (if p = [] \<or> s = [] then s
      else if prefix p s then remove_sub p (drop (length p) s)
      else hd s # remove_sub p (tl s))"
  by pat_completeness auto
termination
  by (relation "measure (\<lambda>(p, s). length s)") (auto simp: neq_Nil_conv)

declare remove_sub.simps [simp del]

definition hex_value :: "nat \<Rightarrow> nat option" where
  "hex_value c =
     (if 48 \<le> c \<and> c \<le> 57 then Some (c - 48)
      else if 97 \<le> c \<and> c \<le> 102 then Some (c - 87)
      else if 65 \<le> c \<and> c \<le> 70 then Some (c - 55)
      else None)"

fun hex_val :: "nat \<Rightarrow> bool \<Rightarrow> ustring \<Rightarrow> nat option" where
  "hex_val acc prev [] = (if prev then Some acc else None)"
| "hex_val acc prev (c # cs) =
     (case hex_value c of
        Some d \<Rightarrow> hex_val (acc * 16 + d) True cs
      | None \<Rightarrow> if c = 95 \<and> prev then hex_val acc False cs else None)"

text \<open>\<open>int(s, 16)\<close> of a text without a minus sign: an optional plus, an optional \<open>0x\<close>.\<close>

definition int16 :: "ustring \<Rightarrow> nat option" where
  "int16 s =
     (let t = strip s;
          u = (if t \<noteq> [] \<and> hd t = 43 then tl t else t)
      in if take 2 u = U ''0x'' \<or> take 2 u = U ''0X''
         then (if drop 2 u = [] then None else hex_val 0 True (drop 2 u))
         else hex_val 0 False u)"

definition is_brace :: "nat \<Rightarrow> bool" where
  "is_brace c \<longleftrightarrow> c = 123 \<or> c = 125"

text \<open>\<open>UUID(s)\<close>; \<open>None\<close> is \<open>ValueError\<close>.\<close>

definition parse_uuid :: "ustring \<Rightarrow> uuid option" where
  "parse_uuid s =
     (let h = remove_char 45 (strip_by is_brace (remove_sub (U ''uuid:'') (remove_sub (U ''urn:'') s)))
      in if length h \<noteq> 32 then None
         else case int16 h of None \<Rightarrow> None | Some n \<Rightarrow> if n < 2 ^ 128 then Some n else None)"

definition uuid_ok :: "uuid \<Rightarrow> bool" where
  "uuid_ok u \<longleftrightarrow> u < 2 ^ 128"

lemma parse_uuid_ok: "parse_uuid s = Some u \<Longrightarrow> uuid_ok u"
  by (auto simp: parse_uuid_def uuid_ok_def Let_def split: if_splits option.splits)

section \<open>Round trip\<close>

definition is_hex :: "nat \<Rightarrow> bool" where
  "is_hex c \<longleftrightarrow> 48 \<le> c \<and> c \<le> 57 \<or> 97 \<le> c \<and> c \<le> 102"

lemma is_hex_digit [simp]: "n < 16 \<Longrightarrow> is_hex (hex_digit n)"
  by (auto simp: is_hex_def hex_digit_def)

lemma hex_value_digit [simp]: "n < 16 \<Longrightarrow> hex_value (hex_digit n) = Some n"
  by (auto simp: hex_value_def hex_digit_def)

lemma hex_fixed_hex: "c \<in> set (hex_fixed k n) \<Longrightarrow> is_hex c"
  by (induction k arbitrary: n) auto

lemma length_hex_fixed [simp]: "length (hex_fixed k n) = k"
  by (induction k arbitrary: n) auto

lemma hex_val_append:
  "d < 16 \<Longrightarrow> hex_val a b s = Some m \<Longrightarrow> hex_val a b (s @ [hex_digit d]) = Some (m * 16 + d)"
  "d < 16 \<Longrightarrow> s = [] \<Longrightarrow> hex_val a False (s @ [hex_digit d]) = Some (a * 16 + d)"
  by (induction a b s rule: hex_val.induct) (auto split: if_splits option.splits)

lemma hex_val_fixed: "hex_val 0 (k = 0) (hex_fixed k n) = Some (n mod 16 ^ k)"
proof (induction k arbitrary: n)
  case 0
  then show ?case by simp
next
  case (Suc k)
  have "n mod 16 ^ Suc k = (n div 16 mod 16 ^ k) * 16 + n mod 16"
    by (metis mod_mult2_eq add.commute mult.commute power_Suc)
  with Suc [of "n div 16"] show ?case
    by (cases "k = 0") (auto simp: hex_val_append)
qed

lemma remove_sub_absent: "(\<exists>c \<in> set p. c \<notin> set s) \<Longrightarrow> remove_sub p s = s"
proof (induction p s rule: remove_sub.induct)
  case (1 p s)
  show ?case
  proof (cases "p = [] \<or> s = []")
    case True
    then show ?thesis by (simp add: remove_sub.simps [of p s])
  next
    case False
    moreover from "1.prems" have "\<not> prefix p s" by (auto dest: set_mono_prefix)
    moreover from "1.prems" False have "\<exists>c \<in> set p. c \<notin> set (tl s)"
      by (meson list.set_sel(2))
    ultimately show ?thesis
      using "1.IH"(2) by (simp add: remove_sub.simps [of p s])
  qed
qed

lemma uuid_str_chars: "c \<in> set (uuid_str u) \<Longrightarrow> is_hex c \<or> c = 45"
  by (auto simp: uuid_str_def Let_def U_def dest!: in_set_takeD in_set_dropD hex_fixed_hex)

lemma remove_dash_hex: "\<forall>c \<in> set s. is_hex c \<Longrightarrow> remove_char 45 s = s"
  by (auto simp: remove_char_def is_hex_def filter_id_conv)

lemma remove_char_append: "remove_char c (s @ t) = remove_char c s @ remove_char c t"
  by (simp add: remove_char_def)

lemma remove_dash_uuid_str: "remove_char 45 (uuid_str u) = hex_fixed 32 u"
proof -
  let ?h = "hex_fixed 32 u"
  have part: "remove_char 45 (take k (drop j ?h)) = take k (drop j ?h)" for k j
    by (intro remove_dash_hex) (auto dest!: in_set_takeD in_set_dropD hex_fixed_hex)
  have part': "remove_char 45 (drop j ?h) = drop j ?h" for j
    by (intro remove_dash_hex) (auto dest!: in_set_dropD hex_fixed_hex)
  have dash: "remove_char 45 (U ''-'') = []"
    by (simp add: remove_char_def U_def)
  have "take 8 ?h @ take 4 (drop 8 ?h) @ take 4 (drop 12 ?h) @ take 4 (drop 16 ?h) @ drop 20 ?h = ?h"
    by (simp flip: take_add append_assoc)
  then show ?thesis
    using part [of 8 0] by (simp add: uuid_str_def Let_def remove_char_append part part' dash)
qed

lemma parse_uuid_str:
  assumes "uuid_ok u"
  shows "parse_uuid (uuid_str u) = Some u"
proof -
  let ?s = "uuid_str u"
  let ?h = "hex_fixed 32 u"
  have chars: "c \<notin> set ?s" if "\<not> is_hex c" "c \<noteq> 45" for c
    using that uuid_str_chars by blast
  have "remove_sub (U ''urn:'') ?s = ?s" "remove_sub (U ''uuid:'') ?s = ?s"
    by (rule remove_sub_absent; rule bexI [of _ 58]; simp add: chars is_hex_def U_def)+
  moreover have "strip_by is_brace ?s = ?s"
  proof (rule strip_by_id)
    have "?s \<noteq> []" by (simp add: uuid_str_def Let_def U_def)
    then show "?s = [] \<or> \<not> is_brace (hd ?s) \<and> \<not> is_brace (last ?s)"
      using uuid_str_chars [of "hd ?s" u] uuid_str_chars [of "last ?s" u]
      by (auto simp: is_brace_def is_hex_def)
  qed
  moreover have "int16 ?h = Some u"
  proof -
    have ne: "?h \<noteq> []" by (metis length_hex_fixed list.size(3) zero_neq_numeral)
    have hx: "is_hex c" if "c \<in> set ?h" for c using that by (rule hex_fixed_hex)
    have "\<not> is_space (hd ?h)" "\<not> is_space (last ?h)"
      using hx [of "hd ?h"] hx [of "last ?h"] ne by (auto simp: is_hex_def is_space_def)
    then have "strip ?h = ?h"
      unfolding strip_def by (intro strip_by_id) simp
    moreover have "hd ?h \<noteq> 43" using hx [of "hd ?h"] ne by (auto simp: is_hex_def)
    moreover have "take 2 ?h \<noteq> U ''0x''" "take 2 ?h \<noteq> U ''0X''"
    proof -
      have "120 \<notin> set (take 2 ?h)" "88 \<notin> set (take 2 ?h)"
        using hx [of 120] hx [of 88] in_set_takeD [of _ 2 ?h] by (auto simp: is_hex_def)
      then show "take 2 ?h \<noteq> U ''0x''" "take 2 ?h \<noteq> U ''0X''"
        by (auto simp: U_def)
    qed
    moreover have "hex_val 0 False ?h = Some u"
      using hex_val_fixed [of 32 u] assms by (simp add: uuid_ok_def)
    ultimately show ?thesis by (simp add: int16_def Let_def)
  qed
  ultimately show ?thesis
    using assms by (simp add: parse_uuid_def Let_def remove_dash_uuid_str uuid_ok_def)
qed

lemma uuid_str_inject: "uuid_ok u \<Longrightarrow> uuid_ok v \<Longrightarrow> uuid_str u = uuid_str v \<longleftrightarrow> u = v"
  by (metis option.inject parse_uuid_str)

end
