(* ===== verification/JobStores.thy ===== *)
theory JobStores imports Matcher PyUuid begin

text \<open>
  The in-memory state of the two matching flows: \<open>services/blik_state_store.py\<close> and
  \<open>services/allegro_state_store.py\<close> with the jobs of \<open>services/domain/blik.py\<close> and
  \<open>services/domain/allegro.py\<close>. A job is an object shared by its manager, the caller and the
  task that runs it: the manager's dictionary is the store it lives in, and a change to the job is
  a change of its entry. The id that \<open>uuid4\<close> draws and the clock are arguments.
\<close>

section \<open>Jobs\<close>

datatype job_status = PENDING | RUNNING | DONE | FAILED

datatype outcome_status = Success | Failed

record outcome =
  oc_transaction_id :: int
  oc_status :: outcome_status
  oc_reason :: "ustring option"

record blik_outcome = outcome +
  oc_selected_match_id :: "ustring option"

record blik_decision =
  bd_transaction_id :: int
  bd_selected_match_id :: ustring

datatype strategy = StrategyAuto | StrategyManual | StrategyForce

record allegro_decision =
  ad_payment_id :: ustring
  ad_transaction_id :: int
  ad_strategy :: strategy

record 'o job =
  job_id :: uuid
  job_total :: nat
  job_stat :: job_status
  job_started_at :: instant
  job_applied :: nat
  job_failed :: nat
  job_results :: "'o list"
  job_finished_at :: "instant option"

record blik_job = "blik_outcome job" +
  bj_file_id :: ustring

record allegro_job = "outcome job" +
  aj_secret_id :: uuid

definition new_blik_job :: "uuid \<Rightarrow> instant \<Rightarrow> ustring \<Rightarrow> nat \<Rightarrow> blik_job" where
  "new_blik_job i now file_id n_total =
     \<lparr>job_id = i, job_total = n_total, job_stat = PENDING, job_started_at = now, job_applied = 0,
      job_failed = 0, job_results = [], job_finished_at = None, bj_file_id = file_id\<rparr>"

definition new_allegro_job :: "uuid \<Rightarrow> instant \<Rightarrow> uuid \<Rightarrow> nat \<Rightarrow> allegro_job" where
  "new_allegro_job i now secret_id n_total =
     \<lparr>job_id = i, job_total = n_total, job_stat = PENDING, job_started_at = now, job_applied = 0,
      job_failed = 0, job_results = [], job_finished_at = None, aj_secret_id = secret_id\<rparr>"

type_synonym blik_jobs = "(uuid, blik_job) dict"
type_synonym allegro_jobs = "(uuid, allegro_job) dict"

text \<open>\<open>BlikApplyJobManager\<close> and \<open>AllegroApplyJobManager\<close>\<close>

definition blik_job_create ::
    "uuid \<Rightarrow> instant \<Rightarrow> ustring \<Rightarrow> nat \<Rightarrow> blik_jobs \<Rightarrow> blik_job \<times> blik_jobs" where
  "blik_job_create i now file_id n_total jobs =
     (let job = new_blik_job i now file_id n_total in (job, dput (job_id job) job jobs))"

definition blik_job_get :: "blik_jobs \<Rightarrow> uuid \<Rightarrow> blik_job option" where
  "blik_job_get jobs i = dget jobs i"

definition allegro_job_create ::
    "uuid \<Rightarrow> instant \<Rightarrow> uuid \<Rightarrow> nat \<Rightarrow> allegro_jobs \<Rightarrow> allegro_job \<times> allegro_jobs" where
  "allegro_job_create i now secret_id n_total jobs =
     (let job = new_allegro_job i now secret_id n_total in (job, dput (job_id job) job jobs))"

definition allegro_job_get :: "allegro_jobs \<Rightarrow> uuid \<Rightarrow> allegro_job option" where
  "allegro_job_get jobs i = dget jobs i"

section \<open>\<open>BlikStateStore\<close>\<close>

record blik_store =
  bs_matches :: "(ustring, bank_record match_result list) dict"
  bs_jobs :: blik_jobs

definition blik_store_empty :: blik_store where
  "blik_store_empty = \<lparr>bs_matches = [], bs_jobs = []\<rparr>"

definition blik_put_matches ::
    "ustring \<Rightarrow> bank_record match_result list \<Rightarrow> blik_store \<Rightarrow> blik_store" where
  "blik_put_matches file_id matches s = s\<lparr>bs_matches := dput file_id matches (bs_matches s)\<rparr>"

definition blik_get_matches :: "blik_store \<Rightarrow> ustring \<Rightarrow> bank_record match_result list" where
  "blik_get_matches s file_id = (case dget (bs_matches s) file_id of None \<Rightarrow> [] | Some m \<Rightarrow> m)"

section \<open>\<open>AllegroStateStore\<close>\<close>

record page_request =
  pg_limit :: int
  pg_offset :: int

text \<open>\<open>AllegroPageRequest.__post_init__\<close>\<close>

definition mk_page :: "int \<Rightarrow> int \<Rightarrow> page_request res" where
  "mk_page limit offset =
     (if limit \<le> 0 then Inl (ValueError (U ''limit must be greater than 0''))
      else if offset < 0 then Inl (ValueError (U ''offset must be greater than or equal to 0''))
      else Inr \<lparr>pg_limit = limit, pg_offset = offset\<rparr>)"

definition default_page :: page_request where
  "default_page = \<lparr>pg_limit = 25, pg_offset = 0\<rparr>"

record page_entry =
  pe_page :: page_request
  pe_login :: ustring
  pe_payments :: "allegro_order_payment list"
  pe_matches :: "allegro_order_payment match_result list"
  pe_fetched_at :: instant

type_synonym page_cache = "(ustring, (page_request, page_entry) dict) dict"

record allegro_store =
  as_cache :: page_cache
  as_jobs :: allegro_jobs

definition allegro_store_empty :: allegro_store where
  "allegro_store_empty = \<lparr>as_cache = [], as_jobs = []\<rparr>"

definition cache_put :: "uuid \<Rightarrow> page_entry \<Rightarrow> page_cache \<Rightarrow> page_cache" where
  "cache_put secret_id entry c =
     (let secret_key = uuid_str secret_id;
          c' = (if secret_key \<notin> fst ` set c then dput secret_key [] c else c);
          inner = (case dget c' secret_key of None \<Rightarrow> [] | Some d \<Rightarrow> d)
      in dput secret_key (dput (pe_page entry) entry inner) c')"

definition cache_pages :: "page_cache \<Rightarrow> uuid \<Rightarrow> (page_request, page_entry) dict" where
  "cache_pages c secret_id = (case dget c (uuid_str secret_id) of None \<Rightarrow> [] | Some d \<Rightarrow> d)"

definition cache_invalidate_page :: "uuid \<Rightarrow> page_request \<Rightarrow> page_cache \<Rightarrow> bool \<times> page_cache" where
  "cache_invalidate_page secret_id page c =
     (let secret_key = uuid_str secret_id
      in case dget c secret_key of
           None \<Rightarrow> (False, c)
         | Some pages \<Rightarrow>
             (if page \<notin> fst ` set pages then (False, c)
              else let pages' = ddel page pages
                   in (True, if pages' = [] then ddel secret_key c else dput secret_key pages' c)))"

definition cache_invalidate_secret :: "uuid \<Rightarrow> page_cache \<Rightarrow> bool \<times> page_cache" where
  "cache_invalidate_secret secret_id c =
     (let secret_key = uuid_str secret_id
      in if secret_key \<notin> fst ` set c then (False, c) else (True, ddel secret_key c))"

definition allegro_put_page :: "uuid \<Rightarrow> page_entry \<Rightarrow> allegro_store \<Rightarrow> allegro_store" where
  "allegro_put_page secret_id entry s = s\<lparr>as_cache := cache_put secret_id entry (as_cache s)\<rparr>"

definition allegro_get_page ::
    "allegro_store \<Rightarrow> uuid \<Rightarrow> page_request \<Rightarrow> allegro_order_payment match_result list option" where
  "allegro_get_page s secret_id page =
     (case dget (cache_pages (as_cache s) secret_id) page of
        None \<Rightarrow> None
      | Some entry \<Rightarrow> Some (pe_matches entry))"

definition allegro_get_all ::
    "allegro_store \<Rightarrow> uuid \<Rightarrow> allegro_order_payment match_result list" where
  "allegro_get_all s secret_id =
     foldl (\<lambda>matches e. matches @ pe_matches (snd e)) [] (cache_pages (as_cache s) secret_id)"

definition allegro_invalidate_page ::
    "uuid \<Rightarrow> page_request \<Rightarrow> allegro_store \<Rightarrow> bool \<times> allegro_store" where
  "allegro_invalidate_page secret_id page s =
     (case cache_invalidate_page secret_id page (as_cache s) of (b, c) \<Rightarrow> (b, s\<lparr>as_cache := c\<rparr>))"

definition allegro_invalidate_secret :: "uuid \<Rightarrow> allegro_store \<Rightarrow> bool \<times> allegro_store" where
  "allegro_invalidate_secret secret_id s =
     (case cache_invalidate_secret secret_id (as_cache s) of (b, c) \<Rightarrow> (b, s\<lparr>as_cache := c\<rparr>))"

definition allegro_invalidate_all :: "allegro_store \<Rightarrow> allegro_store" where
  "allegro_invalidate_all s = s\<lparr>as_cache := []\<rparr>"

section \<open>The contract of a keyed store\<close>

text \<open>
  What every cache of the program promises its readers: nothing before the first write, and after
  a write the value written under that key and no change under any other.
\<close>

locale keyed_store =
  fixes start :: 's
    and look :: "'s \<Rightarrow> 'k \<Rightarrow> 'v option"
    and store :: "'k \<Rightarrow> 'v \<Rightarrow> 's \<Rightarrow> 's"
    and key_ok :: "'k \<Rightarrow> bool"
  assumes look_start: "look start k = None"
    and look_store:
      "key_ok k \<Longrightarrow> key_ok k' \<Longrightarrow> look (store k v s) k' = (if k' = k then Some v else look s k')"
begin

definition run :: "('k \<times> 'v) list \<Rightarrow> 's \<Rightarrow> 's" where
  "run ws s = fold (\<lambda>(k, v). store k v) ws s"

text \<open>After any writes a read returns the last value written under its key.\<close>

lemma look_run:
  "\<forall>(k, v) \<in> set ws. key_ok k \<Longrightarrow> key_ok k \<Longrightarrow>
     look (run ws s) k = (case map_of (rev ws) k of None \<Rightarrow> look s k | Some v \<Rightarrow> Some v)"
proof (induction ws arbitrary: s)
  case Nil
  then show ?case by (simp add: run_def)
next
  case (Cons w ws)
  obtain k0 v0 where w: "w = (k0, v0)" by (cases w)
  with Cons show ?case
    by (auto simp: run_def look_store map_add_def split: option.splits)
qed

lemma look_run_start:
  "\<forall>(k, v) \<in> set ws. key_ok k \<Longrightarrow> key_ok k \<Longrightarrow> look (run ws start) k = map_of (rev ws) k"
  by (simp add: look_run look_start split: option.splits)

end

interpretation blik_cache: keyed_store
  blik_store_empty "\<lambda>s k. dget (bs_matches s) k" blik_put_matches "\<lambda>_. True"
  by unfold_locales (simp_all add: blik_store_empty_def blik_put_matches_def dict_simps)

interpretation blik_job_store: keyed_store
  "[] :: blik_jobs" blik_job_get "\<lambda>k j. dput k j" "\<lambda>_. True"
  by unfold_locales (simp_all add: blik_job_get_def dict_simps)

interpretation allegro_job_store: keyed_store
  "[] :: allegro_jobs" allegro_job_get "\<lambda>k j. dput k j" "\<lambda>_. True"
  by unfold_locales (simp_all add: allegro_job_get_def dict_simps)

section \<open>The page cache is one map on pairs\<close>

text \<open>
  The invariant of the two-level cache: keys are distinct on both levels, no inner dictionary is
  empty, and an entry lies under its own page.
\<close>

definition cache_ok :: "page_cache \<Rightarrow> bool" where
  "cache_ok c \<longleftrightarrow> dict_ok c \<and>
     (\<forall>(k, pages) \<in> set c. pages \<noteq> [] \<and> dict_ok pages \<and> (\<forall>(p, e) \<in> set pages. pe_page e = p))"

definition cache_abs :: "page_cache \<Rightarrow> uuid \<times> page_request \<Rightarrow> page_entry option" where
  "cache_abs c k = dget (cache_pages c (fst k)) (snd k)"

lemma cache_ok_Nil [simp]: "cache_ok []"
  by (simp add: cache_ok_def)

lemma cache_ok_pages:
  assumes "cache_ok c" and "dget c k = Some pages"
  shows "pages \<noteq> []" and "dict_ok pages" and "(p, e) \<in> set pages \<Longrightarrow> pe_page e = p"
  using assms map_of_SomeD [OF assms(2)] by (auto simp: cache_ok_def)

lemma cache_ok_dput:
  assumes "cache_ok c" and "pages \<noteq> []" and "dict_ok pages"
    and "\<And>p e. (p, e) \<in> set pages \<Longrightarrow> pe_page e = p"
  shows "cache_ok (dput k pages c)"
  using assms set_dput [of k pages c] dict_ok_dput [of c k pages]
  by (fastforce simp: cache_ok_def)

lemma cache_ok_ddel: "cache_ok c \<Longrightarrow> cache_ok (ddel k c)"
  using dict_ok_ddel [of c k] unfolding cache_ok_def by (blast dest: subsetD [OF set_ddel])

lemma cache_put_eq:
  "cache_put i e c =
     dput (uuid_str i) (dput (pe_page e) e (cache_pages c i))
       (if uuid_str i \<notin> fst ` set c then dput (uuid_str i) [] c else c)"
  by (auto simp: cache_put_def cache_pages_def Let_def dict_simps key_iff split: option.splits)

lemma cache_put_one: "cache_put i e c = dput (uuid_str i) (dput (pe_page e) e (cache_pages c i)) c"
  by (simp add: cache_put_eq dput_dput)

lemma cache_ok_put [inv_intros]:
  assumes "cache_ok c"
  shows "cache_ok (cache_put i e c)"
  unfolding cache_put_one
proof (rule cache_ok_dput [OF assms])
  show "dict_ok (dput (pe_page e) e (cache_pages c i))"
    using assms cache_ok_pages(2)
    by (intro dict_ok_dput) (auto simp: cache_pages_def split: option.splits)
  fix p e'
  assume "(p, e') \<in> set (dput (pe_page e) e (cache_pages c i))"
  then show "pe_page e' = p"
    using set_dput [of "pe_page e" e "cache_pages c i"] assms
    by (auto simp: cache_pages_def split: option.splits dest: cache_ok_pages(3))
qed simp

lemma cache_ok_invalidate_page [inv_intros]:
  assumes "cache_ok c"
  shows "cache_ok (snd (cache_invalidate_page i p c))"
proof (cases "dget c (uuid_str i)")
  case None
  with assms show ?thesis by (simp add: cache_invalidate_page_def Let_def)
next
  case (Some pages)
  with assms have "cache_ok (dput (uuid_str i) (ddel p pages) c)" if "ddel p pages \<noteq> []"
    using that set_ddel [of p pages]
    by (intro cache_ok_dput) (auto intro: inv_intros dest: cache_ok_pages)
  with assms Some show ?thesis
    by (auto simp: cache_invalidate_page_def Let_def cache_ok_ddel)
qed

lemma cache_ok_invalidate_secret [inv_intros]:
  "cache_ok c \<Longrightarrow> cache_ok (snd (cache_invalidate_secret i c))"
  by (simp add: cache_invalidate_secret_def Let_def cache_ok_ddel)

text \<open>The operations, on the map.\<close>

lemma cache_abs_put:
  assumes "uuid_ok i" and "uuid_ok j"
  shows "cache_abs (cache_put i e c) (j, p) =
    (if (j, p) = (i, pe_page e) then Some e else cache_abs c (j, p))"
  using assms
  by (auto simp: cache_abs_def cache_put_one cache_pages_def dict_simps uuid_str_inject)

lemma cache_abs_invalidate_page:
  assumes "uuid_ok i" and "uuid_ok j"
  shows "cache_abs (snd (cache_invalidate_page i p c)) (j, q) =
      (if (j, q) = (i, p) then None else cache_abs c (j, q))"
    and "fst (cache_invalidate_page i p c) \<longleftrightarrow> cache_abs c (i, p) \<noteq> None"
proof -
  have del: "dget (ddel p pages) q = (if q = p then None else dget pages q)" for pages :: "(page_request, page_entry) dict"
    by (rule dget_ddel)
  have empty: "ddel p pages = [] \<Longrightarrow> q \<noteq> p \<Longrightarrow> dget pages q = None" for pages :: "(page_request, page_entry) dict"
    using del [of pages] by simp
  show "cache_abs (snd (cache_invalidate_page i p c)) (j, q) =
      (if (j, q) = (i, p) then None else cache_abs c (j, q))"
    using assms
    by (auto simp: cache_abs_def cache_invalidate_page_def cache_pages_def Let_def dict_simps
        uuid_str_inject empty key_iff split: option.splits)
  show "fst (cache_invalidate_page i p c) \<longleftrightarrow> cache_abs c (i, p) \<noteq> None"
    by (auto simp: cache_abs_def cache_invalidate_page_def cache_pages_def Let_def
        key_iff split: option.splits)
qed

lemma cache_abs_invalidate_secret:
  assumes "uuid_ok i" and "uuid_ok j"
  shows "cache_abs (snd (cache_invalidate_secret i c)) (j, q) =
    (if j = i then None else cache_abs c (j, q))"
  using assms
  by (auto simp: cache_abs_def cache_invalidate_secret_def cache_pages_def Let_def dict_simps
      uuid_str_inject key_iff split: option.splits)

lemma cache_invalidate_secret_found:
  assumes "cache_ok c"
  shows "fst (cache_invalidate_secret i c) \<longleftrightarrow> (\<exists>p. cache_abs c (i, p) \<noteq> None)"
proof (cases "dget c (uuid_str i)")
  case None
  then show ?thesis
    by (simp add: cache_invalidate_secret_def cache_abs_def cache_pages_def Let_def key_iff)
next
  case (Some pages)
  with assms have "pages \<noteq> []" by (auto dest: cache_ok_pages)
  then obtain p e r where "pages = (p, e) # r" by (cases pages) auto
  with Some have "cache_abs c (i, p) = Some e" by (simp add: cache_abs_def cache_pages_def)
  moreover from Some have "uuid_str i \<in> fst ` set c" by (simp add: key_iff)
  ultimately show ?thesis by (auto simp: cache_invalidate_secret_def Let_def)
qed


text \<open>The entry a page's parts make, and the parts back.\<close>

definition page_parts ::
    "page_entry \<Rightarrow> ustring \<times> allegro_order_payment list \<times> allegro_order_payment match_result list
       \<times> instant" where
  "page_parts e = (pe_login e, pe_payments e, pe_matches e, pe_fetched_at e)"

definition page_of ::
    "page_request \<Rightarrow> ustring \<times> allegro_order_payment list \<times> allegro_order_payment match_result list
       \<times> instant \<Rightarrow> page_entry" where
  "page_of p v = (case v of (l, ps, ms, t) \<Rightarrow>
     \<lparr>pe_page = p, pe_login = l, pe_payments = ps, pe_matches = ms, pe_fetched_at = t\<rparr>)"

lemma page_parts_of [simp]: "page_parts (page_of p v) = v" "pe_page (page_of p v) = p"
  by (simp_all add: page_parts_def page_of_def split: prod.splits)

interpretation page_store: keyed_store
  "[] :: page_cache" "\<lambda>c k. map_option page_parts (cache_abs c k)"
  "\<lambda>k v. cache_put (fst k) (page_of (snd k) v)" "\<lambda>k. uuid_ok (fst k)"
proof unfold_locales
  show "map_option page_parts (cache_abs [] k) = None" for k
    by (simp add: cache_abs_def cache_pages_def)
  fix k k' :: "uuid \<times> page_request" and v s
  assume "uuid_ok (fst k)" and "uuid_ok (fst k')"
  then show "map_option page_parts (cache_abs (cache_put (fst k) (page_of (snd k) v) s) k') =
      (if k' = k then Some v else map_option page_parts (cache_abs s k'))"
    using cache_abs_put [of "fst k" "fst k'" "page_of (snd k) v" s "snd k'"]
    by (auto simp: prod_eq_iff)
qed

text \<open>All matches of a secret are those of its pages, in the order the pages were first cached.\<close>

lemma allegro_get_all_concat:
  "allegro_get_all s i = concat (map (\<lambda>e. pe_matches (snd e)) (cache_pages (as_cache s) i))"
  by (simp add: allegro_get_all_def foldl_extend)

section \<open>What the two kinds of jobs share\<close>

definition match_index :: "'i match_result list \<Rightarrow> (int, 'i match_result) dict" where
  "match_index matches = dict_comp (\<lambda>m. tx_id (mr_tx m)) (\<lambda>m. m) matches"

text \<open>\<open>job.applied += 1\<close> or \<open>job.failed += 1\<close>, and the outcome appended.\<close>

definition count_outcome :: "('o outcome_scheme, 'x) job_scheme \<Rightarrow> 'o outcome_scheme \<Rightarrow> ('o outcome_scheme, 'x) job_scheme" where
  "count_outcome j oc =
     (let j' = (case oc_status oc of
                  Success \<Rightarrow> j\<lparr>job_applied := job_applied j + 1\<rparr>
                | Failed \<Rightarrow> j\<lparr>job_failed := job_failed j + 1\<rparr>)
      in j'\<lparr>job_results := job_results j' @ [oc]\<rparr>)"

text \<open>\<open>xs[:limit]\<close>: a negative bound counts from the end.\<close>

definition slice_to :: "int \<Rightarrow> 'a list \<Rightarrow> 'a list" where
  "slice_to n xs = (if 0 \<le> n then take (nat n) xs else take (length xs - nat (- n)) xs)"

text \<open>A job before its task ends, and after.\<close>

definition job_open :: "('o, 'x) job_scheme \<Rightarrow> bool" where
  "job_open j \<longleftrightarrow> job_applied j = 0 \<and> job_failed j = 0 \<and> job_results j = [] \<and> job_finished_at j = None"

definition job_closed :: "('o outcome_scheme, 'x) job_scheme \<Rightarrow> bool" where
  "job_closed j \<longleftrightarrow>
     job_stat j = DONE \<and> job_finished_at j \<noteq> None \<and> length (job_results j) = job_total j \<and>
     job_applied j = length (filter (\<lambda>oc. oc_status oc = Success) (job_results j)) \<and>
     job_failed j = length (filter (\<lambda>oc. oc_status oc = Failed) (job_results j))"

text \<open>Counting outcomes one by one is counting them all.\<close>

lemma outcome_not_success: "st \<noteq> Success \<longleftrightarrow> st = Failed"
  by (cases st) simp_all

lemma count_outcome_fields [simp]:
  "job_applied (count_outcome j oc) = job_applied j + (if oc_status oc = Success then 1 else 0)"
  "job_failed (count_outcome j oc) = job_failed j + (if oc_status oc = Failed then 1 else 0)"
  "job_results (count_outcome j oc) = job_results j @ [oc]"
  "job_total (count_outcome j oc) = job_total j"
  "job_id (count_outcome j oc) = job_id j"
  "job_stat (count_outcome j oc) = job_stat j"
  "job_finished_at (count_outcome j oc) = job_finished_at j"
  by (simp_all add: count_outcome_def Let_def split: outcome_status.splits)

lemma foldl_count_frame:
  "job_results (foldl count_outcome j ocs) = job_results j @ ocs \<and>
   job_total (foldl count_outcome j ocs) = job_total j \<and>
   job_id (foldl count_outcome j ocs) = job_id j \<and>
   job_stat (foldl count_outcome j ocs) = job_stat j \<and>
   job_finished_at (foldl count_outcome j ocs) = job_finished_at j"
  by (induction ocs arbitrary: j) simp_all

lemma foldl_count_applied:
  "job_applied (foldl count_outcome j ocs) =
     job_applied j + length (filter (\<lambda>oc. oc_status oc = Success) ocs)"
  by (induction ocs arbitrary: j) simp_all

lemma foldl_count_failed:
  "job_failed (foldl count_outcome j ocs) =
     job_failed j + length (filter (\<lambda>oc. oc_status oc = Failed) ocs)"
  by (induction ocs arbitrary: j) simp_all

lemmas foldl_count_outcome = foldl_count_frame foldl_count_applied foldl_count_failed

lemma count_both:
  "length (filter (\<lambda>oc. oc_status oc = Success) ocs) + length (filter (\<lambda>oc. oc_status oc = Failed) ocs)
     = length ocs"
  using filter_partition_length [of "\<lambda>oc. oc_status oc = Success" ocs]
  by (simp add: outcome_not_success)

lemma job_closed_counts: "job_closed j \<Longrightarrow> job_applied j + job_failed j = job_total j"
  unfolding job_closed_def using count_both [of "job_results j"] by simp

lemma distinct_map_others:
  "distinct (map f (pre @ t # post)) \<Longrightarrow> u \<in> set pre \<union> set post \<Longrightarrow> f u \<noteq> f t"
  by (simp add: image_iff) metis

end
