(* ===== verification/PySha.thy ===== *)
theory PySha imports PyUuid "HOL-Library.Word" begin

text \<open>
  \<open>hashlib.sha256(data).hexdigest()\<close>, on words of 32 bits: padding, message schedule, the 64
  rounds, and the digest in hexadecimal; SHA-1 and HMAC the same way. Bytes are naturals below 256.
\<close>

unbundle bit_operations_syntax

type_synonym w32 = "32 word"

text \<open>The constants in decimal, as the standard defines them: fractional parts of cube and square roots.\<close>

definition sha_k :: "w32 list" where
  "sha_k =
     [1116352408, 1899447441, 3049323471, 3921009573, 961987163, 1508970993,
      2453635748, 2870763221, 3624381080, 310598401, 607225278, 1426881987,
      1925078388, 2162078206, 2614888103, 3248222580, 3835390401, 4022224774,
      264347078, 604807628, 770255983, 1249150122, 1555081692, 1996064986,
      2554220882, 2821834349, 2952996808, 3210313671, 3336571891, 3584528711,
      113926993, 338241895, 666307205, 773529912, 1294757372, 1396182291,
      1695183700, 1986661051, 2177026350, 2456956037, 2730485921, 2820302411,
      3259730800, 3345764771, 3516065817, 3600352804, 4094571909, 275423344,
      430227734, 506948616, 659060556, 883997877, 958139571, 1322822218,
      1537002063, 1747873779, 1955562222, 2024104815, 2227730452, 2361852424,
      2428436474, 2756734187, 3204031479, 3329325298]"

definition sha_init :: "w32 list" where
  "sha_init =
     [1779033703, 3144134277, 1013904242, 2773480762, 1359893119, 2600822924,
      528734635, 1541459225]"

definition rotr :: "nat \<Rightarrow> w32 \<Rightarrow> w32" where
  "rotr n x = drop_bit n x OR push_bit (32 - n) x"

definition sha_pad :: "nat list \<Rightarrow> nat list" where
  "sha_pad m =
     (let n = length m; z = (119 - n mod 64) mod 64; bits = 8 * n
      in m @ [128] @ replicate z 0 @ map (\<lambda>i. bits div 256 ^ i mod 256) (rev [0..<8]))"

fun sha_words :: "nat list \<Rightarrow> w32 list" where
  "sha_words (a # b # c # d # r) =
     of_nat (a * 16777216 + b * 65536 + c * 256 + d) # sha_words r"
| "sha_words _ = []"

fun chunks_of :: "nat \<Rightarrow> 'a list \<Rightarrow> 'a list list" where
  "chunks_of 0 xs = []"
| "chunks_of (Suc k) xs = take 16 xs # chunks_of k (drop 16 xs)"

text \<open>The schedule, newest word first: 48 words are added to the 16 of the chunk.\<close>

definition sha_next :: "w32 list \<Rightarrow> w32" where
  "sha_next w =
     (let a = w ! 14; b = w ! 1;
          s0 = rotr 7 a XOR rotr 18 a XOR drop_bit 3 a;
          s1 = rotr 17 b XOR rotr 19 b XOR drop_bit 10 b
      in w ! 15 + s0 + w ! 6 + s1)"

definition sha_schedule :: "w32 list \<Rightarrow> w32 list" where
  "sha_schedule chunk = rev (((\<lambda>w. sha_next w # w) ^^ 48) (rev chunk))"

fun sha_round :: "w32 \<times> w32 \<Rightarrow> w32 list \<Rightarrow> w32 list" where
  "sha_round (k, x) [a, b, c, d, e, f, g, h] =
     (let s1 = rotr 6 e XOR rotr 11 e XOR rotr 25 e;
          ch = (e AND f) XOR (NOT e AND g);
          t1 = h + s1 + ch + k + x;
          s0 = rotr 2 a XOR rotr 13 a XOR rotr 22 a;
          maj = (a AND b) XOR (a AND c) XOR (b AND c)
      in [t1 + s0 + maj, a, b, c, d + t1, e, f, g])"
| "sha_round _ s = s"

definition sha_chunk :: "w32 list \<Rightarrow> w32 list \<Rightarrow> w32 list" where
  "sha_chunk chunk st = map2 (+) st (fold sha_round (zip sha_k (sha_schedule chunk)) st)"

definition sha256_words :: "nat list \<Rightarrow> w32 list" where
  "sha256_words m =
     (let ws = sha_words (sha_pad m) in fold sha_chunk (chunks_of (length ws div 16) ws) sha_init)"

definition sha256_hexdigest :: "nat list \<Rightarrow> ustring" where
  "sha256_hexdigest m = concat (map (\<lambda>w. hex_fixed 8 (unat w)) (sha256_words m))"

text \<open>\<open>hashlib.sha1(data).hexdigest()\<close>: the same padding, 80 rounds on five words.\<close>

definition rotl :: "nat \<Rightarrow> w32 \<Rightarrow> w32" where
  "rotl n x = push_bit n x OR drop_bit (32 - n) x"

definition sha1_init :: "w32 list" where
  "sha1_init = [0x67452301, 0xefcdab89, 0x98badcfe, 0x10325476, 0xc3d2e1f0]"

definition sha1_next :: "w32 list \<Rightarrow> w32" where
  "sha1_next w = rotl 1 (w ! 2 XOR w ! 7 XOR w ! 13 XOR w ! 15)"

definition sha1_schedule :: "w32 list \<Rightarrow> w32 list" where
  "sha1_schedule chunk = rev (((\<lambda>w. sha1_next w # w) ^^ 64) (rev chunk))"

fun sha1_round :: "nat \<times> w32 \<Rightarrow> w32 list \<Rightarrow> w32 list" where
  "sha1_round (i, x) [a, b, c, d, e] =
     (let fk = (if i < 20 then ((b AND c) OR (NOT b AND d), 0x5a827999)
                else if i < 40 then (b XOR c XOR d, 0x6ed9eba1)
                else if i < 60 then ((b AND c) OR (b AND d) OR (c AND d), 0x8f1bbcdc)
                else (b XOR c XOR d, 0xca62c1d6))
      in [rotl 5 a + fst fk + e + snd fk + x, a, rotl 30 b, c, d])"
| "sha1_round _ s = s"

definition sha1_chunk :: "w32 list \<Rightarrow> w32 list \<Rightarrow> w32 list" where
  "sha1_chunk chunk st = map2 (+) st (fold sha1_round (enumerate 0 (sha1_schedule chunk)) st)"

definition sha1_words :: "nat list \<Rightarrow> w32 list" where
  "sha1_words m =
     (let ws = sha_words (sha_pad m) in fold sha1_chunk (chunks_of (length ws div 16) ws) sha1_init)"

definition sha1_hexdigest :: "nat list \<Rightarrow> ustring" where
  "sha1_hexdigest m = concat (map (\<lambda>w. hex_fixed 8 (unat w)) (sha1_words m))"

text \<open>\<open>hmac.new(key, msg, sha256).hexdigest()\<close>\<close>

definition word_bytes :: "w32 \<Rightarrow> nat list" where
  "word_bytes w = map (\<lambda>i. unat w div 256 ^ i mod 256) [3, 2, 1, 0]"

definition sha256_bytes :: "nat list \<Rightarrow> nat list" where
  "sha256_bytes m = concat (map word_bytes (sha256_words m))"

definition xor_byte :: "nat \<Rightarrow> nat \<Rightarrow> nat" where
  "xor_byte a b = a XOR b"

definition hmac_sha256_hexdigest :: "nat list \<Rightarrow> nat list \<Rightarrow> ustring" where
  "hmac_sha256_hexdigest key m =
     (let k0 = (if 64 < length key then sha256_bytes key else key);
          k = k0 @ replicate (64 - length k0) 0
      in sha256_hexdigest (map (xor_byte 0x5c) k @ sha256_bytes (map (xor_byte 0x36) k @ m)))"

text \<open>A digest has eight words, so 64 hex digits.\<close>

lemma length_sha_round: "length (sha_round x s) = length s"
  by (induction x s rule: sha_round.induct) (simp_all add: Let_def)

lemma length_fold_round: "length (fold sha_round xs s) = length s"
  by (induction xs arbitrary: s) (simp_all add: length_sha_round)

lemma length_sha_chunk: "length (sha_chunk c s) = length s"
  by (simp add: sha_chunk_def length_fold_round)

lemma length_sha256_words: "length (sha256_words m) = 8"
proof -
  have "length (fold sha_chunk cs s) = length s" for cs s
    by (induction cs arbitrary: s) (simp_all add: length_sha_chunk)
  then show ?thesis by (simp add: sha256_words_def Let_def sha_init_def)
qed

lemma length_hexdigest [simp]: "length (sha256_hexdigest m) = 64"
  by (simp add: sha256_hexdigest_def length_concat comp_def sum_list_triv length_sha256_words)

lemma hexdigest_hex: "c \<in> set (sha256_hexdigest m) \<Longrightarrow> is_hex c"
  by (auto simp: sha256_hexdigest_def dest: hex_fixed_hex)

end
