(* ===== verification/PyBytes.thy ===== *)
theory PyBytes imports PyText begin

text \<open>
  \<open>utils/encoding.py\<close>: \<open>str.encode\<close> and \<open>bytes.decode\<close> for UTF-8, the URL-safe base64 of the
  standard library, and the two functions that make file names into ids and back. Bytes are
  naturals below 256; \<open>None\<close> is the \<open>UnicodeError\<close> or \<open>binascii.Error\<close> raised.
\<close>

section \<open>UTF-8\<close>

definition is_surrogate :: "nat \<Rightarrow> bool" where
  "is_surrogate c \<longleftrightarrow> 0xD800 \<le> c \<and> c < 0xE000"

definition utf8_cp :: "nat \<Rightarrow> nat list option" where
  "utf8_cp c =
     (if c < 0x80 then Some [c]
      else if c < 0x800 then Some [0xC0 + c div 64, 0x80 + c mod 64]
      else if is_surrogate c then None
      else if c < 0x10000
      then Some [0xE0 + c div 4096, 0x80 + c div 64 mod 64, 0x80 + c mod 64]
      else if c < 0x110000
      then Some [0xF0 + c div 262144, 0x80 + c div 4096 mod 64, 0x80 + c div 64 mod 64,
                 0x80 + c mod 64]
      else None)"

fun utf8_encode :: "ustring \<Rightarrow> nat list option" where
  "utf8_encode [] = Some []"
| "utf8_encode (c # cs) =
     (case utf8_cp c of
        None \<Rightarrow> None
      | Some b \<Rightarrow> (case utf8_encode cs of None \<Rightarrow> None | Some bs \<Rightarrow> Some (b @ bs)))"

definition is_cont :: "nat \<Rightarrow> bool" where
  "is_cont b \<longleftrightarrow> 0x80 \<le> b \<and> b < 0xC0"

text \<open>One character off the front: its code point and the number of bytes it takes.\<close>

definition utf8_next :: "nat list \<Rightarrow> (nat \<times> nat) option" where
  "utf8_next s =
     (case s of
        [] \<Rightarrow> None
      | b # r \<Rightarrow>
          (if b < 0x80 then Some (b, 1)
           else if 0xC2 \<le> b \<and> b < 0xE0 \<and> 1 \<le> length r \<and> is_cont (r ! 0)
           then Some ((b - 0xC0) * 64 + (r ! 0 - 0x80), 2)
           else if 0xE0 \<le> b \<and> b < 0xF0 \<and> 2 \<le> length r \<and> is_cont (r ! 0) \<and> is_cont (r ! 1)
           then (let c = (b - 0xE0) * 4096 + (r ! 0 - 0x80) * 64 + (r ! 1 - 0x80)
                 in if 0x800 \<le> c \<and> \<not> is_surrogate c then Some (c, 3) else None)
           else if 0xF0 \<le> b \<and> b < 0xF5 \<and> 3 \<le> length r \<and> is_cont (r ! 0) \<and> is_cont (r ! 1)
                   \<and> is_cont (r ! 2)
           then (let c = (b - 0xF0) * 262144 + (r ! 0 - 0x80) * 4096 + (r ! 1 - 0x80) * 64
                         + (r ! 2 - 0x80)
                 in if 0x10000 \<le> c \<and> c < 0x110000 then Some (c, 4) else None)
           else None))"

function utf8_decode :: "nat list \<Rightarrow> ustring option" where
  "utf8_decode s =
     (if s = [] then Some []
      else case utf8_next s of
             None \<Rightarrow> None
           | Some (c, n) \<Rightarrow>
               (case utf8_decode (drop n s) of None \<Rightarrow> None | Some cs \<Rightarrow> Some (c # cs)))"
  by pat_completeness auto
termination
proof (relation "measure length")
  fix s :: "nat list" and x c n
  assume "s \<noteq> []" and "utf8_next s = Some x" and "(c, n) = x"
  then have "0 < n"
    by (auto simp: utf8_next_def Let_def split: list.splits if_splits)
  with \<open>s \<noteq> []\<close> show "(drop n s, s) \<in> measure length"
    by (cases s) auto
qed simp

declare utf8_decode.simps [simp del]

lemma digits3: "c div 4096 * 4096 + c div 64 mod 64 * 64 + c mod 64 = (c::nat)"
proof -
  have "c div 64 div 64 = c div 4096" by (simp flip: div_mult2_eq)
  moreover have "c div 64 = c div 64 div 64 * 64 + c div 64 mod 64" "c = c div 64 * 64 + c mod 64"
    by simp_all
  ultimately show ?thesis by linarith
qed

lemma digits4:
  "c div 262144 * 262144 + c div 4096 mod 64 * 4096 + c div 64 mod 64 * 64 + c mod 64 = (c::nat)"
proof -
  have "c div 4096 div 64 = c div 262144" by (simp flip: div_mult2_eq)
  moreover have "c div 4096 = c div 4096 div 64 * 64 + c div 4096 mod 64" by simp
  ultimately show ?thesis using digits3 [of c] by linarith
qed

lemma utf8_next_cp:
  assumes "utf8_cp c = Some b"
  shows "utf8_next (b @ r) = Some (c, length b)"
proof -
  consider "c < 0x80" | "0x80 \<le> c" "c < 0x800" | "0x800 \<le> c" "c < 0x10000" "\<not> is_surrogate c"
    | "0x10000 \<le> c" "c < 0x110000" "\<not> is_surrogate c"
    using assms by (fastforce simp: utf8_cp_def is_surrogate_def split: if_splits)
  then show ?thesis
  proof cases
    case 1
    with assms show ?thesis by (auto simp: utf8_cp_def utf8_next_def)
  next
    case 2
    have "c div 64 * 64 + c mod 64 = c" by simp
    moreover have "2 \<le> c div 64" "c div 64 < 32" using 2 by auto
    ultimately show ?thesis
      using assms 2 by (auto simp: utf8_cp_def utf8_next_def is_cont_def)
  next
    case 3
    have "c div 4096 * 4096 + c div 64 mod 64 * 64 + c mod 64 = c"
      by (rule digits3)
    moreover have "c div 4096 < 16" using 3 by auto
    ultimately show ?thesis
      using assms 3 by (auto simp: utf8_cp_def utf8_next_def is_cont_def Let_def)
  next
    case 4
    have "c div 262144 * 262144 + c div 4096 mod 64 * 4096 + c div 64 mod 64 * 64 + c mod 64 = c"
      by (rule digits4)
    moreover have "c div 262144 < 5" using 4 by auto
    ultimately show ?thesis
      using assms 4 by (auto simp: utf8_cp_def utf8_next_def is_cont_def Let_def)
  qed
qed

lemma utf8_cp_nonempty: "utf8_cp c = Some b \<Longrightarrow> b \<noteq> []"
  by (auto simp: utf8_cp_def split: if_splits)

lemma utf8_decode_encode: "utf8_encode s = Some b \<Longrightarrow> utf8_decode b = Some s"
proof (induction s arbitrary: b)
  case Nil
  then show ?case by (simp add: utf8_decode.simps)
next
  case (Cons c cs)
  then obtain x y where xy: "utf8_cp c = Some x" "utf8_encode cs = Some y" "b = x @ y"
    by (auto split: option.splits)
  with Cons.IH have "utf8_decode y = Some cs" by simp
  with xy show ?case
    by (subst utf8_decode.simps) (simp add: utf8_next_cp utf8_cp_nonempty)
qed

lemma utf8_cp_bytes: "utf8_cp c = Some b \<Longrightarrow> x \<in> set b \<Longrightarrow> x < 256"
  by (auto simp: utf8_cp_def split: if_splits)

lemma utf8_encode_bytes: "utf8_encode s = Some b \<Longrightarrow> x \<in> set b \<Longrightarrow> x < 256"
  by (induction s arbitrary: b) (auto split: option.splits dest: utf8_cp_bytes)

section \<open>URL-safe base64\<close>

definition b64_char :: "nat \<Rightarrow> nat" where
  "b64_char n = (if n < 26 then 65 + n else if n < 52 then 71 + n else if n < 62 then n - 4
                 else if n = 62 then 45 else 95)"

fun b64_encode :: "nat list \<Rightarrow> ustring" where
  "b64_encode [] = []"
| "b64_encode [a] = [b64_char (a div 4), b64_char (a mod 4 * 16), 61, 61]"
| "b64_encode [a, b] =
     [b64_char (a div 4), b64_char (a mod 4 * 16 + b div 16), b64_char (b mod 16 * 4), 61]"
| "b64_encode (a # b # c # r) =
     b64_char (a div 4) # b64_char (a mod 4 * 16 + b div 16) # b64_char (b mod 16 * 4 + c div 64)
       # b64_char (c mod 64) # b64_encode r"

text \<open>
  The decoder first turns \<open>-\<close> and \<open>_\<close> into \<open>+\<close> and \<open>/\<close>, so all four are accepted; a
  character outside the alphabet is skipped.
\<close>

definition b64_value :: "nat \<Rightarrow> nat option" where
  "b64_value c =
     (if 65 \<le> c \<and> c \<le> 90 then Some (c - 65)
      else if 97 \<le> c \<and> c \<le> 122 then Some (c - 71)
      else if 48 \<le> c \<and> c \<le> 57 then Some (c + 4)
      else if c = 45 \<or> c = 43 then Some 62
      else if c = 95 \<or> c = 47 then Some 63
      else None)"

text \<open>The decoder's loop: position in the group of four, bits left over, and pads seen.\<close>

fun b64_scan :: "nat \<Rightarrow> nat \<Rightarrow> nat \<Rightarrow> ustring \<Rightarrow> nat list option" where
  "b64_scan quad left pads [] = (if quad = 0 then Some [] else None)"
| "b64_scan quad left pads (c # cs) =
     (if c = 61 then
        (if 2 \<le> quad then
           (if 4 \<le> quad + Suc pads then Some [] else b64_scan quad left (Suc pads) cs)
         else b64_scan quad left pads cs)
      else case b64_value c of
             None \<Rightarrow> b64_scan quad left pads cs
           | Some v \<Rightarrow>
               (if quad = 0 then b64_scan 1 v 0 cs
                else if quad = 1 then map_option ((#) (left * 4 + v div 16)) (b64_scan 2 (v mod 16) 0 cs)
                else if quad = 2 then map_option ((#) (left * 16 + v div 4)) (b64_scan 3 (v mod 4) 0 cs)
                else map_option ((#) (left * 64 + v)) (b64_scan 0 0 0 cs)))"

definition b64_decode :: "ustring \<Rightarrow> nat list option" where
  "b64_decode s = (if \<exists>c \<in> set s. 128 \<le> c then None else b64_scan 0 0 0 s)"

section \<open>File ids\<close>

definition encode_base64url :: "ustring \<Rightarrow> ustring option" where
  "encode_base64url s =
     (case utf8_encode s of None \<Rightarrow> None
      | Some b \<Rightarrow> Some (rstrip_by (\<lambda>c. c = 61) (b64_encode b)))"

definition decode_base64url :: "ustring \<Rightarrow> ustring option" where
  "decode_base64url s =
     (let t = strip s;
          missing = length t mod 4;
          p = (if missing \<noteq> 0 then t @ replicate (4 - missing) 61 else t)
      in case b64_decode p of None \<Rightarrow> None | Some b \<Rightarrow> utf8_decode b)"

section \<open>Round trip\<close>

lemma b64_value_char [simp]: "n < 64 \<Longrightarrow> b64_value (b64_char n) = Some n"
  by (auto simp: b64_value_def b64_char_def)

lemma b64_char_range:
  "n < 64 \<Longrightarrow> b64_char n \<noteq> 61 \<and> b64_char n < 128 \<and> \<not> is_space (b64_char n)"
  by (auto simp: b64_char_def is_space_def)

lemma b64_char_pad [simp]: "n < 64 \<Longrightarrow> b64_char n \<noteq> 61"
  by (simp add: b64_char_range)

text \<open>The encoding without its padding, and what is missing of it.\<close>

fun b64_body :: "nat list \<Rightarrow> ustring" where
  "b64_body [] = []"
| "b64_body [a] = [b64_char (a div 4), b64_char (a mod 4 * 16)]"
| "b64_body [a, b] =
     [b64_char (a div 4), b64_char (a mod 4 * 16 + b div 16), b64_char (b mod 16 * 4)]"
| "b64_body (a # b # c # r) =
     b64_char (a div 4) # b64_char (a mod 4 * 16 + b div 16) # b64_char (b mod 16 * 4 + c div 64)
       # b64_char (c mod 64) # b64_body r"

definition b64_padding :: "nat \<Rightarrow> ustring" where
  "b64_padding n = (if n mod 4 = 0 then [] else replicate (4 - n mod 4) 61)"

lemma b64_encode_body: "b64_encode bs = b64_body bs @ b64_padding (length (b64_body bs))"
  by (induction bs rule: b64_encode.induct) (simp_all add: b64_padding_def numeral_2_eq_2)

lemma six_bits:
  "a < 256 \<Longrightarrow> a div 4 < (64::nat)" "a mod 4 * 16 < (64::nat)" "b mod 16 * 4 < (64::nat)"
  "c mod 64 < (64::nat)"
  by auto

lemma six_bits_joined:
  "b < 256 \<Longrightarrow> a mod 4 * 16 + b div 16 < (64::nat)"
  "c < 256 \<Longrightarrow> b mod 16 * 4 + c div 64 < (64::nat)"
proof -
  have "a mod 4 < 4" "b mod 16 < 16" by auto
  moreover have "b < 256 \<Longrightarrow> b div 16 < 16" "c < 256 \<Longrightarrow> c div 64 < 4" by auto
  ultimately show "b < 256 \<Longrightarrow> a mod 4 * 16 + b div 16 < 64" "c < 256 \<Longrightarrow> b mod 16 * 4 + c div 64 < 64"
    by linarith+
qed

lemma b64_body_chars:
  "\<forall>x \<in> set bs. x < 256 \<Longrightarrow> c \<in> set (b64_body bs) \<Longrightarrow> \<exists>n < 64. c = b64_char n"
  by (induction bs rule: b64_body.induct) (auto intro: six_bits six_bits_joined)

lemma byte_parts:
  "b < 256 \<Longrightarrow> b div 16 < (16::nat)" "c < 256 \<Longrightarrow> c div 64 < (4::nat)"
  by auto

lemma b64_scan_char:
  "n < 64 \<Longrightarrow> b64_scan 0 l p (b64_char n # cs) = b64_scan (Suc 0) n 0 cs"
  "n < 64 \<Longrightarrow> b64_scan (Suc 0) l p (b64_char n # cs) =
     map_option ((#) (l * 4 + n div 16)) (b64_scan 2 (n mod 16) 0 cs)"
  "n < 64 \<Longrightarrow> b64_scan 2 l p (b64_char n # cs) =
     map_option ((#) (l * 16 + n div 4)) (b64_scan 3 (n mod 4) 0 cs)"
  "n < 64 \<Longrightarrow> b64_scan 3 l p (b64_char n # cs) =
     map_option ((#) (l * 64 + n)) (b64_scan 0 0 0 cs)"
  "b64_scan 2 l 0 [61, 61] = Some []" "b64_scan 3 l 0 [61] = Some []" "b64_scan 0 l p [] = Some []"
  by simp_all

lemma b64_scan_encode:
  "\<forall>x \<in> set bs. x < 256 \<Longrightarrow> b64_scan 0 l p (b64_encode bs) = Some bs"
  by (induction bs arbitrary: l p rule: b64_encode.induct)
     (simp_all add: b64_scan_char six_bits six_bits_joined byte_parts div_less mod_less del: b64_scan.simps)

lemma rstrip_pad:
  assumes "s = [] \<or> last s \<noteq> 61"
  shows "rstrip_by (\<lambda>c. c = 61) (s @ replicate k 61) = s"
proof -
  have "dropWhile (\<lambda>c. c = 61) (replicate k 61 @ rev s) = rev s"
    using assms by (induction k) (cases s rule: rev_cases, auto)+
  then show ?thesis by (simp add: rstrip_by_def)
qed

text \<open>The id of a file name decodes to the file name.\<close>

lemma encode_base64url_body:
  assumes "encode_base64url s = Some i"
  shows "\<exists>b. utf8_encode s = Some b \<and> i = b64_body b"
proof -
  from assms obtain b where b: "utf8_encode s = Some b"
    and i: "i = rstrip_by (\<lambda>c. c = 61) (b64_encode b)"
    by (auto simp: encode_base64url_def split: option.splits)
  have "b64_body b = [] \<or> last (b64_body b) \<noteq> 61"
    using b64_body_chars [of b "last (b64_body b)"] utf8_encode_bytes [OF b]
    by (metis b64_char_pad last_in_set)
  then have "i = b64_body b"
    unfolding i b64_encode_body b64_padding_def using rstrip_pad [of "b64_body b"] rstrip_pad [of "b64_body b" 0]
    by auto
  with b show ?thesis by blast
qed

lemma decode_encode_base64url:
  assumes "encode_base64url s = Some i"
  shows "decode_base64url i = Some s"
proof -
  obtain b where b: "utf8_encode s = Some b" and i: "i = b64_body b"
    using encode_base64url_body [OF assms] by blast
  have bytes: "\<forall>x \<in> set b. x < 256" using utf8_encode_bytes [OF b] by blast
  have "strip i = i"
    unfolding strip_def i
  proof (rule strip_by_id)
    show "b64_body b = [] \<or> \<not> is_space (hd (b64_body b)) \<and> \<not> is_space (last (b64_body b))"
      using b64_body_chars [OF bytes] b64_char_range
      by (metis hd_in_set last_in_set)
  qed
  moreover have "(if length i mod 4 \<noteq> 0 then i @ replicate (4 - length i mod 4) 61 else i) = b64_encode b"
    by (simp add: i b64_encode_body b64_padding_def)
  moreover have "\<not> (\<exists>c \<in> set (b64_encode b). 128 \<le> c)"
    using b64_body_chars [OF bytes] b64_char_range
    by (fastforce simp: b64_encode_body b64_padding_def split: if_splits)
  ultimately show ?thesis
    using b64_scan_encode [OF bytes] utf8_decode_encode [OF b]
    by (simp add: decode_base64url_def b64_decode_def Let_def)
qed

end
