(* ===== verification/PyFloat.thy ===== *)
theory PyFloat imports Prelude PyDecimal begin

text \<open>
  Python's \<open>float\<close> on the numbers the program computes with: binary64 values are rational numbers
  with a significand of 53 bits, and every operation is the exact one followed by rounding to
  nearest, ties to even. The scores of the program stay between 1e-80 and 20, far from overflow and
  from the subnormal range, so their exponent is not bounded here; the amounts that \<open>float\<close> converts
  can be any, and \<open>float_of_decimal\<close> has the whole range with its special values.
\<close>

section \<open>Rounding to integers\<close>

definition rhe :: "rat \<Rightarrow> int" where
  "rhe x = (let n = \<lfloor>x\<rfloor>; d = x - of_int n
            in if d < 1 / 2 then n else if 1 / 2 < d then n + 1 else if even n then n else n + 1)"

lemma rhe_cases: "rhe x = \<lfloor>x\<rfloor> \<or> rhe x = \<lfloor>x\<rfloor> + 1"
  by (simp add: rhe_def Let_def)

lemma rhe_of_int [simp]: "rhe (of_int n) = n"
  by (simp add: rhe_def)

lemma rhe_close: "\<bar>of_int (rhe x) - x\<bar> \<le> 1 / 2"
proof -
  have "of_int \<lfloor>x\<rfloor> \<le> x" "x < of_int \<lfloor>x\<rfloor> + 1" by linarith+
  then show ?thesis unfolding rhe_def Let_def abs_le_iff by (auto; linarith)
qed

lemma rhe_mono: "x \<le> y \<Longrightarrow> rhe x \<le> rhe y"
proof (cases "\<lfloor>x\<rfloor> = \<lfloor>y\<rfloor>")
  case True
  moreover assume "x \<le> y"
  ultimately show ?thesis by (auto simp: rhe_def Let_def)
next
  case False
  moreover assume "x \<le> y"
  ultimately have "\<lfloor>x\<rfloor> + 1 \<le> \<lfloor>y\<rfloor>" using floor_mono [of x y] by linarith
  with rhe_cases [of x] rhe_cases [of y] show ?thesis by linarith
qed

section \<open>The binary exponent\<close>

fun nbits :: "nat \<Rightarrow> nat" where
  "nbits n = (if n = 0 then 0 else Suc (nbits (n div 2)))"

declare nbits.simps [simp del]

lemma nbits_0 [simp]: "nbits 0 = 0"
  by (simp add: nbits.simps)

lemma nbits_pos: "0 < n \<Longrightarrow> nbits n = Suc (nbits (n div 2))"
  by (subst nbits.simps) simp

lemma nbits_upper: "n < 2 ^ nbits n"
proof (induction n rule: nbits.induct)
  case (1 n)
  show ?case
  proof (cases "n = 0")
    case False
    with 1 have "n div 2 < 2 ^ nbits (n div 2)" by blast
    with False show ?thesis by (simp add: nbits_pos)
  qed simp
qed

lemma nbits_lower: "0 < n \<Longrightarrow> 2 ^ nbits n \<le> 2 * n"
proof (induction n rule: nbits.induct)
  case (1 n)
  show ?case
  proof (cases "n div 2 = 0")
    case True
    with 1(2) have "n = 1" by simp
    then show ?thesis by (simp add: nbits_pos)
  next
    case False
    with 1 have "2 ^ nbits (n div 2) \<le> 2 * (n div 2)" by simp
    with 1(2) show ?thesis by (simp add: nbits_pos)
  qed
qed

definition pow2 :: "int \<Rightarrow> rat" where
  "pow2 i = (if 0 \<le> i then 2 ^ nat i else 1 / 2 ^ nat (- i))"

lemma pow2_powi: "pow2 i = 2 powi i"
  by (simp add: pow2_def power_int_def power_one_over)

lemma pow2_pos [simp]: "0 < pow2 i"
  by (simp add: pow2_def)

lemma pow2_nz [simp]: "pow2 i \<noteq> 0"
  by (simp add: pow2_def)

lemma of_int_mono_rat: "a \<le> b \<Longrightarrow> rat_of_int a \<le> rat_of_int b"
  by simp

lemma pow2_add: "pow2 (i + j) = pow2 i * pow2 j"
  by (simp add: pow2_powi power_int_add)

lemma pow2_mono: "i \<le> j \<Longrightarrow> pow2 i \<le> pow2 j"
  unfolding pow2_powi by (rule power_int_increasing) simp_all

lemma pow2_less: "i < j \<Longrightarrow> pow2 i < pow2 j"
  unfolding pow2_powi by (rule power_int_strict_increasing) simp_all

lemma pow2_less_iff: "pow2 i < pow2 j \<longleftrightarrow> i < j"
  using pow2_less [of i j] pow2_mono [of j i] by force

lemma pow2_nat: "pow2 (int n) = 2 ^ n"
  by (simp add: pow2_def)

definition flog2 :: "rat \<Rightarrow> int" where
  "flog2 x =
     (case quotient_of x of
        (p, q) \<Rightarrow> (let k = int (nbits (nat p)) - int (nbits (nat q))
                  in if pow2 k \<le> x then k else k - 1))"

lemma flog2_bounds:
  assumes "0 < x"
  shows "pow2 (flog2 x) \<le> x" and "x < pow2 (flog2 x + 1)"
proof -
  obtain p q where pq: "quotient_of x = (p, q)" by fastforce
  have q: "0 < q" using pq by (rule quotient_of_denom_pos)
  have x: "x = of_int p / of_int q" using pq by (rule quotient_of_div)
  with assms q have p: "0 < p" by (simp add: zero_less_divide_iff)
  define a b where "a = nbits (nat p)" and "b = nbits (nat q)"
  have pa: "(of_int p :: rat) < 2 ^ a" "(2 :: rat) ^ a \<le> 2 * of_int p"
    using nbits_upper [of "nat p"] nbits_lower [of "nat p"] p unfolding a_def
    by (simp_all flip: of_nat_less_iff [where 'a=rat] of_nat_le_iff [where 'a=rat])
  have qb: "(of_int q :: rat) < 2 ^ b" "(2 :: rat) ^ b \<le> 2 * of_int q"
    using nbits_upper [of "nat q"] nbits_lower [of "nat q"] q unfolding b_def
    by (simp_all flip: of_nat_less_iff [where 'a=rat] of_nat_le_iff [where 'a=rat])
  have k: "pow2 (int a - int b) = 2 ^ a / 2 ^ b"
    by (simp add: pow2_powi power_int_diff)
  have "x < 2 * (2 ^ a / 2 ^ b)"
  proof -
    have "x * 2 ^ b \<le> x * (2 * of_int q)" using qb(2) assms by (intro mult_left_mono) auto
    also have "\<dots> = 2 * of_int p" using q by (simp add: x)
    also have "\<dots> < 2 * 2 ^ a" using pa(1) by simp
    finally show ?thesis by (simp add: field_simps)
  qed
  moreover have "2 ^ a / 2 ^ b < 2 * x"
  proof -
    have "2 ^ a \<le> 2 * (of_int p :: rat)" by (rule pa(2))
    also have "\<dots> = 2 * x * of_int q" using q by (simp add: x)
    also have "\<dots> < 2 * x * 2 ^ b" using qb(1) assms by (intro mult_strict_left_mono) auto
    finally show ?thesis by (simp add: field_simps)
  qed
  moreover have "pow2 (int a - int b - 1) = 2 ^ a / 2 ^ b / 2" "pow2 (int a - int b + 1) = 2 * (2 ^ a / 2 ^ b)"
    using k pow2_add [of "int a - int b" 1] pow2_add [of "int a - int b" "- 1"]
    by (simp_all add: pow2_def [of 1] pow2_def [of "- 1"])
  ultimately show "pow2 (flog2 x) \<le> x" and "x < pow2 (flog2 x + 1)"
    using k by (auto simp: flog2_def pq a_def b_def Let_def)
qed

lemma flog2_mono:
  assumes "0 < x" and "x \<le> y" shows "flog2 x \<le> flog2 y"
proof -
  have "pow2 (flog2 x) < pow2 (flog2 y + 1)"
    using flog2_bounds [of x] flog2_bounds [of y] assms by simp
  then show ?thesis by (simp add: pow2_less_iff)
qed

lemma flog2_unique:
  assumes "pow2 e \<le> x" and "x < pow2 (e + 1)" shows "flog2 x = e"
proof -
  have "0 < x" using assms(1) pow2_pos [of e] by linarith
  from flog2_bounds [OF this] assms have "pow2 e < pow2 (flog2 x + 1)" "pow2 (flog2 x) < pow2 (e + 1)"
    by simp_all
  then show ?thesis by (simp add: pow2_less_iff)
qed

section \<open>Rounding to 53 bits\<close>

definition rnd_pos :: "rat \<Rightarrow> rat" where
  "rnd_pos x = (let u = pow2 (flog2 x - 52) in of_int (rhe (x / u)) * u)"

definition rnd :: "rat \<Rightarrow> rat" where
  "rnd x = (if x = 0 then 0 else if x < 0 then - rnd_pos (- x) else rnd_pos x)"

lemma unit_times: "pow2 (e - 52) * 2 ^ 52 = pow2 e"
  using pow2_add [of "e - 52" 52] by (simp add: pow2_def [of 52])

lemma rnd_pos_between:
  assumes "0 < x" shows "pow2 (flog2 x) \<le> rnd_pos x" and "rnd_pos x \<le> pow2 (flog2 x + 1)"
proof -
  let ?u = "pow2 (flog2 x - 52)"
  have u: "?u * 2 ^ 52 = pow2 (flog2 x)" "?u * 2 ^ 53 = pow2 (flog2 x + 1)"
    using unit_times [of "flog2 x"] pow2_add [of "flog2 x" 1] by (simp_all add: pow2_def [of 1])
  have "of_int (2 ^ 52) \<le> x / ?u" "x / ?u \<le> of_int (2 ^ 53)"
    using flog2_bounds [OF assms] u by (simp_all add: pos_le_divide_eq pos_divide_le_eq mult.commute)
  from rhe_mono [OF this(1)] rhe_mono [OF this(2)]
  have "2 ^ 52 \<le> rhe (x / ?u)" "rhe (x / ?u) \<le> 2 ^ 53" by (simp_all only: rhe_of_int)
  from of_int_mono_rat [OF this(1)] of_int_mono_rat [OF this(2)]
  have "(2 ^ 52 :: rat) \<le> of_int (rhe (x / ?u))" "of_int (rhe (x / ?u)) \<le> (2 ^ 53 :: rat)"
    by simp_all
  then have "2 ^ 52 * ?u \<le> of_int (rhe (x / ?u)) * ?u" "of_int (rhe (x / ?u)) * ?u \<le> 2 ^ 53 * ?u"
    by (auto intro: mult_right_mono simp: less_imp_le)
  with u show "pow2 (flog2 x) \<le> rnd_pos x" and "rnd_pos x \<le> pow2 (flog2 x + 1)"
    by (simp_all add: rnd_pos_def Let_def mult.commute)
qed

lemma rnd_pos_pos: "0 < x \<Longrightarrow> 0 < rnd_pos x"
  using rnd_pos_between(1) [of x] pow2_pos [of "flog2 x"] by linarith

lemma rnd_pos_mono:
  assumes "0 < x" and "x \<le> y" shows "rnd_pos x \<le> rnd_pos y"
proof (cases "flog2 x = flog2 y")
  case True
  have "rhe (x / pow2 (flog2 y - 52)) \<le> rhe (y / pow2 (flog2 y - 52))"
    using assms(2) by (intro rhe_mono divide_right_mono) (simp_all add: less_imp_le)
  then show ?thesis
    by (simp add: rnd_pos_def Let_def True mult_right_mono less_imp_le)
next
  case False
  with flog2_mono [OF assms] have "pow2 (flog2 x + 1) \<le> pow2 (flog2 y)" by (intro pow2_mono) simp
  with rnd_pos_between [of x] rnd_pos_between [of y] assms show ?thesis by simp
qed

lemma rnd_0 [simp]: "rnd 0 = 0"
  by (simp add: rnd_def)

lemma rnd_minus: "rnd (- x) = - rnd x"
  by (simp add: rnd_def)

lemma rnd_mono: "x \<le> y \<Longrightarrow> rnd x \<le> rnd y"
  using rnd_pos_mono [of x y] rnd_pos_mono [of "- y" "- x"] rnd_pos_pos [of y] rnd_pos_pos [of "- x"]
  by (auto simp: rnd_def)

lemma rnd_nonneg: "0 \<le> x \<Longrightarrow> 0 \<le> rnd x"
  using rnd_mono [of 0 x] by simp

text \<open>The relative error is at most \<open>2 ^ -53\<close>.\<close>

lemma rnd_pos_error: "0 < x \<Longrightarrow> \<bar>rnd_pos x - x\<bar> \<le> x / 2 ^ 53"
proof -
  assume x: "0 < x"
  let ?u = "pow2 (flog2 x - 52)"
  have "\<bar>rnd_pos x - x\<bar> = \<bar>of_int (rhe (x / ?u)) - x / ?u\<bar> * ?u"
    by (simp add: rnd_pos_def Let_def abs_mult_pos less_imp_le left_diff_distrib)
  also have "\<dots> \<le> 1 / 2 * ?u" using rhe_close [of "x / ?u"] by (intro mult_right_mono) (simp_all add: less_imp_le)
  also have "\<dots> \<le> x / 2 ^ 53" using flog2_bounds(1) [OF x] unit_times [of "flog2 x"] by simp
  finally show ?thesis .
qed

lemma rnd_error: "\<bar>rnd x - x\<bar> \<le> \<bar>x\<bar> / 2 ^ 53"
proof (cases "x < 0")
  case True
  then have "\<bar>- rnd_pos (- x) - x\<bar> = \<bar>rnd_pos (- x) - (- x)\<bar>" by (simp add: abs_if)
  with True rnd_pos_error [of "- x"] show ?thesis by (simp add: rnd_def)
qed (use rnd_pos_error [of x] in \<open>auto simp: rnd_def\<close>)

text \<open>A value of 53 bits is its own rounding, so rounding twice is rounding once.\<close>

lemma rnd_pos_exact:
  assumes "0 < m" and "m \<le> 2 ^ 53" and "x = of_int m * pow2 k" shows "rnd_pos x = x"
proof -
  have x: "0 < x" using assms by simp
  have "x \<le> pow2 (k + 53)"
    using mult_right_mono [OF of_int_mono_rat [OF assms(2)], of "pow2 k"]
    by (simp add: assms(3) pow2_add pow2_def [of 53] less_imp_le mult.commute)
  show ?thesis
  proof (cases "x = pow2 (k + 53)")
    case True
    then have "flog2 x = k + 53" by (intro flog2_unique) (simp_all add: pow2_less)
    moreover have "x / pow2 (k + 1) = of_int (2 ^ 52)"
      using True pow2_add [of "k + 1" 52] by (simp add: pow2_def [of 52] add.commute)
    moreover have "k + 53 - 52 = k + 1" by simp
    ultimately have "rnd_pos x = of_int (2 ^ 52) * pow2 (k + 1)"
      by (simp only: rnd_pos_def Let_def rhe_of_int)
    also have "\<dots> = x" using \<open>x / pow2 (k + 1) = of_int (2 ^ 52)\<close> by (simp add: field_simps)
    finally show ?thesis .
  next
    case False
    with \<open>x \<le> pow2 (k + 53)\<close> have "pow2 (flog2 x) < pow2 (k + 53)" using flog2_bounds(1) [OF x] by simp
    then have "flog2 x - 52 \<le> k" by (simp add: pow2_less_iff)
    then obtain d where d: "k = flog2 x - 52 + int d" using zle_iff_zadd by auto
    have pk: "pow2 k = pow2 (flog2 x - 52) * 2 ^ d"
      unfolding pow2_nat [symmetric] pow2_add [symmetric] by (rule arg_cong [OF d])
    from assms(3) have "x = of_int m * (pow2 (flog2 x - 52) * 2 ^ d)" unfolding pk .
    moreover have "of_int m * (u * 2 ^ d) = of_int (m * 2 ^ d) * u" for u :: rat by simp
    ultimately have xu: "x = of_int (m * 2 ^ d) * pow2 (flog2 x - 52)" by (rule trans)
    have "of_int (m * 2 ^ d) * u / u = of_int (m * 2 ^ d)" if "u \<noteq> 0" for u :: rat using that by simp
    from this [OF pow2_nz, of "flog2 x - 52"] have "x / pow2 (flog2 x - 52) = of_int (m * 2 ^ d)"
      by (simp only: xu [symmetric])
    then have "rnd_pos x = of_int (m * 2 ^ d) * pow2 (flog2 x - 52)" by (simp only: rnd_pos_def Let_def rhe_of_int)
    also have "\<dots> = x" by (rule xu [symmetric])
    finally show ?thesis .
  qed
qed

lemma rnd_idem [simp]: "rnd (rnd x) = rnd x"
proof -
  have pos: "rnd_pos (rnd_pos y) = rnd_pos y" if y: "0 < y" for y
  proof -
    let ?u = "pow2 (flog2 y - 52)"
    have r: "rnd_pos y = of_int (rhe (y / ?u)) * ?u" by (simp add: rnd_pos_def Let_def)
    have "?u * 2 ^ 53 = pow2 (flog2 y + 1)"
      using unit_times [of "flog2 y"] pow2_add [of "flog2 y" 1] by (simp add: pow2_def [of 1])
    then have "of_int (rhe (y / ?u)) * ?u \<le> of_int (2 ^ 53) * ?u"
      using rnd_pos_between(2) [OF y] by (simp add: r mult.commute)
    then have "(of_int (rhe (y / ?u)) :: rat) \<le> of_int (2 ^ 53)"
      by (rule mult_right_le_imp_le) simp
    then have "rhe (y / ?u) \<le> 2 ^ 53" by (simp only: of_int_le_iff)
    moreover have "0 < rhe (y / ?u)" using rnd_pos_pos [OF y] pow2_pos [of "flog2 y - 52"] by (auto simp: r zero_less_mult_iff)
    ultimately show ?thesis using r by (intro rnd_pos_exact)
  qed
  show ?thesis
  proof (cases x "0 :: rat" rule: linorder_cases)
    case less
    then have "0 < rnd_pos (- x)" by (intro rnd_pos_pos) simp
    with less pos [of "- x"] show ?thesis by (simp add: rnd_def)
  next
    case greater
    then have "0 < rnd_pos x" by (rule rnd_pos_pos)
    with greater pos [of x] show ?thesis by (simp add: rnd_def)
  qed simp
qed

lemma rnd_1 [simp]: "rnd 1 = 1"
proof -
  have "rnd_pos 1 = 1" by (rule rnd_pos_exact [of 1 _ 0]) (simp_all add: pow2_def)
  then show ?thesis by (simp add: rnd_def)
qed

lemma rnd_unit: "0 \<le> x \<Longrightarrow> x \<le> 1 \<Longrightarrow> 0 \<le> rnd x \<and> rnd x \<le> 1"
  using rnd_mono [of x 1] rnd_nonneg by simp

lemma rnd_pos_double: "0 < x \<Longrightarrow> rnd_pos (2 * x) = 2 * rnd_pos x"
proof -
  assume x: "0 < x"
  have p2: "pow2 (e + 1) = 2 * pow2 e" for e using pow2_add [of e 1] by (simp add: pow2_def [of 1])
  have e: "flog2 (2 * x) = flog2 x + 1"
    using flog2_bounds [OF x] p2 [of "flog2 x"] p2 [of "flog2 x + 1"] by (intro flog2_unique) simp_all
  have "flog2 x + 1 - 52 = flog2 x - 52 + 1" by simp
  with p2 [of "flog2 x - 52"] have u: "pow2 (flog2 x + 1 - 52) = 2 * pow2 (flog2 x - 52)" by simp
  show ?thesis unfolding rnd_pos_def Let_def e u by simp
qed

lemma rnd_double: "0 \<le> x \<Longrightarrow> rnd (2 * x) = 2 * rnd x"
  by (simp add: rnd_def rnd_pos_double)

section \<open>Operations\<close>

type_synonym pyfloat = rat

text \<open>An integer in an operation with a float becomes the float nearest to it.\<close>

definition fint :: "nat \<Rightarrow> pyfloat" where
  "fint n = rnd (of_nat n)"

text \<open>A literal \<open>0.35\<close> is the double nearest to it.\<close>

definition flit :: "int \<Rightarrow> int \<Rightarrow> pyfloat" where
  "flit p q = rnd (of_int p / of_int q)"

definition fadd :: "pyfloat \<Rightarrow> pyfloat \<Rightarrow> pyfloat" where
  "fadd a b = rnd (a + b)"

definition fsub :: "pyfloat \<Rightarrow> pyfloat \<Rightarrow> pyfloat" where
  "fsub a b = rnd (a - b)"

definition fmul :: "pyfloat \<Rightarrow> pyfloat \<Rightarrow> pyfloat" where
  "fmul a b = rnd (a * b)"

definition fdiv :: "pyfloat \<Rightarrow> pyfloat \<Rightarrow> pyfloat" where
  "fdiv a b = rnd (a / b)"

text \<open>\<open>round(x, 4)\<close>: to the nearest multiple of a ten-thousandth, exactly, and then to a double.\<close>

definition fround4 :: "pyfloat \<Rightarrow> pyfloat" where
  "fround4 x = rnd (of_int (rhe (x * 10000)) / 10000)"

text \<open>
  \<open>sum\<close> of a list of floats: since Python 3.12 with Neumaier's correction, which is added at the
  end. The start value \<open>0\<close> is an integer, so the first element is taken as it is.
\<close>

fun fsum_loop :: "pyfloat \<Rightarrow> pyfloat \<Rightarrow> pyfloat list \<Rightarrow> pyfloat" where
  "fsum_loop f c [] = (if c \<noteq> 0 then fadd f c else f)"
| "fsum_loop f c (x # xs) =
     (let t = fadd f x
      in fsum_loop t (fadd c (if \<bar>x\<bar> \<le> \<bar>f\<bar> then fadd (fsub f t) x else fadd (fsub x t) f)) xs)"

fun fsum :: "pyfloat list \<Rightarrow> pyfloat" where
  "fsum [] = 0"
| "fsum (x # xs) = fsum_loop x 0 xs"

lemma fmul_unit: "0 \<le> a \<Longrightarrow> a \<le> 1 \<Longrightarrow> 0 \<le> b \<Longrightarrow> b \<le> 1 \<Longrightarrow> 0 \<le> fmul a b \<and> fmul a b \<le> 1"
  unfolding fmul_def by (intro rnd_unit) (auto intro: mult_le_one)

lemma fsub_unit: "0 \<le> a \<Longrightarrow> a \<le> 1 \<Longrightarrow> 0 \<le> fsub 1 a \<and> fsub 1 a \<le> 1"
  unfolding fsub_def by (intro rnd_unit) auto

lemma fdiv_unit: "0 \<le> a \<Longrightarrow> a \<le> b \<Longrightarrow> 0 \<le> fdiv a b \<and> fdiv a b \<le> 1"
  unfolding fdiv_def by (intro rnd_unit) (auto simp: divide_le_eq_1)

lemma fint_mono: "m \<le> n \<Longrightarrow> fint m \<le> fint n"
  unfolding fint_def by (intro rnd_mono) simp

lemma fint_nonneg [simp]: "0 \<le> fint n"
  unfolding fint_def by (rule rnd_nonneg) simp

lemma fmul_2_fint: "fmul 2 (fint m) = fint (2 * m)"
  using rnd_double [of "rnd (of_nat m)"] rnd_double [of "of_nat m"]
  by (simp add: fmul_def fint_def rnd_nonneg)

lemma fround4_mono: "x \<le> y \<Longrightarrow> fround4 x \<le> fround4 y"
  unfolding fround4_def by (intro rnd_mono divide_right_mono) (simp_all add: rhe_mono)

lemma fround4_0 [simp]: "fround4 0 = 0"
  using rhe_of_int [of 0] by (simp add: fround4_def del: rhe_of_int)

lemma fround4_1 [simp]: "fround4 1 = 1"
  using rhe_of_int [of 10000] by (simp add: fround4_def del: rhe_of_int)

lemma fround4_unit: "0 \<le> x \<Longrightarrow> x \<le> 1 \<Longrightarrow> 0 \<le> fround4 x \<and> fround4 x \<le> 1"
  using fround4_mono [of 0 x] fround4_mono [of x 1] by simp

section \<open>\<open>float(d)\<close> of a decimal\<close>

text \<open>A sign and a magnitude, so that the negative zero is kept.\<close>

datatype pydouble = Double bool pyfloat | DoubleInf bool | DoubleNaN

text \<open>The unit in the last place is at least \<open>2 ^ -1074\<close>, that of the subnormal numbers.\<close>

definition round_double :: "rat \<Rightarrow> pyfloat" where
  "round_double x = (let u = pow2 (max (flog2 x - 52) (- 1074)) in of_int (rhe (x / u)) * u)"

fun float_of_decimal :: "decimal \<Rightarrow> pydouble" where
  "float_of_decimal (DFin s c e) =
     (if c = 0 then Double s 0
      else let m = round_double (of_nat c * 10 powi e)
           in if pow2 1024 \<le> m then DoubleInf s else Double s m)"
| "float_of_decimal (DInf s) = DoubleInf s"
| "float_of_decimal (DNaN t) = DoubleNaN"

lemma round_double_normal: "- 1022 \<le> flog2 x \<Longrightarrow> round_double x = rnd_pos x"
  unfolding round_double_def rnd_pos_def by (subst max_absorb1) simp_all

text \<open>Whatever is within half of an integer rounds to it.\<close>

lemma rhe_near: "\<bar>x - of_int n\<bar> < 1 / 2 \<Longrightarrow> rhe x = n"
proof -
  assume x: "\<bar>x - of_int n\<bar> < 1 / 2"
  then have "\<bar>of_int (rhe x) - (of_int n :: rat)\<bar> < 1" using rhe_close [of x] by linarith
  then have "\<bar>rhe x - n\<bar> < 1" by (simp flip: of_int_diff of_int_abs)
  then show ?thesis by simp
qed

end
