(* ===== verification/ApiMappers.thy ===== *)
theory ApiMappers imports JobStores PySha PyBytes PyFloat begin

text \<open>
  \<open>api/mappers/tx.py\<close>, \<open>api/mappers/blik.py\<close>, \<open>api/mappers/allegro.py\<close> and
  \<open>api/mappers/job_status.py\<close>: from the domain objects to the objects of the HTTP interface
  (\<open>api/models\<close>), and from the request payloads back. An amount of the interface is a binary64
  number, the one that \<open>float\<close> makes of the decimal.
\<close>

section \<open>The interface's objects\<close>

datatype api_account_type =
    ApiAsset | ApiExpense | ApiRevenue | ApiLiability | ApiLoan | ApiDebt | ApiMortgage
  | ApiInitialBalance | ApiReconciliation

fun api_account_type_value :: "api_account_type \<Rightarrow> ustring" where
  "api_account_type_value ApiAsset = U ''asset''"
| "api_account_type_value ApiExpense = U ''expense''"
| "api_account_type_value ApiRevenue = U ''revenue''"
| "api_account_type_value ApiLiability = U ''liability''"
| "api_account_type_value ApiLoan = U ''loan''"
| "api_account_type_value ApiDebt = U ''debt''"
| "api_account_type_value ApiMortgage = U ''mortgage''"
| "api_account_type_value ApiInitialBalance = U ''initial-balance''"
| "api_account_type_value ApiReconciliation = U ''reconciliation''"

record simplified_account =
  sa_id :: int
  sa_name :: ustring
  sa_type :: api_account_type
  sa_iban :: "ustring option"

record simplified_category =
  sc_id :: int
  sc_name :: ustring

record simplified_item =
  si_date :: date
  si_amount :: pydouble

record simplified_tx = simplified_item +
  st_id :: int
  st_description :: ustring
  st_tags :: "ustring list"
  st_notes :: ustring
  st_category :: "ustring option"
  st_currency_code :: ustring
  st_currency_symbol :: ustring
  st_type :: ustring
  st_fx_amount :: "pydouble option"
  st_fx_currency :: "ustring option"
  st_source :: "simplified_account option"
  st_destination :: "simplified_account option"

record simplified_record = simplified_item +
  sr_match_id :: "ustring option"
  sr_details :: ustring
  sr_recipient :: ustring
  sr_operation_amount :: pydouble
  sr_sender :: ustring
  sr_operation_currency :: ustring
  sr_account_currency :: ustring
  sr_sender_account :: ustring
  sr_recipient_account :: ustring

record allegro_payment_api = simplified_item +
  apa_details :: "ustring list"
  apa_is_balanced :: bool
  apa_login :: ustring
  apa_external_id :: ustring
  apa_external_short_id :: ustring

datatype api_match_status = ApiNew | ApiAlreadyProcessed

record 'm api_match_result =
  am_tx :: simplified_tx
  am_matches :: "'m list"
  am_status :: api_match_status

datatype api_job_status = ApiPending | ApiRunning | ApiDone | ApiFailed

section \<open>\<open>api/mappers/tx.py\<close>\<close>

text \<open>
  \<open>d.quantize(Decimal("1").scaleb(-places))\<close>: rounding half to even to that many places;
  \<open>InvalidOperation\<close> when the result has more than 28 digits.
\<close>

fun dec_quantize :: "decimal \<Rightarrow> int \<Rightarrow> decimal option" where
  "dec_quantize (DFin s c e) places =
     (let t = - places;
          c' = (if t \<le> e then c * 10 ^ nat (e - t) else round_half_even c (nat (t - e)))
      in if t < - 1000026 \<or> 999999 < t then None
         else if c = 0 then Some (DFin s 0 t)
         else if 28 < int (ndigits c) + e - t \<or> 28 < ndigits c' then None
         else Some (DFin s c' t))"
| "dec_quantize (DInf s) places = None"
| "dec_quantize (DNaN t) places = Some (DNaN t)"

definition to_api_amount :: "decimal \<Rightarrow> int \<Rightarrow> pydouble res" where
  "to_api_amount d decimals =
     (case dec_quantize d decimals of
        None \<Rightarrow> Inl (OtherError (U ''InvalidOperation''))
      | Some q \<Rightarrow> Inr (float_of_decimal q))"

fun api_account_type_of :: "account_type \<Rightarrow> api_account_type" where
  "api_account_type_of ASSET = ApiAsset"
| "api_account_type_of EXPENSE = ApiExpense"
| "api_account_type_of REVENUE = ApiRevenue"
| "api_account_type_of LIABILITY = ApiLiability"
| "api_account_type_of LOAN = ApiLoan"
| "api_account_type_of DEBT = ApiDebt"
| "api_account_type_of MORTGAGE = ApiMortgage"
| "api_account_type_of INITIAL_BALANCE = ApiInitialBalance"
| "api_account_type_of RECONCILIATION = ApiReconciliation"

text \<open>The member found is the one with the domain member's value, as \<open>AccountType(v)\<close> looks it up.\<close>

lemma api_account_type_of_value [simp]:
  "api_account_type_value (api_account_type_of t) = account_type_value t"
  by (cases t) simp_all

definition map_account_ref_to_api :: "account_ref option \<Rightarrow> simplified_account option" where
  "map_account_ref_to_api oa =
     (case oa of None \<Rightarrow> None
      | Some a \<Rightarrow> Some \<lparr>sa_id = acc_id a, sa_name = acc_name a,
                       sa_type = api_account_type_of (acc_type a), sa_iban = acc_iban a\<rparr>)"

definition map_category_to_api :: "category \<Rightarrow> simplified_category" where
  "map_category_to_api c = \<lparr>sc_id = cat_id c, sc_name = cat_name c\<rparr>"

definition map_tx_to_api :: "transaction \<Rightarrow> simplified_tx res" where
  "map_tx_to_api t =
     (case to_api_amount (bi_amount t) (cur_decimals (tx_currency t)) of
        Inl e \<Rightarrow> Inl e
      | Inr amount \<Rightarrow>
          (case (case tx_fx t of
                   None \<Rightarrow> Inr (None, None)
                 | Some fx \<Rightarrow>
                     (case to_api_amount (fx_amount fx) (cur_decimals (fx_currency fx)) of
                        Inl e \<Rightarrow> Inl e
                      | Inr a \<Rightarrow> Inr (Some a, Some (cur_code (fx_currency fx))))) of
             Inl e \<Rightarrow> Inl e
           | Inr (fxa, fxc) \<Rightarrow>
               Inr \<lparr>si_date = bi_date t, si_amount = amount, st_id = tx_id t,
                    st_description = tx_description t,
                    st_tags = sorted_list_of_set (tx_tags t),
                    st_notes = (case tx_notes t of None \<Rightarrow> [] | Some n \<Rightarrow> n),
                    st_category = map_option cat_name (tx_category t),
                    st_currency_code = cur_code (tx_currency t),
                    st_currency_symbol = cur_symbol (tx_currency t),
                    st_type = tx_type_value (tx_type t), st_fx_amount = fxa,
                    st_fx_currency = fxc,
                    st_source = map_account_ref_to_api (tx_source t),
                    st_destination = map_account_ref_to_api (tx_destination t)\<rparr>))"

fun api_status_of :: "processing_status \<Rightarrow> api_match_status" where
  "api_status_of NEW = ApiNew"
| "api_status_of ALREADY_PROCESSED = ApiAlreadyProcessed"

fun map_status :: "job_status \<Rightarrow> api_job_status" where
  "map_status PENDING = ApiPending"
| "map_status RUNNING = ApiRunning"
| "map_status DONE = ApiDone"
| "map_status FAILED = ApiFailed"

section \<open>\<open>api/mappers/blik.py\<close>\<close>

text \<open>
  The id of a match is a digest of the transaction's id and the record's fields; a lone surrogate
  in them cannot be encoded.
\<close>

definition blik_match_payload :: "int \<Rightarrow> bank_record \<Rightarrow> ustring" where
  "blik_match_payload transaction_id r =
     join (U ''|'')
       [str_int transaction_id, isoformat (bi_date r), dec_str (bi_amount r),
        dec_str (br_operation_amount r), br_recipient r, br_details r, br_sender r,
        br_operation_currency r, br_account_currency r, br_sender_account r,
        br_recipient_account r]"

definition build_blik_match_id :: "int \<Rightarrow> bank_record \<Rightarrow> ustring res" where
  "build_blik_match_id transaction_id r =
     (case utf8_encode (blik_match_payload transaction_id r) of
        None \<Rightarrow> Inl (ValueError (U ''utf-8 codec cannot encode''))
      | Some bytes \<Rightarrow> Inr (take 16 (sha256_hexdigest bytes)))"

definition simplified_of :: "ustring option \<Rightarrow> bank_record \<Rightarrow> simplified_record" where
  "simplified_of match_id r =
     \<lparr>si_date = bi_date r, si_amount = float_of_decimal (bi_amount r), sr_match_id = match_id,
      sr_details = br_details r, sr_recipient = br_recipient r,
      sr_operation_amount = float_of_decimal (br_operation_amount r), sr_sender = br_sender r,
      sr_operation_currency = br_operation_currency r,
      sr_account_currency = br_account_currency r, sr_sender_account = br_sender_account r,
      sr_recipient_account = br_recipient_account r\<rparr>"

definition map_bank_record_to_simplified :: "bank_record \<Rightarrow> simplified_record" where
  "map_bank_record_to_simplified r = simplified_of None r"

definition map_bank_records_to_simplified :: "bank_record list \<Rightarrow> simplified_record list" where
  "map_bank_records_to_simplified rs = map map_bank_record_to_simplified rs"

definition simplified_match :: "int \<Rightarrow> bank_record \<Rightarrow> simplified_record res" where
  "simplified_match i r =
     (case build_blik_match_id i r of
        Inl e \<Rightarrow> Inl e
      | Inr mid \<Rightarrow> Inr (simplified_of (Some mid) r))"

definition blik_match_result_to_api ::
    "bank_record match_result \<Rightarrow> simplified_record api_match_result res" where
  "blik_match_result_to_api r =
     (case map_tx_to_api (mr_tx r) of
        Inl e \<Rightarrow> Inl e
      | Inr stx \<Rightarrow>
          (case mapE (simplified_match (tx_id (mr_tx r))) (mr_matches r) of
             Inl e \<Rightarrow> Inl e
           | Inr ms \<Rightarrow>
               Inr \<lparr>am_tx = stx, am_matches = ms, am_status = api_status_of (mr_status r)\<rparr>))"

definition blik_match_results_to_api ::
    "bank_record match_result list \<Rightarrow> simplified_record api_match_result list res" where
  "blik_match_results_to_api rs = mapE blik_match_result_to_api rs"

record outcome_response =
  or_transaction_id :: int
  or_status :: outcome_status
  or_reason :: "ustring option"

record blik_outcome_response = outcome_response +
  or_selected_match_id :: "ustring option"

record 'o job_response =
  jr_id :: uuid
  jr_status :: api_job_status
  jr_total :: nat
  jr_applied :: nat
  jr_failed :: nat
  jr_started_at :: instant
  jr_finished_at :: "instant option"
  jr_results :: "'o list"

record blik_job_response = "blik_outcome_response job_response" +
  jr_file_id :: ustring

record allegro_job_response = "outcome_response job_response" +
  jr_secret_id :: uuid

definition blik_outcome_to_response :: "blik_outcome \<Rightarrow> blik_outcome_response" where
  "blik_outcome_to_response oc =
     \<lparr>or_transaction_id = oc_transaction_id oc, or_status = oc_status oc, or_reason = oc_reason oc,
      or_selected_match_id = oc_selected_match_id oc\<rparr>"

definition blik_job_to_response :: "blik_job \<Rightarrow> blik_job_response" where
  "blik_job_to_response j =
     \<lparr>jr_id = job_id j, jr_status = map_status (job_stat j), jr_total = job_total j,
      jr_applied = job_applied j, jr_failed = job_failed j, jr_started_at = job_started_at j,
      jr_finished_at = job_finished_at j,
      jr_results = map blik_outcome_to_response (job_results j), jr_file_id = bj_file_id j\<rparr>"

text \<open>The decisions of a request: pairs of a transaction id and a match id.\<close>

definition blik_payload_to_decisions :: "(int \<times> ustring) list \<Rightarrow> blik_decision list" where
  "blik_payload_to_decisions ds =
     map (\<lambda>(i, m). \<lparr>bd_transaction_id = i, bd_selected_match_id = m\<rparr>) ds"

section \<open>\<open>api/mappers/allegro.py\<close>\<close>

definition allegro_payment_to_response :: "allegro_order_payment \<Rightarrow> allegro_payment_api" where
  "allegro_payment_to_response p =
     \<lparr>si_date = bi_date p, si_amount = float_of_decimal (bi_amount p), apa_details = op_details p,
      apa_is_balanced = ap_is_balanced p, apa_login = ap_login p,
      apa_external_id = ap_external_id p, apa_external_short_id = ap_external_short_id p\<rparr>"

definition allegro_payments_to_response ::
    "allegro_order_payment list \<Rightarrow> allegro_payment_api list" where
  "allegro_payments_to_response ps =
     foldl (\<lambda>responses p. responses @ [allegro_payment_to_response p]) [] ps"

definition allegro_match_result_to_api ::
    "allegro_order_payment match_result \<Rightarrow> allegro_payment_api api_match_result res" where
  "allegro_match_result_to_api r =
     (case map_tx_to_api (mr_tx r) of
        Inl e \<Rightarrow> Inl e
      | Inr stx \<Rightarrow>
          Inr \<lparr>am_tx = stx,
               am_matches =
                 foldl (\<lambda>ms m. ms @ [allegro_payment_to_response m]) [] (mr_matches r),
               am_status = api_status_of (mr_status r)\<rparr>)"

definition allegro_match_results_to_api ::
    "allegro_order_payment match_result list \<Rightarrow> allegro_payment_api api_match_result list res" where
  "allegro_match_results_to_api rs = mapE allegro_match_result_to_api rs"

definition allegro_outcome_to_response :: "outcome \<Rightarrow> outcome_response" where
  "allegro_outcome_to_response oc =
     \<lparr>or_transaction_id = oc_transaction_id oc, or_status = oc_status oc,
      or_reason = oc_reason oc\<rparr>"

definition allegro_job_to_response :: "allegro_job \<Rightarrow> allegro_job_response" where
  "allegro_job_to_response j =
     \<lparr>jr_id = job_id j, jr_status = map_status (job_stat j), jr_total = job_total j,
      jr_applied = job_applied j, jr_failed = job_failed j, jr_started_at = job_started_at j,
      jr_finished_at = job_finished_at j,
      jr_results = map allegro_outcome_to_response (job_results j),
      jr_secret_id = aj_secret_id j\<rparr>"

definition allegro_payload_to_decisions ::
    "(ustring \<times> int \<times> strategy) list \<Rightarrow> allegro_decision list" where
  "allegro_payload_to_decisions ds =
     map (\<lambda>(p, i, s). \<lparr>ad_payment_id = p, ad_transaction_id = i, ad_strategy = s\<rparr>) ds"

section \<open>Lemmas\<close>

lemma foldl_snoc: "foldl (\<lambda>ys x. ys @ [f x]) a xs = a @ map f xs"
  by (induction xs arbitrary: a) auto

lemma allegro_payments_to_response_map:
  "allegro_payments_to_response ps = map allegro_payment_to_response ps"
  by (simp add: allegro_payments_to_response_def foldl_snoc)

text \<open>A match id is sixteen hexadecimal digits.\<close>

lemma build_blik_match_id_hex:
  assumes "build_blik_match_id i r = Inr m"
  shows "length m = 16" and "c \<in> set m \<Longrightarrow> is_hex c"
  using assms hexdigest_hex
  by (auto simp: build_blik_match_id_def split: option.splits dest!: in_set_takeD)

text \<open>Quantising changes a finite amount by at most half a unit of the last place kept.\<close>

lemma half_up:
  "c = a * p + b \<Longrightarrow> b < p \<Longrightarrow> p \<le> 2 * b \<Longrightarrow>
     2 * ((a + 1) * p) \<le> 2 * c + p \<and> 2 * c \<le> 2 * ((a + 1) * p) + (p::nat)"
  by simp

lemma half_down:
  "c = a * p + b \<Longrightarrow> 2 * b \<le> p \<Longrightarrow> 2 * (a * p) \<le> 2 * c + p \<and> 2 * c \<le> 2 * (a * p) + (p::nat)"
  by simp

lemma abs_half: "2 * a \<le> 2 * b + p \<Longrightarrow> 2 * b \<le> 2 * a + p \<Longrightarrow> 2 * \<bar>a - b\<bar> \<le> (p::rat)"
  by (simp add: abs_if)

lemma abs_scaled: "0 \<le> p \<Longrightarrow> \<bar>a * p - b * p\<bar> = \<bar>a - b\<bar> * (p::rat)"
  by (simp add: abs_mult flip: left_diff_distrib)

lemma round_half_even_bounds:
  "2 * (round_half_even c k * 10 ^ k) \<le> 2 * c + 10 ^ k \<and> 2 * c \<le> 2 * (round_half_even c k * 10 ^ k) + 10 ^ k"
proof (cases k)
  case 0
  then show ?thesis by (simp add: round_half_even_def)
next
  case (Suc j)
  let ?p = "10 ^ k :: nat"
  have h: "2 * (5 * 10 ^ (k - 1)) = ?p" using Suc by simp
  have c: "c = c div ?p * ?p + c mod ?p" by (rule div_mult_mod_eq [symmetric])
  have r: "c mod ?p < ?p" by simp
  show ?thesis
  proof (cases "c mod ?p > 5 * 10 ^ (k - 1) \<or> c mod ?p = 5 * 10 ^ (k - 1) \<and> odd (c div ?p)")
    case True
    then have q: "round_half_even c k = c div ?p + 1" using Suc by (simp add: round_half_even_def Let_def)
    from True h have "?p \<le> 2 * (c mod ?p)" by linarith
    with c r half_up [of c "c div ?p" ?p "c mod ?p"] show ?thesis unfolding q by blast
  next
    case False
    then have q: "round_half_even c k = c div ?p" using Suc by (simp add: round_half_even_def Let_def)
    from False h have "2 * (c mod ?p) \<le> ?p" by linarith
    with c half_down [of c "c div ?p" ?p "c mod ?p"] show ?thesis unfolding q by blast
  qed
qed

lemma dec_quantize_close:
  assumes "dec_quantize (DFin s c e) places = Some q"
  shows "2 * \<bar>dec_val q - dec_val (DFin s c e)\<bar> \<le> 10 powi (- places)"
proof -
  let ?t = "- places"
  have pow: "(10::rat) powi (?t + int n) = 10 ^ n * 10 powi ?t" for n
    using power_int_add [of "10::rat" ?t "int n"] by (simp add: mult.commute)
  consider "c = 0" "q = DFin s 0 ?t" | "c \<noteq> 0" "?t \<le> e" "q = DFin s (c * 10 ^ nat (e - ?t)) ?t"
    | "c \<noteq> 0" "e < ?t" "q = DFin s (round_half_even c (nat (?t - e))) ?t"
    using assms by (fastforce simp: Let_def split: if_splits)
  then show ?thesis
  proof cases
    case 1
    then show ?thesis by simp
  next
    case 2
    then have "(10::rat) powi e = 10 ^ nat (e - ?t) * 10 powi ?t"
      using pow [of "nat (e - ?t)"] by simp
    with 2 show ?thesis by (simp add: algebra_simps)
  next
    case 3
    let ?k = "nat (?t - e)"
    let ?r = "round_half_even c ?k"
    have pe: "(10::rat) powi ?t = 10 ^ ?k * 10 powi e"
      using 3 power_int_add [of "10::rat" e "int ?k"] power_int_of_nat [of "10::rat" ?k]
      by (simp add: mult.commute)
    have "2 * (of_nat ?r * 10 ^ ?k) \<le> 2 * of_nat c + (10 ^ ?k :: rat)"
      and "2 * of_nat c \<le> 2 * (of_nat ?r * 10 ^ ?k) + (10 ^ ?k :: rat)"
      using round_half_even_bounds [of c ?k] by (simp_all flip: of_nat_le_iff [where ?'a = rat])
    then have "2 * \<bar>of_nat ?r * 10 ^ ?k - (of_nat c :: rat)\<bar> \<le> 10 ^ ?k" by (rule abs_half)
    then have "2 * \<bar>of_nat ?r * 10 ^ ?k - (of_nat c :: rat)\<bar> * 10 powi e \<le> 10 ^ ?k * 10 powi e"
      by (intro mult_right_mono) simp_all
    moreover have "\<bar>dec_val q - dec_val (DFin s c e)\<bar> =
        \<bar>of_nat ?r * 10 ^ ?k - (of_nat c :: rat)\<bar> * 10 powi e"
      using 3 abs_scaled [of "10 powi e" "of_nat ?r * 10 ^ ?k" "of_nat c"]
      by (cases s) (simp_all add: pe dec_sgn_def abs_minus_commute mult.assoc mult.left_commute)
    ultimately show ?thesis by (simp add: pe)
  qed
qed

end
