(* ===== verification/PyCsv.thy ===== *)
theory PyCsv imports PyText begin

text \<open>
  The standard library's \<open>csv\<close> module as the program uses it: delimiter \<open>;\<close>, quote character
  \<open>"\<close> doubled inside quotes, minimal quoting, lines ended by CR LF when written. The reader is
  the automaton of \<open>_csv.c\<close>; it reads the lines of a file opened with \<open>newline=''\<close>, which end
  after LF, CR LF, or a CR that no LF follows.
\<close>

section \<open>Reading\<close>

datatype csv_state = StartRecord | StartField | InField | InQuoted | QuoteInQuoted | EatCRNL

type_synonym csv_machine = "csv_state \<times> ustring \<times> ustring list"

definition csv_field_limit :: nat where
  "csv_field_limit = 131072"

definition is_crlf :: "nat \<Rightarrow> bool" where
  "is_crlf c \<longleftrightarrow> c = 10 \<or> c = 13"

definition csv_error :: "ustring \<Rightarrow> 'a res" where
  "csv_error m = Inl (OtherError m)"

definition csv_add :: "csv_state \<Rightarrow> nat \<Rightarrow> ustring \<Rightarrow> ustring list \<Rightarrow> csv_machine res" where
  "csv_add st c fld fs =
     (if csv_field_limit \<le> length fld then csv_error (U ''field larger than field limit (131072)'')
      else Inr (st, fld @ [c], fs))"

definition csv_start_field :: "nat \<Rightarrow> ustring \<Rightarrow> ustring list \<Rightarrow> csv_machine res" where
  "csv_start_field c fld fs =
     (if is_crlf c then Inr (EatCRNL, [], fs @ [fld])
      else if c = 34 then Inr (InQuoted, fld, fs)
      else if c = 59 then Inr (StartField, [], fs @ [fld])
      else csv_add InField c fld fs)"

fun csv_char :: "csv_machine \<Rightarrow> nat \<Rightarrow> csv_machine res" where
  "csv_char (StartRecord, fld, fs) c =
     (if is_crlf c then Inr (EatCRNL, fld, fs) else csv_start_field c fld fs)"
| "csv_char (StartField, fld, fs) c = csv_start_field c fld fs"
| "csv_char (InField, fld, fs) c =
     (if is_crlf c then Inr (EatCRNL, [], fs @ [fld])
      else if c = 59 then Inr (StartField, [], fs @ [fld])
      else csv_add InField c fld fs)"
| "csv_char (InQuoted, fld, fs) c =
     (if c = 34 then Inr (QuoteInQuoted, fld, fs) else csv_add InQuoted c fld fs)"
| "csv_char (QuoteInQuoted, fld, fs) c =
     (if c = 34 then csv_add InQuoted c fld fs
      else if c = 59 then Inr (StartField, [], fs @ [fld])
      else if is_crlf c then Inr (EatCRNL, [], fs @ [fld])
      else csv_add InField c fld fs)"
| "csv_char (EatCRNL, fld, fs) c =
     (if is_crlf c then Inr (EatCRNL, fld, fs)
      else csv_error (U ''new-line character seen in unquoted field''))"

text \<open>The end of a line.\<close>

fun csv_eol :: "csv_machine \<Rightarrow> csv_machine" where
  "csv_eol (StartRecord, fld, fs) = (StartRecord, fld, fs)"
| "csv_eol (InQuoted, fld, fs) = (InQuoted, fld, fs)"
| "csv_eol (EatCRNL, fld, fs) = (StartRecord, fld, fs)"
| "csv_eol (_, fld, fs) = (StartRecord, [], fs @ [fld])"

definition line_ends :: "nat \<Rightarrow> ustring \<Rightarrow> bool" where
  "line_ends c cs \<longleftrightarrow> c = 10 \<or> (c = 13 \<and> (cs = [] \<or> hd cs \<noteq> 10)) \<or> cs = []"

text \<open>All records of a text; at its end an open quoted field still makes a record.\<close>

fun csv_run :: "csv_machine \<Rightarrow> ustring list list \<Rightarrow> ustring \<Rightarrow> ustring list list res" where
  "csv_run m rows [] =
     (case m of (st, fld, fs) \<Rightarrow> Inr (if st = InQuoted then rows @ [fs @ [fld]] else rows))"
| "csv_run m rows (c # cs) =
     (case csv_char m c of
        Inl e \<Rightarrow> Inl e
      | Inr m' \<Rightarrow>
          (if line_ends c cs
           then (case csv_eol m' of (st, fld, fs) \<Rightarrow>
                   if st = StartRecord then csv_run (StartRecord, [], []) (rows @ [fs]) cs
                   else csv_run (st, fld, fs) rows cs)
           else csv_run m' rows cs))"

definition csv_read :: "ustring \<Rightarrow> ustring list list res" where
  "csv_read s = csv_run (StartRecord, [], []) [] s"

text \<open>\<open>next(csvfile)\<close>: the text after the first line; \<open>None\<close> at the end of the file.\<close>

fun drop_line :: "ustring \<Rightarrow> ustring" where
  "drop_line [] = []"
| "drop_line (c # cs) = (if line_ends c cs then cs else drop_line cs)"

definition skip_line :: "ustring \<Rightarrow> ustring option" where
  "skip_line s = (if s = [] then None else Some (drop_line s))"

text \<open>
  \<open>DictReader\<close>: the first row names the columns, empty rows are skipped, a short row has \<open>None\<close>
  in the columns it lacks. The rest of a long row, under the key \<open>None\<close>, is never read.
\<close>

definition dict_row :: "ustring list \<Rightarrow> ustring list \<Rightarrow> (ustring, ustring option) dict" where
  "dict_row names row =
     fold (\<lambda>k d. dput k None d) (drop (length row) names)
       (fold (\<lambda>(k, v) d. dput k (Some v) d) (zip names row) [])"

definition dict_rows :: "ustring list list \<Rightarrow> (ustring, ustring option) dict list" where
  "dict_rows rows =
     (case rows of [] \<Rightarrow> []
      | names # rest \<Rightarrow> map (dict_row names) (filter (\<lambda>r. r \<noteq> []) rest))"

section \<open>Writing\<close>

definition csv_needs_quote :: "ustring \<Rightarrow> bool" where
  "csv_needs_quote f \<longleftrightarrow> (\<exists>c \<in> set f. c = 59 \<or> c = 34 \<or> is_crlf c)"

definition csv_escape :: "ustring \<Rightarrow> ustring" where
  "csv_escape f = concat (map (\<lambda>c. if c = 34 then [34, 34] else [c]) f)"

definition csv_field :: "ustring \<Rightarrow> ustring" where
  "csv_field f = (if csv_needs_quote f then [34] @ csv_escape f @ [34] else f)"

definition csv_row :: "ustring list \<Rightarrow> ustring" where
  "csv_row r = (if r = [[]] then [34, 34] else join [59] (map csv_field r)) @ [13, 10]"

definition csv_write :: "ustring list list \<Rightarrow> ustring" where
  "csv_write rows = concat (map csv_row rows)"

section \<open>Round trip\<close>

lemma line_ends_plain: "\<not> is_crlf c \<Longrightarrow> cs \<noteq> [] \<Longrightarrow> \<not> line_ends c cs"
  by (simp add: line_ends_def is_crlf_def)

lemma csv_run_plain:
  assumes "\<not> is_crlf c" and "cs \<noteq> []" and "csv_char m c = Inr m'"
  shows "csv_run m rows (c # cs) = csv_run m' rows cs"
  using assms by (simp add: line_ends_plain)

lemma csv_add_ok: "length fld < csv_field_limit \<Longrightarrow> csv_add st c fld fs = Inr (st, fld @ [c], fs)"
  by (simp add: csv_add_def)

lemma csv_run_in_field:
  assumes "\<not> csv_needs_quote f" and "r \<noteq> []" and "length (fld @ f) \<le> csv_field_limit"
  shows "csv_run (InField, fld, fs) rows (f @ r) = csv_run (InField, fld @ f, fs) rows r"
  using assms
proof (induction f arbitrary: fld)
  case Nil
  then show ?case by simp
next
  case (Cons c f)
  then have "csv_char (InField, fld, fs) c = Inr (InField, fld @ [c], fs)"
    by (simp add: csv_needs_quote_def csv_add_ok)
  with Cons have "csv_run (InField, fld, fs) rows (c # f @ r) =
      csv_run (InField, fld @ [c], fs) rows (f @ r)"
    by (intro csv_run_plain) (auto simp: csv_needs_quote_def)
  with Cons show ?case by (auto simp: csv_needs_quote_def)
qed

text \<open>Inside quotes the end of a line changes nothing.\<close>

lemma csv_run_quoted_char:
  assumes "csv_char (InQuoted, fld, fs) c = Inr (InQuoted, fld', fs)"
  shows "csv_run (InQuoted, fld, fs) rows (c # cs) = csv_run (InQuoted, fld', fs) rows cs"
  using assms by (simp del: csv_char.simps)

lemma csv_run_in_quotes:
  assumes "length (fld @ f) \<le> csv_field_limit" and "r \<noteq> []"
  shows "csv_run (InQuoted, fld, fs) rows (csv_escape f @ 34 # r) =
    csv_run (QuoteInQuoted, fld @ f, fs) rows r"
  using assms
proof (induction f arbitrary: fld)
  case Nil
  then show ?case by (simp add: csv_escape_def csv_run_plain is_crlf_def line_ends_def)
next
  case (Cons c f)
  from Cons.prems have len: "length fld < csv_field_limit" by simp
  have "csv_run (InQuoted, fld, fs) rows (csv_escape (c # f) @ 34 # r) =
      csv_run (InQuoted, fld @ [c], fs) rows (csv_escape f @ 34 # r)"
  proof (cases "c = 34")
    case True
    have 1: "csv_run (InQuoted, fld, fs) rows (34 # 34 # csv_escape f @ 34 # r) =
        csv_run (QuoteInQuoted, fld, fs) rows (34 # csv_escape f @ 34 # r)"
      by (rule csv_run_plain) (simp_all add: is_crlf_def)
    have 2: "csv_run (QuoteInQuoted, fld, fs) rows (34 # csv_escape f @ 34 # r) =
        csv_run (InQuoted, fld @ [34], fs) rows (csv_escape f @ 34 # r)"
      by (rule csv_run_plain) (simp_all add: is_crlf_def csv_add_ok len)
    from True 1 2 show ?thesis by (simp add: csv_escape_def del: csv_run.simps)
  next
    case False
    then have "csv_char (InQuoted, fld, fs) c = Inr (InQuoted, fld @ [c], fs)"
      by (simp add: csv_add_ok len)
    from csv_run_quoted_char [OF this] False show ?thesis
      by (simp add: csv_escape_def del: csv_run.simps)
  qed
  with Cons show ?case by simp
qed

text \<open>A written field leaves the automaton at its end, with the field's text, ready to save it.\<close>

definition field_done :: "csv_state \<Rightarrow> bool" where
  "field_done st \<longleftrightarrow> st = StartField \<or> st = InField \<or> st = QuoteInQuoted"

lemma csv_run_field:
  assumes "length f \<le> csv_field_limit" and "r \<noteq> []"
    and "st = StartField \<or> st = StartRecord"
  shows "\<exists>st'. csv_run (st, [], fs) rows (csv_field f @ r) = csv_run (st', f, fs) rows r \<and>
    (field_done st' \<or> f = [] \<and> st' = StartRecord)"
proof (cases "csv_needs_quote f")
  case True
  have "csv_run (st, [], fs) rows (34 # csv_escape f @ 34 # r) =
      csv_run (InQuoted, [], fs) rows (csv_escape f @ 34 # r)"
    using assms(3) by (intro csv_run_plain) (auto simp: is_crlf_def csv_start_field_def)
  also have "\<dots> = csv_run (QuoteInQuoted, f, fs) rows r"
    using csv_run_in_quotes [of "[]" f r] assms by simp
  finally show ?thesis
    using True by (auto simp: csv_field_def field_done_def simp del: csv_run.simps)
next
  case False
  show ?thesis
  proof (cases f)
    case Nil
    with assms(3) show ?thesis by (auto simp: csv_field_def csv_needs_quote_def field_done_def)
  next
    case (Cons c g)
    with False have c: "c \<noteq> 59" "c \<noteq> 34" "\<not> is_crlf c" and g: "\<not> csv_needs_quote g"
      by (auto simp: csv_needs_quote_def)
    have "csv_run (st, [], fs) rows (c # g @ r) = csv_run (InField, [c], fs) rows (g @ r)"
      using assms c by (intro csv_run_plain)
        (auto simp: csv_start_field_def csv_add_def csv_field_limit_def)
    also have "\<dots> = csv_run (InField, c # g, fs) rows r"
      using csv_run_in_field [OF g assms(2), of "[c]"] assms(1) Cons by simp
    finally show ?thesis
      using False Cons by (auto simp: csv_field_def field_done_def simp del: csv_run.simps)
  qed
qed

lemma csv_run_delim:
  assumes "field_done st \<or> f = [] \<and> st = StartRecord" and "r \<noteq> []"
  shows "csv_run (st, f, fs) rows (59 # r) = csv_run (StartField, [], fs @ [f]) rows r"
  using assms
  by (intro csv_run_plain) (auto simp: field_done_def is_crlf_def csv_start_field_def)

lemma csv_run_crlf:
  assumes "field_done st"
  shows "csv_run (st, f, fs) rows (13 # 10 # r) =
    csv_run (StartRecord, [], []) (rows @ [fs @ [f]]) r"
  using assms
  by (auto simp: field_done_def is_crlf_def csv_start_field_def line_ends_def)

lemma csv_run_fields:
  assumes "\<forall>f \<in> set fsn. length f \<le> csv_field_limit" and "fsn \<noteq> []"
    and "st = StartField \<or> st = StartRecord \<and> fsn \<noteq> [[]]"
  shows "csv_run (st, [], fs) rows (join [59] (map csv_field fsn) @ 13 # 10 # r) =
    csv_run (StartRecord, [], []) (rows @ [fs @ fsn]) r"
  using assms
proof (induction fsn arbitrary: st fs)
  case Nil
  then show ?case by simp
next
  case (Cons f gs)
  show ?case
  proof (cases gs)
    case Nil
    from csv_run_field [of f "13 # 10 # r" st fs rows] Cons.prems obtain st' where
      run: "csv_run (st, [], fs) rows (csv_field f @ 13 # 10 # r) =
        csv_run (st', f, fs) rows (13 # 10 # r)"
      and st': "field_done st' \<or> f = [] \<and> st' = StartRecord" by auto
    show ?thesis
    proof (cases "f = []")
      case True
      with Cons.prems Nil have "st = StartField" by auto
      with True Nil show ?thesis
        using csv_run_crlf [of StartField "[]" fs rows r]
        by (simp add: csv_field_def csv_needs_quote_def field_done_def del: csv_run.simps)
    next
      case False
      with st' run Nil csv_run_crlf show ?thesis by (simp del: csv_run.simps)
    qed
  next
    case (Cons g hs)
    let ?r = "join [59] (map csv_field gs) @ 13 # 10 # r"
    from csv_run_field [of f "59 # ?r" st fs rows] Cons.prems obtain st' where
      run: "csv_run (st, [], fs) rows (csv_field f @ 59 # ?r) = csv_run (st', f, fs) rows (59 # ?r)"
      and st': "field_done st' \<or> f = [] \<and> st' = StartRecord" by auto
    have "csv_run (st', f, fs) rows (59 # ?r) = csv_run (StartField, [], fs @ [f]) rows ?r"
      by (rule csv_run_delim [OF st']) simp
    also have "\<dots> = csv_run (StartRecord, [], []) (rows @ [(fs @ [f]) @ gs]) r"
      using Cons Cons.prems by (intro Cons.IH) auto
    finally show ?thesis using run Cons by (simp del: csv_run.simps)
  qed
qed

lemma csv_run_row:
  assumes "\<forall>f \<in> set row. length f \<le> csv_field_limit"
  shows "csv_run (StartRecord, [], []) rows (csv_row row @ r) =
    csv_run (StartRecord, [], []) (rows @ [row]) r"
proof -
  consider "row = []" | "row = [[]]" | "row \<noteq> []" "row \<noteq> [[]]" by blast
  then show ?thesis
  proof cases
    case 1
    then show ?thesis by (simp add: csv_row_def is_crlf_def line_ends_def)
  next
    case 2
    then show ?thesis
      by (simp add: csv_row_def is_crlf_def line_ends_def csv_start_field_def)
  next
    case 3
    then show ?thesis
      using csv_run_fields [OF assms, of StartRecord "[]" rows r] by (simp add: csv_row_def)
  qed
qed

lemma csv_read_write:
  assumes "\<forall>row \<in> set rows. \<forall>f \<in> set row. length f \<le> csv_field_limit"
  shows "csv_read (csv_write rows) = Inr rows"
proof -
  have "csv_run (StartRecord, [], []) acc (csv_write rows) = Inr (acc @ rows)" for acc
    using assms
  proof (induction rows arbitrary: acc)
    case Nil
    then show ?case by (simp add: csv_write_def)
  next
    case (Cons row rows)
    then have "csv_run (StartRecord, [], []) acc (csv_row row @ csv_write rows) =
        csv_run (StartRecord, [], []) (acc @ [row]) (csv_write rows)"
      by (intro csv_run_row) simp
    with Cons show ?case by (simp add: csv_write_def del: csv_run.simps)
  qed
  then show ?thesis by (simp add: csv_read_def)
qed

end
