(* ===== verification/CsvReader.thy ===== *)
theory CsvReader imports PyCsv PyBytes Evidence begin

text \<open>
  \<open>services/csv_reader.py\<close>: the bank's CSV export as bank records. A short row leaves \<open>None\<close> in
  the text columns it lacks, so a row is read into a record of optional texts first; the text of
  a built-in error message is not kept where it quotes the input.
\<close>

definition two_digits :: "ustring \<Rightarrow> bool" where
  "two_digits s \<longleftrightarrow> (length s = 1 \<or> length s = 2) \<and> all_digits s \<and> 0 < digits_nat s"

text \<open>
  \<open>datetime.strptime(s, "%d-%m-%Y").date()\<close> of a stripped text: a day or month of one or two
  digits, a year of four.
\<close>

definition strptime_dmy :: "ustring \<Rightarrow> date option" where
  "strptime_dmy s =
     (case split_on 45 s of
        [d, m, y] \<Rightarrow>
          (if two_digits d \<and> two_digits m \<and> length y = 4 \<and> all_digits y
           then mk_date (int (digits_nat y)) (int (digits_nat m)) (int (digits_nat d)) else None)
      | _ \<Rightarrow> None)"

definition parse_pl_date :: "ustring \<Rightarrow> date res" where
  "parse_pl_date s =
     (case strptime_dmy (strip s) of
        None \<Rightarrow> Inl (ValueError (U ''time data does not match format''))
      | Some d \<Rightarrow> Inr d)"

definition parse_amount :: "ustring \<Rightarrow> decimal res" where
  "parse_amount s =
     (let t = replace_char 44 46 (remove_char 32 (strip s))
      in case decimal_of_str t of
           None \<Rightarrow> Inl (ValueError (U ''Invalid amount format: '' @ t))
         | Some d \<Rightarrow> Inr d)"

text \<open>A row's fields as they are read, before a missing text is ruled out.\<close>

record csv_record = base_item +
  cr_operation_amount :: decimal
  cr_sender :: "ustring option"
  cr_recipient :: "ustring option"
  cr_details :: "ustring option"
  cr_operation_currency :: "ustring option"
  cr_account_currency :: "ustring option"
  cr_sender_account :: "ustring option"
  cr_recipient_account :: "ustring option"

text \<open>\<open>row[key]\<close>, and the same where a text method is called on it at once.\<close>

definition row_get :: "(ustring, ustring option) dict \<Rightarrow> ustring \<Rightarrow> ustring option res" where
  "row_get row key =
     (case dget row key of
        None \<Rightarrow> Inl (OtherError (U [CHR 0x27] @ key @ U [CHR 0x27]))
      | Some v \<Rightarrow> Inr v)"

definition row_text :: "(ustring, ustring option) dict \<Rightarrow> ustring \<Rightarrow> ustring res" where
  "row_text row key =
     (case row_get row key of
        Inl e \<Rightarrow> Inl e
      | Inr None \<Rightarrow> Inl (OtherError (U ''NoneType object has no such attribute''))
      | Inr (Some s) \<Rightarrow> Inr s)"

definition row_date :: "(ustring, ustring option) dict \<Rightarrow> ustring \<Rightarrow> date res" where
  "row_date row key = (case row_text row key of Inl e \<Rightarrow> Inl e | Inr s \<Rightarrow> parse_pl_date s)"

definition row_amount :: "(ustring, ustring option) dict \<Rightarrow> ustring \<Rightarrow> decimal res" where
  "row_amount row key =
     (case row_text row key of
        Inl e \<Rightarrow> Inl e
      | Inr s \<Rightarrow> parse_amount (remove_char 32 (replace_char 44 46 s)))"

definition col_date :: ustring where "col_date = U ''Data transakcji''"
definition col_amount :: ustring where "col_amount = U ''Kwota w walucie rachunku''"
definition col_operation_amount :: ustring where "col_operation_amount = U ''Kwota operacji''"

text \<open>The seven text columns, in the order the record is built.\<close>

definition text_columns :: "ustring list" where
  "text_columns =
     [U ''Nazwa nadawcy'', U ''Nazwa odbiorcy'',
      U ''Szczeg'' @ [243, 322] @ U ''y transakcji'',
      U ''Waluta operacji'', U ''Waluta rachunku'', U ''Numer rachunku nadawcy'',
      U ''Numer rachunku odbiorcy'']"

definition csv_record_of_row :: "(ustring, ustring option) dict \<Rightarrow> csv_record res" where
  "csv_record_of_row row =
     (case row_date row col_date of Inl e \<Rightarrow> Inl e
      | Inr d \<Rightarrow>
     (case row_amount row col_amount of Inl e \<Rightarrow> Inl e
      | Inr a \<Rightarrow>
     (case row_amount row col_operation_amount of Inl e \<Rightarrow> Inl e
      | Inr oa \<Rightarrow>
     (case mapE (row_get row) text_columns of
        Inr [snd_name, rcp, det, oc, ac, sa, ra] \<Rightarrow>
          Inr \<lparr>bi_date = d, bi_amount = a, cr_operation_amount = oa, cr_sender = snd_name,
               cr_recipient = rcp, cr_details = det, cr_operation_currency = oc,
               cr_account_currency = ac, cr_sender_account = sa, cr_recipient_account = ra\<rparr>
      | Inl e \<Rightarrow> Inl e
      | Inr _ \<Rightarrow> Inl (OtherError [])))))"

definition parse_csv_text :: "ustring \<Rightarrow> csv_record list res" where
  "parse_csv_text s =
     (case skip_line s of
        None \<Rightarrow> Inl (OtherError (U ''coroutine raised StopIteration''))
      | Some rest \<Rightarrow>
          (case csv_read rest of
             Inl e \<Rightarrow> Inl e
           | Inr rows \<Rightarrow> mapE csv_record_of_row (dict_rows rows)))"

text \<open>\<open>BankCSVReader(path).parse()\<close> of a file's bytes.\<close>

definition parse_csv_file :: "nat list \<Rightarrow> csv_record list res" where
  "parse_csv_file bytes =
     (case utf8_decode bytes of
        None \<Rightarrow> Inl (ValueError (U ''utf-8 codec cannot decode''))
      | Some s \<Rightarrow> parse_csv_text s)"

text \<open>A record with all its texts.\<close>

definition complete_record :: "csv_record \<Rightarrow> bank_record res" where
  "complete_record r =
     (case (cr_sender r, cr_recipient r, cr_details r, cr_operation_currency r,
            cr_account_currency r, cr_sender_account r, cr_recipient_account r) of
        (Some s, Some rcp, Some d, Some oc, Some ac, Some sa, Some ra) \<Rightarrow>
          Inr \<lparr>bi_date = bi_date r, bi_amount = bi_amount r, br_details = d, br_recipient = rcp,
               br_operation_amount = cr_operation_amount r, br_sender = s,
               br_operation_currency = oc, br_account_currency = ac, br_sender_account = sa,
               br_recipient_account = ra\<rparr>
      | _ \<Rightarrow> Inl (ValueError (U ''Input should be a valid string'')))"

section \<open>What a parsed file promises\<close>

lemma strptime_dmy_valid: "strptime_dmy s = Some d \<Longrightarrow> valid_date d"
  by (auto simp: strptime_dmy_def dest: mk_date_valid split: list.splits if_splits)

lemma parse_pl_date_valid: "parse_pl_date s = Inr d \<Longrightarrow> valid_date d"
  by (auto simp: parse_pl_date_def dest: strptime_dmy_valid split: option.splits)

lemma csv_record_of_row_valid: "csv_record_of_row row = Inr r \<Longrightarrow> valid_date (bi_date r)"
  by (auto simp: csv_record_of_row_def row_date_def dest!: parse_pl_date_valid
      split: sum.splits list.splits)

lemma parse_csv_text_valid:
  assumes "parse_csv_text s = Inr rs" and "r \<in> set rs"
  shows "valid_date (bi_date r)"
proof -
  from assms(1) obtain rows where "mapE csv_record_of_row rows = Inr rs"
    by (auto simp: parse_csv_text_def split: option.splits sum.splits)
  with assms(2) obtain row where "csv_record_of_row row = Inr r"
    by (auto simp: mapE_Inr_iff list_all2_conv_all_nth in_set_conv_nth)
  then show ?thesis by (rule csv_record_of_row_valid)
qed

text \<open>A date is read back from the text the bank writes.\<close>

definition format_dmy :: "date \<Rightarrow> ustring" where
  "format_dmy d =
     pad_num 2 (d_day d) @ U ''-'' @ pad_num 2 (d_month d) @ U ''-'' @ pad_num 4 (d_year d)"

lemma split_on_go_piece:
  "c \<notin> set s \<Longrightarrow> split_on_go c w (s @ c # r) = (rev w @ s) # split_on_go c [] r"
  "c \<notin> set s \<Longrightarrow> split_on_go c w s = [rev w @ s]"
  by (induction s arbitrary: w) auto

lemma digits_val_all: "all_digits s \<Longrightarrow> s \<noteq> [] \<or> b \<Longrightarrow>
    digits_val a b s = Some (foldl (\<lambda>a c. a * 10 + (c - 48)) a s)"
  by (induction s arbitrary: a b) (auto simp: all_digits_def)

lemma pad_num_digits: "all_digits (pad_num w n)"
  by (auto simp: all_digits_def pad_num_def pad_left_def list_all_iff is_digit_def
      dest: str_nat_digits)

lemma digits_nat_pad_num: "digits_nat (pad_num w n) = n"
proof -
  have "pad_num w n \<noteq> []" by (simp add: pad_num_def pad_left_def)
  with digits_val_all [OF pad_num_digits, of w n False 0] digits_val_pad_num [of w n]
  show ?thesis by (simp add: digits_nat_def)
qed

lemma length_str_nat: "n < 10 ^ Suc w \<Longrightarrow> length (str_nat n) \<le> Suc w"
proof (induction w arbitrary: n)
  case 0
  then show ?case by (subst str_nat.simps) simp
next
  case (Suc w)
  then have "n div 10 < 10 ^ Suc w" by (simp add: less_mult_imp_div_less mult.commute)
  from Suc.IH [OF this] show ?case by (subst str_nat.simps) simp
qed

lemma length_pad_num: "n < 10 ^ w \<Longrightarrow> 0 < w \<Longrightarrow> length (pad_num w n) = w"
  using length_str_nat [of n "w - 1"] by (cases w) (auto simp: pad_num_def pad_left_def)

lemma pad_num_plain: "45 \<notin> set (pad_num w n)" and pad_num_no_space: "c \<in> set (pad_num w n) \<Longrightarrow> \<not> is_space c"
  using pad_num_digits [of w n]
  by (auto simp: all_digits_def list_all_iff is_digit_def is_space_def)

lemma parse_format_dmy:
  assumes "valid_date d"
  shows "parse_pl_date (format_dmy d) = Inr d"
proof -
  let ?s = "format_dmy d"
  obtain y m a where d: "d = Date y m a" by (cases d)
  with assms have r: "1 \<le> y" "y \<le> 9999" "1 \<le> m" "m \<le> 12" "1 \<le> a" "a \<le> days_in_month y m" by auto
  have "days_in_month y m \<le> 31" by (simp add: days_in_month_def)
  with r have a: "a < 100" by simp
  have split: "split_on 45 ?s = [pad_num 2 a, pad_num 2 m, pad_num 4 y]"
    by (simp add: split_on_def format_dmy_def d U_def split_on_go_piece pad_num_plain)
  have "pad_num 2 a \<noteq> []" "pad_num 4 y \<noteq> []" by (simp_all add: pad_num_def pad_left_def)
  then have "?s \<noteq> []" "hd ?s \<in> set (pad_num 2 a)" "last ?s \<in> set (pad_num 4 y)"
    by (simp_all add: format_dmy_def d)
  then have "strip ?s = ?s"
    unfolding strip_def by (intro strip_by_id) (auto dest: pad_num_no_space)
  moreover have "mk_date (int y) (int m) (int a) = Some d"
    using r d by (simp add: mk_date_def)
  ultimately show ?thesis
    using r a split length_pad_num [of a 2] length_pad_num [of m 2] length_pad_num [of y 4]
    by (simp add: parse_pl_date_def strptime_dmy_def two_digits_def pad_num_digits digits_nat_pad_num)
qed

text \<open>A record keeps its date and amount when its texts are all there.\<close>

lemma complete_record_base:
  "complete_record r = Inr b \<Longrightarrow> bi_date b = bi_date r \<and> bi_amount b = bi_amount r"
  by (auto simp: complete_record_def split: option.splits)


text \<open>A file that was written as rows, under any first line, is read row by row.\<close>

lemma drop_line_first: "\<forall>c \<in> set l. \<not> is_crlf c \<Longrightarrow> drop_line (l @ 10 # cs) = cs"
  by (induction l) (auto simp: line_ends_def is_crlf_def)

lemma parse_csv_text_write:
  assumes "\<forall>c \<in> set l. \<not> is_crlf c"
    and "\<forall>row \<in> set rows. \<forall>f \<in> set row. length f \<le> csv_field_limit"
  shows "parse_csv_text (l @ 10 # csv_write rows) = mapE csv_record_of_row (dict_rows rows)"
  using assms by (simp add: parse_csv_text_def skip_line_def drop_line_first csv_read_write)

end
