(* ===== verification/Firefly.thy ===== *)
theory Firefly imports Matcher begin

text \<open>
  The services over the Firefly III client: \<open>services/firefly_base_service.py\<close>,
  \<open>services/firefly_enrichment_service.py\<close> and \<open>services/firefly_tx_service.py\<close>. The client library is a parameter: a record of its calls
  over a remote state of any type, each returning a result or an exception and the new state.
\<close>

section \<open>The client\<close>

record ff_stats =
  st_total :: int
  st_duration_ms :: int
  st_invalid :: int
  st_multipart :: int

record 'w ff_client =
  cl_fetch_transactions ::
    "date option \<Rightarrow> date option \<Rightarrow> int \<Rightarrow> int option \<Rightarrow> 'w \<Rightarrow> ff_tx list res \<times> 'w"
  cl_update_transaction :: "int \<Rightarrow> ff_tx_update \<Rightarrow> 'w \<Rightarrow> unit res \<times> 'w"
  cl_get_transaction :: "int \<Rightarrow> 'w \<Rightarrow> ff_tx res \<times> 'w"
  cl_fetch_categories :: "'w \<Rightarrow> (int \<times> ustring) list res \<times> 'w"
  cl_fetch_with_stats ::
    "date option \<Rightarrow> date option \<Rightarrow> 'w \<Rightarrow> (ff_tx list \<times> ff_stats) res \<times> 'w"

text \<open>
  \<open>except FireflyAPIError as e: raise FireflyServiceError(message, e.status_code)\<close>: other
  exceptions pass.
\<close>

fun wrap_api :: "ustring \<Rightarrow> exn \<Rightarrow> exn" where
  "wrap_api msg (FireflyAPIError m sc) = FireflyServiceError msg sc"
| "wrap_api msg e = e"

text \<open>\<open>except FireflyServiceError as e: raise ExternalServiceFailed(str(e))\<close>\<close>

fun wrap_external :: "exn \<Rightarrow> exn" where
  "wrap_external (FireflyServiceError m sc) = AppError ExternalServiceFailed m"
| "wrap_external e = e"

definition no_api_error :: "exn \<Rightarrow> bool" where
  "no_api_error e \<longleftrightarrow> (case e of FireflyAPIError _ _ \<Rightarrow> False | _ \<Rightarrow> True)"

lemma wrap_api_no_api_error [simp]: "no_api_error (wrap_api m e)"
  by (cases e) (auto simp: no_api_error_def)

section \<open>\<open>FireflyBaseService\<close>\<close>

definition fetch_transactions ::
    "'w ff_client \<Rightarrow> date option \<Rightarrow> date option \<Rightarrow> int \<Rightarrow> int option \<Rightarrow> bool \<Rightarrow> 'w
       \<Rightarrow> transaction list res \<times> 'w" where
  "fetch_transactions cl start_date end_date page_size max_pages exclude_categorized w =
     (case cl_fetch_transactions cl start_date end_date page_size max_pages w of
        (Inl e, w') \<Rightarrow> (Inl (wrap_api (U ''Failed to fetch transactions from Firefly iii'') e), w')
      | (Inr ff_txs, w') \<Rightarrow>
          (case mapE tx_from_ff_tx ff_txs of
             Inl e \<Rightarrow> (Inl (wrap_api (U ''Failed to fetch transactions from Firefly iii'') e), w')
           | Inr domain_txs \<Rightarrow>
               (Inr (if exclude_categorized then filter_out_categorized domain_txs
                     else domain_txs), w')))"

definition update_transaction ::
    "'w ff_client \<Rightarrow> transaction \<Rightarrow> tx_update \<Rightarrow> 'w \<Rightarrow> unit res \<times> 'w" where
  "update_transaction cl t payload w =
     (case cl_update_transaction cl (tx_id t) (tx_update_to_ff_tx_update payload) w of
        (Inl e, w') \<Rightarrow> (Inl (wrap_api (U ''Failed to update transaction '' @ str_int (tx_id t)) e), w')
      | (Inr _, w') \<Rightarrow> (Inr (), w'))"

record fetch_metrics =
  fm_total_transactions :: int
  fm_fetching_duration_ms :: int
  fm_invalid :: int
  fm_multipart :: int

definition fetch_transactions_with_metrics ::
    "'w ff_client \<Rightarrow> date option \<Rightarrow> date option \<Rightarrow> 'w
       \<Rightarrow> (transaction list \<times> fetch_metrics) res \<times> 'w" where
  "fetch_transactions_with_metrics cl start_date end_date w =
     (case cl_fetch_with_stats cl start_date end_date w of
        (Inl e, w') \<Rightarrow> (Inl (wrap_api (U ''Failed to fetch transactions from Firefly iii'') e), w')
      | (Inr (ff_txs, stats), w') \<Rightarrow>
          (case mapE tx_from_ff_tx ff_txs of
             Inl e \<Rightarrow> (Inl e, w')
           | Inr domain_txs \<Rightarrow>
               (Inr (domain_txs,
                     \<lparr>fm_total_transactions = st_total stats,
                      fm_fetching_duration_ms = st_duration_ms stats,
                      fm_invalid = st_invalid stats, fm_multipart = st_multipart stats\<rparr>), w')))"

section \<open>\<open>FireflyEnrichmentService\<close>\<close>

text \<open>\<open>min\<close> and \<open>max\<close> of the dates; \<open>None\<close> for no candidate, where both raise \<open>ValueError\<close>.\<close>

fun min_date :: "date list \<Rightarrow> date option" where
  "min_date [] = None"
| "min_date (d # ds) = Some (foldl min d ds)"

fun max_date :: "date list \<Rightarrow> date option" where
  "max_date [] = None"
| "max_date (d # ds) = Some (foldl max d ds)"

definition match_with_unmatched ::
    "int \<Rightarrow> 'w ff_client \<Rightarrow> ('a base_item_scheme \<Rightarrow> transaction \<Rightarrow> bool res)
       \<Rightarrow> 'a base_item_scheme list \<Rightarrow> ustring \<Rightarrow> tx_tag \<Rightarrow> 'w
       \<Rightarrow> ('a base_item_scheme match_result list \<times> 'a base_item_scheme list) res \<times> 'w" where
  "match_with_unmatched future_days cl cmp candidates filter_text tag_done w =
     (case (min_date (map bi_date candidates), max_date (map bi_date candidates)) of
        (Some lo, Some hi0) \<Rightarrow>
          (case add_days hi0 future_days of
             None \<Rightarrow> (Inl (OverflowError (U ''date value out of range'')), w)
           | Some hi \<Rightarrow>
               (case fetch_transactions cl (Some lo) (Some hi) 1000 None False w of
                  (Inl e, w') \<Rightarrow> (Inl e, w')
                | (Inr domain_txs, w') \<Rightarrow>
                    (match_transactions cmp
                       (filter_by_description domain_txs filter_text False False)
                       candidates tag_done, w')))
      | _ \<Rightarrow> (Inl (ValueError (U ''min() iterable argument is empty'')), w))"

definition match_only ::
    "int \<Rightarrow> 'w ff_client \<Rightarrow> ('a base_item_scheme \<Rightarrow> transaction \<Rightarrow> bool res)
       \<Rightarrow> 'a base_item_scheme list \<Rightarrow> ustring \<Rightarrow> tx_tag \<Rightarrow> 'w
       \<Rightarrow> 'a base_item_scheme match_result list res \<times> 'w" where
  "match_only future_days cl cmp candidates filter_text tag_done w =
     (case match_with_unmatched future_days cl cmp candidates filter_text tag_done w of
        (Inl e, w') \<Rightarrow> (Inl e, w')
      | (Inr (matches, _), w') \<Rightarrow> (Inr matches, w'))"

definition apply_match ::
    "'w ff_client \<Rightarrow> ('i \<Rightarrow> transaction \<Rightarrow> tx_update res) \<Rightarrow> transaction \<Rightarrow> 'i \<Rightarrow> 'w
       \<Rightarrow> unit res \<times> 'w" where
  "apply_match cl build t ev w =
     (case build ev t of Inl e \<Rightarrow> (Inl e, w) | Inr payload \<Rightarrow> update_transaction cl t payload w)"

section \<open>\<open>FireflyTxService\<close>\<close>

text \<open>
  The last filter looks for the Allegro text as it is configured, not lowered, in the lowered
  description.
\<close>

definition allegro_pending :: "ustring \<Rightarrow> transaction \<Rightarrow> bool" where
  "allegro_pending filter_desc_allegro t \<longleftrightarrow>
     contains (lower (tx_description t)) filter_desc_allegro \<and>
     tag_value allegro_done \<notin> tx_tags t"

definition screening_filter :: "ustring \<Rightarrow> ustring \<Rightarrow> transaction list \<Rightarrow> transaction list" where
  "screening_filter desc_blik desc_allegro domain_txs =
     (let f1 = filter_by_description domain_txs desc_blik True True;
          f2 = filter (\<lambda>t. tag_value action_req \<notin> tx_tags t) f1
      in filter (\<lambda>t. \<not> allegro_pending desc_allegro t) f2)"

definition get_txs_for_screening ::
    "'w ff_client \<Rightarrow> ustring \<Rightarrow> ustring \<Rightarrow> date option \<Rightarrow> date option \<Rightarrow> 'w
       \<Rightarrow> transaction list res \<times> 'w" where
  "get_txs_for_screening cl desc_blik desc_allegro start_date end_date w =
     (case fetch_transactions cl start_date end_date 1000 None True w of
        (Inl e, w') \<Rightarrow> (Inl e, w')
      | (Inr txs, w') \<Rightarrow> (Inr (screening_filter desc_blik desc_allegro txs), w'))"

definition get_categories :: "'w ff_client \<Rightarrow> 'w \<Rightarrow> category list res \<times> 'w" where
  "get_categories cl w =
     (case cl_fetch_categories cl w of
        (Inl e, w') \<Rightarrow> (Inl (wrap_api (U ''Failed to fetch categories from Firefly iii'') e), w')
      | (Inr cats, w') \<Rightarrow> (Inr (map category_from_ff_category cats), w'))"

definition get_transaction :: "'w ff_client \<Rightarrow> int \<Rightarrow> 'w \<Rightarrow> transaction res \<times> 'w" where
  "get_transaction cl i w =
     (case cl_get_transaction cl i w of
        (Inl e, w') \<Rightarrow> (Inl (wrap_api (U ''Failed to fetch transaction '' @ str_int i) e), w')
      | (Inr t, w') \<Rightarrow> (tx_from_ff_tx t, w'))"

definition apply_category :: "'w ff_client \<Rightarrow> transaction \<Rightarrow> int \<Rightarrow> 'w \<Rightarrow> unit res \<times> 'w" where
  "apply_category cl t category_id w =
     update_transaction cl t (no_update\<lparr>up_category_id := Some category_id\<rparr>) w"

text \<open>\<open>tx.tags.add(tag)\<close> changes the transaction object before the call.\<close>

definition add_tag :: "'w ff_client \<Rightarrow> transaction \<Rightarrow> ustring \<Rightarrow> 'w \<Rightarrow> unit res \<times> 'w" where
  "add_tag cl t tag w =
     (let t' = t\<lparr>tx_tags := insert tag (tx_tags t)\<rparr>
      in update_transaction cl t' (no_update\<lparr>up_tags := Some (tx_tags t')\<rparr>) w)"

definition apply_category_by_id :: "'w ff_client \<Rightarrow> int \<Rightarrow> int \<Rightarrow> 'w \<Rightarrow> unit res \<times> 'w" where
  "apply_category_by_id cl i category_id w =
     (case get_transaction cl i w of
        (Inl e, w') \<Rightarrow> (Inl e, w')
      | (Inr t, w') \<Rightarrow> apply_category cl t category_id w')"

definition add_tag_by_id :: "'w ff_client \<Rightarrow> int \<Rightarrow> ustring \<Rightarrow> 'w \<Rightarrow> unit res \<times> 'w" where
  "add_tag_by_id cl i tag w =
     (case get_transaction cl i w of
        (Inl e, w') \<Rightarrow> (Inl e, w')
      | (Inr t, w') \<Rightarrow> add_tag cl t tag w')"

section \<open>Lemmas\<close>

text \<open>What a fetch returns is the client's list, mapped in order, less the categorized ones.\<close>

lemma fetch_transactions_Inr:
  assumes "fetch_transactions cl s e ps mp excl w = (Inr txs, w')"
  shows "\<exists>ff domain. cl_fetch_transactions cl s e ps mp w = (Inr ff, w') \<and>
     mapE tx_from_ff_tx ff = Inr domain \<and>
     txs = (if excl then filter_out_categorized domain else domain)"
  using assms by (auto simp: fetch_transactions_def split: prod.splits sum.splits)

text \<open>No client error leaves the base service unwrapped.\<close>

lemma tx_from_ff_tx_error: "tx_from_ff_tx t = Inl e \<Longrightarrow> no_api_error e"
  by (auto simp: tx_from_ff_tx_def map_account_def account_ref_from_ff_account_ref_def
      account_type_of_def tx_type_of_def enum_of_def no_api_error_def Let_def
      split: sum.splits option.splits)

lemma update_transaction_error:
  "update_transaction cl t u w = (Inl e, w') \<Longrightarrow> no_api_error e"
  by (auto simp: update_transaction_def split: prod.splits sum.splits)

lemma fetch_transactions_error:
  "fetch_transactions cl s e ps mp excl w = (Inl x, w') \<Longrightarrow> no_api_error x"
  by (auto simp: fetch_transactions_def split: prod.splits sum.splits)

lemma foldl_min_le: "foldl min d ds \<le> d \<and> (\<forall>x \<in> set ds. foldl min d ds \<le> (x::'a::linorder))"
  by (induction ds arbitrary: d) (auto, (meson dual_order.trans min.cobounded1 min.cobounded2)+)

lemma foldl_max_ge: "d \<le> foldl max d ds \<and> (\<forall>x \<in> set ds. (x::'a::linorder) \<le> foldl max d ds)"
  by (induction ds arbitrary: d) (auto, (meson order.trans max.cobounded1 max.cobounded2)+)

lemma min_date_le: "min_date ds = Some lo \<Longrightarrow> d \<in> set ds \<Longrightarrow> lo \<le> d"
  by (cases ds) (use foldl_min_le in auto)

lemma max_date_ge: "max_date ds = Some hi \<Longrightarrow> d \<in> set ds \<Longrightarrow> d \<le> hi"
  by (cases ds) (use foldl_max_ge in auto)

lemma max_date_mem: "max_date ds = Some hi \<Longrightarrow> hi \<in> set ds"
proof -
  have mem: "foldl max d es \<in> set (d # es)" for d :: date and es
  proof (induction es arbitrary: d)
    case (Cons a es)
    from Cons.IH [of "max d a"] show ?case by (auto simp: max_def split: if_splits)
  qed simp
  assume "max_date ds = Some hi"
  then show "hi \<in> set ds" using mem by (cases ds) auto
qed

text \<open>No candidates: no request is made, and the caller gets a \<open>ValueError\<close>.\<close>

lemma match_with_unmatched_empty:
  "match_with_unmatched fd cl cmp [] flt tag w =
     (Inl (ValueError (U ''min() iterable argument is empty'')), w)"
  by (simp add: match_with_unmatched_def)

lemma match_with_unmatched_Inr:
  assumes "match_with_unmatched fd cl cmp cands flt tag w = (Inr (results, unmatched), w')"
  shows "\<exists>lo hi txs. min_date (map bi_date cands) = Some lo \<and>
      fetch_transactions cl (Some lo) (Some hi) 1000 None False w = (Inr txs, w') \<and>
      match_transactions cmp (filter_by_description txs flt False False) cands tag
        = Inr (results, unmatched)"
  using assms
  by (auto simp: match_with_unmatched_def split: option.splits prod.splits sum.splits)

text \<open>The window that is fetched reaches from the first candidate's date past the last one's.\<close>

lemma fetch_window_covers:
  assumes "min_date (map bi_date cands) = Some lo" and "max_date (map bi_date cands) = Some hi0"
    and "add_days hi0 fd = Some hi" and "0 \<le> fd"
    and "\<forall>c \<in> set cands. valid_date (bi_date c)" and "c \<in> set cands"
  shows "lo \<le> bi_date c \<and> ordinal (bi_date c) + nat fd \<le> ordinal hi"
proof -
  have "hi0 \<in> set (map bi_date cands)" using assms(2) by (rule max_date_mem)
  with assms(5) have "valid_date hi0" by auto
  moreover from assms have "bi_date c \<le> hi0" by (auto intro: max_date_ge)
  ultimately have "ordinal (bi_date c) \<le> ordinal hi0" "ordinal hi = ordinal hi0 + nat fd"
    using assms add_days_ordinal ordinal_le_iff by (blast, auto)
  moreover from assms have "lo \<le> bi_date c" by (auto intro: min_date_le)
  ultimately show ?thesis by simp
qed

lemma screening_filter_iff:
  "t \<in> set (screening_filter db da txs) \<longleftrightarrow>
     t \<in> set txs \<and> \<not> desc_matches db True t \<and> tag_value action_req \<notin> tx_tags t \<and>
     \<not> allegro_pending da t"
  by (auto simp: screening_filter_def filter_by_description_def Let_def)

end
