(* ===== verification/BlikApp.thy ===== *)
theory BlikApp imports ApiMappers CsvReader Firefly begin

text \<open>
  \<open>services/blik_application_service.py\<close> and \<open>api/routers/blik_files.py\<close>: the life of an uploaded
  bank file, its matches with transactions, and the jobs that apply decisions. The directory of
  temporary files is a dictionary from paths to contents; names, ids and clock readings that the
  code draws are arguments.
\<close>

record blik_config =
  bc_base_dir :: ustring
  bc_description_filter :: ustring
  bc_future_days :: int

record blik_state =
  bk_store :: blik_store
  bk_files :: "(ustring, nat list) dict"

section \<open>Files\<close>

definition safe_name_char :: "nat \<Rightarrow> bool" where
  "safe_name_char c \<longleftrightarrow> 97 \<le> c \<and> c \<le> 122 \<or> 65 \<le> c \<and> c \<le> 90 \<or> is_digit c \<or> c = 95 \<or> c = 45"

text \<open>\<open>SAFE_NAME_RE.match\<close>: the pattern's end anchor also matches before a final newline.\<close>

definition safe_name :: "ustring \<Rightarrow> bool" where
  "safe_name s \<longleftrightarrow>
     (let b = (if s \<noteq> [] \<and> last s = 10 then butlast s else s)
      in b \<noteq> [] \<and> list_all safe_name_char b)"

definition validate_file_id :: "ustring \<Rightarrow> unit res" where
  "validate_file_id decoded =
     (if contains decoded (U ''/'') \<or> contains decoded (U ''..'')
      then Inl (AppError InvalidFileId (U ''Invalid file id'')) else Inr ())"

definition csv_path :: "ustring \<Rightarrow> ustring \<Rightarrow> ustring" where
  "csv_path base_dir decoded = base_dir @ U ''/'' @ decoded @ U ''.csv''"

text \<open>
  The joined path needs no normalisation: the base directory is absolute and normalised, and a
  safe name is a single component.
\<close>

definition resolve_csv_path ::
    "blik_config \<Rightarrow> (ustring, nat list) dict \<Rightarrow> ustring \<Rightarrow> ustring res" where
  "resolve_csv_path cfg files decoded =
     (if \<not> safe_name decoded then Inl (AppError FileNotFound (U ''Invalid file identifier''))
      else let full_path = csv_path (bc_base_dir cfg) decoded
           in if \<not> startswith full_path (bc_base_dir cfg)
              then Inl (AppError FileNotFound (U ''Invalid file path''))
              else if full_path \<notin> fst ` set files
              then Inl (AppError FileNotFound (U ''File not found''))
              else Inr full_path)"

definition decode_file_id :: "ustring \<Rightarrow> ustring res" where
  "decode_file_id encoded =
     (case decode_base64url encoded of
        None \<Rightarrow> Inl (ValueError (U ''Incorrect padding''))
      | Some decoded \<Rightarrow> Inr decoded)"

text \<open>The steps that both previews share: decode, validate, resolve, parse.\<close>

definition open_csv :: "blik_config \<Rightarrow> blik_state \<Rightarrow> ustring \<Rightarrow> (ustring \<times> csv_record list) res" where
  "open_csv cfg s encoded =
     (case decode_file_id encoded of Inl e \<Rightarrow> Inl e
      | Inr decoded \<Rightarrow>
     (case validate_file_id decoded of Inl e \<Rightarrow> Inl e
      | Inr _ \<Rightarrow>
     (case resolve_csv_path cfg (bk_files s) decoded of Inl e \<Rightarrow> Inl e
      | Inr path \<Rightarrow>
     (case dget (bk_files s) path of
        None \<Rightarrow> Inl (OtherError (U ''No such file''))
      | Some bytes \<Rightarrow>
          (case parse_csv_file bytes of Inl e \<Rightarrow> Inl e | Inr rs \<Rightarrow> Inr (decoded, rs))))))"

record upload_response =
  ur_message :: ustring
  ur_count :: nat
  ur_id :: ustring

definition upload_csv ::
    "blik_config \<Rightarrow> ustring \<Rightarrow> nat list \<Rightarrow> blik_state \<Rightarrow> upload_response res \<times> blik_state" where
  "upload_csv cfg tmp_name file_bytes s =
     (let s' = s\<lparr>bk_files := dput (csv_path (bc_base_dir cfg) tmp_name) file_bytes (bk_files s)\<rparr>
      in case parse_csv_file file_bytes of
           Inl e \<Rightarrow> (Inl e, s')
         | Inr records \<Rightarrow>
             (case encode_base64url tmp_name of
                None \<Rightarrow> (Inl (ValueError (U ''utf-8 codec cannot encode'')), s')
              | Some encoded \<Rightarrow>
                  (Inr \<lparr>ur_message = U ''File uploaded successfully'', ur_count = length records,
                        ur_id = encoded\<rparr>, s')))"

record file_preview =
  fp_file_id :: ustring
  fp_decoded_name :: ustring
  fp_size :: nat
  fp_content :: "simplified_record list"

definition preview_csv :: "blik_config \<Rightarrow> blik_state \<Rightarrow> ustring \<Rightarrow> file_preview res" where
  "preview_csv cfg s encoded_id =
     (case open_csv cfg s encoded_id of Inl e \<Rightarrow> Inl e
      | Inr (decoded, records_domain) \<Rightarrow>
          (case mapE complete_record records_domain of Inl e \<Rightarrow> Inl e
           | Inr rs \<Rightarrow>
               (let records = map_bank_records_to_simplified rs
                in Inr \<lparr>fp_file_id = encoded_id, fp_decoded_name = decoded,
                        fp_size = length records, fp_content = records\<rparr>)))"

section \<open>Matching\<close>

record file_match =
  fmr_file_id :: ustring
  fmr_decoded_name :: ustring
  fmr_records_in_file :: nat
  fmr_transactions_found :: nat
  fmr_not_matched :: nat
  fmr_one_match :: nat
  fmr_many_matches :: nat
  fmr_content :: "simplified_record api_match_result list"

definition blik_preview_matches ::
    "blik_config \<Rightarrow> 'w ff_client \<Rightarrow> ustring \<Rightarrow> blik_state \<Rightarrow> 'w
       \<Rightarrow> file_match res \<times> blik_state \<times> 'w" where
  "blik_preview_matches cfg cl encoded_id s w =
     (case open_csv cfg s encoded_id of Inl e \<Rightarrow> (Inl e, s, w)
      | Inr (decoded, parsed) \<Rightarrow>
     (case mapE complete_record parsed of Inl e \<Rightarrow> (Inl e, s, w)
      | Inr csv_records \<Rightarrow>
     (case match_only (bc_future_days cfg) cl bank_compare csv_records
             (bc_description_filter cfg) blik_done w of
        (Inl e, w') \<Rightarrow> (Inl (wrap_external e), s, w')
      | (Inr matches, w') \<Rightarrow>
          (let s' = s\<lparr>bk_store := blik_put_matches encoded_id matches (bk_store s)\<rparr>;
               not_matched = length (filter (\<lambda>r. mr_matches r = []) matches);
               with_one_match = length (filter (\<lambda>r. length (mr_matches r) = 1) matches);
               with_many_matches = length (filter (\<lambda>r. 1 < length (mr_matches r)) matches)
           in case blik_match_results_to_api matches of
                Inl e \<Rightarrow> (Inl e, s', w')
              | Inr matches_api \<Rightarrow>
                  (Inr \<lparr>fmr_file_id = encoded_id, fmr_decoded_name = decoded,
                        fmr_records_in_file = length csv_records,
                        fmr_transactions_found = length matches,
                        fmr_not_matched = not_matched, fmr_one_match = with_one_match,
                        fmr_many_matches = with_many_matches, fmr_content = matches_api\<rparr>,
                   s', w')))))"

section \<open>Applying decisions\<close>

type_synonym blik_matches = "bank_record match_result list"

definition find_selected_match :: "int \<Rightarrow> bank_record match_result \<Rightarrow> ustring \<Rightarrow> bank_record res" where
  "find_selected_match transaction_id m selected_match_id =
     (case mapE (build_blik_match_id transaction_id) (mr_matches m) of
        Inl e \<Rightarrow> Inl e
      | Inr ids \<Rightarrow>
          (let candidates = dict_comp fst snd (zip ids (mr_matches m))
           in case dget candidates selected_match_id of
                None \<Rightarrow> Inl (AppError InvalidMatchSelection
                  (U ''Match id '' @ selected_match_id @ U '' not found for transaction id ''
                   @ str_int transaction_id))
              | Some ev \<Rightarrow> Inr ev))"

text \<open>The body of the \<open>try\<close> for one decision.\<close>

definition blik_try_decision ::
    "'w ff_client \<Rightarrow> (int, bank_record match_result) dict \<Rightarrow> blik_decision \<Rightarrow> 'w
       \<Rightarrow> unit res \<times> 'w" where
  "blik_try_decision cl index d w =
     (case dget index (bd_transaction_id d) of
        None \<Rightarrow> (Inl (AppError TransactionNotFound
                  (U ''Transaction id '' @ str_int (bd_transaction_id d) @ U '' not found'')), w)
      | Some m \<Rightarrow>
          (case find_selected_match (bd_transaction_id d) m (bd_selected_match_id d) of
             Inl e \<Rightarrow> (Inl e, w)
           | Inr ev \<Rightarrow> apply_match cl bank_build_tx_update (mr_tx m) ev w))"

definition blik_outcome_of :: "blik_decision \<Rightarrow> unit res \<Rightarrow> blik_outcome" where
  "blik_outcome_of d r =
     \<lparr>oc_transaction_id = bd_transaction_id d,
      oc_status = (case r of Inl _ \<Rightarrow> Failed | Inr _ \<Rightarrow> Success),
      oc_reason = (case r of Inl e \<Rightarrow> Some (exn_str e) | Inr _ \<Rightarrow> None),
      oc_selected_match_id = Some (bd_selected_match_id d)\<rparr>"

fun blik_apply_loop ::
    "'w ff_client \<Rightarrow> (int, bank_record match_result) dict \<Rightarrow> blik_decision list
       \<Rightarrow> blik_outcome list \<Rightarrow> 'w \<Rightarrow> blik_outcome list res \<times> 'w" where
  "blik_apply_loop cl index [] outcomes w = (Inr outcomes, w)"
| "blik_apply_loop cl index (d # ds) outcomes w =
     (case blik_try_decision cl index d w of
        (r, w') \<Rightarrow> blik_apply_loop cl index ds (outcomes @ [blik_outcome_of d r]) w')"

definition blik_apply_decisions ::
    "'w ff_client \<Rightarrow> blik_decision list \<Rightarrow> blik_matches \<Rightarrow> 'w \<Rightarrow> blik_outcome list res \<times> 'w" where
  "blik_apply_decisions cl decisions matches w =
     blik_apply_loop cl (match_index matches) decisions [] w"

text \<open>What \<open>_run_apply_job\<close> does once the outcomes are there, or the exception is.\<close>

definition blik_finish_job ::
    "instant \<Rightarrow> blik_outcome list res \<Rightarrow> blik_job \<Rightarrow> blik_job" where
  "blik_finish_job now r j =
     (let j' = (case r of
                  Inr outcomes \<Rightarrow> (foldl count_outcome j outcomes)\<lparr>job_stat := DONE\<rparr>
                | Inl e \<Rightarrow>
                    j\<lparr>job_stat := FAILED,
                      job_results := job_results j @
                        [\<lparr>oc_transaction_id = -1, oc_status = Failed,
                          oc_reason = Some (exn_str e), oc_selected_match_id = None\<rparr>]\<rparr>)
      in j'\<lparr>job_finished_at := Some now\<rparr>)"

definition blik_run_apply_job ::
    "'w ff_client \<Rightarrow> instant \<Rightarrow> blik_job \<Rightarrow> blik_decision list \<Rightarrow> blik_matches \<Rightarrow> 'w
       \<Rightarrow> blik_job \<times> 'w" where
  "blik_run_apply_job cl now job decisions matches w =
     (let job' = job\<lparr>job_stat := RUNNING\<rparr>
      in case blik_apply_decisions cl decisions matches w of
           (r, w') \<Rightarrow> (blik_finish_job now r job', w'))"

text \<open>
  A started task: its job's id, the decisions still to apply, the index of the matches it was
  given and the outcomes so far. \<open>create_task\<close> adds one.
\<close>

record blik_task =
  bt_job :: uuid
  bt_todo :: "blik_decision list"
  bt_index :: "(int, bank_record match_result) dict"
  bt_outcomes :: "blik_outcome list"
  bt_begun :: bool

definition blik_start_apply_job ::
    "uuid \<Rightarrow> instant \<Rightarrow> ustring \<Rightarrow> blik_decision list \<Rightarrow> blik_store
       \<Rightarrow> (blik_job \<times> blik_task) res \<times> blik_store" where
  "blik_start_apply_job new_id now encoded_id decisions s =
     (let matches = blik_get_matches s encoded_id
      in if matches = [] then (Inl (AppError MatchesNotComputed (U ''No match data found'')), s)
         else case blik_job_create new_id now encoded_id (length decisions) (bs_jobs s) of
                (job, jobs) \<Rightarrow>
                  (Inr (job, \<lparr>bt_job = job_id job, bt_todo = decisions,
                              bt_index = match_index matches, bt_outcomes = [],
                              bt_begun = False\<rparr>),
                   s\<lparr>bs_jobs := jobs\<rparr>))"

definition auto_decision :: "bank_record match_result \<Rightarrow> blik_decision res" where
  "auto_decision m =
     (case build_blik_match_id (tx_id (mr_tx m)) (hd (mr_matches m)) of
        Inl e \<Rightarrow> Inl e
      | Inr i \<Rightarrow> Inr \<lparr>bd_transaction_id = tx_id (mr_tx m), bd_selected_match_id = i\<rparr>)"

definition blik_start_auto_apply ::
    "uuid \<Rightarrow> instant \<Rightarrow> ustring \<Rightarrow> int option \<Rightarrow> blik_store
       \<Rightarrow> (blik_job \<times> blik_task) res \<times> blik_store" where
  "blik_start_auto_apply new_id now encoded_id limit s =
     (let matches = blik_get_matches s encoded_id
      in if matches = [] then (Inl (AppError MatchesNotComputed (U ''No match data found'')), s)
         else let single = filter (\<lambda>m. length (mr_matches m) = 1) matches;
                  single' = (case limit of None \<Rightarrow> single | Some n \<Rightarrow> slice_to n single)
              in case mapE auto_decision single' of
                   Inl e \<Rightarrow> (Inl e, s)
                 | Inr decisions \<Rightarrow> blik_start_apply_job new_id now encoded_id decisions s)"

text \<open>The helper that builds decisions for given transactions with exactly one match.\<close>

fun single_match_decisions_loop ::
    "(int, bank_record match_result) dict \<Rightarrow> int list \<Rightarrow> blik_decision list
       \<Rightarrow> blik_decision list res" where
  "single_match_decisions_loop index [] decisions = Inr decisions"
| "single_match_decisions_loop index (i # is) decisions =
     (case dget index i of
        None \<Rightarrow> Inl (AppError TransactionNotFound
                  (U ''Transaction id '' @ str_int i @ U '' not found''))
      | Some m \<Rightarrow>
          (if length (mr_matches m) \<noteq> 1
           then Inl (AppError InvalidMatchSelection
                  (U ''Transaction id '' @ str_int i @ U '' does not have exactly one match''))
           else case build_blik_match_id i (hd (mr_matches m)) of
                  Inl e \<Rightarrow> Inl e
                | Inr sel \<Rightarrow>
                    single_match_decisions_loop index is
                      (decisions @ [\<lparr>bd_transaction_id = i, bd_selected_match_id = sel\<rparr>])))"

definition build_single_match_decisions ::
    "blik_matches \<Rightarrow> int list \<Rightarrow> blik_decision list res" where
  "build_single_match_decisions matches tx_ids =
     single_match_decisions_loop (match_index matches) tx_ids []"

definition blik_get_apply_job :: "blik_store \<Rightarrow> uuid \<Rightarrow> blik_job option" where
  "blik_get_apply_job s i = blik_job_get (bs_jobs s) i"

section \<open>Tasks running side by side\<close>

text \<open>
  The event loop's view: the store, the tasks that are not finished and the remote state. A task
  can be interrupted at every call to the Firefly client, so one decision is one step.
\<close>

record 'w blik_world =
  bw_store :: blik_store
  bw_tasks :: "blik_task list"
  bw_remote :: 'w

definition blik_set_job :: "uuid \<Rightarrow> (blik_job \<Rightarrow> blik_job) \<Rightarrow> blik_store \<Rightarrow> blik_store" where
  "blik_set_job i f s =
     (case dget (bs_jobs s) i of
        None \<Rightarrow> s
      | Some j \<Rightarrow> s\<lparr>bs_jobs := dput i (f j) (bs_jobs s)\<rparr>)"

inductive blik_step :: "'w ff_client \<Rightarrow> 'w blik_world \<Rightarrow> 'w blik_world \<Rightarrow> bool"
  for cl :: "'w ff_client" where
  start:
    "blik_start_apply_job i now enc ds (bw_store W) = (Inr (job, t), s') \<Longrightarrow>
     dget (bs_jobs (bw_store W)) i = None \<Longrightarrow>
     blik_step cl W (W\<lparr>bw_store := s', bw_tasks := bw_tasks W @ [t]\<rparr>)"
| begin_task:
    "bw_tasks W = pre @ t # post \<Longrightarrow> \<not> bt_begun t \<Longrightarrow>
     blik_step cl W
       (W\<lparr>bw_store := blik_set_job (bt_job t) (job_stat_update (\<lambda>_. RUNNING)) (bw_store W),
          bw_tasks := pre @ t\<lparr>bt_begun := True\<rparr> # post\<rparr>)"
| decide:
    "bw_tasks W = pre @ t # post \<Longrightarrow> bt_begun t \<Longrightarrow> bt_todo t = d # ds \<Longrightarrow>
     blik_try_decision cl (bt_index t) d (bw_remote W) = (r, w') \<Longrightarrow>
     blik_step cl W
       (W\<lparr>bw_tasks := pre @ t\<lparr>bt_todo := ds, bt_outcomes := bt_outcomes t @ [blik_outcome_of d r]\<rparr>
                        # post,
          bw_remote := w'\<rparr>)"
| finish:
    "bw_tasks W = pre @ t # post \<Longrightarrow> bt_begun t \<Longrightarrow> bt_todo t = [] \<Longrightarrow>
     blik_step cl W
       (W\<lparr>bw_store := blik_set_job (bt_job t) (blik_finish_job now (Inr (bt_outcomes t))) (bw_store W),
          bw_tasks := pre @ post\<rparr>)"
| preview:
    "blik_step cl W (W\<lparr>bw_store := blik_put_matches enc ms (bw_store W), bw_remote := w'\<rparr>)"
| remote: "blik_step cl W (W\<lparr>bw_remote := w'\<rparr>)"

definition blik_world_start :: "'w \<Rightarrow> 'w blik_world" where
  "blik_world_start w = \<lparr>bw_store = blik_store_empty, bw_tasks = [], bw_remote = w\<rparr>"

inductive blik_reachable :: "'w ff_client \<Rightarrow> 'w blik_world \<Rightarrow> bool" for cl :: "'w ff_client" where
  init: "blik_reachable cl (blik_world_start w)"
| step: "blik_reachable cl W \<Longrightarrow> blik_step cl W W' \<Longrightarrow> blik_reachable cl W'"

lemma blik_finish_job_closed:
  assumes "job_open j" and "length outcomes = job_total j"
  shows "job_closed (blik_finish_job now (Inr outcomes) j)"
    and "job_id (blik_finish_job now (Inr outcomes) j) = job_id j"
    and "job_total (blik_finish_job now (Inr outcomes) j) = job_total j"
    and "job_results (blik_finish_job now (Inr outcomes) j) = outcomes"
  using assms
  by (simp_all add: job_closed_def job_open_def blik_finish_job_def Let_def foldl_count_outcome)

text \<open>Applying decisions always gives one outcome for each, in their order.\<close>

lemma blik_apply_loop_Inr:
  "\<exists>ocs w'. blik_apply_loop cl index ds outcomes w = (Inr (outcomes @ ocs), w') \<and>
     map oc_transaction_id ocs = map bd_transaction_id ds"
proof (induction ds arbitrary: outcomes w)
  case Nil
  then show ?case by simp
next
  case (Cons d ds)
  obtain r w1 where r: "blik_try_decision cl index d w = (r, w1)" by (cases "blik_try_decision cl index d w")
  from Cons.IH [of "outcomes @ [blik_outcome_of d r]" w1] obtain ocs w' where
    "blik_apply_loop cl index ds (outcomes @ [blik_outcome_of d r]) w1 =
       (Inr ((outcomes @ [blik_outcome_of d r]) @ ocs), w')"
    "map oc_transaction_id ocs = map bd_transaction_id ds" by blast
  with r show ?case
    by (intro exI [of _ "blik_outcome_of d r # ocs"] exI [of _ w']) (simp add: blik_outcome_of_def)
qed

lemma blik_run_apply_job_closed:
  assumes "job_open job" and "length decisions = job_total job"
  shows "job_closed (fst (blik_run_apply_job cl now job decisions matches w))"
    and "map oc_transaction_id (job_results (fst (blik_run_apply_job cl now job decisions matches w)))
      = map bd_transaction_id decisions"
proof -
  from blik_apply_loop_Inr [of cl "match_index matches" decisions "[]" w] obtain ocs w' where
    r: "blik_apply_decisions cl decisions matches w = (Inr ocs, w')"
    and ocs: "map oc_transaction_id ocs = map bd_transaction_id decisions"
    unfolding blik_apply_decisions_def by auto
  from ocs assms(2) have len: "length ocs = job_total (job\<lparr>job_stat := RUNNING\<rparr>)"
    by (metis length_map job.select_convs(2) job.surjective job.update_convs(3))
  have op: "job_open (job\<lparr>job_stat := RUNNING\<rparr>)" using assms(1) by (simp add: job_open_def)
  show "job_closed (fst (blik_run_apply_job cl now job decisions matches w))"
    and "map oc_transaction_id (job_results (fst (blik_run_apply_job cl now job decisions matches w)))
      = map bd_transaction_id decisions"
    using blik_finish_job_closed [OF op len] ocs
    by (simp_all add: blik_run_apply_job_def Let_def r)
qed

section \<open>What holds in every reachable state\<close>

lemma dget_blik_set_job [dict_simps]:
  "dget (bs_jobs (blik_set_job i f s)) k =
     (if k = i then map_option f (dget (bs_jobs s) i) else dget (bs_jobs s) k)"
  by (auto simp: blik_set_job_def dict_simps split: option.splits)

definition task_ok :: "blik_jobs \<Rightarrow> blik_task \<Rightarrow> bool" where
  "task_ok jobs t \<longleftrightarrow>
     (case dget jobs (bt_job t) of
        None \<Rightarrow> False
      | Some j \<Rightarrow> job_open j \<and> job_stat j = (if bt_begun t then RUNNING else PENDING) \<and>
                  length (bt_outcomes t) + length (bt_todo t) = job_total j)"

definition blik_inv :: "'w blik_world \<Rightarrow> bool" where
  "blik_inv W \<longleftrightarrow>
     distinct (map bt_job (bw_tasks W)) \<and>
     (\<forall>t \<in> set (bw_tasks W). task_ok (bs_jobs (bw_store W)) t) \<and>
     (\<forall>k j. dget (bs_jobs (bw_store W)) k = Some j \<longrightarrow>
        job_id j = k \<and> (job_closed j \<or> k \<in> bt_job ` set (bw_tasks W)))"

lemma blik_start_cases:
  assumes "blik_start_apply_job i now enc ds s = (Inr (job, t), s')"
  shows "job = new_blik_job i now enc (length ds)" and "bs_jobs s' = dput i job (bs_jobs s)"
    and "bt_job t = i" and "bt_todo t = ds" and "bt_outcomes t = []" and "\<not> bt_begun t"
    and "blik_get_matches s enc \<noteq> []"
  using assms
  by (auto simp: blik_start_apply_job_def blik_job_create_def new_blik_job_def Let_def
      split: if_splits)

lemma blik_inv_start:
  assumes "blik_inv W" and "blik_start_apply_job i now enc ds (bw_store W) = (Inr (job, t), s')"
    and "dget (bs_jobs (bw_store W)) i = None"
  shows "blik_inv (W\<lparr>bw_store := s', bw_tasks := bw_tasks W @ [t]\<rparr>)"
proof -
  note c = blik_start_cases [OF assms(2)]
  have fresh: "bt_job u \<noteq> i" if "u \<in> set (bw_tasks W)" for u
    using that assms(1,3) by (auto simp: blik_inv_def task_ok_def split: option.splits)
  have "task_ok (bs_jobs s') u" if "u \<in> set (bw_tasks W)" for u
    using that assms(1) fresh [OF that] by (auto simp: blik_inv_def task_ok_def c dict_simps)
  moreover have "task_ok (bs_jobs s') t"
    by (simp add: task_ok_def c dict_simps new_blik_job_def job_open_def)
  moreover have "job_id j = k \<and> (job_closed j \<or> k \<in> bt_job ` set (bw_tasks W @ [t]))"
    if "dget (bs_jobs s') k = Some j" for k j
    using that assms(1) by (auto simp: blik_inv_def c dict_simps new_blik_job_def split: if_splits)
  moreover have "bt_job t \<notin> bt_job ` set (bw_tasks W)"
    using fresh c(3) by (simp add: image_iff) metis
  ultimately show ?thesis
    using assms(1) by (auto simp: blik_inv_def)
qed

text \<open>A step of one task leaves the others' jobs alone.\<close>

lemma task_ok_other:
  "task_ok (bs_jobs s) u \<Longrightarrow> bt_job u \<noteq> i \<Longrightarrow> task_ok (bs_jobs (blik_set_job i f s)) u"
  by (simp add: task_ok_def dict_simps)

lemma blik_inv_step:
  assumes "blik_inv W" and "blik_step cl W W'"
  shows "blik_inv W'"
  using assms(2)
proof cases
  case start
  with assms(1) show ?thesis by (simp add: blik_inv_start)
next
  case (begin_task pre t post)
  have other: "bt_job u \<noteq> bt_job t" if "u \<in> set pre \<union> set post" for u
    using assms(1) begin_task(2) that distinct_map_others [of bt_job pre t post u]
    by (simp add: blik_inv_def)
  have tok: "task_ok (bs_jobs (bw_store W)) u" if "u \<in> set pre \<union> set post \<union> {t}" for u
    using assms(1) begin_task(2) that by (auto simp: blik_inv_def)
  have "task_ok (bs_jobs (blik_set_job (bt_job t) (job_stat_update (\<lambda>_. RUNNING)) (bw_store W)))
      (t\<lparr>bt_begun := True\<rparr>)"
    using tok [of t] begin_task(3)
    by (auto simp: task_ok_def dict_simps job_open_def split: option.splits)
  with assms(1) begin_task other tok show ?thesis
    by (auto simp: blik_inv_def dict_simps intro: task_ok_other split: if_splits)
next
  case (decide pre t post d ds r w')
  have "task_ok (bs_jobs (bw_store W)) t"
    using assms(1) decide(2) by (auto simp: blik_inv_def)
  then have "task_ok (bs_jobs (bw_store W))
      (t\<lparr>bt_todo := ds, bt_outcomes := bt_outcomes t @ [blik_outcome_of d r]\<rparr>)"
    using decide(4) by (auto simp: task_ok_def split: option.splits)
  with assms(1) decide show ?thesis by (auto simp: blik_inv_def)
next
  case (finish pre t post now)
  have other: "bt_job u \<noteq> bt_job t" if "u \<in> set pre \<union> set post" for u
    using assms(1) finish(2) that distinct_map_others [of bt_job pre t post u]
    by (simp add: blik_inv_def)
  have tok: "task_ok (bs_jobs (bw_store W)) u" if "u \<in> set pre \<union> set post \<union> {t}" for u
    using assms(1) finish(2) that by (auto simp: blik_inv_def)
  from tok [of t] finish(4) obtain j where j: "dget (bs_jobs (bw_store W)) (bt_job t) = Some j"
    "job_open j" "length (bt_outcomes t) = job_total j"
    by (auto simp: task_ok_def split: option.splits)
  note closed = blik_finish_job_closed [OF j(2,3)]
  have "job_id j = bt_job t" using assms(1) j(1) by (auto simp: blik_inv_def)
  with assms(1) finish other tok j(1) closed show ?thesis
    by (auto simp: blik_inv_def dict_simps intro: task_ok_other split: if_splits)
next
  case preview
  with assms(1) show ?thesis by (simp add: blik_inv_def blik_put_matches_def)
next
  case remote
  with assms(1) show ?thesis by (simp add: blik_inv_def)
qed

lemma blik_inv_reachable: "blik_reachable cl W \<Longrightarrow> blik_inv W"
proof (induction rule: blik_reachable.induct)
  case (init w)
  then show ?case by (simp add: blik_world_start_def blik_inv_def blik_store_empty_def)
next
  case (step W W')
  then show ?case by (blast intro: blik_inv_step)
qed

text \<open>A job that is done never changes again.\<close>

lemma blik_closed_stable:
  assumes "blik_inv W" and "blik_step cl W W'"
    and "dget (bs_jobs (bw_store W)) k = Some j" and "job_stat j = DONE"
  shows "dget (bs_jobs (bw_store W')) k = Some j"
proof -
  have no_task: "bt_job t \<noteq> k" if "t \<in> set (bw_tasks W)" for t
    using that assms(1,3,4) by (auto simp: blik_inv_def task_ok_def split: option.splits if_splits)
  show ?thesis
    using assms(2)
  proof cases
    case (start i now enc ds job t s')
    with assms(3) show ?thesis by (auto simp: blik_start_cases(2) dict_simps)
  qed (use assms(3) no_task in \<open>auto simp: dict_simps blik_put_matches_def\<close>)
qed

section \<open>A task alone is the function\<close>

text \<open>
  With no other step in between, the steps of a task take its job where \<open>_run_apply_job\<close> does,
  with the same effect on Firefly.
\<close>

lemma blik_decide_all:
  assumes "bw_tasks W = [t]" and "bt_begun t" and
    "blik_apply_loop cl (bt_index t) (bt_todo t) (bt_outcomes t) (bw_remote W) = (Inr ocs, w')"
  shows "(blik_step cl)\<^sup>*\<^sup>* W
    (W\<lparr>bw_tasks := [t\<lparr>bt_todo := [], bt_outcomes := ocs\<rparr>], bw_remote := w'\<rparr>)"
  using assms
proof (induction "bt_todo t" arbitrary: t W)
  case Nil
  then have "t\<lparr>bt_todo := [], bt_outcomes := ocs\<rparr> = t" "w' = bw_remote W"
    by (simp_all flip: Nil(1))
  with Nil.prems(1) show ?case by (metis blik_world.surjective blik_world.update_convs(2,3) rtranclp.rtrancl_refl)
next
  case (Cons d ds)
  obtain r w1 where r: "blik_try_decision cl (bt_index t) d (bw_remote W) = (r, w1)"
    by (cases "blik_try_decision cl (bt_index t) d (bw_remote W)")
  let ?t = "t\<lparr>bt_todo := ds, bt_outcomes := bt_outcomes t @ [blik_outcome_of d r]\<rparr>"
  let ?W = "W\<lparr>bw_tasks := [?t], bw_remote := w1\<rparr>"
  have step: "blik_step cl W ?W"
    using blik_step.decide [of W "[]" t "[]" d ds cl r w1] Cons.prems Cons.hyps(2) r by simp
  have "(blik_step cl)\<^sup>*\<^sup>* ?W (?W\<lparr>bw_tasks := [?t\<lparr>bt_todo := [], bt_outcomes := ocs\<rparr>], bw_remote := w'\<rparr>)"
  proof (rule Cons.hyps(1))
    show "blik_apply_loop cl (bt_index ?t) (bt_todo ?t) (bt_outcomes ?t) (bw_remote ?W) = (Inr ocs, w')"
      using Cons.prems(3) Cons.hyps(2) [symmetric] r by simp
  qed (use Cons.prems in simp_all)
  with step show ?case by (simp add: converse_rtranclp_into_rtranclp)
qed

lemma blik_task_runs:
  assumes tasks: "bw_tasks W = [t]" and fresh: "\<not> bt_begun t" "bt_outcomes t = []"
    and idx: "bt_index t = match_index matches"
    and job: "dget (bs_jobs (bw_store W)) (bt_job t) = Some j"
    and run: "blik_run_apply_job cl now j (bt_todo t) matches (bw_remote W) = (j', w')"
  shows "\<exists>W'. (blik_step cl)\<^sup>*\<^sup>* W W' \<and> bw_tasks W' = [] \<and> bw_remote W' = w' \<and>
    dget (bs_jobs (bw_store W')) (bt_job t) = Some j' \<and>
    (\<forall>k. k \<noteq> bt_job t \<longrightarrow> dget (bs_jobs (bw_store W')) k = dget (bs_jobs (bw_store W)) k)"
proof -
  let ?t = "t\<lparr>bt_begun := True\<rparr>"
  let ?s = "blik_set_job (bt_job t) (job_stat_update (\<lambda>_. RUNNING)) (bw_store W)"
  let ?W1 = "W\<lparr>bw_store := ?s, bw_tasks := [?t]\<rparr>"
  obtain ocs where ocs: "blik_apply_loop cl (match_index matches) (bt_todo t) [] (bw_remote W) = (Inr ocs, w')"
    and j': "j' = blik_finish_job now (Inr ocs) (j\<lparr>job_stat := RUNNING\<rparr>)"
    using run blik_apply_loop_Inr [of cl "match_index matches" "bt_todo t" "[]" "bw_remote W"]
    by (auto simp: blik_run_apply_job_def blik_apply_decisions_def Let_def)
  let ?t2 = "?t\<lparr>bt_todo := [], bt_outcomes := ocs\<rparr>"
  let ?W2 = "?W1\<lparr>bw_tasks := [?t2], bw_remote := w'\<rparr>"
  let ?W3 = "?W2\<lparr>bw_store := blik_set_job (bt_job t) (blik_finish_job now (Inr ocs)) ?s, bw_tasks := []\<rparr>"
  have 1: "blik_step cl W ?W1"
    using blik_step.begin_task [of W "[]" t "[]" cl] tasks fresh by simp
  have 2: "(blik_step cl)\<^sup>*\<^sup>* ?W1 ?W2"
    using blik_decide_all [of ?W1 ?t cl ocs w'] ocs fresh idx by simp
  have 3: "blik_step cl ?W2 ?W3"
    using blik_step.finish [of ?W2 "[]" ?t2 "[]" cl now] by simp
  from 1 2 3 have "(blik_step cl)\<^sup>*\<^sup>* W ?W3"
    by (meson converse_rtranclp_into_rtranclp rtranclp.rtrancl_into_rtrancl)
  moreover have "dget (bs_jobs (bw_store ?W3)) (bt_job t) = Some j'"
    by (simp add: dict_simps job j')
  ultimately show ?thesis by (intro exI [of _ ?W3]) (simp add: dict_simps)
qed

end
