(* ===== verification/PyJson.thy ===== *)
theory PyJson imports PyDecimal begin

text \<open>JSON values as Python has them after parsing, and their truth value.\<close>

datatype json =
    JNull | JBool bool | JNum decimal | JStr ustring | JArr "json list" | JObj "(ustring \<times> json) list"

fun json_truthy :: "json \<Rightarrow> bool" where
  "json_truthy JNull = False"
| "json_truthy (JBool b) = b"
| "json_truthy (JNum d) = (\<not> dec_is_zero d)"
| "json_truthy (JStr s) = (s \<noteq> [])"
| "json_truthy (JArr xs) = (xs \<noteq> [])"
| "json_truthy (JObj d) = (d \<noteq> [])"

text \<open>An optional text as a JSON value.\<close>

definition jopt :: "ustring option \<Rightarrow> json" where
  "jopt v = (case v of None \<Rightarrow> JNull | Some s \<Rightarrow> JStr s)"

end
