(* ===== verification/AllegroOrders.thy ===== *)
theory AllegroOrders imports Evidence PySha PyBytes PyJson begin

text \<open>
  Orders and payments of Allegro: \<open>services/allegro/payloads.py\<close>, \<open>services/allegro/get_order_result.py\<close>
  and the payments made from them in \<open>services/domain/allegro.py\<close>.
\<close>

section \<open>Payloads\<close>

text \<open>
  \<open>OrderPayload._fill_total_cost_currency\<close>: an order whose total cost has no currency gets the
  payment's.
\<close>

definition fill_total_cost_currency :: "json \<Rightarrow> json" where
  "fill_total_cost_currency j =
     (case j of
        JObj d \<Rightarrow>
          (case (dget d (U ''totalCost''), dget d (U ''payment'')) of
             (Some (JObj total_cost), Some (JObj payment)) \<Rightarrow>
               (if U ''currency'' \<in> fst ` set total_cost then j
                else case dget payment (U ''amount'') of
                       Some (JObj payment_amount) \<Rightarrow>
                         (case dget payment_amount (U ''currency'') of
                            None \<Rightarrow> j
                          | Some cur \<Rightarrow>
                              (if \<not> json_truthy cur then j
                               else JObj (dput (U ''totalCost'')
                                            (JObj (dput (U ''currency'') cur total_cost)) d)))
                     | _ \<Rightarrow> j)
           | _ \<Rightarrow> j)
      | _ \<Rightarrow> j)"

record money =
  mo_amount :: decimal
  mo_currency :: ustring

record delivery =
  dl_cost :: "money option"
  dl_name :: "ustring option"
  dl_delivered_by :: "ustring option"
  dl_method_id :: "ustring option"
  dl_status :: "ustring option"

record offer_payload =
  ofp_id :: ustring
  ofp_title :: ustring
  ofp_unit_price :: money
  ofp_friendly_url :: ustring
  ofp_quantity :: int
  ofp_image_url :: ustring

record payment_payload =
  pp_date :: "pydatetime option"
  pp_amount :: money
  pp_provider :: ustring
  pp_method :: ustring
  pp_id :: ustring

record order_payload =
  orp_id :: ustring
  orp_purchase_id :: "ustring option"
  orp_seller_login :: ustring
  orp_offers :: "offer_payload list"
  orp_delivery :: "delivery option"
  orp_create_date :: "pydatetime option"
  orp_order_date :: pydatetime
  orp_total_cost :: money
  orp_payment :: payment_payload

record order_group =
  og_id :: ustring
  og_orders :: "order_payload list"

section \<open>Offers\<close>

record offer =
  of_id :: ustring
  of_title :: ustring
  of_unit_price :: decimal
  of_currency :: ustring
  of_friendly_url :: ustring
  of_quantity :: int
  of_image_url :: ustring

definition offer_from_payload :: "offer_payload \<Rightarrow> offer" where
  "offer_from_payload p =
     \<lparr>of_id = ofp_id p, of_title = ofp_title p, of_unit_price = mo_amount (ofp_unit_price p),
      of_currency = mo_currency (ofp_unit_price p), of_friendly_url = ofp_friendly_url p,
      of_quantity = ofp_quantity p, of_image_url = ofp_image_url p\<rparr>"

text \<open>\<open>\w\<close>: letters, digits, the underscore and the number signs of Latin-1.\<close>

definition is_word_char :: "nat \<Rightarrow> bool" where
  "is_word_char c \<longleftrightarrow> is_alpha c \<or> is_digit c \<or> c \<in> {95, 178, 179, 185, 188, 189, 190}"

definition title_cp :: "nat \<Rightarrow> ustring" where
  "title_cp c = (if c = 223 then [83, 115] else upper_cp c)"

fun capitalize :: "ustring \<Rightarrow> ustring" where
  "capitalize [] = []"
| "capitalize (c # cs) = title_cp c @ lower cs"

definition format_word :: "ustring \<Rightarrow> ustring" where
  "format_word w =
     join [45] (map (\<lambda>p. if 2 < length p then capitalize p else lower p) (split_on 45 w))"

fun title_loop :: "ustring list \<Rightarrow> ustring list \<Rightarrow> nat \<Rightarrow> ustring list" where
  "title_loop [] result n = result"
| "title_loop (w # ws) result n =
     (let formatted = format_word w;
          extra = length formatted + (if result \<noteq> [] then 1 else 0)
      in if length result < 3 \<and> n + extra \<le> 32
         then title_loop ws (result @ [formatted]) (n + extra)
         else result)"

definition get_simplified_title :: "offer \<Rightarrow> ustring" where
  "get_simplified_title p =
     (let clean = filter (\<lambda>c. is_word_char c \<or> is_space c \<or> c = 45) (of_title p)
      in join [32] (title_loop (split_ws clean) [] 0))"

definition offer_line :: "offer \<Rightarrow> ustring" where
  "offer_line p =
     get_simplified_title p @ U '' x'' @ str_int (of_quantity p) @ U '' ('' @ dec_str (of_unit_price p)
       @ U '' '' @ of_currency p @ U '')''"

section \<open>Orders\<close>

definition delivery_cost_amount :: "delivery \<Rightarrow> decimal" where
  "delivery_cost_amount d = (case dl_cost d of None \<Rightarrow> dec_zero | Some c \<Rightarrow> mo_amount c)"

record order =
  or_id :: ustring
  or_group_id :: ustring
  or_purchase_id :: "ustring option"
  or_seller :: ustring
  or_offers :: "offer list"
  or_delivery :: "delivery option"
  or_order_date_raw :: pydatetime
  or_create_date_raw :: "pydatetime option"
  or_payment_date_raw :: "pydatetime option"
  or_total_cost_amount :: decimal
  or_payment_amount :: decimal
  or_currency_code :: ustring
  or_payment_provider :: ustring
  or_payment_method :: ustring
  or_payment_id :: ustring

definition order_from_payload :: "ustring \<Rightarrow> order_payload \<Rightarrow> order" where
  "order_from_payload group_id p =
     \<lparr>or_id = orp_id p, or_group_id = group_id, or_purchase_id = orp_purchase_id p,
      or_seller = orp_seller_login p, or_offers = map offer_from_payload (orp_offers p),
      or_delivery = orp_delivery p, or_order_date_raw = orp_order_date p,
      or_create_date_raw = orp_create_date p, or_payment_date_raw = pp_date (orp_payment p),
      or_total_cost_amount = mo_amount (orp_total_cost p),
      or_payment_amount = mo_amount (pp_amount (orp_payment p)),
      or_currency_code = mo_currency (pp_amount (orp_payment p)),
      or_payment_provider = pp_provider (orp_payment p),
      or_payment_method = pp_method (orp_payment p), or_payment_id = pp_id (orp_payment p)\<rparr>"

definition order_date :: "order \<Rightarrow> pydatetime" where
  "order_date x = ensure_aware (or_order_date_raw x)"

definition create_date :: "order \<Rightarrow> pydatetime" where
  "create_date x =
     (case or_create_date_raw x of None \<Rightarrow> order_date x | Some t \<Rightarrow> ensure_aware t)"

definition payment_date :: "order \<Rightarrow> pydatetime option" where
  "payment_date x = map_option ensure_aware (or_payment_date_raw x)"

definition order_items_total :: "order \<Rightarrow> decimal" where
  "order_items_total x =
     dec_sum (map (\<lambda>p. dec_mul (of_unit_price p) (dec_of_int (of_quantity p))) (or_offers x))"

definition order_delivery_total :: "order \<Rightarrow> decimal" where
  "order_delivery_total x =
     (case or_delivery x of None \<Rightarrow> dec_zero | Some d \<Rightarrow> delivery_cost_amount d)"

definition order_known_total :: "order \<Rightarrow> decimal" where
  "order_known_total x = dec_add (order_items_total x) (order_delivery_total x)"

definition order_balance_difference :: "order \<Rightarrow> decimal" where
  "order_balance_difference x = dec_sub (or_payment_amount x) (order_known_total x)"

definition one_cent :: decimal where
  "one_cent = DFin False 1 (-2)"

definition order_is_balanced :: "order \<Rightarrow> bool" where
  "order_is_balanced x \<longleftrightarrow> dec_le (dec_abs (order_balance_difference x)) one_cent = Some True"

definition list_offers :: "order \<Rightarrow> ustring list" where
  "list_offers x = map offer_line (or_offers x)"

definition format_offers :: "order \<Rightarrow> ustring" where
  "format_offers x = join [10] (map offer_line (or_offers x))"

section \<open>Payments\<close>

record payment =
  pa_id :: ustring
  pa_orders :: "order list"
  pa_tolerance :: decimal

definition mk_payment :: "ustring \<Rightarrow> order list \<Rightarrow> payment" where
  "mk_payment i orders = \<lparr>pa_id = i, pa_orders = orders, pa_tolerance = one_cent\<rparr>"

text \<open>The fields the constructor warns about.\<close>

definition payment_mismatches :: "payment \<Rightarrow> ustring list" where
  "payment_mismatches p =
     (case pa_orders p of
        [] \<Rightarrow> []
      | x # xs \<Rightarrow>
          (if list_ex (\<lambda>y. or_currency_code y \<noteq> or_currency_code x) xs then [U ''currency''] else []) @
          (if list_ex (\<lambda>y. or_payment_provider y \<noteq> or_payment_provider x) xs
           then [U ''provider''] else []) @
          (if list_ex (\<lambda>y. or_payment_method y \<noteq> or_payment_method x) xs
           then [U ''method''] else []) @
          (if list_ex (\<lambda>y. \<not> dec_eq (or_payment_amount y) (or_payment_amount x)) xs
           then [U ''amount''] else []))"

definition short_id :: "ustring \<Rightarrow> nat \<Rightarrow> ustring res" where
  "short_id id_str n =
     (case utf8_encode id_str of
        None \<Rightarrow> Inl (ValueError (U ''utf-8 codec cannot encode''))
      | Some bytes \<Rightarrow> Inr (take n (sha1_hexdigest bytes)))"

definition payment_short_id :: "payment \<Rightarrow> ustring res" where
  "payment_short_id p = short_id (pa_id p) 8"

text \<open>One order's lines in the details of a payment.\<close>

definition order_details :: "order \<Rightarrow> ustring list" where
  "order_details x =
     list_offers x @
     (case or_delivery x of
        None \<Rightarrow> []
      | Some d \<Rightarrow>
          (if dec_eq (delivery_cost_amount d) dec_zero then []
           else case dl_cost d of
                  None \<Rightarrow> []
                | Some c \<Rightarrow>
                    [U ''Delivery: '' @
                     (case dl_name d of None \<Rightarrow> U ''Delivery''
                      | Some n \<Rightarrow> if n = [] then U ''Delivery'' else n) @
                     U '' ('' @ dec_str (mo_amount c) @ U '' '' @ mo_currency c @ U '')'']))"

definition list_details :: "payment \<Rightarrow> ustring list" where
  "list_details p = foldl (\<lambda>details x. details @ order_details x) [] (pa_orders p)"

definition payment_items_total :: "payment \<Rightarrow> decimal" where
  "payment_items_total p = dec_sum (map order_items_total (pa_orders p))"

definition payment_delivery_total :: "payment \<Rightarrow> decimal" where
  "payment_delivery_total p = dec_sum (map order_delivery_total (pa_orders p))"

definition payment_known_total :: "payment \<Rightarrow> decimal" where
  "payment_known_total p = dec_add (payment_items_total p) (payment_delivery_total p)"

definition payment_amount :: "payment \<Rightarrow> decimal" where
  "payment_amount p = (case pa_orders p of [] \<Rightarrow> dec_zero | x # _ \<Rightarrow> or_payment_amount x)"

definition payment_balance_difference :: "payment \<Rightarrow> decimal" where
  "payment_balance_difference p = dec_sub (payment_amount p) (payment_known_total p)"

definition payment_is_balanced :: "payment \<Rightarrow> bool" where
  "payment_is_balanced p \<longleftrightarrow>
     dec_le (dec_abs (payment_balance_difference p)) (pa_tolerance p) = Some True"

text \<open>The properties that need a first order.\<close>

definition first_order :: "payment \<Rightarrow> order res" where
  "first_order p =
     (case pa_orders p of [] \<Rightarrow> Inl (ValueError (U ''No orders in payment'')) | x # _ \<Rightarrow> Inr x)"

definition payment_currency_code :: "payment \<Rightarrow> ustring res" where
  "payment_currency_code p = map_sum id or_currency_code (first_order p)"

definition payment_provider :: "payment \<Rightarrow> ustring res" where
  "payment_provider p = map_sum id or_payment_provider (first_order p)"

definition payment_method :: "payment \<Rightarrow> ustring res" where
  "payment_method p = map_sum id or_payment_method (first_order p)"

definition payment_datetime :: "payment \<Rightarrow> pydatetime res" where
  "payment_datetime p =
     map_sum id (\<lambda>x. case payment_date x of Some t \<Rightarrow> t | None \<Rightarrow> create_date x) (first_order p)"

definition py_bool_str :: "bool \<Rightarrow> ustring" where
  "py_bool_str b = (if b then U ''True'' else U ''False'')"

text \<open>\<open>Payment.__str__\<close> raises for a payment without orders, \<open>Payment.__repr__\<close> does not.\<close>

definition payment_str :: "payment \<Rightarrow> ustring res" where
  "payment_str p =
     (case payment_short_id p of
        Inl e \<Rightarrow> Inl e
      | Inr i \<Rightarrow>
     (case payment_provider p of
        Inl e \<Rightarrow> Inl e
      | Inr provider \<Rightarrow>
     (case payment_method p of
        Inl e \<Rightarrow> Inl e
      | Inr meth \<Rightarrow>
          Inr (U ''Payment '' @ i @ U '': Payment metadata: '' @ provider @ U ''/'' @ meth @ U '' ''
               @ str_nat (length (pa_orders p)) @ U '' orders, '' @ dec_fmt2 (payment_amount p)
               @ U '' total, balanced: '' @ py_bool_str (payment_is_balanced p)))))"

definition payment_repr :: "payment \<Rightarrow> ustring res" where
  "payment_repr p =
     (case payment_short_id p of
        Inl e \<Rightarrow> Inl e
      | Inr i \<Rightarrow>
          Inr (U ''Payment '' @ i @ U '': '' @ str_nat (length (pa_orders p)) @ U '' orders, ''
               @ dec_fmt2 (payment_amount p) @ U '' total, balanced: ''
               @ py_bool_str (payment_is_balanced p)))"

text \<open>\<open>Payment.from_orders\<close>: a \<open>defaultdict\<close> of lists, in the order the ids are first seen.\<close>

definition group_orders :: "order list \<Rightarrow> (ustring, order list) dict" where
  "group_orders orders =
     foldl (\<lambda>g x. dput (or_payment_id x)
              ((case dget g (or_payment_id x) of None \<Rightarrow> [] | Some l \<Rightarrow> l) @ [x]) g) [] orders"

definition payments_from_orders :: "order list \<Rightarrow> payment list" where
  "payments_from_orders orders = map (\<lambda>(i, g). mk_payment i g) (group_orders orders)"

record orders_result =
  ors_orders :: "order list"
  ors_payments :: "payment list"

definition get_orders_result :: "order_group list \<Rightarrow> orders_result" where
  "get_orders_result groups =
     (let orders = concat (map (\<lambda>g. map (order_from_payload (og_id g)) (og_orders g)) groups)
      in \<lparr>ors_orders = orders, ors_payments = payments_from_orders orders\<rparr>)"

section \<open>\<open>AllegroOrderPayment.from_allegro_payment\<close>\<close>

definition from_allegro_payment :: "payment \<Rightarrow> ustring \<Rightarrow> allegro_order_payment res" where
  "from_allegro_payment p login =
     (case payment_method p of Inl e \<Rightarrow> Inl e
      | Inr pm \<Rightarrow>
     (case payment_provider p of Inl e \<Rightarrow> Inl e
      | Inr pr \<Rightarrow>
     (case payment_datetime p of Inl e \<Rightarrow> Inl e
      | Inr t \<Rightarrow>
     (case payment_short_id p of Inl e \<Rightarrow> Inl e
      | Inr sid \<Rightarrow>
          Inr \<lparr>bi_date = dt_date t, bi_amount = payment_amount p,
               op_details = [U ''Buyer: '' @ login] @ list_details p @
                            [U ''Payment metadata: '' @ pm @ U ''/'' @ pr],
               op_tag_done = allegro_done, ap_is_balanced = payment_is_balanced p,
               ap_login = login, ap_external_short_id = sid, ap_external_id = pa_id p\<rparr>))))"

section \<open>Lemmas\<close>

text \<open>The shortened title has at most three words and 32 characters.\<close>

lemma length_join_snoc:
  "length (join [c] (xs @ [x])) = length (join [c] xs) + length x + (if xs = [] then 0 else 1)"
  by (induction "[c]" xs rule: join.induct) auto

lemma title_loop_bounds:
  "n = length (join [32] result) \<Longrightarrow> n \<le> 32 \<Longrightarrow> length result \<le> 3 \<Longrightarrow>
     length (join [32] (title_loop ws result n)) \<le> 32 \<and> length (title_loop ws result n) \<le> 3"
  by (induction ws result n rule: title_loop.induct) (auto simp: Let_def length_join_snoc)

lemma simplified_title_length: "length (get_simplified_title p) \<le> 32"
  using title_loop_bounds [of 0 "[]"] by (simp add: get_simplified_title_def Let_def)

text \<open>Grouping: the group of an id is its orders, in their order, and no group is empty.\<close>

lemma dget_group_orders:
  "dget (group_orders orders) i =
     (let g = filter (\<lambda>x. or_payment_id x = i) orders in if g = [] then None else Some g)"
proof (induction orders rule: rev_induct)
  case Nil
  then show ?case by (simp add: group_orders_def)
next
  case (snoc x xs)
  have "group_orders (xs @ [x]) =
      dput (or_payment_id x)
        ((case dget (group_orders xs) (or_payment_id x) of None \<Rightarrow> [] | Some l \<Rightarrow> l) @ [x])
        (group_orders xs)"
    by (simp add: group_orders_def)
  with snoc show ?case by (auto simp: dict_simps Let_def)
qed

lemma dict_ok_group_orders: "dict_ok (group_orders orders)"
  by (induction orders rule: rev_induct) (simp_all add: group_orders_def dict_ok_dput)

lemma group_orders_mem:
  assumes "(i, g) \<in> set (group_orders orders)"
  shows "g = filter (\<lambda>x. or_payment_id x = i) orders" and "g \<noteq> []"
proof -
  have "dget (group_orders orders) i = Some g"
    using assms dict_ok_group_orders [of orders] by (simp add: dict_ok_def map_of_eq_Some_iff)
  then show "g = filter (\<lambda>x. or_payment_id x = i) orders" and "g \<noteq> []"
    by (auto simp: dget_group_orders Let_def split: if_splits)
qed

lemma payments_from_orders_mem:
  assumes "p \<in> set (payments_from_orders orders)"
  shows "pa_orders p = filter (\<lambda>x. or_payment_id x = pa_id p) orders" and "pa_orders p \<noteq> []"
    and "pa_tolerance p = one_cent"
  using assms group_orders_mem by (auto simp: payments_from_orders_def mk_payment_def)

lemma payments_from_orders_ids:
  "distinct (map pa_id (payments_from_orders orders))"
  "x \<in> set orders \<Longrightarrow> \<exists>p \<in> set (payments_from_orders orders). pa_id p = or_payment_id x"
proof -
  have ids: "map pa_id (payments_from_orders orders) = map fst (group_orders orders)"
    by (simp add: payments_from_orders_def mk_payment_def comp_def case_prod_beta)
  then show "distinct (map pa_id (payments_from_orders orders))"
    using dict_ok_group_orders [of orders] by (simp add: dict_ok_def)
  assume "x \<in> set orders"
  then have "dget (group_orders orders) (or_payment_id x) \<noteq> None"
    by (auto simp: dget_group_orders Let_def filter_empty_conv)
  then have "or_payment_id x \<in> set (map pa_id (payments_from_orders orders))"
    unfolding ids by (simp add: map_of_eq_None_iff)
  then show "\<exists>p \<in> set (payments_from_orders orders). pa_id p = or_payment_id x" by auto
qed

text \<open>
  A payment made of orders has its details and its date: only an id that cannot be encoded makes
  the conversion fail.
\<close>

lemma from_allegro_payment_Inr:
  assumes "pa_orders p \<noteq> []" and "utf8_encode (pa_id p) \<noteq> None"
  shows "\<exists>q. from_allegro_payment p login = Inr q \<and> bi_amount q = or_payment_amount (hd (pa_orders p))
    \<and> ap_login q = login \<and> ap_external_id q = pa_id p \<and> length (ap_external_short_id q) \<le> 8"
proof -
  from assms obtain x xs b where "pa_orders p = x # xs" "utf8_encode (pa_id p) = Some b"
    by (cases "pa_orders p") auto
  then show ?thesis
    by (auto simp: from_allegro_payment_def payment_method_def payment_provider_def
        payment_datetime_def first_order_def payment_short_id_def short_id_def payment_amount_def)
qed

lemma join_Nil_first: "join s (x # xs) = [] \<Longrightarrow> x = []"
  by (cases xs) auto

lemma from_allegro_payment_details:
  "from_allegro_payment p login = Inr q \<Longrightarrow> flatten_details q \<noteq> [] \<and> op_tag_done q = allegro_done"
  by (auto simp: from_allegro_payment_def flatten_details_def split: sum.splits dest!: join_Nil_first)

text \<open>Where the arithmetic is exact, balanced means within a cent.\<close>

lemma payment_balanced_iff:
  assumes "dec_short (payment_balance_difference p)" and "pa_tolerance p = one_cent"
  shows "payment_is_balanced p \<longleftrightarrow> \<bar>dec_val (payment_balance_difference p)\<bar> \<le> 1 / 100"
  using assms
  by (simp add: payment_is_balanced_def dec_le_finite_val dec_abs_val dec_short_finite one_cent_def dec_sgn_def)

text \<open>A total cost that has a currency keeps it; a missing one is filled in.\<close>

lemma fill_total_cost_currency_cases:
  "fill_total_cost_currency j = j \<or>
   (\<exists>d tc c. fill_total_cost_currency j =
      JObj (dput (U ''totalCost'') (JObj (dput (U ''currency'') c tc)) d))"
  by (simp add: fill_total_cost_currency_def split: json.splits option.splits) blast

lemma fill_total_cost_currency_idem:
  "fill_total_cost_currency (fill_total_cost_currency j) = fill_total_cost_currency j"
proof -
  have "fill_total_cost_currency (JObj (dput (U ''totalCost'') (JObj (dput (U ''currency'') c tc)) d)) =
      JObj (dput (U ''totalCost'') (JObj (dput (U ''currency'') c tc)) d)" for c tc d
    by (simp add: fill_total_cost_currency_def dict_simps key_iff split: option.splits json.splits)
  with fill_total_cost_currency_cases [of j] show ?thesis by auto
qed

end
