(* ===== verification/Db.thy ===== *)
theory Db imports PyJson PyUuid PyDate begin

text \<open>
  The database: the tables of \<open>services/db/models.py\<close> and the repositories of
  \<open>services/db/repository.py\<close>. A session has the rows as it sees them and the rows as they were
  last committed; \<open>flush\<close> writes to the first, \<open>commit\<close> makes them the second, and closing the
  session without a commit forgets what was flushed. Ids that a column default draws and the
  clock are arguments; stored times are instants of UTC. Foreign keys are left to the ORM's
  cascades, as on SQLite.
\<close>

section \<open>Rows\<close>

type_synonym bytes = "nat list"

record user =
  us_id :: uuid
  us_username :: ustring
  us_password_hash :: ustring
  us_is_superuser :: bool
  us_is_active :: bool
  us_must_change_password :: bool
  us_password_changed_at :: "instant option"

record audit_row =
  au_id :: uuid
  au_actor_id :: uuid
  au_action :: ustring
  au_target_id :: "uuid option"
  au_meta :: "json option"
  au_created_at :: instant

datatype secret_type = ALLEGRO | AMAZON | SESSION | API_TOKEN

fun secret_type_value :: "secret_type \<Rightarrow> ustring" where
  "secret_type_value ALLEGRO = U ''allegro''"
| "secret_type_value AMAZON = U ''amazon''"
| "secret_type_value SESSION = U ''session''"
| "secret_type_value API_TOKEN = U ''api_token''"

record secret_row =
  se_id :: uuid
  se_user_id :: uuid
  se_type :: secret_type
  se_alias :: "ustring option"
  se_external_username :: "ustring option"
  se_ciphertext :: "bytes option"
  se_nonce :: "bytes option"
  se_wrapped_dek :: "bytes option"
  se_wrapped_dek_nonce :: "bytes option"
  se_crypto_version :: "int option"
  se_usage_count :: nat
  se_last_used_at :: "instant option"
  se_last_used_meta :: "json option"
  se_created_at :: instant
  se_updated_at :: instant

type_synonym kdf_params = "(ustring \<times> int) list"

record vault_row =
  va_user_id :: uuid
  va_kdf_salt :: "bytes option"
  va_kdf_params :: "kdf_params option"
  va_check_ciphertext :: "bytes option"
  va_check_nonce :: "bytes option"
  va_created_at :: instant
  va_updated_at :: instant

record token_row =
  tk_id :: uuid
  tk_user_id :: uuid
  tk_hash :: ustring
  tk_expires_at :: instant
  tk_used_at :: "instant option"
  tk_created_at :: instant
  tk_created_by :: "uuid option"
  tk_meta :: "json option"

record db =
  db_users :: "user list"
  db_audit :: "audit_row list"
  db_secrets :: "secret_row list"
  db_vaults :: "vault_row list"
  db_tokens :: "token_row list"

record session =
  cur :: db
  committed :: db

definition commit :: "session \<Rightarrow> session" where
  "commit s = s\<lparr>committed := cur s\<rparr>"

definition rollback :: "session \<Rightarrow> session" where
  "rollback s = s\<lparr>cur := committed s\<rparr>"

definition commit_if :: "bool \<Rightarrow> session \<Rightarrow> session" where
  "commit_if b s = (if b then commit s else s)"

text \<open>A request's session starts on the committed rows and is closed at its end.\<close>

definition open_session :: "db \<Rightarrow> session" where
  "open_session d = \<lparr>cur = d, committed = d\<rparr>"

definition close_session :: "session \<Rightarrow> db" where
  "close_session s = committed s"

definition set_users :: "user list \<Rightarrow> session \<Rightarrow> session" where
  "set_users us s = s\<lparr>cur := (cur s)\<lparr>db_users := us\<rparr>\<rparr>"

definition set_secrets :: "secret_row list \<Rightarrow> session \<Rightarrow> session" where
  "set_secrets ss s = s\<lparr>cur := (cur s)\<lparr>db_secrets := ss\<rparr>\<rparr>"

definition set_vaults :: "vault_row list \<Rightarrow> session \<Rightarrow> session" where
  "set_vaults vs s = s\<lparr>cur := (cur s)\<lparr>db_vaults := vs\<rparr>\<rparr>"

definition set_tokens :: "token_row list \<Rightarrow> session \<Rightarrow> session" where
  "set_tokens ts s = s\<lparr>cur := (cur s)\<lparr>db_tokens := ts\<rparr>\<rparr>"

text \<open>\<open>one_or_none()\<close> and \<open>one()\<close>\<close>

fun one_or_none :: "'a list \<Rightarrow> 'a option res" where
  "one_or_none [] = Inr None"
| "one_or_none [x] = Inr (Some x)"
| "one_or_none (x # y # xs) = Inl MultipleResultsFound"

fun exactly_one :: "'a list \<Rightarrow> 'a res" where
  "exactly_one [] = Inl NoResultFound"
| "exactly_one [x] = Inr x"
| "exactly_one (x # y # xs) = Inl MultipleResultsFound"

section \<open>\<open>UserRepository\<close>\<close>

definition user_get_by_username :: "session \<Rightarrow> ustring \<Rightarrow> user option res" where
  "user_get_by_username s name = one_or_none (filter (\<lambda>u. us_username u = name) (db_users (cur s)))"

definition user_get_by_id :: "session \<Rightarrow> uuid \<Rightarrow> user option res" where
  "user_get_by_id s i = one_or_none (filter (\<lambda>u. us_id u = i) (db_users (cur s)))"

definition count_users :: "session \<Rightarrow> nat" where
  "count_users s = length (db_users (cur s))"

definition user_list_all :: "session \<Rightarrow> user list" where
  "user_list_all s = db_users (cur s)"

text \<open>A row that breaks a uniqueness constraint fails the flush, which rolls the session back.\<close>

definition user_create ::
    "uuid \<Rightarrow> instant \<Rightarrow> ustring \<Rightarrow> ustring \<Rightarrow> bool \<Rightarrow> bool \<Rightarrow> instant option \<Rightarrow> bool
       \<Rightarrow> session \<Rightarrow> user res \<times> session" where
  "user_create new_id now username password_hash is_superuser must_change changed_at com s =
     (let changed_at' = (if changed_at = None \<and> \<not> must_change then Some now else changed_at);
          row = \<lparr>us_id = new_id, us_username = username, us_password_hash = password_hash,
                 us_is_superuser = is_superuser, us_is_active = True,
                 us_must_change_password = must_change, us_password_changed_at = changed_at'\<rparr>;
          users = db_users (cur s)
      in if username \<in> us_username ` set users \<or> new_id \<in> us_id ` set users
         then (Inl IntegrityError, rollback s)
         else (Inr row, commit_if com (set_users (users @ [row]) s)))"

text \<open>Change the one row with the given id, then commit or flush.\<close>

definition user_update ::
    "uuid \<Rightarrow> (user \<Rightarrow> user) \<Rightarrow> bool \<Rightarrow> session \<Rightarrow> unit res \<times> session" where
  "user_update i f com s =
     (case exactly_one (filter (\<lambda>u. us_id u = i) (db_users (cur s))) of
        Inl e \<Rightarrow> (Inl e, s)
      | Inr _ \<Rightarrow>
          (Inr (), commit_if com
             (set_users (map (\<lambda>u. if us_id u = i then f u else u) (db_users (cur s))) s)))"

definition user_set_password ::
    "uuid \<Rightarrow> ustring \<Rightarrow> bool \<Rightarrow> instant \<Rightarrow> bool \<Rightarrow> session \<Rightarrow> unit res \<times> session" where
  "user_set_password i password_hash must_change changed_at com s =
     user_update i (\<lambda>u. u\<lparr>us_password_hash := password_hash, us_must_change_password := must_change,
                        us_password_changed_at := Some changed_at\<rparr>) com s"

definition mark_password_reset_required ::
    "uuid \<Rightarrow> ustring \<Rightarrow> bool \<Rightarrow> session \<Rightarrow> unit res \<times> session" where
  "mark_password_reset_required i password_hash com s =
     user_update i (\<lambda>u. u\<lparr>us_password_hash := password_hash, us_must_change_password := True,
                        us_password_changed_at := None\<rparr>) com s"

definition promote_to_superuser :: "uuid \<Rightarrow> session \<Rightarrow> unit res \<times> session" where
  "promote_to_superuser i s = user_update i (us_is_superuser_update (\<lambda>_. True)) True s"

definition demote_from_superuser :: "uuid \<Rightarrow> session \<Rightarrow> unit res \<times> session" where
  "demote_from_superuser i s = user_update i (us_is_superuser_update (\<lambda>_. False)) True s"

definition user_disable :: "uuid \<Rightarrow> session \<Rightarrow> unit res \<times> session" where
  "user_disable i s = user_update i (us_is_active_update (\<lambda>_. False)) True s"

definition user_enable :: "uuid \<Rightarrow> session \<Rightarrow> unit res \<times> session" where
  "user_enable i s = user_update i (us_is_active_update (\<lambda>_. True)) True s"

text \<open>Deleting a user cascades to its secrets, its vault and its password tokens.\<close>

definition user_delete :: "uuid \<Rightarrow> session \<Rightarrow> unit res \<times> session" where
  "user_delete i s =
     (case exactly_one (filter (\<lambda>u. us_id u = i) (db_users (cur s))) of
        Inl e \<Rightarrow> (Inl e, s)
      | Inr _ \<Rightarrow>
          (Inr (), commit (s\<lparr>cur := (cur s)\<lparr>
             db_users := filter (\<lambda>u. us_id u \<noteq> i) (db_users (cur s)),
             db_secrets := filter (\<lambda>x. se_user_id x \<noteq> i) (db_secrets (cur s)),
             db_vaults := filter (\<lambda>v. va_user_id v \<noteq> i) (db_vaults (cur s)),
             db_tokens := filter (\<lambda>t. tk_user_id t \<noteq> i) (db_tokens (cur s))\<rparr>\<rparr>)))"

definition user_is_superuser :: "session \<Rightarrow> uuid \<Rightarrow> bool" where
  "user_is_superuser s i \<longleftrightarrow>
     0 < length (filter (\<lambda>u. us_id u = i \<and> us_is_superuser u \<and> us_is_active u) (db_users (cur s)))"

section \<open>\<open>AuditLogRepository\<close>\<close>

definition audit_log ::
    "uuid \<Rightarrow> instant \<Rightarrow> uuid \<Rightarrow> ustring \<Rightarrow> uuid option \<Rightarrow> json option \<Rightarrow> bool
       \<Rightarrow> session \<Rightarrow> session" where
  "audit_log new_id now actor_id action target_id metadata com s =
     (let row = \<lparr>au_id = new_id, au_actor_id = actor_id, au_action = action,
                 au_target_id = target_id, au_meta = metadata, au_created_at = now\<rparr>
      in commit_if com (s\<lparr>cur := (cur s)\<lparr>db_audit := db_audit (cur s) @ [row]\<rparr>\<rparr>))"

section \<open>\<open>UserSecretRepository\<close>\<close>

record encrypted_blob =
  eb_ciphertext :: bytes
  eb_secret_nonce :: bytes
  eb_wrapped_dek :: bytes
  eb_wrapped_dek_nonce :: bytes
  eb_crypto_version :: int

definition secret_create ::
    "uuid \<Rightarrow> instant \<Rightarrow> uuid \<Rightarrow> secret_type \<Rightarrow> ustring option \<Rightarrow> ustring option \<Rightarrow> encrypted_blob
       \<Rightarrow> session \<Rightarrow> secret_row \<times> session" where
  "secret_create new_id now user_id typ alias external_username b s =
     (let obj = \<lparr>se_id = new_id, se_user_id = user_id, se_type = typ, se_alias = alias,
                 se_external_username = external_username,
                 se_ciphertext = Some (eb_ciphertext b), se_nonce = Some (eb_secret_nonce b),
                 se_wrapped_dek = Some (eb_wrapped_dek b),
                 se_wrapped_dek_nonce = Some (eb_wrapped_dek_nonce b),
                 se_crypto_version = Some (eb_crypto_version b), se_usage_count = 0,
                 se_last_used_at = None, se_last_used_meta = None, se_created_at = now,
                 se_updated_at = now\<rparr>
      in (obj, set_secrets (db_secrets (cur s) @ [obj]) s))"

definition secret_get_by_id :: "session \<Rightarrow> uuid \<Rightarrow> secret_row option" where
  "secret_get_by_id s i = find (\<lambda>x. se_id x = i) (db_secrets (cur s))"

definition secret_get_for_user :: "session \<Rightarrow> uuid \<Rightarrow> secret_type option \<Rightarrow> secret_row list" where
  "secret_get_for_user s i typ =
     filter (\<lambda>x. se_user_id x = i \<and> (case typ of None \<Rightarrow> True | Some t \<Rightarrow> se_type x = t))
       (db_secrets (cur s))"

text \<open>
  A change of a loaded secret, written by the flush; \<open>onupdate\<close> sets \<open>updated_at\<close> when a column
  changed.
\<close>

definition secret_update ::
    "instant \<Rightarrow> uuid \<Rightarrow> (secret_row \<Rightarrow> secret_row) \<Rightarrow> session \<Rightarrow> session" where
  "secret_update now i f s =
     set_secrets (map (\<lambda>x. if se_id x = i
                           then (if f x = x then x else (f x)\<lparr>se_updated_at := now\<rparr>) else x)
       (db_secrets (cur s))) s"

definition secret_mark_used :: "instant \<Rightarrow> uuid \<Rightarrow> json option \<Rightarrow> session \<Rightarrow> session" where
  "secret_mark_used now i meta s =
     secret_update now i (\<lambda>x. x\<lparr>se_usage_count := se_usage_count x + 1, se_last_used_at := Some now,
                              se_last_used_meta := (case meta of None \<Rightarrow> se_last_used_meta x
                                                    | Some m \<Rightarrow> Some m)\<rparr>) s"

definition secret_update_alias :: "instant \<Rightarrow> uuid \<Rightarrow> ustring option \<Rightarrow> session \<Rightarrow> session" where
  "secret_update_alias now i alias s = secret_update now i (\<lambda>x. x\<lparr>se_alias := alias\<rparr>) s"

text \<open>An argument left out is \<open>...\<close> in the code and \<open>None\<close> here.\<close>

definition secret_update_metadata ::
    "instant \<Rightarrow> uuid \<Rightarrow> ustring option option \<Rightarrow> ustring option option \<Rightarrow> session \<Rightarrow> session" where
  "secret_update_metadata now i alias external_username s =
     secret_update now i
       (\<lambda>x. let y = (case alias of None \<Rightarrow> x | Some a \<Rightarrow> x\<lparr>se_alias := a\<rparr>)
            in case external_username of None \<Rightarrow> y | Some e \<Rightarrow> y\<lparr>se_external_username := e\<rparr>) s"

definition secret_update_encrypted :: "instant \<Rightarrow> uuid \<Rightarrow> encrypted_blob \<Rightarrow> session \<Rightarrow> session" where
  "secret_update_encrypted now i b s =
     secret_update now i
       (\<lambda>x. x\<lparr>se_ciphertext := Some (eb_ciphertext b), se_nonce := Some (eb_secret_nonce b),
             se_wrapped_dek := Some (eb_wrapped_dek b),
             se_wrapped_dek_nonce := Some (eb_wrapped_dek_nonce b),
             se_crypto_version := Some (eb_crypto_version b)\<rparr>) s"

definition secret_delete :: "uuid \<Rightarrow> session \<Rightarrow> session" where
  "secret_delete i s = set_secrets (filter (\<lambda>x. se_id x \<noteq> i) (db_secrets (cur s))) s"

section \<open>\<open>UserSecretVaultRepository\<close>\<close>

definition vault_get_for_user :: "session \<Rightarrow> uuid \<Rightarrow> vault_row option" where
  "vault_get_for_user s i = find (\<lambda>v. va_user_id v = i) (db_vaults (cur s))"

definition vault_create ::
    "instant \<Rightarrow> uuid \<Rightarrow> bytes \<Rightarrow> kdf_params \<Rightarrow> bytes \<Rightarrow> bytes \<Rightarrow> session \<Rightarrow> vault_row res \<times> session" where
  "vault_create now i salt params check_ciphertext check_nonce s =
     (let obj = \<lparr>va_user_id = i, va_kdf_salt = Some salt, va_kdf_params = Some params,
                 va_check_ciphertext = Some check_ciphertext, va_check_nonce = Some check_nonce,
                 va_created_at = now, va_updated_at = now\<rparr>
      in if i \<in> va_user_id ` set (db_vaults (cur s)) then (Inl IntegrityError, rollback s)
         else (Inr obj, set_vaults (db_vaults (cur s) @ [obj]) s))"

definition vault_update ::
    "instant \<Rightarrow> uuid \<Rightarrow> bytes \<Rightarrow> kdf_params \<Rightarrow> bytes \<Rightarrow> bytes \<Rightarrow> session \<Rightarrow> session" where
  "vault_update now i salt params check_ciphertext check_nonce s =
     set_vaults (map (\<lambda>v. if va_user_id v = i
                          then v\<lparr>va_kdf_salt := Some salt, va_kdf_params := Some params,
                                 va_check_ciphertext := Some check_ciphertext,
                                 va_check_nonce := Some check_nonce, va_updated_at := now\<rparr>
                          else v) (db_vaults (cur s))) s"

section \<open>\<open>PasswordSetTokenRepository\<close>\<close>

definition token_create ::
    "uuid \<Rightarrow> instant \<Rightarrow> uuid \<Rightarrow> ustring \<Rightarrow> instant \<Rightarrow> uuid option \<Rightarrow> json option \<Rightarrow> bool
       \<Rightarrow> session \<Rightarrow> token_row res \<times> session" where
  "token_create new_id now user_id token_hash expires_at created_by meta com s =
     (let row = \<lparr>tk_id = new_id, tk_user_id = user_id, tk_hash = token_hash,
                 tk_expires_at = expires_at, tk_used_at = None, tk_created_at = now,
                 tk_created_by = created_by, tk_meta = meta\<rparr>;
          tokens = db_tokens (cur s)
      in if token_hash \<in> tk_hash ` set tokens \<or> new_id \<in> tk_id ` set tokens
         then (Inl IntegrityError, rollback s)
         else (Inr row, commit_if com (set_tokens (tokens @ [row]) s)))"

definition token_get_by_hash :: "session \<Rightarrow> ustring \<Rightarrow> token_row option res" where
  "token_get_by_hash s h = one_or_none (filter (\<lambda>t. tk_hash t = h) (db_tokens (cur s)))"

definition token_open :: "uuid \<Rightarrow> token_row \<Rightarrow> bool" where
  "token_open user_id t \<longleftrightarrow> tk_user_id t = user_id \<and> tk_used_at t = None"

definition token_invalidate_previous ::
    "uuid \<Rightarrow> instant \<Rightarrow> bool \<Rightarrow> session \<Rightarrow> nat \<times> session" where
  "token_invalidate_previous user_id invalidated_at com s =
     (length (filter (token_open user_id) (db_tokens (cur s))),
      commit_if com (set_tokens
        (map (\<lambda>t. if token_open user_id t then t\<lparr>tk_used_at := Some invalidated_at\<rparr> else t)
          (db_tokens (cur s))) s))"

definition token_consume :: "uuid \<Rightarrow> instant \<Rightarrow> bool \<Rightarrow> session \<Rightarrow> unit res \<times> session" where
  "token_consume i used_at com s =
     (case exactly_one (filter (\<lambda>t. tk_id t = i) (db_tokens (cur s))) of
        Inl e \<Rightarrow> (Inl e, s)
      | Inr _ \<Rightarrow>
          (Inr (), commit_if com (set_tokens
             (map (\<lambda>t. if tk_id t = i then t\<lparr>tk_used_at := Some used_at\<rparr> else t)
               (db_tokens (cur s))) s)))"

section \<open>Invariant\<close>

text \<open>The uniqueness constraints of the tables.\<close>

definition db_ok :: "db \<Rightarrow> bool" where
  "db_ok d \<longleftrightarrow>
     distinct (map us_id (db_users d)) \<and> distinct (map us_username (db_users d)) \<and>
     distinct (map se_id (db_secrets d)) \<and> distinct (map va_user_id (db_vaults d)) \<and>
     distinct (map tk_id (db_tokens d)) \<and> distinct (map tk_hash (db_tokens d))"

definition session_ok :: "session \<Rightarrow> bool" where
  "session_ok s \<longleftrightarrow> db_ok (cur s) \<and> db_ok (committed s)"

lemma commit_fields [simp]: "cur (commit s) = cur s" "committed (commit s) = cur s"
  by (simp_all add: commit_def)

lemma session_simps [simp]:
  "cur (open_session d) = d" "committed (open_session d) = d" "close_session s = committed s"
  by (simp_all add: open_session_def close_session_def)

lemma rollback_fields [simp]: "cur (rollback s) = committed s" "committed (rollback s) = committed s"
  by (simp_all add: rollback_def)

lemma commit_if_fields [simp]:
  "cur (commit_if b s) = cur s" "committed (commit_if b s) = (if b then cur s else committed s)"
  by (simp_all add: commit_if_def)

lemma set_table_fields [simp]:
  "cur (set_users us s) = (cur s)\<lparr>db_users := us\<rparr>" "committed (set_users us s) = committed s"
  "cur (set_secrets ss s) = (cur s)\<lparr>db_secrets := ss\<rparr>" "committed (set_secrets ss s) = committed s"
  "cur (set_vaults vs s) = (cur s)\<lparr>db_vaults := vs\<rparr>" "committed (set_vaults vs s) = committed s"
  "cur (set_tokens ts s) = (cur s)\<lparr>db_tokens := ts\<rparr>" "committed (set_tokens ts s) = committed s"
  by (simp_all add: set_users_def set_secrets_def set_vaults_def set_tokens_def)

lemma map_update_key:
  "(\<And>x. P x \<Longrightarrow> k (f x) = k x) \<Longrightarrow> map k (map (\<lambda>x. if P x then f x else x) xs) = map k xs"
  by (induction xs) auto

lemma distinct_filter_map: "distinct (map k xs) \<Longrightarrow> distinct (map k (filter P xs))"
  by (induction xs) auto

lemma filter_key_distinct:
  "distinct (map k xs) \<Longrightarrow> x \<in> set xs \<Longrightarrow> filter (\<lambda>y. k y = k x) xs = [x]"
proof (induction xs)
  case (Cons y ys)
  then show ?case
    by (cases "k y = k x") (auto simp: filter_empty_conv image_iff intro: rev_image_eqI)
qed simp

lemma one_or_none_key:
  assumes "distinct (map k xs)"
  shows "one_or_none (filter (\<lambda>y. k y = v) xs) = Inr (find (\<lambda>y. k y = v) xs)"
proof (cases "find (\<lambda>y. k y = v) xs")
  case None
  then have "filter (\<lambda>y. k y = v) xs = []" by (simp add: find_None_iff filter_empty_conv)
  then show ?thesis by (simp add: None)
next
  case (Some x)
  then have "x \<in> set xs" "k x = v" by (auto simp: find_Some_iff)
  with filter_key_distinct [OF assms this(1)] Some show ?thesis by simp
qed

lemma user_update_ok [inv_intros]:
  assumes "session_ok s" and "\<And>u. us_id (f u) = us_id u" and "\<And>u. us_username (f u) = us_username u"
  shows "session_ok (snd (user_update i f com s))"
  using assms map_update_key [of "\<lambda>u. us_id u = i" us_id f "db_users (cur s)"]
    map_update_key [of "\<lambda>u. us_id u = i" us_username f "db_users (cur s)"]
  by (auto simp: user_update_def session_ok_def db_ok_def simp del: map_map split: sum.splits)

lemma user_create_ok [inv_intros]:
  "session_ok s \<Longrightarrow> session_ok (snd (user_create i now n h su mc ca com s))"
  by (auto simp: user_create_def session_ok_def db_ok_def Let_def)

lemma user_delete_ok [inv_intros]: "session_ok s \<Longrightarrow> session_ok (snd (user_delete i s))"
  by (auto simp: user_delete_def session_ok_def db_ok_def distinct_filter_map split: sum.splits)

lemma audit_log_ok [inv_intros]: "session_ok s \<Longrightarrow> session_ok (audit_log i now a act t m com s)"
  by (auto simp: audit_log_def session_ok_def db_ok_def Let_def)

lemma secret_update_ok [inv_intros]:
  assumes "session_ok s" and "\<And>x. se_id (f x) = se_id x"
  shows "session_ok (secret_update now i f s)"
  using assms map_update_key [of "\<lambda>x. se_id x = i" se_id
      "\<lambda>x. if f x = x then x else (f x)\<lparr>se_updated_at := now\<rparr>" "db_secrets (cur s)"]
  by (auto simp: secret_update_def session_ok_def db_ok_def simp del: map_map)

lemma token_create_ok [inv_intros]:
  "session_ok s \<Longrightarrow> session_ok (snd (token_create i now u h e cb m com s))"
  by (auto simp: token_create_def session_ok_def db_ok_def Let_def)

lemma vault_create_ok [inv_intros]:
  "session_ok s \<Longrightarrow> session_ok (snd (vault_create now i salt ps c n s))"
  by (auto simp: vault_create_def session_ok_def db_ok_def Let_def)

lemma token_invalidate_ok [inv_intros]:
  assumes "session_ok s"
  shows "session_ok (snd (token_invalidate_previous u now com s))"
  using assms map_update_key [of "token_open u" tk_id "\<lambda>t. t\<lparr>tk_used_at := Some now\<rparr>" "db_tokens (cur s)"]
    map_update_key [of "token_open u" tk_hash "\<lambda>t. t\<lparr>tk_used_at := Some now\<rparr>" "db_tokens (cur s)"]
  by (auto simp: token_invalidate_previous_def session_ok_def db_ok_def simp del: map_map)

lemma token_consume_ok [inv_intros]:
  assumes "session_ok s"
  shows "session_ok (snd (token_consume i now com s))"
  using assms map_update_key [of "\<lambda>t. tk_id t = i" tk_id "\<lambda>t. t\<lparr>tk_used_at := Some now\<rparr>" "db_tokens (cur s)"]
    map_update_key [of "\<lambda>t. tk_id t = i" tk_hash "\<lambda>t. t\<lparr>tk_used_at := Some now\<rparr>" "db_tokens (cur s)"]
  by (auto simp: token_consume_def session_ok_def db_ok_def simp del: map_map split: sum.splits)

text \<open>Invalidating leaves a user no open token, and spares every other user's.\<close>

lemma map_if_none:
  "(\<And>x. P x \<Longrightarrow> \<not> P (f x)) \<Longrightarrow> t \<in> set (map (\<lambda>x. if P x then f x else x) xs) \<Longrightarrow> \<not> P t"
  by (induction xs) (auto split: if_splits)

lemma token_invalidate_none_open:
  "t \<in> set (db_tokens (cur (snd (token_invalidate_previous u now com s)))) \<Longrightarrow> \<not> token_open u t"
  using map_if_none [of "token_open u" "\<lambda>x. x\<lparr>tk_used_at := Some now\<rparr>" t "db_tokens (cur s)"]
  by (simp add: token_invalidate_previous_def token_open_def del: set_map)

lemma map_if_spares:
  assumes "\<And>x. P x \<Longrightarrow> \<not> Q (f x)" and "\<And>x. P x \<Longrightarrow> \<not> Q x" and "Q t"
  shows "t \<in> set (map (\<lambda>x. if P x then f x else x) xs) \<longleftrightarrow> t \<in> set xs"
  using assms by (induction xs) (auto split: if_splits)

lemma token_invalidate_others:
  "tk_user_id t \<noteq> u \<Longrightarrow>
     t \<in> set (db_tokens (cur (snd (token_invalidate_previous u now com s)))) \<longleftrightarrow>
     t \<in> set (db_tokens (cur s))"
  using map_if_spares [of "token_open u" "\<lambda>x. tk_user_id x \<noteq> u" "\<lambda>x. x\<lparr>tk_used_at := Some now\<rparr>"
      t "db_tokens (cur s)"]
  by (simp add: token_invalidate_previous_def token_open_def del: set_map)

text \<open>After a delete nothing of the user is left but its traces in the audit log.\<close>

lemma user_delete_gone:
  assumes "user_delete i s = (Inr (), s')"
  shows "committed s' = cur s'" and "\<forall>u \<in> set (db_users (cur s')). us_id u \<noteq> i"
    and "\<forall>x \<in> set (db_secrets (cur s')). se_user_id x \<noteq> i"
    and "\<forall>v \<in> set (db_vaults (cur s')). va_user_id v \<noteq> i"
    and "\<forall>t \<in> set (db_tokens (cur s')). tk_user_id t \<noteq> i"
    and "db_audit (cur s') = db_audit (cur s)"
  using assms by (auto simp: user_delete_def split: sum.splits)

end
