(* ===== verification/Vault.thy ===== *)
theory Vault imports Db PyBytes JobStores begin

text \<open>
  The user's vault: \<open>services/secret_crypto_service.py\<close>, \<open>services/vault_session_store.py\<close> and
  \<open>services/vault_service.py\<close>. Argon2 and AES-GCM come from third-party packages and are a
  parameter, as are the random bytes and tokens drawn. The lock around the session store makes
  each of its methods one step.
\<close>

section \<open>\<open>SecretCryptoService\<close>\<close>

datatype crypt_result = Opened bytes | InvalidTag | CryptError exn

text \<open>
  \<open>hash_secret_raw\<close> of a secret and a salt with time, memory, parallelism and length;
  \<open>AESGCM(key).encrypt(nonce, data)\<close>; \<open>AESGCM(key).decrypt(nonce, data)\<close>.
\<close>

record crypto =
  cy_argon2 :: "bytes \<Rightarrow> bytes \<Rightarrow> int \<Rightarrow> int \<Rightarrow> int \<Rightarrow> int \<Rightarrow> bytes res"
  cy_encrypt :: "bytes \<Rightarrow> bytes \<Rightarrow> bytes \<Rightarrow> bytes res"
  cy_decrypt :: "bytes \<Rightarrow> bytes \<Rightarrow> bytes \<Rightarrow> crypt_result"

text \<open>
  The documented behaviour the code relies on: under a 32-byte key and a 12-byte nonce encryption
  returns and decryption undoes it; Argon2 gives the number of bytes asked for.
\<close>

definition crypto_ok :: "crypto \<Rightarrow> bool" where
  "crypto_ok cy \<longleftrightarrow>
     (\<forall>k n m. length k = 32 \<longrightarrow> length n = 12 \<longrightarrow>
        (\<exists>c. cy_encrypt cy k n m = Inr c \<and> cy_decrypt cy k n c = Opened m)) \<and>
     (\<forall>p s. length s = 16 \<longrightarrow> (\<exists>k. cy_argon2 cy p s 3 65536 2 32 = Inr k \<and> length k = 32))"

lemma crypto_ok_encrypt:
  "crypto_ok cy \<Longrightarrow> length k = 32 \<Longrightarrow> length n = 12 \<Longrightarrow>
     \<exists>c. cy_encrypt cy k n m = Inr c \<and> cy_decrypt cy k n c = Opened m"
  by (simp add: crypto_ok_def)

lemma crypto_ok_argon2:
  "crypto_ok cy \<Longrightarrow> length s = 16 \<Longrightarrow>
     \<exists>k. cy_argon2 cy p s 3 65536 2 32 = Inr k \<and> length k = 32"
  by (simp add: crypto_ok_def)

record derived_key =
  dk_key :: bytes
  dk_salt :: bytes
  dk_params :: kdf_params

record check_blob =
  cb_ciphertext :: bytes
  cb_nonce :: bytes

definition crypto_version :: int where
  "crypto_version = 1"

definition vault_check_plaintext :: bytes where
  "vault_check_plaintext = U ''firefly-toolkit:vault-check:v1''"

definition default_kdf_params :: kdf_params where
  "default_kdf_params =
     [(U ''time_cost'', 3), (U ''memory_cost'', 65536), (U ''parallelism'', 2), (U ''hash_len'', 32)]"

definition encode_text :: "ustring \<Rightarrow> bytes res" where
  "encode_text s =
     (case utf8_encode s of None \<Rightarrow> Inl (ValueError (U ''utf-8 codec cannot encode'')) | Some b \<Rightarrow> Inr b)"

text \<open>An empty salt or an empty parameter dictionary counts as none.\<close>

definition derive_user_key ::
    "crypto \<Rightarrow> bytes \<Rightarrow> ustring \<Rightarrow> bytes option \<Rightarrow> kdf_params option \<Rightarrow> derived_key res" where
  "derive_user_key cy fresh_salt passphrase salt params =
     (let kdf_salt = (case salt of Some (b # bs) \<Rightarrow> b # bs | _ \<Rightarrow> fresh_salt);
          kdf_params = (case params of Some (p # ps) \<Rightarrow> p # ps | _ \<Rightarrow> default_kdf_params)
      in case encode_text passphrase of Inl e \<Rightarrow> Inl e
         | Inr secret \<Rightarrow>
             (case (dget kdf_params (U ''time_cost''), dget kdf_params (U ''memory_cost''),
                    dget kdf_params (U ''parallelism''), dget kdf_params (U ''hash_len'')) of
                (Some t, Some m, Some p, Some l) \<Rightarrow>
                  (case cy_argon2 cy secret kdf_salt t m p l of
                     Inl e \<Rightarrow> Inl e
                   | Inr key \<Rightarrow> Inr \<lparr>dk_key = key, dk_salt = kdf_salt, dk_params = kdf_params\<rparr>)
              | _ \<Rightarrow> Inl (OtherError (U ''KeyError''))))"

definition create_vault_check :: "crypto \<Rightarrow> bytes \<Rightarrow> bytes \<Rightarrow> check_blob res" where
  "create_vault_check cy nonce user_key =
     (case cy_encrypt cy user_key nonce vault_check_plaintext of
        Inl e \<Rightarrow> Inl e
      | Inr c \<Rightarrow> Inr \<lparr>cb_ciphertext = c, cb_nonce = nonce\<rparr>)"

definition verify_vault_check :: "crypto \<Rightarrow> bytes \<Rightarrow> check_blob \<Rightarrow> bool res" where
  "verify_vault_check cy user_key b =
     (case cy_decrypt cy user_key (cb_nonce b) (cb_ciphertext b) of
        Opened plaintext \<Rightarrow> Inr (plaintext = vault_check_plaintext)
      | InvalidTag \<Rightarrow> Inr False
      | CryptError e \<Rightarrow> Inl e)"

text \<open>The data key and the two nonces are drawn.\<close>

record secret_draws =
  sd_dek :: bytes
  sd_secret_nonce :: bytes
  sd_wrapped_nonce :: bytes

definition encrypt_secret ::
    "crypto \<Rightarrow> secret_draws \<Rightarrow> ustring \<Rightarrow> bytes \<Rightarrow> encrypted_blob res" where
  "encrypt_secret cy d plaintext user_key =
     (case encode_text plaintext of Inl e \<Rightarrow> Inl e
      | Inr data \<Rightarrow>
     (case cy_encrypt cy (sd_dek d) (sd_secret_nonce d) data of Inl e \<Rightarrow> Inl e
      | Inr ciphertext \<Rightarrow>
     (case cy_encrypt cy user_key (sd_wrapped_nonce d) (sd_dek d) of Inl e \<Rightarrow> Inl e
      | Inr wrapped \<Rightarrow>
          Inr \<lparr>eb_ciphertext = ciphertext, eb_secret_nonce = sd_secret_nonce d,
               eb_wrapped_dek = wrapped, eb_wrapped_dek_nonce = sd_wrapped_nonce d,
               eb_crypto_version = crypto_version\<rparr>)))"

definition decryption_failed :: exn where
  "decryption_failed = AppError SecretDecryptionFailed (U ''Secret decryption failed'')"

definition decrypt_secret :: "crypto \<Rightarrow> encrypted_blob \<Rightarrow> bytes \<Rightarrow> ustring res" where
  "decrypt_secret cy b user_key =
     (if eb_crypto_version b \<noteq> crypto_version
      then Inl (ValueError (U ''Unsupported crypto_version: '' @ str_int (eb_crypto_version b)))
      else case cy_decrypt cy user_key (eb_wrapped_dek_nonce b) (eb_wrapped_dek b) of
             InvalidTag \<Rightarrow> Inl decryption_failed
           | CryptError e \<Rightarrow> Inl e
           | Opened dek \<Rightarrow>
               (case cy_decrypt cy dek (eb_secret_nonce b) (eb_ciphertext b) of
                  InvalidTag \<Rightarrow> Inl decryption_failed
                | CryptError e \<Rightarrow> Inl e
                | Opened plaintext \<Rightarrow>
                    (case utf8_decode plaintext of
                       None \<Rightarrow> Inl (ValueError (U ''utf-8 codec cannot decode''))
                     | Some t \<Rightarrow> Inr t)))"

section \<open>\<open>VaultSessionStore\<close>\<close>

record vault_session =
  vs_user_key :: bytes
  vs_expires_at :: instant

type_synonym vault_sessions = "(uuid, (ustring, vault_session) dict) dict"

definition sessions_of :: "vault_sessions \<Rightarrow> uuid \<Rightarrow> (ustring, vault_session) dict" where
  "sessions_of m i = (case dget m i of None \<Rightarrow> [] | Some d \<Rightarrow> d)"

definition vss_put :: "uuid \<times> ustring \<Rightarrow> vault_session \<Rightarrow> vault_sessions \<Rightarrow> vault_sessions" where
  "vss_put k v m =
     (let m' = (if dget m (fst k) = None then dput (fst k) [] m else m)
      in dput (fst k) (dput (snd k) v (sessions_of m' (fst k))) m')"

definition vss_create ::
    "ustring \<Rightarrow> instant \<Rightarrow> uuid \<Rightarrow> bytes \<Rightarrow> int \<Rightarrow> vault_sessions \<Rightarrow> ustring \<times> vault_sessions" where
  "vss_create session_id now i key ttl m =
     (session_id, vss_put (i, session_id)
        \<lparr>vs_user_key = key, vs_expires_at = now + ttl * us_per_second\<rparr> m)"

text \<open>Removing a session drops the user's dictionary when it was the last.\<close>

definition vss_drop :: "uuid \<Rightarrow> ustring \<Rightarrow> vault_sessions \<Rightarrow> vault_sessions" where
  "vss_drop i session_id m =
     (case dget m i of
        None \<Rightarrow> m
      | Some sessions \<Rightarrow>
          (let rest = ddel session_id sessions
           in if rest = [] then ddel i m else dput i rest m))"

definition vss_active ::
    "instant \<Rightarrow> uuid \<Rightarrow> ustring \<Rightarrow> vault_sessions \<Rightarrow> vault_session option \<times> vault_sessions" where
  "vss_active now i session_id m =
     (case dget m i of
        None \<Rightarrow> (None, m)
      | Some sessions \<Rightarrow>
          (case dget sessions session_id of
             None \<Rightarrow> (None, m)
           | Some v \<Rightarrow>
               (if vs_expires_at v \<le> now then (None, vss_drop i session_id m)
                else (Some v, m))))"

definition vss_get_user_key ::
    "instant \<Rightarrow> uuid \<Rightarrow> ustring \<Rightarrow> vault_sessions \<Rightarrow> bytes option \<times> vault_sessions" where
  "vss_get_user_key now i session_id m =
     (case vss_active now i session_id m of (v, m') \<Rightarrow> (map_option vs_user_key v, m'))"

definition vss_get_expires_at ::
    "instant \<Rightarrow> uuid \<Rightarrow> ustring \<Rightarrow> vault_sessions \<Rightarrow> instant option \<times> vault_sessions" where
  "vss_get_expires_at now i session_id m =
     (case vss_active now i session_id m of (v, m') \<Rightarrow> (map_option vs_expires_at v, m'))"

definition vss_invalidate :: "uuid \<Rightarrow> ustring \<Rightarrow> vault_sessions \<Rightarrow> vault_sessions" where
  "vss_invalidate i session_id m = vss_drop i session_id m"

definition vss_invalidate_all :: "uuid \<Rightarrow> vault_sessions \<Rightarrow> vault_sessions" where
  "vss_invalidate_all i m = ddel i m"

definition vss_look :: "vault_sessions \<Rightarrow> uuid \<times> ustring \<Rightarrow> vault_session option" where
  "vss_look m k = dget (sessions_of m (fst k)) (snd k)"

interpretation session_store: keyed_store "[] :: vault_sessions" vss_look vss_put "\<lambda>_. True"
proof unfold_locales
  show "vss_look [] k = None" for k by (simp add: vss_look_def sessions_of_def)
  fix k k' :: "uuid \<times> ustring" and v m
  show "vss_look (vss_put k v m) k' = (if k' = k then Some v else vss_look m k')"
    by (auto simp: vss_look_def vss_put_def sessions_of_def Let_def dict_simps prod_eq_iff
        split: option.splits)
qed

lemma vss_look_drop [dict_simps]:
  "vss_look (vss_drop i sid m) k = (if k = (i, sid) then None else vss_look m k)"
proof (cases "dget m i")
  case None
  then show ?thesis by (cases k) (auto simp: vss_drop_def vss_look_def sessions_of_def)
next
  case (Some d)
  have "dget d s = None" if "ddel sid d = []" "s \<noteq> sid" for s
    using that dget_ddel [of sid d s] by simp
  with Some show ?thesis
    by (cases k) (auto simp: vss_drop_def vss_look_def sessions_of_def Let_def dict_simps)
qed

lemma vss_active_eq:
  "vss_active now i sid m =
     (case vss_look m (i, sid) of
        None \<Rightarrow> (None, m)
      | Some v \<Rightarrow> if vs_expires_at v \<le> now then (None, vss_drop i sid m) else (Some v, m))"
  by (simp add: vss_active_def vss_look_def sessions_of_def split: option.splits)

lemma vss_look_create:
  "vss_look (snd (vss_create sid now i key ttl m)) k =
     (if k = (i, sid) then Some \<lparr>vs_user_key = key, vs_expires_at = now + ttl * us_per_second\<rparr>
      else vss_look m k)"
  by (simp add: vss_create_def session_store.look_store)

section \<open>\<open>VaultService\<close>\<close>

type_synonym vault_state = "session \<times> vault_sessions"

definition get_vault_or_raise :: "session \<Rightarrow> uuid \<Rightarrow> vault_row res" where
  "get_vault_or_raise s i =
     (case vault_get_for_user s i of
        None \<Rightarrow> Inl (AppError VaultNotConfigured (U ''Vault not configured''))
      | Some v \<Rightarrow> Inr v)"

definition build_vault_check :: "vault_row \<Rightarrow> check_blob res" where
  "build_vault_check v =
     (case (va_check_ciphertext v, va_check_nonce v) of
        (Some c, Some n) \<Rightarrow> Inr \<lparr>cb_ciphertext = c, cb_nonce = n\<rparr>
      | _ \<Rightarrow> Inl (AppError VaultNotConfigured (U ''Vault not configured'')))"

definition get_kdf_params :: "vault_row \<Rightarrow> kdf_params res" where
  "get_kdf_params v =
     (case (va_kdf_salt v, va_kdf_params v) of
        (Some _, Some ps) \<Rightarrow> Inr ps
      | _ \<Rightarrow> Inl (AppError VaultNotConfigured (U ''Vault not configured'')))"

definition setup_vault ::
    "crypto \<Rightarrow> bytes \<Rightarrow> bytes \<Rightarrow> uuid \<Rightarrow> instant \<Rightarrow> uuid \<Rightarrow> ustring \<Rightarrow> session \<Rightarrow> unit res \<times> session" where
  "setup_vault cy fresh_salt nonce audit_id now i passphrase s =
     (case vault_get_for_user s i of
        Some _ \<Rightarrow> (Inl (AppError VaultAlreadyConfigured (U ''Vault already configured'')), s)
      | None \<Rightarrow>
     (case derive_user_key cy fresh_salt passphrase None None of Inl e \<Rightarrow> (Inl e, s)
      | Inr dk \<Rightarrow>
     (case create_vault_check cy nonce (dk_key dk) of Inl e \<Rightarrow> (Inl e, s)
      | Inr chk \<Rightarrow>
     (case vault_create now i (dk_salt dk) (dk_params dk) (cb_ciphertext chk) (cb_nonce chk) s of
        (Inl e, s') \<Rightarrow> (Inl e, s')
      | (Inr _, s') \<Rightarrow>
          (Inr (), commit (audit_log audit_id now i (U ''vault.setup'') None None False s'))))))"

definition unlock_vault ::
    "crypto \<Rightarrow> int \<Rightarrow> bytes \<Rightarrow> ustring \<Rightarrow> uuid \<Rightarrow> instant \<Rightarrow> uuid \<Rightarrow> ustring \<Rightarrow> vault_state
       \<Rightarrow> ustring res \<times> vault_state" where
  "unlock_vault cy ttl fresh_salt session_id audit_id now i passphrase st =
     (case st of (s, m) \<Rightarrow>
     (case get_vault_or_raise s i of Inl e \<Rightarrow> (Inl e, st)
      | Inr vault \<Rightarrow>
     (case get_kdf_params vault of Inl e \<Rightarrow> (Inl e, st)
      | Inr params \<Rightarrow>
     (case derive_user_key cy fresh_salt passphrase (va_kdf_salt vault) (Some params) of
        Inl e \<Rightarrow> (Inl e, st)
      | Inr dk \<Rightarrow>
     (case build_vault_check vault of Inl e \<Rightarrow> (Inl e, st)
      | Inr chk \<Rightarrow>
     (case verify_vault_check cy (dk_key dk) chk of Inl e \<Rightarrow> (Inl e, st)
      | Inr ok \<Rightarrow>
          (if \<not> ok then (Inl (AppError InvalidVaultPassphrase (U ''Invalid vault passphrase'')), st)
           else case vss_create session_id now i (dk_key dk) ttl m of
                  (sid, m') \<Rightarrow>
                    (Inr sid, commit (audit_log audit_id now i (U ''vault.unlock'') None None False s),
                     m'))))))))"

definition lock_vault :: "uuid \<Rightarrow> instant \<Rightarrow> uuid \<Rightarrow> ustring \<Rightarrow> vault_state \<Rightarrow> vault_state" where
  "lock_vault audit_id now i session_id st =
     (case st of (s, m) \<Rightarrow>
        (commit (audit_log audit_id now i (U ''vault.lock'') None None False s),
         vss_invalidate i session_id m))"

definition vault_is_configured :: "session \<Rightarrow> uuid \<Rightarrow> bool" where
  "vault_is_configured s i \<longleftrightarrow> vault_get_for_user s i \<noteq> None"

definition vault_is_unlocked ::
    "instant \<Rightarrow> uuid \<Rightarrow> ustring option \<Rightarrow> vault_sessions \<Rightarrow> bool \<times> vault_sessions" where
  "vault_is_unlocked now i sid m =
     (case sid of None \<Rightarrow> (False, m)
      | Some x \<Rightarrow> (case vss_get_user_key now i x m of (k, m') \<Rightarrow> (k \<noteq> None, m')))"

definition get_session_expires_at ::
    "instant \<Rightarrow> uuid \<Rightarrow> ustring option \<Rightarrow> vault_sessions \<Rightarrow> instant option \<times> vault_sessions" where
  "get_session_expires_at now i sid m =
     (case sid of None \<Rightarrow> (None, m) | Some x \<Rightarrow> vss_get_expires_at now i x m)"

definition require_user_key ::
    "instant \<Rightarrow> uuid \<Rightarrow> ustring option \<Rightarrow> vault_state \<Rightarrow> bytes res \<times> vault_state" where
  "require_user_key now i sid st =
     (case st of (s, m) \<Rightarrow>
     (case get_vault_or_raise s i of Inl e \<Rightarrow> (Inl e, st)
      | Inr _ \<Rightarrow>
     (case sid of
        None \<Rightarrow> (Inl (AppError VaultLocked (U ''Vault session missing'')), st)
      | Some x \<Rightarrow>
          (case vss_get_user_key now i x m of
             (None, m') \<Rightarrow> (Inl (AppError VaultSessionExpired (U ''Vault session expired'')), (s, m'))
           | (Some key, m') \<Rightarrow> (Inr key, (s, m'))))))"

definition change_passphrase :: "uuid \<Rightarrow> ustring \<Rightarrow> ustring \<Rightarrow> unit res" where
  "change_passphrase i current_passphrase new_passphrase =
     Inl (NotImplemented (U ''Vault passphrase change is not supported yet until secret rewrap is implemented''))"

section \<open>Lemmas\<close>

lemma encrypt_decrypt_secret:
  assumes "crypto_ok cy" and "length (sd_dek d) = 32" and "length (sd_secret_nonce d) = 12"
    and "length (sd_wrapped_nonce d) = 12" and "length key = 32"
    and "utf8_encode plaintext \<noteq> None"
  shows "\<exists>b. encrypt_secret cy d plaintext key = Inr b \<and> decrypt_secret cy b key = Inr plaintext"
proof -
  from assms(6) obtain data where data: "utf8_encode plaintext = Some data" by blast
  note enc = crypto_ok_encrypt [OF assms(1)]
  from enc [OF assms(2,3)] obtain c where
    c: "cy_encrypt cy (sd_dek d) (sd_secret_nonce d) data = Inr c"
      "cy_decrypt cy (sd_dek d) (sd_secret_nonce d) c = Opened data" by blast
  from enc [OF assms(5,4)] obtain w where
    w: "cy_encrypt cy key (sd_wrapped_nonce d) (sd_dek d) = Inr w"
      "cy_decrypt cy key (sd_wrapped_nonce d) w = Opened (sd_dek d)" by blast
  show ?thesis
    using c w data utf8_decode_encode [OF data]
    by (simp add: encrypt_secret_def encode_text_def decrypt_secret_def)
qed

lemma derive_default:
  assumes "crypto_ok cy" and "length salt = 16" and "utf8_encode passphrase = Some p"
  shows "\<exists>k. derive_user_key cy salt passphrase None None =
      Inr \<lparr>dk_key = k, dk_salt = salt, dk_params = default_kdf_params\<rparr> \<and> length k = 32 \<and>
    derive_user_key cy fs passphrase (Some salt) (Some default_kdf_params) =
      Inr \<lparr>dk_key = k, dk_salt = salt, dk_params = default_kdf_params\<rparr>"
proof -
  from crypto_ok_argon2 [OF assms(1,2)] obtain k where
    "cy_argon2 cy p salt 3 65536 2 32 = Inr k" "length k = 32" by blast
  moreover from assms(2) obtain b bs where "salt = b # bs" by (cases salt) auto
  ultimately show ?thesis
    using assms(3) by (simp add: derive_user_key_def encode_text_def default_kdf_params_def Let_def)
qed

lemma find_append_new: "\<forall>x \<in> set xs. \<not> P x \<Longrightarrow> P y \<Longrightarrow> find P (xs @ [y]) = Some y"
  by (induction xs) auto

lemma setup_vault_row:
  assumes "crypto_ok cy" and "length salt = 16" and "length nonce = 12"
    and "utf8_encode passphrase \<noteq> None" and "vault_get_for_user s i = None"
  shows "\<exists>s' k c. setup_vault cy salt nonce aid now i passphrase s = (Inr (), s') \<and>
    length k = 32 \<and> committed s' = cur s' \<and>
    vault_get_for_user s' i = Some \<lparr>va_user_id = i, va_kdf_salt = Some salt,
      va_kdf_params = Some default_kdf_params, va_check_ciphertext = Some c,
      va_check_nonce = Some nonce, va_created_at = now, va_updated_at = now\<rparr> \<and>
    derive_user_key cy fs passphrase (Some salt) (Some default_kdf_params) =
      Inr \<lparr>dk_key = k, dk_salt = salt, dk_params = default_kdf_params\<rparr> \<and>
    cy_decrypt cy k nonce c = Opened vault_check_plaintext"
proof -
  from assms(4) obtain p where p: "utf8_encode passphrase = Some p" by blast
  from derive_default [OF assms(1,2) p, of fs] obtain k where
    k: "derive_user_key cy salt passphrase None None =
        Inr \<lparr>dk_key = k, dk_salt = salt, dk_params = default_kdf_params\<rparr>" "length k = 32"
      "derive_user_key cy fs passphrase (Some salt) (Some default_kdf_params) =
        Inr \<lparr>dk_key = k, dk_salt = salt, dk_params = default_kdf_params\<rparr>" by blast
  from crypto_ok_encrypt [OF assms(1) k(2) assms(3)] obtain c where
    c: "cy_encrypt cy k nonce vault_check_plaintext = Inr c"
      "cy_decrypt cy k nonce c = Opened vault_check_plaintext" by blast
  from assms(5) have none: "\<forall>v \<in> set (db_vaults (cur s)). va_user_id v \<noteq> i"
    by (auto simp: vault_get_for_user_def find_None_iff)
  then have "i \<notin> va_user_id ` set (db_vaults (cur s))" by auto
  moreover have "find (\<lambda>v. va_user_id v = i) (db_vaults (cur s) @ [v]) = Some v"
    if "va_user_id v = i" for v
    using none that by (simp add: find_append_new)
  ultimately show ?thesis
    using k c assms(5)
    by (auto simp: setup_vault_def create_vault_check_def vault_create_def audit_log_def Let_def
        vault_get_for_user_def)
qed

text \<open>The key a session gives: there until it expires or is dropped, and then never again.\<close>

lemma require_user_key_Inr:
  assumes "require_user_key now i sid (s, m) = (Inr key, st')"
  shows "st' = (s, m) \<and> vault_get_for_user s i \<noteq> None \<and>
    (\<exists>x v. sid = Some x \<and> vss_look m (i, x) = Some v \<and> vs_user_key v = key \<and> now < vs_expires_at v)"
  using assms
  by (auto simp: require_user_key_def get_vault_or_raise_def vss_get_user_key_def vss_active_eq
      split: option.splits if_splits prod.splits)

lemma require_user_key_active:
  assumes "vault_get_for_user s i \<noteq> None" and "vss_look m (i, x) = Some v" and "now < vs_expires_at v"
  shows "require_user_key now i (Some x) (s, m) = (Inr (vs_user_key v), (s, m))"
  using assms
  by (auto simp: require_user_key_def get_vault_or_raise_def vss_get_user_key_def vss_active_eq)

lemma require_user_key_expired:
  assumes "vault_get_for_user s i \<noteq> None"
    and "case vss_look m (i, x) of None \<Rightarrow> True | Some v \<Rightarrow> vs_expires_at v \<le> now"
  shows "\<exists>m'. require_user_key now i (Some x) (s, m) =
      (Inl (AppError VaultSessionExpired (U ''Vault session expired'')), (s, m')) \<and>
    vss_look m' (i, x) = None \<and> (\<forall>k. k \<noteq> (i, x) \<longrightarrow> vss_look m' k = vss_look m k)"
  using assms
  by (auto simp: require_user_key_def get_vault_or_raise_def vss_get_user_key_def vss_active_eq
      dict_simps split: option.splits)

text \<open>Reading a session changes the store only by dropping an expired one.\<close>

lemma require_user_key_frame:
  assumes "require_user_key now i sid (s, m) = (r, (s', m'))"
  shows "s' = s" and "vss_look m' k = vss_look m k \<or> vss_look m' k = None"
  using assms
  by (auto simp: require_user_key_def vss_get_user_key_def vss_active_eq dict_simps
      split: sum.splits option.splits if_splits prod.splits)

lemma vault_audit [simp]:
  "vault_get_for_user (audit_log a n i act t md com s) j = vault_get_for_user s j"
  "vault_get_for_user (commit s) j = vault_get_for_user s j"
  by (simp_all add: vault_get_for_user_def audit_log_def Let_def)

end
