(* ===== verification/UserSecrets.thy ===== *)
theory UserSecrets imports Vault PySha begin

text \<open>
  \<open>services/user_secrets_service.py\<close>, \<open>services/mappers/user_secrets.py\<close> and
  \<open>api/routers/user_secrets.py\<close>: the secrets a user keeps, encrypted under the key of the user's
  vault.
\<close>

record secret_read_model =
  rm_id :: uuid
  rm_type :: secret_type
  rm_alias :: "ustring option"
  rm_external_username :: "ustring option"
  rm_usage_count :: nat
  rm_last_used_at :: "instant option"
  rm_created_at :: instant

record secret_model = secret_read_model +
  sm_secret :: ustring

definition map_secret_to_read_model :: "secret_row \<Rightarrow> secret_read_model" where
  "map_secret_to_read_model x =
     \<lparr>rm_id = se_id x, rm_type = se_type x, rm_alias = se_alias x,
      rm_external_username = se_external_username x, rm_usage_count = se_usage_count x,
      rm_last_used_at = se_last_used_at x, rm_created_at = se_created_at x\<rparr>"

definition map_secrets_to_read_models :: "secret_row list \<Rightarrow> secret_read_model list" where
  "map_secrets_to_read_models xs = map map_secret_to_read_model xs"

definition secret_not_found :: exn where
  "secret_not_found = AppError SecretNotAccessible (U ''Secret not found'')"

definition assert_ownership :: "secret_row \<Rightarrow> uuid \<Rightarrow> unit res" where
  "assert_ownership x user_id =
     (if se_user_id x \<noteq> user_id then Inl secret_not_found else Inr ())"

text \<open>The secret with an id, when the user owns it.\<close>

definition owned_secret :: "session \<Rightarrow> uuid \<Rightarrow> uuid \<Rightarrow> secret_row res" where
  "owned_secret s secret_id user_id =
     (case secret_get_by_id s secret_id of
        None \<Rightarrow> Inl secret_not_found
      | Some x \<Rightarrow> (case assert_ownership x user_id of Inl e \<Rightarrow> Inl e | Inr _ \<Rightarrow> Inr x))"

text \<open>The row after a change of it.\<close>

definition reload_secret :: "session \<Rightarrow> secret_row \<Rightarrow> secret_row" where
  "reload_secret s x = (case secret_get_by_id s (se_id x) of None \<Rightarrow> x | Some y \<Rightarrow> y)"

definition create_secret ::
    "crypto \<Rightarrow> secret_draws \<Rightarrow> uuid \<Rightarrow> uuid \<Rightarrow> instant \<Rightarrow> uuid \<Rightarrow> uuid \<Rightarrow> ustring option \<Rightarrow> secret_type
       \<Rightarrow> ustring option \<Rightarrow> ustring \<Rightarrow> ustring option \<Rightarrow> vault_state
       \<Rightarrow> secret_read_model res \<times> vault_state" where
  "create_secret cy d new_id audit_id now actor_id user_id sid typ alias plaintext ext st =
     (case require_user_key now user_id sid st of
        (Inl e, st') \<Rightarrow> (Inl e, st')
      | (Inr user_key, (s, m)) \<Rightarrow>
     (case encrypt_secret cy d plaintext user_key of
        Inl e \<Rightarrow> (Inl e, (s, m))
      | Inr b \<Rightarrow>
     (case secret_create new_id now user_id typ alias ext b s of
        (obj, s') \<Rightarrow>
          (Inr (map_secret_to_read_model obj),
           (audit_log audit_id now actor_id (U ''user_secret.create'') (Some (se_id obj))
              (Some (JObj [(U ''type'', JStr (secret_type_value typ)), (U ''alias'', jopt alias),
                           (U ''external_username'', jopt ext)])) True s', m)))))"

text \<open>
  In an update \<open>None\<close> for the alias or the user name is an argument left out; the secret is
  \<open>Some\<close> only for a text.
\<close>

definition update_secret ::
    "crypto \<Rightarrow> secret_draws \<Rightarrow> uuid \<Rightarrow> instant \<Rightarrow> uuid \<Rightarrow> uuid \<Rightarrow> uuid \<Rightarrow> ustring option
       \<Rightarrow> ustring option option \<Rightarrow> ustring option option \<Rightarrow> ustring option \<Rightarrow> vault_state
       \<Rightarrow> secret_read_model res \<times> vault_state" where
  "update_secret cy d audit_id now actor_id user_id secret_id sid alias ext new_secret st =
     (case st of (s, m) \<Rightarrow>
     (case owned_secret s secret_id user_id of
        Inl e \<Rightarrow> (Inl e, st)
      | Inr x \<Rightarrow>
     (let s1 = (if alias \<noteq> None \<or> ext \<noteq> None then secret_update_metadata now secret_id alias ext s else s)
      in case (case new_secret of
                 None \<Rightarrow> (Inr (), (s1, m))
               | Some plaintext \<Rightarrow>
                   (case require_user_key now user_id sid (s1, m) of
                      (Inl e, st') \<Rightarrow> (Inl e, st')
                    | (Inr user_key, (s2, m2)) \<Rightarrow>
                        (case encrypt_secret cy d plaintext user_key of
                           Inl e \<Rightarrow> (Inl e, (s2, m2))
                         | Inr b \<Rightarrow> (Inr (), (secret_update_encrypted now secret_id b s2, m2))))) of
           (Inl e, st') \<Rightarrow> (Inl e, st')
         | (Inr _, (s3, m3)) \<Rightarrow>
             (Inr (map_secret_to_read_model (reload_secret s3 x)),
              (audit_log audit_id now actor_id (U ''user_secret.update'') (Some secret_id)
                 (Some (JObj [(U ''alias'', jopt (case alias of None \<Rightarrow> None | Some a \<Rightarrow> a)),
                              (U ''external_username'', jopt (case ext of None \<Rightarrow> None | Some e \<Rightarrow> e)),
                              (U ''secret_rotated'', JBool (new_secret \<noteq> None))])) True s3, m3)))))"

definition update_alias ::
    "crypto \<Rightarrow> secret_draws \<Rightarrow> uuid \<Rightarrow> instant \<Rightarrow> uuid \<Rightarrow> uuid \<Rightarrow> uuid \<Rightarrow> ustring option \<Rightarrow> vault_state
       \<Rightarrow> secret_read_model res \<times> vault_state" where
  "update_alias cy d audit_id now actor_id user_id secret_id alias st =
     update_secret cy d audit_id now actor_id user_id secret_id None (Some alias) None None st"

definition delete_secret ::
    "uuid \<Rightarrow> instant \<Rightarrow> uuid \<Rightarrow> uuid \<Rightarrow> uuid \<Rightarrow> session \<Rightarrow> unit res \<times> session" where
  "delete_secret audit_id now actor_id user_id secret_id s =
     (case owned_secret s secret_id user_id of
        Inl e \<Rightarrow> (Inl e, s)
      | Inr x \<Rightarrow>
          (Inr (), audit_log audit_id now actor_id (U ''user_secret.delete'') (Some secret_id) None True
                     (secret_delete secret_id s)))"

definition list_secrets :: "session \<Rightarrow> uuid \<Rightarrow> secret_read_model list" where
  "list_secrets s user_id = map_secrets_to_read_models (secret_get_for_user s user_id None)"

definition get_encrypted_blob :: "secret_row \<Rightarrow> encrypted_blob res" where
  "get_encrypted_blob x =
     (case (se_ciphertext x, se_nonce x, se_wrapped_dek x, se_wrapped_dek_nonce x, se_crypto_version x) of
        (Some c, Some n, Some w, Some wn, Some v) \<Rightarrow>
          Inr \<lparr>eb_ciphertext = c, eb_secret_nonce = n, eb_wrapped_dek = w,
               eb_wrapped_dek_nonce = wn, eb_crypto_version = v\<rparr>
      | _ \<Rightarrow> Inl decryption_failed)"

text \<open>\<open>except ValueError\<close> around the decryption.\<close>

definition value_error_to_failed :: "exn \<Rightarrow> exn" where
  "value_error_to_failed e = (case e of ValueError _ \<Rightarrow> decryption_failed | _ \<Rightarrow> e)"

definition get_secret_for_internal_use ::
    "crypto \<Rightarrow> uuid \<Rightarrow> instant \<Rightarrow> uuid \<Rightarrow> uuid \<Rightarrow> ustring option \<Rightarrow> json option \<Rightarrow> vault_state
       \<Rightarrow> secret_model res \<times> vault_state" where
  "get_secret_for_internal_use cy audit_id now secret_id user_id sid usage_meta st =
     (case st of (s, m) \<Rightarrow>
     (case owned_secret s secret_id user_id of
        Inl e \<Rightarrow> (Inl e, st)
      | Inr x \<Rightarrow>
     (case require_user_key now user_id sid st of
        (Inl e, st') \<Rightarrow> (Inl e, st')
      | (Inr user_key, (s1, m1)) \<Rightarrow>
     (case get_encrypted_blob x of
        Inl e \<Rightarrow> (Inl e, (s1, m1))
      | Inr b \<Rightarrow>
     (case decrypt_secret cy b user_key of
        Inl e \<Rightarrow> (Inl (value_error_to_failed e), (s1, m1))
      | Inr plaintext \<Rightarrow>
          (let s2 = secret_mark_used now secret_id usage_meta s1;
               s3 = audit_log audit_id now (se_user_id x) (U ''user_secret.used'') (Some (se_id x))
                      usage_meta True s2;
               rm = map_secret_to_read_model (reload_secret s3 x)
           in (Inr \<lparr>rm_id = rm_id rm, rm_type = rm_type rm, rm_alias = rm_alias rm,
                    rm_external_username = rm_external_username rm,
                    rm_usage_count = rm_usage_count rm, rm_last_used_at = rm_last_used_at rm,
                    rm_created_at = rm_created_at rm, sm_secret = plaintext\<rparr>, (s3, m1))))))))"

section \<open>\<open>api/routers/user_secrets.py\<close>\<close>

fun raise_user_secret_http_error :: "exn \<Rightarrow> exn" where
  "raise_user_secret_http_error (AppError SecretNotAccessible m) = HTTPException 404 (U ''Secret not found'')"
| "raise_user_secret_http_error (AppError VaultAlreadyConfigured m) =
     HTTPException 409 (U ''Vault already configured'')"
| "raise_user_secret_http_error (AppError VaultNotConfigured m) =
     HTTPException 409 (U ''Vault not configured'')"
| "raise_user_secret_http_error (AppError InvalidVaultPassphrase m) =
     HTTPException 401 (U ''Invalid vault passphrase'')"
| "raise_user_secret_http_error (AppError VaultLocked m) = HTTPException 423 (U ''Vault is locked'')"
| "raise_user_secret_http_error (AppError VaultSessionExpired m) =
     HTTPException 401 (U ''Vault session expired'')"
| "raise_user_secret_http_error (AppError SecretDecryptionFailed m) =
     HTTPException 422 (U ''Secret decryption failed'')"
| "raise_user_secret_http_error e = e"

record vault_status =
  vst_configured :: bool
  vst_unlocked :: bool
  vst_expires_at :: "instant option"

text \<open>\<open>_normalize_alias\<close> and the length limit of the payload models.\<close>

definition normalize_alias :: "ustring option \<Rightarrow> ustring option" where
  "normalize_alias v =
     (case v of None \<Rightarrow> None
      | Some t \<Rightarrow> (let n = strip t in if n = [] then None else Some n))"

definition max_secret_alias_length :: nat where
  "max_secret_alias_length = 16"

definition check_alias :: "ustring option \<Rightarrow> unit res" where
  "check_alias a =
     (case a of
        Some t \<Rightarrow> (if max_secret_alias_length < length t
                   then Inl (HTTPException 422 (U ''String should have at most 16 characters''))
                   else Inr ())
      | None \<Rightarrow> Inr ())"

text \<open>
  An endpoint opens a session on the committed rows and closes it, so it maps the committed
  database and the vault sessions to a result and their new values.
\<close>

type_synonym secrets_world = "db \<times> vault_sessions"

definition endpoint_setup_vault ::
    "crypto \<Rightarrow> bytes \<Rightarrow> bytes \<Rightarrow> uuid \<Rightarrow> instant \<Rightarrow> uuid \<Rightarrow> ustring \<Rightarrow> secrets_world
       \<Rightarrow> vault_status res \<times> secrets_world" where
  "endpoint_setup_vault cy fresh_salt nonce audit_id now user_id passphrase wd =
     (case wd of (d, m) \<Rightarrow>
        (if passphrase = []
         then (Inl (HTTPException 422 (U ''String should have at least 1 character'')), wd)
         else case setup_vault cy fresh_salt nonce audit_id now user_id passphrase (open_session d) of
                (r, s) \<Rightarrow>
                  (case catch_kinds [VaultAlreadyConfigured] raise_user_secret_http_error r of
                     Inl e \<Rightarrow> Inl e
                   | Inr _ \<Rightarrow> Inr \<lparr>vst_configured = True, vst_unlocked = False, vst_expires_at = None\<rparr>,
                   (close_session s, m))))"

text \<open>The second component is the session id of the cookie that is set.\<close>

definition endpoint_unlock_vault ::
    "crypto \<Rightarrow> int \<Rightarrow> bytes \<Rightarrow> ustring \<Rightarrow> uuid \<Rightarrow> instant \<Rightarrow> uuid \<Rightarrow> ustring \<Rightarrow> secrets_world
       \<Rightarrow> (vault_status \<times> ustring) res \<times> secrets_world" where
  "endpoint_unlock_vault cy ttl fresh_salt session_id audit_id now user_id passphrase wd =
     (case wd of (d, m) \<Rightarrow>
        (if passphrase = []
         then (Inl (HTTPException 422 (U ''String should have at least 1 character'')), wd)
         else case unlock_vault cy ttl fresh_salt session_id audit_id now user_id passphrase
                     (open_session d, m) of
                (r, (s, m')) \<Rightarrow>
                  (case catch_kinds [VaultNotConfigured, InvalidVaultPassphrase]
                          raise_user_secret_http_error r of
                     Inl e \<Rightarrow> (Inl e, (close_session s, m'))
                   | Inr sid \<Rightarrow>
                       (case get_session_expires_at now user_id (Some sid) m' of
                          (ex, m'') \<Rightarrow>
                            (Inr (\<lparr>vst_configured = True, vst_unlocked = True, vst_expires_at = ex\<rparr>, sid),
                             (close_session s, m''))))))"

definition endpoint_lock_vault ::
    "uuid \<Rightarrow> instant \<Rightarrow> uuid \<Rightarrow> ustring option \<Rightarrow> secrets_world \<Rightarrow> vault_status \<times> secrets_world" where
  "endpoint_lock_vault audit_id now user_id sid wd =
     (case wd of (d, m) \<Rightarrow>
        (let st = (case sid of None \<Rightarrow> (open_session d, m)
                   | Some x \<Rightarrow> lock_vault audit_id now user_id x (open_session d, m))
         in (\<lparr>vst_configured = vault_is_configured (fst st) user_id, vst_unlocked = False,
              vst_expires_at = None\<rparr>, (close_session (fst st), snd st))))"

definition endpoint_vault_status ::
    "instant \<Rightarrow> uuid \<Rightarrow> ustring option \<Rightarrow> secrets_world \<Rightarrow> vault_status \<times> secrets_world" where
  "endpoint_vault_status now user_id sid wd =
     (case wd of (d, m) \<Rightarrow>
        (let configured = vault_is_configured (open_session d) user_id
         in case (if configured then vault_is_unlocked now user_id sid m else (False, m)) of
              (unlocked, m') \<Rightarrow>
                (case (if unlocked then get_session_expires_at now user_id sid m' else (None, m')) of
                   (ex, m'') \<Rightarrow>
                     (\<lparr>vst_configured = configured, vst_unlocked = unlocked, vst_expires_at = ex\<rparr>,
                      (d, m'')))))"

definition secret_short_id :: "secret_read_model \<Rightarrow> ustring" where
  "secret_short_id x = take 8 (sha1_hexdigest (uuid_str (rm_id x)))"

definition endpoint_create_secret ::
    "crypto \<Rightarrow> secret_draws \<Rightarrow> uuid \<Rightarrow> uuid \<Rightarrow> instant \<Rightarrow> uuid \<Rightarrow> ustring option \<Rightarrow> secret_type
       \<Rightarrow> ustring option \<Rightarrow> ustring option \<Rightarrow> ustring \<Rightarrow> secrets_world
       \<Rightarrow> secret_read_model res \<times> secrets_world" where
  "endpoint_create_secret cy d new_id audit_id now user_id sid typ alias ext plaintext wd =
     (case wd of (b, m) \<Rightarrow>
     (case check_alias (normalize_alias alias) of
        Inl e \<Rightarrow> (Inl e, wd)
      | Inr _ \<Rightarrow>
          (case create_secret cy d new_id audit_id now user_id user_id sid typ (normalize_alias alias)
                  plaintext (normalize_alias ext) (open_session b, m) of
             (r, (s, m')) \<Rightarrow>
               (catch_kinds [VaultNotConfigured, VaultLocked, VaultSessionExpired]
                  raise_user_secret_http_error r, (close_session s, m')))))"

definition endpoint_list_secrets :: "uuid \<Rightarrow> secrets_world \<Rightarrow> secret_read_model list" where
  "endpoint_list_secrets user_id wd = list_secrets (open_session (fst wd)) user_id"

text \<open>Of the payload's fields, those that are set.\<close>

definition endpoint_update_secret ::
    "crypto \<Rightarrow> secret_draws \<Rightarrow> uuid \<Rightarrow> instant \<Rightarrow> uuid \<Rightarrow> uuid \<Rightarrow> ustring option
       \<Rightarrow> ustring option option \<Rightarrow> ustring option option \<Rightarrow> ustring option option \<Rightarrow> secrets_world
       \<Rightarrow> secret_read_model res \<times> secrets_world" where
  "endpoint_update_secret cy d audit_id now user_id secret_id sid alias ext new_secret wd =
     (case wd of (b, m) \<Rightarrow>
     (let alias' = map_option normalize_alias alias; ext' = map_option normalize_alias ext
      in case check_alias (case alias' of None \<Rightarrow> None | Some a \<Rightarrow> a) of
           Inl e \<Rightarrow> (Inl e, wd)
         | Inr _ \<Rightarrow>
             (case update_secret cy d audit_id now user_id user_id secret_id sid alias' ext'
                     (case new_secret of None \<Rightarrow> None | Some x \<Rightarrow> x) (open_session b, m) of
                (r, (s, m')) \<Rightarrow>
                  (catch_kinds [VaultNotConfigured, VaultLocked, VaultSessionExpired,
                                SecretDecryptionFailed, SecretNotAccessible]
                     raise_user_secret_http_error r, (close_session s, m')))))"

definition endpoint_delete_secret ::
    "uuid \<Rightarrow> instant \<Rightarrow> uuid \<Rightarrow> uuid \<Rightarrow> secrets_world \<Rightarrow> unit res \<times> secrets_world" where
  "endpoint_delete_secret audit_id now user_id secret_id wd =
     (case wd of (b, m) \<Rightarrow>
     (case delete_secret audit_id now user_id user_id secret_id (open_session b) of
        (r, s) \<Rightarrow>
          (catch_kinds [SecretNotAccessible] raise_user_secret_http_error r, (close_session s, m))))"

section \<open>Lemmas\<close>

lemma owned_secret_Inr:
  "owned_secret s i u = Inr x \<longleftrightarrow> secret_get_by_id s i = Some x \<and> se_user_id x = u"
  by (auto simp: owned_secret_def assert_ownership_def split: option.splits if_splits)

lemma owned_secret_Inl: "owned_secret s i u = Inl e \<Longrightarrow> e = secret_not_found"
  by (auto simp: owned_secret_def assert_ownership_def split: option.splits if_splits)

lemma secret_get_by_id_mem: "secret_get_by_id s i = Some x \<Longrightarrow> x \<in> set (db_secrets (cur s)) \<and> se_id x = i"
  by (auto simp: secret_get_by_id_def find_Some_iff)

text \<open>Another user's secret and one that does not exist look the same: nothing happens.\<close>

lemma foreign_secret:
  assumes "\<forall>x \<in> set (db_secrets (cur s)). se_id x = i \<longrightarrow> se_user_id x \<noteq> u"
  shows "owned_secret s i u = Inl secret_not_found"
  using assms owned_secret_Inl [of s i u] secret_get_by_id_mem [of s i]
  by (cases "owned_secret s i u") (auto simp: owned_secret_Inr)

lemma audit_log_secrets [simp]:
  "db_secrets (cur (audit_log a n i act t md com s)) = db_secrets (cur s)"
  by (simp add: audit_log_def Let_def)

lemma find_append_fresh:
  "\<forall>x \<in> set xs. \<not> P x \<Longrightarrow> P y \<Longrightarrow> find P (xs @ [y]) = Some y"
  by (rule find_append_new)

text \<open>What was encrypted is what internal use reads back, in the same vault session.\<close>

lemma create_then_use:
  assumes "crypto_ok cy" and "length (sd_dek d) = 32" and "length (sd_secret_nonce d) = 12"
    and "length (sd_wrapped_nonce d) = 12" and "utf8_encode plaintext \<noteq> None"
    and "vault_get_for_user s u \<noteq> None" and "vss_look m (u, x) = Some v"
    and "now < vs_expires_at v" and "now' < vs_expires_at v" and "length (vs_user_key v) = 32"
    and "\<forall>y \<in> set (db_secrets (cur s)). se_id y \<noteq> i"
  shows "\<exists>rm st rm' st'.
    create_secret cy d i aid now act u (Some x) typ alias plaintext ext (s, m) = (Inr rm, st) \<and>
    get_secret_for_internal_use cy aid' now' i u (Some x) um st = (Inr rm', st') \<and>
    sm_secret rm' = plaintext \<and> rm_usage_count rm' = 1"
proof -
  from encrypt_decrypt_secret [OF assms(1-4,10,5)] obtain b where
    b: "encrypt_secret cy d plaintext (vs_user_key v) = Inr b"
      "decrypt_secret cy b (vs_user_key v) = Inr plaintext" by blast
  obtain obj s1 where obj: "secret_create i now u typ alias ext b s = (obj, s1)"
    by (cases "secret_create i now u typ alias ext b s")
  then have o: "se_id obj = i" "se_user_id obj = u" "get_encrypted_blob obj = Inr b"
    "se_usage_count obj = 0" "db_secrets (cur s1) = db_secrets (cur s) @ [obj]"
    "db_vaults (cur s1) = db_vaults (cur s)"
    by (auto simp: secret_create_def get_encrypted_blob_def Let_def)
  define s2 where "s2 = audit_log aid now act (U ''user_secret.create'') (Some (se_id obj))
    (Some (JObj [(U ''type'', JStr (secret_type_value typ)), (U ''alias'', jopt alias),
                 (U ''external_username'', jopt ext)])) True s1"
  have create: "create_secret cy d i aid now act u (Some x) typ alias plaintext ext (s, m) =
      (Inr (map_secret_to_read_model obj), (s2, m))"
    using require_user_key_active [OF assms(6,7,8)] b(1) obj
    by (simp add: create_secret_def s2_def)
  have v2: "vault_get_for_user s2 u \<noteq> None"
    using assms(6) o by (simp add: s2_def vault_get_for_user_def audit_log_def Let_def)
  have get: "secret_get_by_id s2 i = Some obj"
    using assms(11) o by (simp add: secret_get_by_id_def s2_def find_append_new)
  let ?f = "\<lambda>y. y\<lparr>se_usage_count := se_usage_count y + 1, se_last_used_at := Some now',
    se_last_used_meta := (case um of None \<Rightarrow> se_last_used_meta y | Some z \<Rightarrow> Some z)\<rparr>"
  have diff: "?f obj \<noteq> obj" by (metis n_not_Suc_n Suc_eq_plus1 secret_row.select_convs(11)
        secret_row.surjective secret_row.update_convs(11,12,13))
  have "secret_get_by_id (audit_log aid' now' u (U ''user_secret.used'') (Some i) um True
      (secret_mark_used now' i um s2)) i = Some ((?f obj)\<lparr>se_updated_at := now'\<rparr>)"
    using assms(11) o diff
    by (simp add: secret_get_by_id_def secret_mark_used_def secret_update_def s2_def find_append_new)
  then have "\<exists>rm' st'. get_secret_for_internal_use cy aid' now' i u (Some x) um (s2, m) = (Inr rm', st') \<and>
      sm_secret rm' = plaintext \<and> rm_usage_count rm' = 1"
    using require_user_key_active [OF v2 assms(7,9)] get o b(2)
    by (simp add: get_secret_for_internal_use_def owned_secret_def assert_ownership_def Let_def
        reload_secret_def map_secret_to_read_model_def)
  with create show ?thesis by blast
qed

text \<open>A failed update leaves nothing behind once the session is closed.\<close>

lemma committed_secret_update [simp]:
  "committed (secret_update now i f s) = committed s"
  "committed (secret_update_metadata now i al ex s) = committed s"
  "committed (secret_update_encrypted now i b s) = committed s"
  by (simp_all add: secret_update_def secret_update_metadata_def secret_update_encrypted_def)

lemma update_secret_failed:
  assumes "update_secret cy d aid now act u i sid alias ext ns (s, m) = (Inl e, (s', m'))"
  shows "committed s' = committed s"
  using assms
  by (auto simp: update_secret_def Let_def dest!: require_user_key_frame(1)
      split: sum.splits option.splits prod.splits if_splits)

lemma create_secret_failed:
  assumes "create_secret cy d i aid now act u sid typ alias p ext (s, m) = (Inl e, (s', m'))"
  shows "s' = s"
  using assms
  by (auto simp: create_secret_def dest: require_user_key_frame(1) split: sum.splits prod.splits)

end
