(* ===== verification/AllegroApp.thy ===== *)
theory AllegroApp imports AllegroOrders UserSecrets ApiMappers Firefly begin

text \<open>
  The Allegro flow: \<open>services/allegro/api.py\<close>, \<open>services/allegro/get_user_info.py\<close>,
  \<open>services/allegro_service.py\<close> and \<open>services/allegro_application_service.py\<close>. The HTTP session and
  the payload validation come from \<open>requests\<close> and \<open>pydantic\<close> and are parameters, like the Firefly
  client; all of them act on one remote state.
\<close>

section \<open>The API client\<close>

text \<open>How a request ends: a body, an error status, a timeout, or another exception.\<close>

datatype http_result = HttpJson json | HttpStatus int ustring | HttpTimeout | HttpRaised exn

record 'w allegro_http =
  ht_get :: "ustring \<Rightarrow> (ustring \<times> ustring) list \<Rightarrow> 'w \<Rightarrow> http_result \<times> 'w"
  ht_validate :: "json \<Rightarrow> order_group list res"

text \<open>\<open>ApiWrapper.request\<close> with method GET\<close>

definition api_get ::
    "'w allegro_http \<Rightarrow> ustring \<Rightarrow> (ustring \<times> ustring) list \<Rightarrow> 'w \<Rightarrow> json res \<times> 'w" where
  "api_get http url headers w =
     (case ht_get http url headers w of
        (HttpJson j, w') \<Rightarrow> (Inr j, w')
      | (HttpStatus st m, w') \<Rightarrow>
          (if st = 401 \<or> st = 403 then (Inl (AllegroAuthError (U ''Allegro authentication failed'')), w')
           else (Inl (AllegroApiError (U ''Allegro API error '' @ str_int st)), w'))
      | (HttpTimeout, w') \<Rightarrow> (Inl (AllegroApiError (U ''Allegro API timeout'')), w')
      | (HttpRaised e, w') \<Rightarrow> (Inl e, w'))"

definition allegro_api_url :: ustring where
  "allegro_api_url = U ''https://api.allegro.pl''"

definition get_standard_header :: "ustring \<Rightarrow> int \<Rightarrow> (ustring \<times> ustring) list" where
  "get_standard_header cookie api_ver =
     [(U ''Cookie'', U ''QXLSESSID='' @ cookie),
      (U ''Accept'', U ''application/vnd.allegro.public.v'' @ str_int api_ver @ U ''+json''),
      (U ''Referer'', U ''https://allegro.pl/'')]"

definition api_get_orders ::
    "'w allegro_http \<Rightarrow> ustring \<Rightarrow> int \<Rightarrow> int \<Rightarrow> 'w \<Rightarrow> orders_result res \<times> 'w" where
  "api_get_orders http cookie limit offset w =
     (if limit \<le> 0 \<or> offset < 0
      then (Inl (ValueError (U ''Limit & Offset must be greater than 0'')), w)
      else case api_get http
                  (allegro_api_url @ U ''/myorder-api/myorders?limit='' @ str_int limit
                   @ U ''&offset='' @ str_int offset)
                  (get_standard_header cookie 3) w of
             (Inl e, w') \<Rightarrow> (Inl e, w')
           | (Inr j, w') \<Rightarrow>
               (case ht_validate http j of
                  Inl e \<Rightarrow> (Inl e, w')
                | Inr groups \<Rightarrow> (Inr (get_orders_result groups), w')))"

text \<open>
  \<open>items["accounts"]["allegro"]["login"]\<close>: a missing key is a \<open>KeyError\<close>, which becomes the
  \<open>ValueError\<close> the client reports; an index into anything but an object is a \<open>TypeError\<close>. The
  login is declared as a text; one that is not counts as missing here.
\<close>

fun json_path :: "ustring list \<Rightarrow> json \<Rightarrow> json res" where
  "json_path [] j = Inr j"
| "json_path (k # ks) (JObj d) =
     (case dget d k of
        None \<Rightarrow> Inl (ValueError (U ''invalid allegro user info response structure''))
      | Some j \<Rightarrow> json_path ks j)"
| "json_path (k # ks) _ = Inl (TypeError (U ''indices must be integers''))"

definition user_info_login :: "json \<Rightarrow> ustring option res" where
  "user_info_login j =
     (case json_path [U ''accounts'', U ''allegro'', U ''login''] j of
        Inl e \<Rightarrow> Inl e
      | Inr (JStr s) \<Rightarrow> Inr (Some s)
      | Inr _ \<Rightarrow> Inr None)"

definition api_get_user_info :: "'w allegro_http \<Rightarrow> ustring \<Rightarrow> 'w \<Rightarrow> ustring option res \<times> 'w" where
  "api_get_user_info http cookie w =
     (case api_get http (allegro_api_url @ U ''/users'') (get_standard_header cookie 2) w of
        (Inl e, w') \<Rightarrow> (Inl e, w')
      | (Inr j, w') \<Rightarrow>
          (case user_info_login j of
             Inl (ValueError m) \<Rightarrow>
               (Inl (AllegroApiError (U ''Failed to parse Allegro user info response'')), w')
           | r \<Rightarrow> (r, w')))"

section \<open>\<open>AllegroService\<close>\<close>

record allegro_account =
  aac_id :: uuid
  aac_secret :: ustring
  aac_login :: "ustring option"

fun allegro_wrap_error :: "exn \<Rightarrow> exn" where
  "allegro_wrap_error (AllegroAuthError m) = AllegroServiceError (U ''allegro authentication failed'') m"
| "allegro_wrap_error (AllegroApiError m) = AllegroServiceError (U ''allegro api error'') m"
| "allegro_wrap_error e = e"

definition or_unknown :: "ustring option \<Rightarrow> ustring" where
  "or_unknown l = (case l of Some (c # cs) \<Rightarrow> c # cs | _ \<Rightarrow> U ''unknown'')"

definition allegro_fetch ::
    "'w allegro_http \<Rightarrow> allegro_account \<Rightarrow> int \<Rightarrow> int \<Rightarrow> 'w
       \<Rightarrow> allegro_order_payment list res \<times> 'w" where
  "allegro_fetch http account limit offset w =
     (case (case aac_login account of
              None \<Rightarrow> api_get_user_info http (aac_secret account) w
            | Some l \<Rightarrow> (Inr (Some l), w)) of
        (Inl e, w1) \<Rightarrow> (Inl (allegro_wrap_error e), w1)
      | (Inr login, w1) \<Rightarrow>
          (case api_get_orders http (aac_secret account) limit offset w1 of
             (Inl e, w2) \<Rightarrow> (Inl (allegro_wrap_error e), w2)
           | (Inr raw, w2) \<Rightarrow>
               (case mapE (\<lambda>p. from_allegro_payment p (or_unknown login)) (ors_payments raw) of
                  Inl e \<Rightarrow> (Inl (allegro_wrap_error e), w2)
                | Inr payments \<Rightarrow> (Inr payments, w2))))"

section \<open>\<open>AllegroApplicationService\<close>\<close>

record allegro_config =
  alc_filter_desc :: ustring
  alc_future_days :: int

definition get_allegro_secrets :: "session \<Rightarrow> uuid \<Rightarrow> secret_read_model list" where
  "get_allegro_secrets s user_id = filter (\<lambda>x. rm_type x = ALLEGRO) (list_secrets s user_id)"

text \<open>\<open>except SecretNotAccessible\<close> around the secret's access.\<close>

definition wrap_secret_error :: "uuid \<Rightarrow> uuid \<Rightarrow> exn \<Rightarrow> exn" where
  "wrap_secret_error secret_id user_id e =
     (case e of
        AppError SecretNotAccessible m \<Rightarrow>
          AppError InvalidSecretId
            (U ''Secret with id '' @ uuid_str secret_id @ U '' not found for user '' @ uuid_str user_id)
      | _ \<Rightarrow> e)"

definition fetch_allegro_data ::
    "crypto \<Rightarrow> 'w allegro_http \<Rightarrow> uuid \<Rightarrow> instant \<Rightarrow> uuid \<Rightarrow> uuid \<Rightarrow> ustring option \<Rightarrow> page_request
       \<Rightarrow> vault_state \<Rightarrow> 'w \<Rightarrow> allegro_order_payment list res \<times> vault_state \<times> 'w" where
  "fetch_allegro_data cy http audit_id now user_id secret_id sid page st w =
     (case get_secret_for_internal_use cy audit_id now secret_id user_id sid None st of
        (Inl e, st') \<Rightarrow> (Inl (wrap_secret_error secret_id user_id e), st', w)
      | (Inr sec, st') \<Rightarrow>
          (case allegro_fetch http \<lparr>aac_id = rm_id sec, aac_secret = sm_secret sec, aac_login = None\<rparr>
                  (pg_limit page) (pg_offset page) w of
             (Inl e, w') \<Rightarrow>
               (Inl (AppError ExternalServiceFailed
                  (U ''Failed to fetch allegro data for secret '' @ uuid_str secret_id)), st', w')
           | (Inr data, w') \<Rightarrow> (Inr data, st', w')))"

definition allegro_match_page ::
    "allegro_config \<Rightarrow> 'w ff_client \<Rightarrow> allegro_order_payment list \<Rightarrow> 'w
       \<Rightarrow> (allegro_order_payment match_result list \<times> allegro_order_payment list) res \<times> 'w" where
  "allegro_match_page cfg cl payments w =
     (case match_with_unmatched (alc_future_days cfg) cl payment_compare payments
             (alc_filter_desc cfg) allegro_done w of
        (Inl e, w') \<Rightarrow> (Inl (wrap_external e), w')
      | (Inr r, w') \<Rightarrow> (Inr r, w'))"

definition first_login :: "allegro_order_payment list \<Rightarrow> ustring" where
  "first_login payments = (case payments of [] \<Rightarrow> U ''unknown'' | p # _ \<Rightarrow> ap_login p)"

definition allegro_cache_page ::
    "instant \<Rightarrow> uuid \<Rightarrow> page_request \<Rightarrow> allegro_order_payment list
       \<Rightarrow> allegro_order_payment match_result list \<Rightarrow> allegro_store \<Rightarrow> allegro_store" where
  "allegro_cache_page now secret_id page payments matches s =
     allegro_put_page secret_id
       \<lparr>pe_page = page, pe_login = first_login payments, pe_payments = payments,
        pe_matches = matches, pe_fetched_at = now\<rparr> s"

record allegro_preview =
  avp_login :: ustring
  avp_payments_fetched :: nat
  avp_transactions_found :: nat
  avp_not_matched :: nat
  avp_one_match :: nat
  avp_many_matches :: nat
  avp_content :: "allegro_order_payment match_result list"
  avp_unmatched :: "allegro_order_payment list"

text \<open>The services' state, the page cache with the jobs, and the remote state.\<close>

type_synonym 'w allegro_env = "vault_state \<times> allegro_store \<times> 'w"

definition allegro_preview_matches ::
    "allegro_config \<Rightarrow> crypto \<Rightarrow> 'w allegro_http \<Rightarrow> 'w ff_client \<Rightarrow> uuid \<Rightarrow> instant \<Rightarrow> uuid \<Rightarrow> uuid
       \<Rightarrow> ustring option \<Rightarrow> page_request option \<Rightarrow> 'w allegro_env
       \<Rightarrow> allegro_preview res \<times> 'w allegro_env" where
  "allegro_preview_matches cfg cy http cl audit_id now user_id secret_id sid page env =
     (case env of (st, s, w) \<Rightarrow>
     (let page_request = (case page of None \<Rightarrow> default_page | Some p \<Rightarrow> p)
      in case fetch_allegro_data cy http audit_id now user_id secret_id sid page_request st w of
           (Inl e, st', w') \<Rightarrow> (Inl e, st', s, w')
         | (Inr payments, st', w') \<Rightarrow>
             (case allegro_match_page cfg cl payments w' of
                (Inl e, w'') \<Rightarrow> (Inl e, st', s, w'')
              | (Inr (matches, unmatched), w'') \<Rightarrow>
                  (Inr \<lparr>avp_login = first_login payments, avp_payments_fetched = length payments,
                        avp_transactions_found = length matches,
                        avp_not_matched = length (filter (\<lambda>r. mr_matches r = []) matches),
                        avp_one_match = length (filter (\<lambda>r. length (mr_matches r) = 1) matches),
                        avp_many_matches = length (filter (\<lambda>r. 1 < length (mr_matches r)) matches),
                        avp_content = matches, avp_unmatched = unmatched\<rparr>,
                   st', allegro_cache_page now secret_id page_request payments matches s, w''))))"

section \<open>Applying decisions\<close>

definition allegro_index_matches ::
    "allegro_order_payment match_result \<Rightarrow> (ustring, allegro_order_payment) dict" where
  "allegro_index_matches m = dict_comp ap_external_short_id (\<lambda>p. p) (mr_matches m)"

text \<open>The body of the \<open>try\<close> for one decision.\<close>

definition allegro_try_decision ::
    "'w ff_client \<Rightarrow> (int, allegro_order_payment match_result) dict \<Rightarrow> allegro_decision \<Rightarrow> 'w
       \<Rightarrow> unit res \<times> 'w" where
  "allegro_try_decision cl index d w =
     (case dget index (ad_transaction_id d) of
        None \<Rightarrow> (Inl (AppError TransactionNotFound
                  (U ''Transaction id '' @ str_int (ad_transaction_id d) @ U '' not found'')), w)
      | Some m \<Rightarrow>
          (case dget (allegro_index_matches m) (ad_payment_id d) of
             None \<Rightarrow> (Inl (AppError InvalidMatchSelection
                       (U ''Payment id '' @ ad_payment_id d @ U '' not found for transaction id ''
                        @ str_int (ad_transaction_id d))), w)
           | Some p \<Rightarrow> apply_match cl payment_build_tx_update (mr_tx m) p w))"

definition allegro_outcome_of :: "allegro_decision \<Rightarrow> unit res \<Rightarrow> outcome" where
  "allegro_outcome_of d r =
     \<lparr>oc_transaction_id = ad_transaction_id d,
      oc_status = (case r of Inl _ \<Rightarrow> Failed | Inr _ \<Rightarrow> Success),
      oc_reason = (case r of Inl e \<Rightarrow> Some (exn_str e) | Inr _ \<Rightarrow> None)\<rparr>"

fun allegro_apply_loop ::
    "'w ff_client \<Rightarrow> (int, allegro_order_payment match_result) dict \<Rightarrow> allegro_decision list
       \<Rightarrow> allegro_job \<Rightarrow> 'w \<Rightarrow> allegro_job \<times> 'w" where
  "allegro_apply_loop cl index [] job w = (job, w)"
| "allegro_apply_loop cl index (d # ds) job w =
     (case allegro_try_decision cl index d w of
        (r, w') \<Rightarrow> allegro_apply_loop cl index ds (count_outcome job (allegro_outcome_of d r)) w')"

definition allegro_close_job :: "instant \<Rightarrow> allegro_job \<Rightarrow> allegro_job" where
  "allegro_close_job now j = j\<lparr>job_stat := DONE, job_finished_at := Some now\<rparr>"

definition allegro_run_apply_job ::
    "'w ff_client \<Rightarrow> instant \<Rightarrow> allegro_job \<Rightarrow> allegro_decision list
       \<Rightarrow> allegro_order_payment match_result list \<Rightarrow> 'w \<Rightarrow> allegro_job \<times> 'w" where
  "allegro_run_apply_job cl now job decisions matches w =
     (case allegro_apply_loop cl (match_index matches) decisions (job\<lparr>job_stat := RUNNING\<rparr>) w of
        (job', w') \<Rightarrow> (allegro_close_job now job', w'))"

record allegro_task =
  at_job :: uuid
  at_todo :: "allegro_decision list"
  at_index :: "(int, allegro_order_payment match_result) dict"
  at_begun :: bool

definition allegro_start_apply_job ::
    "uuid \<Rightarrow> instant \<Rightarrow> uuid \<Rightarrow> allegro_decision list \<Rightarrow> allegro_store
       \<Rightarrow> (allegro_job \<times> allegro_task) res \<times> allegro_store" where
  "allegro_start_apply_job new_id now secret_id decisions s =
     (let matches = allegro_get_all s secret_id
      in if matches = [] then (Inl (AppError MatchesNotComputed []), s)
         else case allegro_job_create new_id now secret_id (length decisions) (as_jobs s) of
                (job, jobs) \<Rightarrow>
                  (Inr (job, \<lparr>at_job = job_id job, at_todo = decisions,
                              at_index = match_index matches, at_begun = False\<rparr>),
                   s\<lparr>as_jobs := jobs\<rparr>))"

text \<open>\<open>if limit:\<close> takes a limit of zero for none.\<close>

definition allegro_start_auto_apply ::
    "uuid \<Rightarrow> instant \<Rightarrow> uuid \<Rightarrow> int option \<Rightarrow> allegro_store
       \<Rightarrow> (allegro_job \<times> allegro_task) res \<times> allegro_store" where
  "allegro_start_auto_apply new_id now secret_id limit s =
     (let matches = allegro_get_all s secret_id
      in if matches = [] then (Inl (AppError MatchesNotComputed []), s)
         else let single = filter (\<lambda>m. length (mr_matches m) = 1) matches;
                  single' = (case limit of
                               Some n \<Rightarrow> if n \<noteq> 0 then slice_to n single else single
                             | None \<Rightarrow> single);
                  decisions = map (\<lambda>m. \<lparr>ad_payment_id = ap_external_short_id (hd (mr_matches m)),
                                        ad_transaction_id = tx_id (mr_tx m),
                                        ad_strategy = StrategyAuto\<rparr>) single'
              in allegro_start_apply_job new_id now secret_id decisions s)"

definition clear_cached_page :: "uuid \<Rightarrow> page_request \<Rightarrow> allegro_store \<Rightarrow> bool \<times> allegro_store" where
  "clear_cached_page secret_id page s = allegro_invalidate_page secret_id page s"

definition clear_cached_secret :: "uuid \<Rightarrow> allegro_store \<Rightarrow> bool \<times> allegro_store" where
  "clear_cached_secret secret_id s = allegro_invalidate_secret secret_id s"

section \<open>Tasks running side by side\<close>

record 'w allegro_world =
  aw_store :: allegro_store
  aw_tasks :: "allegro_task list"
  aw_remote :: 'w

definition allegro_set_job :: "uuid \<Rightarrow> (allegro_job \<Rightarrow> allegro_job) \<Rightarrow> allegro_store \<Rightarrow> allegro_store" where
  "allegro_set_job i f s =
     (case dget (as_jobs s) i of
        None \<Rightarrow> s
      | Some j \<Rightarrow> s\<lparr>as_jobs := dput i (f j) (as_jobs s)\<rparr>)"

text \<open>
  The cache may change in any way between the steps of a task: the task keeps the matches it was
  started with.
\<close>

inductive allegro_step :: "'w ff_client \<Rightarrow> 'w allegro_world \<Rightarrow> 'w allegro_world \<Rightarrow> bool"
  for cl :: "'w ff_client" where
  start:
    "allegro_start_apply_job i now sec ds (aw_store W) = (Inr (job, t), s') \<Longrightarrow>
     dget (as_jobs (aw_store W)) i = None \<Longrightarrow>
     allegro_step cl W (W\<lparr>aw_store := s', aw_tasks := aw_tasks W @ [t]\<rparr>)"
| begin_task:
    "aw_tasks W = pre @ t # post \<Longrightarrow> \<not> at_begun t \<Longrightarrow>
     allegro_step cl W
       (W\<lparr>aw_store := allegro_set_job (at_job t) (job_stat_update (\<lambda>_. RUNNING)) (aw_store W),
          aw_tasks := pre @ t\<lparr>at_begun := True\<rparr> # post\<rparr>)"
| decide:
    "aw_tasks W = pre @ t # post \<Longrightarrow> at_begun t \<Longrightarrow> at_todo t = d # ds \<Longrightarrow>
     allegro_try_decision cl (at_index t) d (aw_remote W) = (r, w') \<Longrightarrow>
     allegro_step cl W
       (W\<lparr>aw_store := allegro_set_job (at_job t) (\<lambda>j. count_outcome j (allegro_outcome_of d r)) (aw_store W),
          aw_tasks := pre @ t\<lparr>at_todo := ds\<rparr> # post, aw_remote := w'\<rparr>)"
| finish:
    "aw_tasks W = pre @ t # post \<Longrightarrow> at_begun t \<Longrightarrow> at_todo t = [] \<Longrightarrow>
     allegro_step cl W
       (W\<lparr>aw_store := allegro_set_job (at_job t) (allegro_close_job now) (aw_store W),
          aw_tasks := pre @ post\<rparr>)"
| cache: "allegro_step cl W (W\<lparr>aw_store := (aw_store W)\<lparr>as_cache := c\<rparr>, aw_remote := w'\<rparr>)"

definition allegro_world_start :: "'w \<Rightarrow> 'w allegro_world" where
  "allegro_world_start w = \<lparr>aw_store = allegro_store_empty, aw_tasks = [], aw_remote = w\<rparr>"

inductive allegro_reachable :: "'w ff_client \<Rightarrow> 'w allegro_world \<Rightarrow> bool"
  for cl :: "'w ff_client" where
  init: "allegro_reachable cl (allegro_world_start w)"
| step: "allegro_reachable cl W \<Longrightarrow> allegro_step cl W W' \<Longrightarrow> allegro_reachable cl W'"

text \<open>The counters of a job always agree with the outcomes it lists.\<close>

definition job_counts_ok :: "allegro_job \<Rightarrow> bool" where
  "job_counts_ok j \<longleftrightarrow>
     job_applied j = length (filter (\<lambda>oc. oc_status oc = Success) (job_results j)) \<and>
     job_failed j = length (filter (\<lambda>oc. oc_status oc = Failed) (job_results j))"

definition atask_ok :: "allegro_jobs \<Rightarrow> allegro_task \<Rightarrow> bool" where
  "atask_ok jobs t \<longleftrightarrow>
     (case dget jobs (at_job t) of
        None \<Rightarrow> False
      | Some j \<Rightarrow> job_finished_at j = None \<and> job_stat j = (if at_begun t then RUNNING else PENDING) \<and>
                  length (job_results j) + length (at_todo t) = job_total j)"

definition allegro_inv :: "'w allegro_world \<Rightarrow> bool" where
  "allegro_inv W \<longleftrightarrow>
     distinct (map at_job (aw_tasks W)) \<and>
     (\<forall>t \<in> set (aw_tasks W). atask_ok (as_jobs (aw_store W)) t) \<and>
     (\<forall>k j. dget (as_jobs (aw_store W)) k = Some j \<longrightarrow>
        job_id j = k \<and> job_counts_ok j \<and> (job_closed j \<or> k \<in> at_job ` set (aw_tasks W)))"

lemma dget_allegro_set_job [dict_simps]:
  "dget (as_jobs (allegro_set_job i f s)) k =
     (if k = i then map_option f (dget (as_jobs s) i) else dget (as_jobs s) k)"
  by (auto simp: allegro_set_job_def dict_simps split: option.splits)

lemma allegro_start_cases:
  assumes "allegro_start_apply_job i now sec ds s = (Inr (job, t), s')"
  shows "job = new_allegro_job i now sec (length ds)" and "as_jobs s' = dput i job (as_jobs s)"
    and "at_job t = i" and "at_todo t = ds" and "\<not> at_begun t" and "allegro_get_all s sec \<noteq> []"
    and "at_index t = match_index (allegro_get_all s sec)"
  using assms
  by (auto simp: allegro_start_apply_job_def allegro_job_create_def new_allegro_job_def Let_def
      split: if_splits)

lemma allegro_inv_start:
  assumes "allegro_inv W" and "allegro_start_apply_job i now sec ds (aw_store W) = (Inr (job, t), s')"
    and "dget (as_jobs (aw_store W)) i = None"
  shows "allegro_inv (W\<lparr>aw_store := s', aw_tasks := aw_tasks W @ [t]\<rparr>)"
proof -
  note c = allegro_start_cases [OF assms(2)]
  have fresh: "at_job u \<noteq> i" if "u \<in> set (aw_tasks W)" for u
    using that assms(1,3) by (auto simp: allegro_inv_def atask_ok_def split: option.splits)
  have "atask_ok (as_jobs s') u" if "u \<in> set (aw_tasks W)" for u
    using that assms(1) fresh [OF that] by (auto simp: allegro_inv_def atask_ok_def c dict_simps)
  moreover have "atask_ok (as_jobs s') t"
    by (simp add: atask_ok_def c dict_simps new_allegro_job_def)
  moreover have "job_id j = k \<and> job_counts_ok j \<and> (job_closed j \<or> k \<in> at_job ` set (aw_tasks W @ [t]))"
    if "dget (as_jobs s') k = Some j" for k j
    using that assms(1)
    by (auto simp: allegro_inv_def c dict_simps new_allegro_job_def job_counts_ok_def split: if_splits)
  moreover have "at_job t \<notin> at_job ` set (aw_tasks W)"
    using fresh c(3) by (simp add: image_iff) metis
  ultimately show ?thesis
    using assms(1) by (auto simp: allegro_inv_def)
qed

lemma atask_ok_other:
  "atask_ok (as_jobs s) u \<Longrightarrow> at_job u \<noteq> i \<Longrightarrow> atask_ok (as_jobs (allegro_set_job i f s)) u"
  by (simp add: atask_ok_def dict_simps)

text \<open>A step of the task at one position, whose job it changes by \<open>f\<close>.\<close>

lemma allegro_inv_task:
  assumes "allegro_inv W" and "aw_tasks W = pre @ t # post" and "at_job t' = at_job t"
    and j: "dget (as_jobs (aw_store W)) (at_job t) = Some j"
    and "job_id (f j) = job_id j" and "job_counts_ok (f j)"
    and "atask_ok (as_jobs (allegro_set_job (at_job t) f (aw_store W))) t'"
  shows "allegro_inv (W\<lparr>aw_store := allegro_set_job (at_job t) f (aw_store W),
    aw_tasks := pre @ t' # post\<rparr>)"
proof -
  have other: "at_job u \<noteq> at_job t" if "u \<in> set pre \<union> set post" for u
    using assms(1,2) that distinct_map_others [of at_job pre t post u]
    by (simp add: allegro_inv_def)
  have tok: "atask_ok (as_jobs (aw_store W)) u" if "u \<in> set pre \<union> set post" for u
    using assms(1,2) that by (auto simp: allegro_inv_def)
  from assms other tok show ?thesis
    by (auto simp: allegro_inv_def dict_simps intro: atask_ok_other split: if_splits)
qed

lemma job_counts_ok_count [simp]: "job_counts_ok j \<Longrightarrow> job_counts_ok (count_outcome j oc)"
  by (cases "oc_status oc") (auto simp: job_counts_ok_def)

lemma allegro_inv_step:
  assumes "allegro_inv W" and "allegro_step cl W W'"
  shows "allegro_inv W'"
  using assms(2)
proof cases
  case start
  with assms(1) show ?thesis by (simp add: allegro_inv_start)
next
  case (begin_task pre t post)
  then have "atask_ok (as_jobs (aw_store W)) t" using assms(1) by (auto simp: allegro_inv_def)
  then obtain j where j: "dget (as_jobs (aw_store W)) (at_job t) = Some j" "job_finished_at j = None"
    "length (job_results j) + length (at_todo t) = job_total j"
    by (auto simp: atask_ok_def split: option.splits)
  moreover from j assms(1) have "job_counts_ok j" by (auto simp: allegro_inv_def)
  ultimately show ?thesis
    unfolding begin_task(1)
    by (intro allegro_inv_task [OF assms(1) begin_task(2)])
       (auto simp: atask_ok_def dict_simps job_counts_ok_def)
next
  case (decide pre t post d ds r w')
  then have "atask_ok (as_jobs (aw_store W)) t" using assms(1) by (auto simp: allegro_inv_def)
  with decide obtain j where j: "dget (as_jobs (aw_store W)) (at_job t) = Some j" "job_finished_at j = None"
    "length (job_results j) + Suc (length ds) = job_total j" "job_stat j = RUNNING"
    by (auto simp: atask_ok_def split: option.splits)
  moreover from j assms(1) have "job_counts_ok j" by (auto simp: allegro_inv_def)
  ultimately have "allegro_inv (W\<lparr>aw_store := allegro_set_job (at_job t)
      (\<lambda>j. count_outcome j (allegro_outcome_of d r)) (aw_store W), aw_tasks := pre @ t\<lparr>at_todo := ds\<rparr> # post\<rparr>)"
    using decide by (intro allegro_inv_task [OF assms(1) decide(2)]) (auto simp: atask_ok_def dict_simps)
  then show ?thesis unfolding decide(1) by (simp add: allegro_inv_def)
next
  case (finish pre t post now)
  have other: "at_job u \<noteq> at_job t" if "u \<in> set pre \<union> set post" for u
    using assms(1) finish(2) that distinct_map_others [of at_job pre t post u]
    by (simp add: allegro_inv_def)
  have tok: "atask_ok (as_jobs (aw_store W)) u" if "u \<in> set pre \<union> set post \<union> {t}" for u
    using assms(1) finish(2) that by (auto simp: allegro_inv_def)
  from tok [of t] finish(4) obtain j where j: "dget (as_jobs (aw_store W)) (at_job t) = Some j"
    "length (job_results j) = job_total j"
    by (auto simp: atask_ok_def split: option.splits)
  with assms(1) have "job_id j = at_job t" "job_counts_ok j" by (auto simp: allegro_inv_def)
  with j have "job_id (allegro_close_job now j) = at_job t" "job_counts_ok (allegro_close_job now j)"
    "job_closed (allegro_close_job now j)"
    by (auto simp: allegro_close_job_def job_closed_def job_counts_ok_def)
  with assms(1) finish other tok j(1) show ?thesis
    by (auto simp: allegro_inv_def dict_simps intro: atask_ok_other split: if_splits)
next
  case cache
  with assms(1) show ?thesis by (simp add: allegro_inv_def)
qed

lemma allegro_inv_reachable: "allegro_reachable cl W \<Longrightarrow> allegro_inv W"
proof (induction rule: allegro_reachable.induct)
  case (init w)
  then show ?case by (simp add: allegro_world_start_def allegro_inv_def allegro_store_empty_def)
next
  case (step W W')
  then show ?case by (blast intro: allegro_inv_step)
qed

lemma allegro_closed_stable:
  assumes "allegro_inv W" and "allegro_step cl W W'"
    and "dget (as_jobs (aw_store W)) k = Some j" and "job_stat j = DONE"
  shows "dget (as_jobs (aw_store W')) k = Some j"
proof -
  have no_task: "at_job t \<noteq> k" if "t \<in> set (aw_tasks W)" for t
    using that assms(1,3,4) by (auto simp: allegro_inv_def atask_ok_def split: option.splits if_splits)
  show ?thesis
    using assms(2)
  proof cases
    case (start i now sec ds job t s')
    with assms(3) show ?thesis by (auto simp: allegro_start_cases(2) dict_simps)
  qed (use assms(3) no_task in \<open>auto simp: dict_simps\<close>)
qed

section \<open>One decision\<close>

text \<open>
  A decision reaches Firefly only for a transaction among the matches and a payment proposed for
  it; otherwise the remote state is as it was.
\<close>

lemma allegro_try_decision_cases:
  assumes "allegro_try_decision cl (match_index matches) d w = (r, w')"
  shows "(\<exists>m p. m \<in> set matches \<and> tx_id (mr_tx m) = ad_transaction_id d \<and> p \<in> set (mr_matches m) \<and>
       ap_external_short_id p = ad_payment_id d \<and>
       apply_match cl payment_build_tx_update (mr_tx m) p w = (r, w')) \<or>
    (w' = w \<and> (\<exists>e. r = Inl e))"
  using assms
  by (auto simp: allegro_try_decision_def match_index_def allegro_index_matches_def
      split: option.splits dest!: dget_dict_comp_SomeD)

text \<open>Every exception of a run is an outcome, so the run itself always ends.\<close>

lemma allegro_apply_loop_results:
  "allegro_apply_loop cl index ds job w = (job', w') \<Longrightarrow>
     map oc_transaction_id (job_results job') =
       map oc_transaction_id (job_results job) @ map ad_transaction_id ds \<and>
     job_total job' = job_total job \<and> job_id job' = job_id job \<and>
     (job_counts_ok job \<longrightarrow> job_counts_ok job')"
proof (induction ds arbitrary: job w)
  case (Cons d ds)
  then show ?case
    by (cases "allegro_try_decision cl index d w")
       (fastforce simp: allegro_outcome_of_def job_counts_ok_def split: outcome_status.splits)
qed simp

lemma allegro_run_closed:
  assumes "job_open job" and "job_total job = length decisions"
    and "allegro_run_apply_job cl now job decisions matches w = (job', w')"
  shows "job_closed job' \<and> map oc_transaction_id (job_results job') = map ad_transaction_id decisions"
proof -
  obtain j1 w1 where l: "allegro_apply_loop cl (match_index matches) decisions (job\<lparr>job_stat := RUNNING\<rparr>) w = (j1, w1)"
    by fastforce
  with assms(3) have j': "job' = allegro_close_job now j1" by (simp add: allegro_run_apply_job_def)
  from allegro_apply_loop_results [OF l] assms(1,2)
  have "map oc_transaction_id (job_results j1) = map ad_transaction_id decisions"
    "job_total j1 = length decisions" "job_counts_ok j1"
    by (auto simp: job_open_def job_counts_ok_def)
  then show ?thesis
    using map_eq_imp_length_eq [of oc_transaction_id "job_results j1" ad_transaction_id decisions]
    by (simp add: j' allegro_close_job_def job_closed_def job_counts_ok_def)
qed

end
