(* ===== verification/Samples.thy ===== *)
theory Samples imports BlikApp AllegroApp "HOL-Library.Code_Target_Nat" begin

text \<open>
  Concrete values on which the properties are evaluated: a transaction, a bank record and an
  order payment that belong together, and a Firefly client that answers every call. None of them
  models code.
\<close>

definition sample_day :: date where "sample_day = Date 2024 5 17"

definition sample_tx :: transaction where
  "sample_tx =
     \<lparr>bi_date = sample_day, bi_amount = DFin True 1250 (-2), tx_id = 7, tx_type = WITHDRAWAL,
      tx_description = U ''Shop'', tx_tags = {}, tx_notes = None, tx_category = None,
      tx_currency = \<lparr>cur_code = U ''PLN'', cur_symbol = U ''zl'', cur_decimals = 2\<rparr>, tx_fx = None,
      tx_source = None, tx_destination = None\<rparr>"

definition sample_record :: bank_record where
  "sample_record =
     \<lparr>bi_date = sample_day, bi_amount = DFin False 125 (-1), br_details = U ''order 1'',
      br_recipient = U ''Shop'', br_operation_amount = DFin False 125 (-1), br_sender = [],
      br_operation_currency = U ''PLN'', br_account_currency = U ''PLN'',
      br_sender_account = [], br_recipient_account = []\<rparr>"

definition sample_payment :: allegro_order_payment where
  "sample_payment =
     \<lparr>bi_date = sample_day, bi_amount = DFin False 125 (-1), op_details = [U ''Buyer: x''],
      op_tag_done = allegro_done, ap_is_balanced = True, ap_login = U ''x'',
      ap_external_short_id = U ''abcd1234'', ap_external_id = U ''payment''\<rparr>"

definition sample_ff_tx :: ff_tx where
  "sample_ff_tx =
     \<lparr>ff_id = 7, ff_date = sample_day, ff_amount = DFin True 1250 (-2), ff_type = U ''withdrawal'',
      ff_description = U ''Shop'', ff_tags = [], ff_notes = None, ff_category = None,
      ff_currency = (U ''PLN'', U ''zl'', 2), ff_fx = None, ff_source = None,
      ff_destination = None\<rparr>"

text \<open>A client whose remote state is the number of updates made.\<close>

definition sample_client :: "nat ff_client" where
  "sample_client =
     \<lparr>cl_fetch_transactions = \<lambda>_ _ _ _ n. (Inr [sample_ff_tx], n),
      cl_update_transaction = \<lambda>_ _ n. (Inr (), Suc n),
      cl_get_transaction = \<lambda>_ n. (Inr sample_ff_tx, n),
      cl_fetch_categories = \<lambda>n. (Inr [(1, U ''Food'')], n),
      cl_fetch_with_stats = \<lambda>_ _ n.
        (Inr ([sample_ff_tx], \<lparr>st_total = 1, st_duration_ms = 5, st_invalid = 0, st_multipart = 0\<rparr>), n)\<rparr>"

lemma sample_dates [simp]:
  "bi_date sample_tx = sample_day" "bi_date sample_record = sample_day"
  "bi_date sample_payment = sample_day" "valid_date sample_day" "d_year sample_day = 2024"
  by (simp_all add: sample_tx_def sample_record_def sample_payment_def, code_simp+)

lemma sample_amounts [simp]:
  "same_abs (bi_amount sample_record) (bi_amount sample_tx)"
  "same_abs (bi_amount sample_payment) (bi_amount sample_tx)"
  by code_simp+

lemma sample_tx_simps [simp]:
  "tx_tags sample_tx = {}" "tx_id sample_tx = 7" "tx_notes sample_tx = None" "tx_category sample_tx = None"
  by (simp_all add: sample_tx_def)

lemmas sample_defs = sample_day_def sample_tx_def sample_record_def sample_payment_def
  sample_ff_tx_def sample_client_def


lemma sample_fetch [simp]: "mapE tx_from_ff_tx [sample_ff_tx] = Inr [sample_tx]"
  by (simp add: sample_ff_tx_def sample_tx_def tx_from_ff_tx_def map_account_def tx_type_of_def
      enum_of_def currency_of_def)

lemma sample_screening [simp]:
  "screening_filter (U ''blik'') (U ''allegro'') [sample_tx] = [sample_tx]"
  by code_simp

lemma sample_client_calls [simp]:
  "cl_fetch_transactions sample_client a b n p w = (Inr [sample_ff_tx], w)"
  "cl_update_transaction sample_client i u w = (Inr (), Suc w)"
  "cl_get_transaction sample_client i w = (Inr sample_ff_tx, w)"
  "cl_fetch_categories sample_client w = (Inr [(1, U ''Food'')], w)"
  by (simp_all add: sample_client_def)


section \<open>A file with one record\<close>

definition sample_rows :: "ustring list list" where
  "sample_rows =
     [[col_date, col_amount, col_operation_amount] @ text_columns,
      [U ''17-05-2024'', U ''12,50'', U ''12,5'', U ''a'', U ''Shop'', U ''order 1'', U ''PLN'',
       U ''PLN'', [], []]]"

definition sample_csv :: ustring where
  "sample_csv = U ''x'' @ 10 # csv_write sample_rows"

definition sample_csv_record :: csv_record where
  "sample_csv_record =
     \<lparr>bi_date = sample_day, bi_amount = DFin False 1250 (-2),
      cr_operation_amount = DFin False 125 (-1), cr_sender = Some (U ''a''),
      cr_recipient = Some (U ''Shop''), cr_details = Some (U ''order 1''),
      cr_operation_currency = Some (U ''PLN''), cr_account_currency = Some (U ''PLN''),
      cr_sender_account = Some [], cr_recipient_account = Some []\<rparr>"

lemma sample_csv_text [simp]: "parse_csv_text sample_csv = Inr [sample_csv_record]"
proof -
  have "\<forall>row \<in> set sample_rows. \<forall>f \<in> set row. length f \<le> csv_field_limit"
    by (simp add: sample_rows_def col_date_def col_amount_def col_operation_amount_def
        text_columns_def csv_field_limit_def U_def)
  moreover have "mapE csv_record_of_row (dict_rows sample_rows) = Inr [sample_csv_record]"
    by code_simp
  moreover have "\<forall>c \<in> set (U ''x''). \<not> is_crlf c" by (simp add: U_def is_crlf_def)
  ultimately show ?thesis
    unfolding sample_csv_def by (simp add: parse_csv_text_write)
qed

definition sample_file :: "nat list" where "sample_file = the (utf8_encode sample_csv)"

lemma sample_file [simp]: "parse_csv_file sample_file = Inr [sample_csv_record]"
proof -
  have "utf8_encode sample_csv = Some sample_file" unfolding sample_file_def
    by code_simp
  from utf8_decode_encode [OF this] show ?thesis by (simp add: parse_csv_file_def)
qed

end
