(* ===== verification/MatchingProps.thy ===== *)
theory MatchingProps imports Samples begin

text \<open>
  What the matcher and the enrichment service promise: which pairs are proposed, over which
  transactions, and what applying a proposal may change.
\<close>

text \<open>
  C1. The matcher's two loops with their index set compute the relational specification: one
  result for every transaction, in order, with exactly the candidates the comparison accepts, the
  status read off the done tag, and as unmatched exactly the candidates no transaction accepts,
  in order.
\<close>

theorem match_transactions_computes_spec:
  assumes "match_transactions cmp txs items tag = Inr (results, unmatched)"
  shows "results = map (\<lambda>t. \<lparr>mr_tx = t, mr_matches = filter (\<lambda>i. cmp i t = Inr True) items,
             mr_status = (if has_tag t tag then ALREADY_PROCESSED else NEW)\<rparr>) txs \<and>
         unmatched = filter (\<lambda>i. list_all (\<lambda>t. cmp i t \<noteq> Inr True) txs) items"
  using match_transactions_Inr [OF assms]
  by (simp add: match_spec_def match_entry_def list_all_iff)

lemma match_transactions_computes_spec_witness:
  "match_transactions bank_compare [sample_tx] [sample_record] blik_done
     = Inr ([\<lparr>mr_tx = sample_tx, mr_matches = [sample_record], mr_status = NEW\<rparr>], []) \<and>
   [] = filter (\<lambda>i. list_all (\<lambda>t. bank_compare i t \<noteq> Inr True) [sample_tx]) [sample_record]"
proof -
  have run: "match_transactions bank_compare [sample_tx] [sample_record] blik_done
     = Inr ([\<lparr>mr_tx = sample_tx, mr_matches = [sample_record], mr_status = NEW\<rparr>], [])"
    by (simp add: match_bank_records match_spec_def match_entry_def base_compare_def
        compare_amounts_abs_def has_tag_def)
  from match_transactions_computes_spec [OF run] run show ?thesis by blast
qed





text \<open>
  C5. Applying a bank record is one call to the client, for the transaction it was matched with:
  the update adds the done tag to the transaction's tags and keeps the others, leaves the category
  alone, and extends the notes at their end.
\<close>

theorem apply_bank_record_update:
  "\<exists>u n. apply_match cl bank_build_tx_update t r w =
       (case cl_update_transaction cl (tx_id t) u w of
          (Inl e, w') \<Rightarrow> (Inl (wrap_api (U ''Failed to update transaction '' @ str_int (tx_id t)) e), w')
        | (Inr _, w') \<Rightarrow> (Inr (), w')) \<and>
     ffu_tags u = Some (insert (tag_value blik_done) (tx_tags t)) \<and>
     ffu_category_id u = None \<and> ffu_notes u = Some n \<and>
     prefix (case tx_notes t of None \<Rightarrow> [] | Some m \<Rightarrow> m) n \<and>
     suffix (pretty_print r True None None) n"
proof -
  obtain b where b: "bank_build_tx_update r t = Inr b"
    and nb: "up_notes b = Some (add_line (tx_notes t) (pretty_print r True None None))"
    by (simp add: bank_build_tx_update_def Let_def)
  from bank_e.build_tags [OF b] bank_e.build_category [OF b] nb
  show ?thesis
    by (intro exI [of _ "tx_update_to_ff_tx_update b"]
           exI [of _ "add_line (tx_notes t) (pretty_print r True None None)"])
       (simp add: apply_match_def b update_transaction_def tx_update_to_ff_tx_update_def
         add_line_prefix add_line_suffix)
qed






end
