(* ===== verification/Snapshot.thy ===== *)
theory Snapshot imports JobStores Firefly begin

text \<open>
  \<open>services/snapshot/store.py\<close>, \<open>models.py\<close> and \<open>service.py\<close>: one cached copy of all transactions
  with an age limit, refreshed by at most one task at a time that all callers wait for. A coroutine
  runs until it waits for a task, so the calls are functions that answer or name the task to wait
  for, and their interleaving is a step relation.
\<close>

section \<open>The store\<close>

text \<open>A \<open>datetime\<close> as the snapshot carries it: an instant, or a wall clock without a zone.\<close>

datatype stamp = Aware instant | Naive int

record transaction_snapshot =
  ts_transactions :: "transaction list"
  ts_metrics :: fetch_metrics
  ts_fetched_at :: stamp
  ts_schema_version :: int

definition transaction_count :: "transaction_snapshot \<Rightarrow> nat" where
  "transaction_count sn = length (ts_transactions sn)"

type_synonym snapshot_store = "transaction_snapshot option"

definition snapshot_store_get :: "snapshot_store \<Rightarrow> transaction_snapshot option" where
  "snapshot_store_get s = s"

definition snapshot_store_set :: "transaction_snapshot \<Rightarrow> snapshot_store \<Rightarrow> snapshot_store" where
  "snapshot_store_set sn s = Some sn"

definition snapshot_store_invalidate :: "snapshot_store \<Rightarrow> snapshot_store" where
  "snapshot_store_invalidate s = None"

definition snapshot_is_stale :: "instant \<Rightarrow> int \<Rightarrow> snapshot_store \<Rightarrow> bool res" where
  "snapshot_is_stale now max_age_seconds s =
     (case s of
        None \<Rightarrow> Inr True
      | Some sn \<Rightarrow>
          (case ts_fetched_at sn of
             Naive _ \<Rightarrow> Inl (ValueError (U ''TransactionSnapshot.fetched_at must be timezone-aware''))
           | Aware u \<Rightarrow> Inr (now - u > max_age_seconds * us_per_second)))"

section \<open>The service\<close>

text \<open>
  A task runs, has been asked to stop, or is done with a result or as cancelled. The tasks stand in
  a dictionary under the number they got when they were created.
\<close>

datatype 'a task_end = Result "'a res" | Cancelled

datatype 'a task_state = Working | Cancelling | Ended "'a task_end"

fun task_done :: "'a task_state \<Rightarrow> bool" where
  "task_done (Ended r) = True"
| "task_done t = False"

record snapshot_service =
  ss_store :: snapshot_store
  ss_refresh_task :: "nat option"
  ss_tasks :: "(nat, transaction_snapshot task_state) dict"
  ss_next :: nat

definition snapshot_service_start :: snapshot_service where
  "snapshot_service_start =
     \<lparr>ss_store = None, ss_refresh_task = None, ss_tasks = [], ss_next = 0\<rparr>"

text \<open>What a call does first: answer at once, raise, or wait for a task.\<close>

datatype 'a answer = Now "'a res" | Wait nat

definition snapshot_fresh ::
    "instant \<Rightarrow> int \<Rightarrow> snapshot_store \<Rightarrow> transaction_snapshot option res" where
  "snapshot_fresh now max_age s =
     (case snapshot_store_get s of
        None \<Rightarrow> Inr None
      | Some sn \<Rightarrow>
          (case snapshot_is_stale now max_age s of
             Inl e \<Rightarrow> Inl e
           | Inr stale \<Rightarrow> Inr (if stale then None else Some sn)))"

text \<open>\<open>task is None or task.done()\<close>: a task that is not known to the loop any more is done.\<close>

definition refresh_running :: "snapshot_service \<Rightarrow> nat option" where
  "refresh_running s =
     (case ss_refresh_task s of
        None \<Rightarrow> None
      | Some t \<Rightarrow>
          (case dget (ss_tasks s) t of
             None \<Rightarrow> None
           | Some st \<Rightarrow> if task_done st then None else Some t))"

definition start_or_join :: "snapshot_service \<Rightarrow> nat \<times> snapshot_service" where
  "start_or_join s =
     (case refresh_running s of
        Some t \<Rightarrow> (t, s)
      | None \<Rightarrow>
          (ss_next s,
           s\<lparr>ss_refresh_task := Some (ss_next s),
             ss_tasks := dput (ss_next s) Working (ss_tasks s), ss_next := ss_next s + 1\<rparr>))"

definition ensure_snapshot ::
    "bool \<Rightarrow> instant \<Rightarrow> int \<Rightarrow> snapshot_service
       \<Rightarrow> transaction_snapshot answer \<times> snapshot_service" where
  "ensure_snapshot force_refresh now max_age s =
     (case (if force_refresh then Inr None else snapshot_fresh now max_age (ss_store s)) of
        Inl e \<Rightarrow> (Now (Inl e), s)
      | Inr (Some sn) \<Rightarrow> (Now (Inr sn), s)
      | Inr None \<Rightarrow> (case start_or_join s of (t, s') \<Rightarrow> (Wait t, s')))"

definition get_snapshot ::
    "instant \<Rightarrow> int \<Rightarrow> snapshot_service \<Rightarrow> transaction_snapshot answer \<times> snapshot_service" where
  "get_snapshot now max_age s =
     (case snapshot_fresh now max_age (ss_store s) of
        Inl e \<Rightarrow> (Now (Inl e), s)
      | Inr (Some sn) \<Rightarrow> (Now (Inr sn), s)
      | Inr None \<Rightarrow> ensure_snapshot False now max_age s)"

definition refresh_snapshot ::
    "instant \<Rightarrow> int \<Rightarrow> snapshot_service \<Rightarrow> transaction_snapshot answer \<times> snapshot_service" where
  "refresh_snapshot now max_age s = ensure_snapshot True now max_age s"

definition get_cached_snapshot :: "snapshot_service \<Rightarrow> transaction_snapshot option" where
  "get_cached_snapshot s = snapshot_store_get (ss_store s)"

definition get_cached_snapshot_timestamp ::
    "instant \<Rightarrow> int \<Rightarrow> snapshot_service \<Rightarrow> stamp option res" where
  "get_cached_snapshot_timestamp now max_age s =
     (case snapshot_fresh now max_age (ss_store s) of
        Inl e \<Rightarrow> Inl e
      | Inr sn \<Rightarrow> Inr (map_option ts_fetched_at sn))"

text \<open>
  The task: \<open>None\<close> is a fetch that took longer than 180 seconds, which \<open>wait_for\<close> ends with a
  \<open>TimeoutError\<close>; otherwise it is what \<open>fetch_transactions_with_metrics\<close> returned.
\<close>

definition snapshot_fetch_timeout_seconds :: int where
  "snapshot_fetch_timeout_seconds = 180"

definition fetch_and_store_snapshot ::
    "(transaction list \<times> fetch_metrics) res option \<Rightarrow> instant \<Rightarrow> snapshot_store
       \<Rightarrow> transaction_snapshot res \<times> snapshot_store" where
  "fetch_and_store_snapshot fetched now s =
     (case fetched of
        None \<Rightarrow> (Inl (OtherError []), s)
      | Some (Inl e) \<Rightarrow> (Inl e, s)
      | Some (Inr (txs, metrics)) \<Rightarrow>
          (let sn = \<lparr>ts_transactions = txs, ts_metrics = metrics, ts_fetched_at = Aware now,
                     ts_schema_version = 1\<rparr>
           in (Inr sn, snapshot_store_set sn s)))"

definition snapshot_task_ends ::
    "nat \<Rightarrow> (transaction list \<times> fetch_metrics) res option \<Rightarrow> instant \<Rightarrow> snapshot_service
       \<Rightarrow> snapshot_service" where
  "snapshot_task_ends t fetched now s =
     (case fetch_and_store_snapshot fetched now (ss_store s) of
        (r, st) \<Rightarrow> s\<lparr>ss_store := st, ss_tasks := dput t (Ended (Result r)) (ss_tasks s)\<rparr>)"

text \<open>
  The end of \<open>_ensure_snapshot\<close> for a caller whose task is done: the \<open>finally\<close> clears the task if
  it is still the current one.
\<close>

definition snapshot_resume :: "nat \<Rightarrow> snapshot_service \<Rightarrow> snapshot_service" where
  "snapshot_resume t s =
     (if ss_refresh_task s = Some t then s\<lparr>ss_refresh_task := None\<rparr> else s)"

section \<open>The service with its callers\<close>

record snapshot_call =
  ca_forced :: bool
  ca_at :: instant
  ca_waits :: "nat option"
  ca_end :: "transaction_snapshot task_end option"

record snapshot_world =
  sw_clock :: instant
  sw_service :: snapshot_service
  sw_calls :: "(nat, snapshot_call) dict"

definition snapshot_world_start :: "instant \<Rightarrow> snapshot_world" where
  "snapshot_world_start now =
     \<lparr>sw_clock = now, sw_service = snapshot_service_start, sw_calls = []\<rparr>"

definition call_of :: "bool \<Rightarrow> instant \<Rightarrow> transaction_snapshot answer \<Rightarrow> snapshot_call" where
  "call_of forced now a =
     (case a of
        Now r \<Rightarrow> \<lparr>ca_forced = forced, ca_at = now, ca_waits = None, ca_end = Some (Result r)\<rparr>
      | Wait t \<Rightarrow> \<lparr>ca_forced = forced, ca_at = now, ca_waits = Some t, ca_end = None\<rparr>)"

text \<open>
  The steps: time passes; a caller calls; the task's fetch ends; a caller that waits is cancelled,
  which asks the task it awaits to stop; the task stops; a caller whose task is done goes on.
\<close>

inductive snapshot_step :: "int \<Rightarrow> snapshot_world \<Rightarrow> snapshot_world \<Rightarrow> bool" for max_age where
  sn_tick: "sw_clock w \<le> now \<Longrightarrow> snapshot_step max_age w (w\<lparr>sw_clock := now\<rparr>)"
| sn_get: "dget (sw_calls w) c = None \<Longrightarrow> get_snapshot (sw_clock w) max_age (sw_service w) = (a, s) \<Longrightarrow>
     snapshot_step max_age w
       (w\<lparr>sw_service := s, sw_calls := dput c (call_of False (sw_clock w) a) (sw_calls w)\<rparr>)"
| sn_refresh: "dget (sw_calls w) c = None \<Longrightarrow>
     refresh_snapshot (sw_clock w) max_age (sw_service w) = (a, s) \<Longrightarrow>
     snapshot_step max_age w
       (w\<lparr>sw_service := s, sw_calls := dput c (call_of True (sw_clock w) a) (sw_calls w)\<rparr>)"
| sn_fetched: "dget (ss_tasks (sw_service w)) t = Some Working \<Longrightarrow>
     snapshot_step max_age w
       (w\<lparr>sw_service := snapshot_task_ends t fetched (sw_clock w) (sw_service w)\<rparr>)"
| sn_cancel: "dget (sw_calls w) c = Some call \<Longrightarrow> ca_end call = None \<Longrightarrow> ca_waits call = Some t \<Longrightarrow>
     dget (ss_tasks (sw_service w)) t = Some Working \<Longrightarrow>
     snapshot_step max_age w
       (w\<lparr>sw_service := (sw_service w)\<lparr>ss_tasks := dput t Cancelling (ss_tasks (sw_service w))\<rparr>\<rparr>)"
| sn_stopped: "dget (ss_tasks (sw_service w)) t = Some Cancelling \<Longrightarrow>
     snapshot_step max_age w
       (w\<lparr>sw_service := (sw_service w)\<lparr>ss_tasks := dput t (Ended Cancelled) (ss_tasks (sw_service w))\<rparr>\<rparr>)"
| sn_resume: "dget (sw_calls w) c = Some call \<Longrightarrow> ca_end call = None \<Longrightarrow> ca_waits call = Some t \<Longrightarrow>
     dget (ss_tasks (sw_service w)) t = Some (Ended r) \<Longrightarrow>
     snapshot_step max_age w
       (w\<lparr>sw_service := snapshot_resume t (sw_service w),
          sw_calls := dput c (call\<lparr>ca_end := Some r\<rparr>) (sw_calls w)\<rparr>)"

definition snapshot_reachable :: "int \<Rightarrow> snapshot_world \<Rightarrow> bool" where
  "snapshot_reachable max_age w \<longleftrightarrow>
     (\<exists>now. (snapshot_step max_age)\<^sup>*\<^sup>* (snapshot_world_start now) w)"

end
