(* ===== verification/Metrics.thy ===== *)
theory Metrics imports Snapshot ApiMappers begin

text \<open>
  The statistics: \<open>services/domain/metrics.py\<close>, \<open>services/snapshot/metrics.py\<close> and
  \<open>services/tx_stats/helpers.py\<close> compute them from a snapshot; the managers of
  \<open>services/tx_stats\<close>, \<open>services/blik_stats\<close> and \<open>services/allegro_stats\<close> keep the last ones and
  recompute them in a task; the mappers and models of \<open>api\<close> show them. The three managers are the
  same code over different metrics, so the state machine is polymorphic in them.
\<close>

section \<open>The metrics\<close>

record base_metrics =
  bm_total_transactions :: int
  bm_fetching_duration_ms :: int

record blik_metrics = base_metrics +
  bkm_single_part_transactions :: nat
  bkm_uncategorized_transactions :: nat
  bkm_filtered_by_description_exact :: nat
  bkm_filtered_by_description_partial :: nat
  bkm_not_processed_transactions :: nat
  bkm_not_processed_by_month :: "(ustring, nat) dict"
  bkm_incomplete_processed_by_month :: "(ustring, nat) dict"
  bkm_time_stamp :: stamp

record allegro_metrics = base_metrics +
  alm_allegro_transactions :: nat
  alm_not_processed_allegro_transactions :: nat
  alm_not_processed_by_month :: "(ustring, nat) dict"
  alm_time_stamp :: stamp

record tx_metrics = base_metrics +
  txm_single_part_transactions :: nat
  txm_uncategorized_transactions :: nat
  txm_blik_not_ok :: int
  txm_action_req :: int
  txm_allegro_not_ok :: int
  txm_categorizable :: nat
  txm_categorizable_by_month :: "(ustring, nat) dict"
  txm_time_stamp :: stamp

text \<open>
  \<open>group_tx_by_month\<close>: the data frame work of pandas on the dates (\<open>to_datetime\<close>,
  \<open>to_period("M").astype(str)\<close>, \<open>groupby().size().sort_index()\<close>) is the parameter \<open>months\<close>; it is
  not asked about an empty list.
\<close>

definition group_tx_by_month ::
    "(date list \<Rightarrow> (ustring, nat) dict) \<Rightarrow> transaction list \<Rightarrow> (ustring, nat) dict" where
  "group_tx_by_month months txs = (if txs = [] then [] else months (map bi_date txs))"

definition without_tag :: "tx_tag \<Rightarrow> transaction list \<Rightarrow> transaction list" where
  "without_tag tag txs = filter (\<lambda>t. tx_tags t = {} \<or> tag_value tag \<notin> tx_tags t) txs"

definition build_allegro_metrics ::
    "(date list \<Rightarrow> (ustring, nat) dict) \<Rightarrow> ustring \<Rightarrow> transaction_snapshot \<Rightarrow> allegro_metrics" where
  "build_allegro_metrics months filter_desc_allegro sn =
     (let filtered_by_desc_partial =
            filter_by_description (ts_transactions sn) filter_desc_allegro False False;
          not_processed = without_tag allegro_done filtered_by_desc_partial
      in \<lparr>bm_total_transactions = fm_total_transactions (ts_metrics sn),
          bm_fetching_duration_ms = fm_fetching_duration_ms (ts_metrics sn),
          alm_allegro_transactions = length filtered_by_desc_partial,
          alm_not_processed_allegro_transactions = length not_processed,
          alm_not_processed_by_month = group_tx_by_month months not_processed,
          alm_time_stamp = ts_fetched_at sn\<rparr>)"

definition build_blik_metrics ::
    "(date list \<Rightarrow> (ustring, nat) dict) \<Rightarrow> ustring \<Rightarrow> transaction_snapshot \<Rightarrow> blik_metrics" where
  "build_blik_metrics months filter_desc_blik sn =
     (let uncategorized = filter_out_categorized (ts_transactions sn);
          filtered_by_desc_exact = filter_by_description uncategorized filter_desc_blik True False;
          filtered_by_desc_partial = filter_by_description uncategorized filter_desc_blik False False;
          not_processed = without_tag blik_done filtered_by_desc_exact;
          incomplete_processed = without_tag blik_done filtered_by_desc_partial
      in \<lparr>bm_total_transactions = fm_total_transactions (ts_metrics sn),
          bm_fetching_duration_ms = fm_fetching_duration_ms (ts_metrics sn),
          bkm_single_part_transactions = length (ts_transactions sn),
          bkm_uncategorized_transactions = length uncategorized,
          bkm_filtered_by_description_exact = length not_processed,
          bkm_filtered_by_description_partial = length incomplete_processed,
          bkm_not_processed_transactions = length not_processed,
          bkm_not_processed_by_month = group_tx_by_month months not_processed,
          bkm_incomplete_processed_by_month = group_tx_by_month months incomplete_processed,
          bkm_time_stamp = ts_fetched_at sn\<rparr>)"

definition build_tx_metrics ::
    "(date list \<Rightarrow> (ustring, nat) dict) \<Rightarrow> ustring \<Rightarrow> ustring \<Rightarrow> transaction_snapshot
       \<Rightarrow> tx_metrics" where
  "build_tx_metrics months filter_desc_blik filter_desc_allegro sn =
     (let txs_uncategorized = filter_out_categorized (ts_transactions sn);
          txs_blik_ok = filter_by_description txs_uncategorized filter_desc_blik True True;
          txs_action_not_req = filter (\<lambda>t. tag_value action_req \<notin> tx_tags t) txs_blik_ok;
          txs_allegro_ok = filter (\<lambda>t. \<not> allegro_pending filter_desc_allegro t) txs_action_not_req
      in \<lparr>bm_total_transactions = fm_total_transactions (ts_metrics sn),
          bm_fetching_duration_ms = fm_fetching_duration_ms (ts_metrics sn),
          txm_single_part_transactions = length (ts_transactions sn),
          txm_uncategorized_transactions = length txs_uncategorized,
          txm_blik_not_ok = int (length txs_uncategorized) - int (length txs_blik_ok),
          txm_action_req = int (length txs_blik_ok) - int (length txs_action_not_req),
          txm_allegro_not_ok = int (length txs_action_not_req) - int (length txs_allegro_ok),
          txm_categorizable = length txs_allegro_ok,
          txm_categorizable_by_month = group_tx_by_month months txs_allegro_ok,
          txm_time_stamp = ts_fetched_at sn\<rparr>)"

text \<open>
  \<open>SnapshotMetricsService\<close>: a fetch starts as a call of the snapshot service and, when that call has
  ended, goes on with the metrics of its copy.
\<close>

definition fetch_metrics_starts ::
    "bool \<Rightarrow> instant \<Rightarrow> int \<Rightarrow> snapshot_service
       \<Rightarrow> transaction_snapshot answer \<times> snapshot_service" where
  "fetch_metrics_starts force_refresh now max_age s =
     (if force_refresh then refresh_snapshot now max_age s else get_snapshot now max_age s)"

fun metrics_of_call :: "(transaction_snapshot \<Rightarrow> 'm) \<Rightarrow> transaction_snapshot task_end \<Rightarrow> 'm task_end" where
  "metrics_of_call build (Result (Inr sn)) = Result (Inr (build sn))"
| "metrics_of_call build (Result (Inl e)) = Result (Inl e)"
| "metrics_of_call build Cancelled = Cancelled"

section \<open>The managers\<close>

record 'm metrics_state =
  mt_status :: job_status
  mt_result :: "'m option"
  mt_error :: "ustring option"
  mt_progress :: "ustring option"
  mt_last_updated_at :: "instant option"

definition metrics_state_start :: "'m metrics_state" where
  "metrics_state_start =
     \<lparr>mt_status = PENDING, mt_result = None, mt_error = None, mt_progress = None,
      mt_last_updated_at = None\<rparr>"

text \<open>A recomputation is waiting to run, runs with a forced refresh or not, or is over.\<close>

datatype metrics_task = Queued bool | Computing bool | Over

record 'm manager =
  mg_state :: "'m metrics_state"
  mg_task :: "nat option"
  mg_tasks :: "(nat, metrics_task) dict"
  mg_next :: nat

definition manager_new :: "'m manager" where
  "manager_new = \<lparr>mg_state = metrics_state_start, mg_task = None, mg_tasks = [], mg_next = 0\<rparr>"

definition manager_get_state :: "'m manager \<Rightarrow> 'm metrics_state" where
  "manager_get_state g = mg_state g"

definition manager_busy :: "'m manager \<Rightarrow> bool" where
  "manager_busy g =
     (case mg_task g of
        None \<Rightarrow> False
      | Some t \<Rightarrow> (case dget (mg_tasks g) t of None \<Rightarrow> False | Some k \<Rightarrow> k \<noteq> Over))"

definition manager_start :: "bool \<Rightarrow> 'm manager \<Rightarrow> 'm metrics_state \<times> 'm manager" where
  "manager_start force_refresh g =
     (if mt_status (mg_state g) = RUNNING then (mg_state g, g)
      else if manager_busy g then (mg_state g, g)
      else let st = (mg_state g)\<lparr>mt_status := RUNNING, mt_progress := Some (U ''queued''),
                                 mt_error := None, mt_result := None\<rparr>
           in (st, g\<lparr>mg_state := st, mg_task := Some (mg_next g),
                     mg_tasks := dput (mg_next g) (Queued force_refresh) (mg_tasks g),
                     mg_next := mg_next g + 1\<rparr>))"

text \<open>\<open>cached\<close> is what \<open>get_cached_snapshot_timestamp\<close> of the provider returns or raises.\<close>

definition manager_ensure_current ::
    "('m \<Rightarrow> stamp) \<Rightarrow> stamp option res \<Rightarrow> 'm manager \<Rightarrow> 'm metrics_state res \<times> 'm manager" where
  "manager_ensure_current stamp_of cached g =
     (if mt_status (mg_state g) = RUNNING then (Inr (mg_state g), g)
      else case cached of
             Inl e \<Rightarrow> (Inl e, g)
           | Inr current \<Rightarrow>
               (if mt_status (mg_state g) = DONE \<and> mt_result (mg_state g) \<noteq> None \<and>
                   current \<noteq> None \<and> map_option stamp_of (mt_result (mg_state g)) = current
                then (Inr (mg_state g), g)
                else case manager_start False g of (st, g') \<Rightarrow> (Inr st, g')))"

definition manager_refresh :: "'m manager \<Rightarrow> 'm metrics_state \<times> 'm manager" where
  "manager_refresh g = manager_start True g"

definition manager_task_done :: "nat \<Rightarrow> 'm manager \<Rightarrow> 'm manager" where
  "manager_task_done t g =
     (let g' = g\<lparr>mg_tasks := ddel t (mg_tasks g)\<rparr>
      in if mg_task g = Some t then g'\<lparr>mg_task := None\<rparr> else g')"

text \<open>\<open>recompute_metrics\<close>, up to the provider's answer and from there on.\<close>

definition recompute_begins :: "'m metrics_state \<Rightarrow> 'm metrics_state" where
  "recompute_begins st =
     st\<lparr>mt_status := RUNNING, mt_progress := Some (U ''fetching''), mt_error := None,
        mt_result := None\<rparr>"

definition recompute_ends :: "'m res \<Rightarrow> instant \<Rightarrow> 'm metrics_state \<Rightarrow> 'm metrics_state" where
  "recompute_ends r now st =
     (case r of
        Inr m \<Rightarrow> st\<lparr>mt_result := Some m, mt_status := DONE, mt_last_updated_at := Some now,
                    mt_progress := None\<rparr>
      | Inl e \<Rightarrow> st\<lparr>mt_status := FAILED, mt_error := Some (exn_str e), mt_progress := None,
                    mt_result := None\<rparr>)"

text \<open>
  The machine: requests, the task's two halves, and the callback of a task that is over. A
  cancellation (\<open>CancelledError\<close> is no \<open>Exception\<close>) ends the task and leaves the state as it is; it
  is a step only where \<open>cancels\<close> says so.
\<close>

inductive manager_step :: "bool \<Rightarrow> ('m \<Rightarrow> stamp) \<Rightarrow> 'm manager \<Rightarrow> 'm manager \<Rightarrow> bool"
  for cancels :: bool and stamp_of :: "'m \<Rightarrow> stamp" where
  mg_ensure: "manager_ensure_current stamp_of cached g = (r, g') \<Longrightarrow> manager_step cancels stamp_of g g'"
| mg_refresh: "manager_refresh g = (st, g') \<Longrightarrow> manager_step cancels stamp_of g g'"
| mg_begins: "dget (mg_tasks g) t = Some (Queued force) \<Longrightarrow>
     manager_step cancels stamp_of g
       (g\<lparr>mg_state := recompute_begins (mg_state g), mg_tasks := dput t (Computing force) (mg_tasks g)\<rparr>)"
| mg_ends: "dget (mg_tasks g) t = Some (Computing force) \<Longrightarrow>
     manager_step cancels stamp_of g
       (g\<lparr>mg_state := recompute_ends r now (mg_state g), mg_tasks := dput t Over (mg_tasks g)\<rparr>)"
| mg_cancelled: "cancels \<Longrightarrow> dget (mg_tasks g) t = Some k \<Longrightarrow> k \<noteq> Over \<Longrightarrow>
     manager_step cancels stamp_of g (g\<lparr>mg_tasks := dput t Over (mg_tasks g)\<rparr>)"
| mg_done: "dget (mg_tasks g) t = Some Over \<Longrightarrow>
     manager_step cancels stamp_of g (manager_task_done t g)"

text \<open>The three managers.\<close>

definition tx_manager_ensure_current ::
    "stamp option res \<Rightarrow> tx_metrics manager \<Rightarrow> tx_metrics metrics_state res \<times> tx_metrics manager" where
  "tx_manager_ensure_current = manager_ensure_current txm_time_stamp"

definition blik_manager_ensure_current ::
    "stamp option res \<Rightarrow> blik_metrics manager
       \<Rightarrow> blik_metrics metrics_state res \<times> blik_metrics manager" where
  "blik_manager_ensure_current = manager_ensure_current bkm_time_stamp"

definition allegro_manager_ensure_current ::
    "stamp option res \<Rightarrow> allegro_metrics manager
       \<Rightarrow> allegro_metrics metrics_state res \<times> allegro_metrics manager" where
  "allegro_manager_ensure_current = manager_ensure_current alm_time_stamp"

definition blik_manager_start ::
    "bool \<Rightarrow> blik_metrics manager \<Rightarrow> blik_metrics metrics_state \<times> blik_metrics manager" where
  "blik_manager_start = manager_start"

definition allegro_manager_start ::
    "bool \<Rightarrow> allegro_metrics manager \<Rightarrow> allegro_metrics metrics_state \<times> allegro_metrics manager" where
  "allegro_manager_start = manager_start"

definition blik_manager_task_done :: "nat \<Rightarrow> blik_metrics manager \<Rightarrow> blik_metrics manager" where
  "blik_manager_task_done = manager_task_done"

definition allegro_manager_task_done :: "nat \<Rightarrow> allegro_metrics manager \<Rightarrow> allegro_metrics manager" where
  "allegro_manager_task_done = manager_task_done"

definition blik_manager_new :: "blik_metrics manager" where
  "blik_manager_new = manager_new"

definition allegro_manager_new :: "allegro_metrics manager" where
  "allegro_manager_new = manager_new"

section \<open>The interface's objects\<close>

text \<open>\<open>fetching_duration_ms / 1000.0\<close>, kept as the exact decimal.\<close>

definition fetch_seconds :: "int \<Rightarrow> decimal" where
  "fetch_seconds ms = DFin (ms < 0) (nat \<bar>ms\<bar>) (- 3)"

record 'r metrics_status_response =
  sr_status :: api_job_status
  sr_progress :: "ustring option"
  sr_result :: "'r option"
  sr_error :: "ustring option"

record tx_metrics_result =
  txr_single_part_transactions :: nat
  txr_uncategorized_transactions :: nat
  txr_blik_not_ok :: int
  txr_action_req :: int
  txr_allegro_not_ok :: int
  txr_categorizable :: nat
  txr_categorizable_by_month :: "(ustring, nat) dict"
  txr_time_stamp :: stamp
  txr_fetch_seconds :: decimal

record blik_metrics_result =
  bkr_single_part_transactions :: nat
  bkr_uncategorized_transactions :: nat
  bkr_filtered_by_description_exact :: nat
  bkr_filtered_by_description_partial :: nat
  bkr_not_processed_transactions :: nat
  bkr_not_processed_by_month :: "(ustring, nat) dict"
  bkr_incomplete_processed_by_month :: "(ustring, nat) dict"
  bkr_time_stamp :: stamp
  bkr_fetch_seconds :: decimal

definition map_tx_state_to_response ::
    "tx_metrics metrics_state \<Rightarrow> tx_metrics_result metrics_status_response" where
  "map_tx_state_to_response st =
     \<lparr>sr_status = map_status (mt_status st), sr_progress = mt_progress st,
      sr_result = map_option (\<lambda>r.
        \<lparr>txr_single_part_transactions = txm_single_part_transactions r,
         txr_uncategorized_transactions = txm_uncategorized_transactions r,
         txr_blik_not_ok = txm_blik_not_ok r, txr_action_req = txm_action_req r,
         txr_allegro_not_ok = txm_allegro_not_ok r, txr_categorizable = txm_categorizable r,
         txr_categorizable_by_month = txm_categorizable_by_month r,
         txr_time_stamp = txm_time_stamp r,
         txr_fetch_seconds = fetch_seconds (bm_fetching_duration_ms r)\<rparr>) (mt_result st),
      sr_error = mt_error st\<rparr>"

definition map_blik_state_to_response ::
    "blik_metrics metrics_state \<Rightarrow> blik_metrics_result metrics_status_response" where
  "map_blik_state_to_response st =
     \<lparr>sr_status = map_status (mt_status st), sr_progress = mt_progress st,
      sr_result = map_option (\<lambda>r.
        \<lparr>bkr_single_part_transactions = bkm_single_part_transactions r,
         bkr_uncategorized_transactions = bkm_uncategorized_transactions r,
         bkr_filtered_by_description_exact = bkm_filtered_by_description_exact r,
         bkr_filtered_by_description_partial = bkm_filtered_by_description_partial r,
         bkr_not_processed_transactions = bkm_not_processed_transactions r,
         bkr_not_processed_by_month = bkm_not_processed_by_month r,
         bkr_incomplete_processed_by_month = bkm_incomplete_processed_by_month r,
         bkr_time_stamp = bkm_time_stamp r,
         bkr_fetch_seconds = fetch_seconds (bm_fetching_duration_ms r)\<rparr>) (mt_result st),
      sr_error = mt_error st\<rparr>"

record allegro_metrics_result =
  alr_total_transactions :: int
  alr_allegro_transactions :: nat
  alr_not_processed_allegro_transactions :: nat
  alr_not_processed_by_month :: "(ustring, nat) dict"
  alr_time_stamp :: stamp
  alr_fetch_seconds :: decimal

definition map_allegro_state_to_response ::
    "allegro_metrics metrics_state \<Rightarrow> allegro_metrics_result metrics_status_response" where
  "map_allegro_state_to_response st =
     \<lparr>sr_status = map_status (mt_status st), sr_progress = mt_progress st,
      sr_result = map_option (\<lambda>r.
        \<lparr>alr_total_transactions = bm_total_transactions r,
         alr_allegro_transactions = alm_allegro_transactions r,
         alr_not_processed_allegro_transactions = alm_not_processed_allegro_transactions r,
         alr_not_processed_by_month = alm_not_processed_by_month r,
         alr_time_stamp = alm_time_stamp r,
         alr_fetch_seconds = fetch_seconds (bm_fetching_duration_ms r)\<rparr>) (mt_result st),
      sr_error = mt_error st\<rparr>"

section \<open>The snapshot's endpoints\<close>

text \<open>\<open>api/routers/system.py\<close>. Adding seconds to a stamp keeps its kind.\<close>

fun stamp_plus :: "stamp \<Rightarrow> int \<Rightarrow> stamp" where
  "stamp_plus (Aware u) n = Aware (u + n * us_per_second)"
| "stamp_plus (Naive u) n = Naive (u + n * us_per_second)"

record snapshot_status_response =
  sns_ttl_seconds :: int
  sns_has_snapshot :: bool
  sns_fetched_at :: "stamp option"
  sns_expires_at :: "stamp option"
  sns_is_stale :: bool
  sns_transaction_count :: "nat option"
  sns_schema_version :: "int option"

definition build_snapshot_status ::
    "int \<Rightarrow> transaction_snapshot \<Rightarrow> bool \<Rightarrow> snapshot_status_response" where
  "build_snapshot_status max_age sn stale =
     \<lparr>sns_ttl_seconds = max_age, sns_has_snapshot = True, sns_fetched_at = Some (ts_fetched_at sn),
      sns_expires_at = Some (stamp_plus (ts_fetched_at sn) max_age), sns_is_stale = stale,
      sns_transaction_count = Some (transaction_count sn),
      sns_schema_version = Some (ts_schema_version sn)\<rparr>"

definition endpoint_snapshot_status ::
    "instant \<Rightarrow> int \<Rightarrow> snapshot_service \<Rightarrow> snapshot_status_response res" where
  "endpoint_snapshot_status now max_age s =
     (case get_cached_snapshot s of
        None \<Rightarrow>
          Inr \<lparr>sns_ttl_seconds = max_age, sns_has_snapshot = False, sns_fetched_at = None,
               sns_expires_at = None, sns_is_stale = True, sns_transaction_count = None,
               sns_schema_version = None\<rparr>
      | Some sn \<Rightarrow>
          (case snapshot_is_stale now max_age (ss_store s) of
             Inl e \<Rightarrow> Inl e
           | Inr stale \<Rightarrow> Inr (build_snapshot_status max_age sn stale)))"

record snapshot_refresh_response =
  snr_status :: ustring
  snr_refreshed :: bool
  snr_ttl_seconds :: int
  snr_fetched_at :: stamp
  snr_expires_at :: stamp
  snr_transaction_count :: nat
  snr_schema_version :: int

text \<open>The refresh endpoint once its call of \<open>refresh_snapshot\<close> has ended.\<close>

definition snapshot_refreshed ::
    "int \<Rightarrow> transaction_snapshot task_end \<Rightarrow> snapshot_refresh_response task_end" where
  "snapshot_refreshed max_age r =
     metrics_of_call (\<lambda>sn.
       \<lparr>snr_status = U ''ok'', snr_refreshed = True, snr_ttl_seconds = max_age,
        snr_fetched_at = ts_fetched_at sn, snr_expires_at = stamp_plus (ts_fetched_at sn) max_age,
        snr_transaction_count = transaction_count sn, snr_schema_version = ts_schema_version sn\<rparr>) r"

end
