(* ===== verification/TxApp.thy ===== *)
theory TxApp imports Metrics begin

text \<open>
  \<open>services/tx_application_service.py\<close> and the endpoints of \<open>api/routers/tx.py\<close> over it: the
  screening of a month, category and tag updates, and the screening statistics.
\<close>

section \<open>Screening and updates\<close>

text \<open>\<open>_month_range\<close>: \<open>date(y, m, 1)\<close> raises first for a month or year out of range.\<close>

definition month_range :: "int \<Rightarrow> int \<Rightarrow> (date \<times> date) res" where
  "month_range y m =
     (case mk_date y m 1 of
        None \<Rightarrow> Inl (ValueError (if y < 1 \<or> 9999 < y
                               then U ''year '' @ str_int y @ U '' is out of range''
                               else U ''month must be in 1..12''))
      | Some first_day \<Rightarrow>
          (case mk_date y m (int (days_in_month (nat y) (nat m))) of
             None \<Rightarrow> Inl (ValueError (U ''day is out of range for month''))
           | Some last_day \<Rightarrow> Inr (first_day, last_day)))"

record screening_month =
  sm_year :: int
  sm_month :: int
  sm_remaining :: nat
  sm_transactions :: "simplified_tx list"
  sm_categories :: "simplified_category list"

definition get_screening_month ::
    "'w ff_client \<Rightarrow> ustring \<Rightarrow> ustring \<Rightarrow> int \<Rightarrow> int \<Rightarrow> 'w
       \<Rightarrow> screening_month option res \<times> 'w" where
  "get_screening_month cl desc_blik desc_allegro y m w =
     (case month_range y m of
        Inl e \<Rightarrow> (Inl e, w)
      | Inr (start_date, end_date) \<Rightarrow>
          (case get_categories cl w of
             (Inl e, w') \<Rightarrow> (Inl (wrap_external e), w')
           | (Inr categories, w') \<Rightarrow>
               (case get_txs_for_screening cl desc_blik desc_allegro (Some start_date)
                       (Some end_date) w' of
                  (Inl e, w'') \<Rightarrow> (Inl (wrap_external e), w'')
                | (Inr txs, w'') \<Rightarrow>
                    (if txs = [] then (Inr None, w'')
                     else case mapE map_tx_to_api txs of
                            Inl e \<Rightarrow> (Inl e, w'')
                          | Inr shown \<Rightarrow>
                              (Inr (Some \<lparr>sm_year = y, sm_month = m, sm_remaining = length txs,
                                          sm_transactions = shown,
                                          sm_categories = map map_category_to_api categories\<rparr>), w'')))))"

definition app_apply_category :: "'w ff_client \<Rightarrow> int \<Rightarrow> int \<Rightarrow> 'w \<Rightarrow> unit res \<times> 'w" where
  "app_apply_category cl i category_id w =
     (case apply_category_by_id cl i category_id w of
        (Inl e, w') \<Rightarrow> (Inl (wrap_external e), w')
      | (Inr _, w') \<Rightarrow> (Inr (), w'))"

definition app_apply_tag :: "'w ff_client \<Rightarrow> int \<Rightarrow> tx_tag \<Rightarrow> 'w \<Rightarrow> unit res \<times> 'w" where
  "app_apply_tag cl i tag w =
     (case add_tag_by_id cl i (tag_value tag) w of
        (Inl e, w') \<Rightarrow> (Inl (wrap_external e), w')
      | (Inr _, w') \<Rightarrow> (Inr (), w'))"

section \<open>Statistics\<close>

text \<open>The manager is asked with the timestamp the snapshot service gives at that moment.\<close>

definition get_tx_metrics ::
    "instant \<Rightarrow> int \<Rightarrow> snapshot_service \<Rightarrow> tx_metrics manager
       \<Rightarrow> tx_metrics metrics_state res \<times> tx_metrics manager" where
  "get_tx_metrics now max_age s g =
     tx_manager_ensure_current (get_cached_snapshot_timestamp now max_age s) g"

definition refresh_tx_metrics ::
    "tx_metrics manager \<Rightarrow> tx_metrics metrics_state \<times> tx_metrics manager" where
  "refresh_tx_metrics g = manager_refresh g"

section \<open>The endpoints\<close>

text \<open>\<open>year\<close> in 2000 to 2100 and \<open>month\<close> in 1 to 12, checked before the handler runs.\<close>

definition screening_query_ok :: "int \<Rightarrow> int \<Rightarrow> bool" where
  "screening_query_ok y m \<longleftrightarrow> 2000 \<le> y \<and> y \<le> 2100 \<and> 1 \<le> m \<and> m \<le> 12"

fun external_to_502 :: "exn \<Rightarrow> exn" where
  "external_to_502 (AppError ExternalServiceFailed m) = HTTPException 502 m"
| "external_to_502 e = e"

definition endpoint_get_screening_month ::
    "'w ff_client \<Rightarrow> ustring \<Rightarrow> ustring \<Rightarrow> int \<Rightarrow> int \<Rightarrow> 'w \<Rightarrow> screening_month res \<times> 'w" where
  "endpoint_get_screening_month cl desc_blik desc_allegro y m w =
     (if \<not> screening_query_ok y m then (Inl (HTTPException 422 (U ''Unprocessable'')), w)
      else case get_screening_month cl desc_blik desc_allegro y m w of
             (Inl e, w') \<Rightarrow> (Inl (external_to_502 e), w')
           | (Inr None, w') \<Rightarrow> (Inl (HTTPException 204 (U ''No Content'')), w')
           | (Inr (Some response), w') \<Rightarrow> (Inr response, w'))"

definition endpoint_apply_category ::
    "'w ff_client \<Rightarrow> int \<Rightarrow> int \<Rightarrow> 'w \<Rightarrow> unit res \<times> 'w" where
  "endpoint_apply_category cl i category_id w =
     (case app_apply_category cl i category_id w of
        (Inl e, w') \<Rightarrow> (Inl (external_to_502 e), w')
      | (Inr _, w') \<Rightarrow> (Inr (), w'))"

definition endpoint_apply_tag :: "'w ff_client \<Rightarrow> int \<Rightarrow> tx_tag \<Rightarrow> 'w \<Rightarrow> unit res \<times> 'w" where
  "endpoint_apply_tag cl i tag w =
     (case app_apply_tag cl i tag w of
        (Inl e, w') \<Rightarrow> (Inl (external_to_502 e), w')
      | (Inr _, w') \<Rightarrow> (Inr (), w'))"

definition endpoint_get_tx_stats ::
    "instant \<Rightarrow> int \<Rightarrow> snapshot_service \<Rightarrow> tx_metrics manager
       \<Rightarrow> tx_metrics_result metrics_status_response res \<times> tx_metrics manager" where
  "endpoint_get_tx_stats now max_age s g =
     (case get_tx_metrics now max_age s g of
        (Inl e, g') \<Rightarrow> (Inl e, g')
      | (Inr st, g') \<Rightarrow> (Inr (map_tx_state_to_response st), g'))"

definition endpoint_refresh_tx_stats ::
    "tx_metrics manager \<Rightarrow> tx_metrics_result metrics_status_response \<times> tx_metrics manager" where
  "endpoint_refresh_tx_stats g =
     (case refresh_tx_metrics g of (st, g') \<Rightarrow> (map_tx_state_to_response st, g'))"

section \<open>Lemmas\<close>

lemma month_range_Inr:
  assumes "month_range y m = Inr (a, b)"
  shows "valid_date a \<and> valid_date b \<and> a = Date (nat y) (nat m) 1 \<and>
     b = Date (nat y) (nat m) (days_in_month (nat y) (nat m))"
  using assms by (auto simp: month_range_def mk_date_def Let_def split: option.splits if_splits)

end
