(* ===== verification/AmountProps.thy ===== *)
theory AmountProps imports Samples begin

text \<open>
  Amounts on their way to the HTTP interface: the decimal is rounded to the places of its currency and
  then to the nearest double, and nothing of what is shown gets lost in between.
\<close>

lemma ndigits_lower: "0 < c \<Longrightarrow> 10 ^ (ndigits c - 1) \<le> c"
proof (induction c rule: str_nat.induct)
  case (1 n)
  show ?case
  proof (cases "n < 10")
    case True
    with 1 show ?thesis by (simp add: ndigits_def str_nat.simps [of n])
  next
    case False
    have n: "10 * (n div 10) \<le> n" by simp
    obtain j where j: "ndigits (n div 10) = Suc j"
      by (metis ndigits_def str_nat_nonempty length_0_conv not0_implies_Suc)
    from False have "ndigits n - 1 = Suc j"
      using j by (simp add: ndigits_def str_nat.simps [of n])
    moreover have "10 ^ j \<le> n div 10" using 1 False j by simp
    ultimately have "10 ^ (ndigits n - 1) \<le> 10 * (n div 10)" by simp
    with n show ?thesis by linarith
  qed
qed

lemma ndigits_le: "c < 10 ^ n \<Longrightarrow> 0 < n \<Longrightarrow> ndigits c \<le> n"
proof (cases "c = 0")
  case False
  assume "c < 10 ^ n"
  with False ndigits_lower [of c] have "10 ^ (ndigits c - 1) < (10::nat) ^ n" by linarith
  then have "ndigits c - 1 < n" by simp
  then show ?thesis by simp
qed (simp add: ndigits_def str_nat.simps [of 0])

lemma flog2_ge: "0 < x \<Longrightarrow> pow2 k \<le> x \<Longrightarrow> k \<le> flog2 x"
  using flog2_bounds(2) [of x] pow2_less_iff [of k "flog2 x + 1"] by linarith

text \<open>
  The double made of a decimal that has at most 51 bits and at most 300 places, read at its places,
  is that decimal.
\<close>

lemma float_of_decimal_places:
  assumes "c < 2 ^ 52" and "0 \<le> k" and "k \<le> 300"
  shows "\<exists>m. float_of_decimal (DFin s c (- k)) = Double s m \<and> rhe (m * 10 powi k) = int c"
proof (cases "c = 0")
  case False
  let ?x = "of_nat c * 10 powi (- k) :: rat"
  have k: "(10::rat) powi k = 10 ^ nat k" "(10::rat) powi (- k) = 1 / 10 ^ nat k"
    using assms(2) by (simp_all add: power_int_minus field_simps flip: power_int_of_nat)
  have p: "(0::rat) < 10 ^ nat k" by simp
  have "(10::rat) ^ nat k \<le> 10 ^ 300" using assms(3) by (intro power_increasing) simp_all
  also have "(10::rat) ^ 300 \<le> 2 ^ 1000" by simp
  finally have k1: "(10::rat) ^ nat k \<le> 2 ^ 1000" .
  have c1: "1 \<le> (of_nat c :: rat)" using False by simp
  have x0: "0 < ?x" using False by simp
  have "pow2 (- 1000) = 1 / 2 ^ 1000" by (simp add: pow2_def)
  also have "\<dots> \<le> 1 / 10 ^ nat k" using k1 by (simp add: frac_le)
  also have "\<dots> \<le> ?x" using c1 p by (simp add: k divide_right_mono)
  finally have "- 1000 \<le> flog2 ?x" using x0 by (intro flog2_ge)
  then have r: "round_double ?x = rnd_pos ?x" by (intro round_double_normal) simp
  have err: "\<bar>rnd_pos ?x - ?x\<bar> \<le> ?x / 2 ^ 53" by (rule rnd_pos_error [OF x0])
  have c52: "(of_nat c :: rat) < 2 ^ 52" using assms(1) by (metis of_nat_less_iff of_nat_numeral of_nat_power)
  have x52: "?x < 2 ^ 52"
  proof -
    have "?x \<le> of_nat c" using c1 by (simp add: k divide_le_eq)
    with c52 show ?thesis by linarith
  qed
  have "rnd_pos ?x < pow2 1024"
  proof -
    have "rnd_pos ?x - ?x \<le> ?x / 2 ^ 53" using err by (rule abs_le_D1)
    also have "\<dots> \<le> ?x / 1" using x0 by (intro divide_left_mono) simp_all
    finally have "rnd_pos ?x < 2 ^ 52 + 2 ^ 52" using x52 by linarith
    also have "(2 ^ 52 + 2 ^ 52 :: rat) = 2 ^ 53" by simp
    also have "\<dots> \<le> pow2 1024" by (simp add: pow2_def)
    finally show ?thesis .
  qed
  then have "float_of_decimal (DFin s c (- k)) = Double s (rnd_pos ?x)"
    using False by (simp add: r Let_def not_le)
  moreover have "rhe (rnd_pos ?x * 10 powi k) = int c"
  proof (rule rhe_near)
    have xk: "?x * 10 powi k = of_nat c" by (simp add: k)
    have "\<bar>rnd_pos ?x * 10 powi k - of_int (int c)\<bar> = \<bar>rnd_pos ?x - ?x\<bar> * 10 powi k"
      using abs_scaled [of "10 powi k" "rnd_pos ?x" ?x] xk by (simp only: of_int_of_nat_eq) (simp add: k)
    also have "\<dots> \<le> ?x / 2 ^ 53 * 10 powi k" using err by (intro mult_right_mono) (simp_all add: k)
    also have "\<dots> = of_nat c / 2 ^ 53" using xk by (simp add: field_simps)
    also have "\<dots> < 1 / 2" using c52 by simp
    finally show "\<bar>rnd_pos ?x * 10 powi k - of_int (int c)\<bar> < 1 / 2" .
  qed
  ultimately show ?thesis by blast
qed (simp add: rhe_def)

lemma near_less:
  assumes "2 * \<bar>of_nat a - x\<bar> \<le> (1::rat)" and "x < 2 ^ 51" shows "a < 2 ^ 52"
proof -
  have "of_nat a < (2 ^ 52 :: rat)" using assms abs_ge_self [of "of_nat a - x"] by simp
  then show ?thesis by (metis of_nat_less_iff of_nat_numeral of_nat_power)
qed

lemma dec_quantize_small:
  assumes "of_nat c * 10 powi (e + k) < (2 ^ 51 :: rat)" and "0 \<le> k" and "k \<le> 300"
  shows "\<exists>c'. dec_quantize (DFin s c e) k = Some (DFin s c' (- k)) \<and>
    2 * \<bar>of_nat c' - of_nat c * 10 powi (e + k)\<bar> \<le> (1::rat)"
proof (cases "c = 0")
  case True
  with assms show ?thesis by (intro exI [of _ 0]) simp
next
  case False
  let ?X = "of_nat c * 10 powi (e + k) :: rat"
  define c' where "c' = (if - k \<le> e then c * 10 ^ nat (e + k) else round_half_even c (nat (- k - e)))"
  have near: "2 * \<bar>of_nat c' - ?X\<bar> \<le> 1"
  proof (cases "- k \<le> e")
    case True
    then have "(10::rat) powi (e + k) = 10 ^ nat (e + k)" by (simp flip: power_int_of_nat)
    with True show ?thesis by (simp add: c'_def)
  next
    case lt: False
    define j where "j = nat (- k - e)"
    have pj: "(10::rat) powi (e + k) * 10 ^ j = 1"
      using lt power_int_add [of "10::rat" "e + k" "int j"] power_int_of_nat [of "10::rat" j]
      by (simp add: j_def)
    have "2 * (of_nat c' * 10 ^ j) \<le> 2 * of_nat c + (10 ^ j :: rat)"
      "2 * of_nat c \<le> 2 * (of_nat c' * 10 ^ j) + (10 ^ j :: rat)"
      using round_half_even_bounds [of c j] lt
      by (simp_all add: c'_def j_def flip: of_nat_le_iff [where ?'a = rat])
    then have "2 * \<bar>of_nat c' * 10 ^ j - of_nat c\<bar> \<le> (10 ^ j :: rat)" by (rule abs_half)
    then have "2 * \<bar>of_nat c' * 10 ^ j - ?X * 10 ^ j\<bar> \<le> (10 ^ j :: rat)" by (simp add: pj mult.assoc)
    then have "2 * \<bar>of_nat c' - ?X\<bar> * 10 ^ j \<le> 1 * (10 ^ j :: rat)"
      using abs_scaled [of "10 ^ j" "of_nat c'" ?X] by simp
    then show ?thesis by (rule mult_right_le_imp_le) simp
  qed
  have "c' < 10 ^ 28" using near_less [OF near assms(1)] by simp
  then have n': "ndigits c' \<le> 28" by (intro ndigits_le) simp_all
  have "int (ndigits c) + e + k \<le> 28"
  proof (rule ccontr)
    assume "\<not> ?thesis"
    then have "28 \<le> int (ndigits c - 1) + (e + k)" by linarith
    then have "(10::rat) powi 28 \<le> 10 powi (int (ndigits c - 1) + (e + k))"
      by (intro power_int_increasing) simp_all
    also have "\<dots> = 10 ^ (ndigits c - 1) * 10 powi (e + k)" by (simp add: power_int_add)
    also have "\<dots> \<le> ?X"
      using of_nat_mono [OF ndigits_lower, of c, where 'a = rat] False by (intro mult_right_mono) simp_all
    finally show False using assms(1) by simp
  qed
  with n' assms False have "dec_quantize (DFin s c e) k = Some (DFin s c' (- k))"
    by (cases "- k \<le> e") (simp_all add: c'_def Let_def add.commute)
  with near show ?thesis by blast
qed

text \<open>What an answer shows, read at the currency's places, is the amount rounded to them.\<close>

lemma to_api_amount_close:
  assumes "dec_finite d" and "0 \<le> k" and "k \<le> 300" and "\<bar>dec_val d\<bar> * 10 powi k < 2 ^ 51"
  shows "\<exists>s m. to_api_amount d k = Inr (Double s m) \<and> (dec_val d < 0 \<longrightarrow> s) \<and> (0 < dec_val d \<longrightarrow> \<not> s) \<and>
    2 * \<bar>of_int (rhe (m * 10 powi k)) - \<bar>dec_val d\<bar> * 10 powi k\<bar> \<le> 1"
proof -
  obtain s c e where d: "d = DFin s c e" using assms(1) by (cases d) auto
  let ?X = "of_nat c * 10 powi (e + k) :: rat"
  have X: "\<bar>dec_val d\<bar> * 10 powi k = ?X"
    by (simp add: d dec_sgn_def abs_mult power_int_add mult.assoc)
  obtain c' where q: "dec_quantize d k = Some (DFin s c' (- k))"
    and c': "2 * \<bar>of_nat c' - ?X\<bar> \<le> 1"
    using dec_quantize_small [OF assms(4) [unfolded X] assms(2,3), of s] unfolding d by blast
  have "c' < 2 ^ 52" using near_less [OF c' assms(4) [unfolded X]] .
  from float_of_decimal_places [OF this assms(2,3), of s] obtain m where
    "float_of_decimal (DFin s c' (- k)) = Double s m" "rhe (m * 10 powi k) = int c'" by blast
  moreover have "dec_val d < 0 \<longrightarrow> s" "0 < dec_val d \<longrightarrow> \<not> s"
    using zero_less_power_int [of "10::rat" e]
    by (auto simp: d dec_sgn_def zero_less_mult_iff mult_less_0_iff simp del: zero_less_power_int)
  ultimately show ?thesis using q c' unfolding X
    by (intro exI [of _ s] exI [of _ m]) (simp add: to_api_amount_def del: float_of_decimal.simps)
qed


lemma map_tx_to_api_amount:
  assumes "to_api_amount (bi_amount t) (cur_decimals (tx_currency t)) = Inr a" and "tx_fx t = None"
  shows "\<exists>x. map_tx_to_api t = Inr x \<and> si_amount x = a"
  using assms by (simp add: map_tx_to_api_def)


lemma sample_tx_amount:
  "dec_finite (bi_amount sample_tx)" "tx_fx sample_tx = None" "cur_decimals (tx_currency sample_tx) = 2"
  "\<bar>dec_val (bi_amount sample_tx)\<bar> * 10 powi 2 = 1250" "dec_val (bi_amount sample_tx) < 0"
  by (simp_all add: sample_tx_def dec_sgn_def power_int_minus)

lemma sample_tx_api: "\<exists>x. map_tx_to_api sample_tx = Inr x"
proof -
  obtain a where "to_api_amount (bi_amount sample_tx) 2 = Inr a"
    using to_api_amount_close [OF sample_tx_amount(1), of 2] unfolding sample_tx_amount(4) by auto
  with map_tx_to_api_amount [of sample_tx] show ?thesis by (auto simp: sample_tx_amount(2,3))
qed


end
