(* ===== verification/TxProps.thy ===== *)
theory TxProps imports TxApp AmountProps begin

text \<open>
  What the screening shows, and which answers its endpoints give.
\<close>

lemma sample_month [simp]: "month_range 2024 5 = Inr (Date 2024 5 1, Date 2024 5 31)"
  by code_simp

lemma sample_tx_shown: "\<exists>shown. mapE map_tx_to_api [sample_tx] = Inr shown"
  using sample_tx_api by auto

text \<open>
  C8. What a screening of a month shows: the client is asked for exactly the days of that month,
  and of what it returns the uncategorized transactions are kept that are neither BLIK payments
  nor waiting for Allegro nor marked as needing action.
\<close>

theorem screening_month_shows:
  assumes "endpoint_get_screening_month cl db da y m w = (Inr s, w')"
  shows "\<exists>w1 ff domain shown. valid_date (Date (nat y) (nat m) 1) \<and>
     cl_fetch_transactions cl (Some (Date (nat y) (nat m) 1))
       (Some (Date (nat y) (nat m) (days_in_month (nat y) (nat m)))) 1000 None w1 = (Inr ff, w') \<and>
     mapE tx_from_ff_tx ff = Inr domain \<and>
     shown = filter (\<lambda>t. tx_category t = None \<and> \<not> desc_matches db True t \<and>
       tag_value action_req \<notin> tx_tags t \<and> \<not> allegro_pending da t) domain \<and>
     shown \<noteq> [] \<and> sm_remaining s = length shown \<and> mapE map_tx_to_api shown = Inr (sm_transactions s)"
proof -
  from assms have "get_screening_month cl db da y m w = (Inr (Some s), w')"
    by (auto simp: endpoint_get_screening_month_def split: if_splits prod.splits sum.splits option.splits)
  then obtain a b cats w1 txs shown where ab: "month_range y m = Inr (a, b)"
    and f: "get_txs_for_screening cl db da (Some a) (Some b) w1 = (Inr txs, w')" and ne: "txs \<noteq> []"
    and sh: "mapE map_tx_to_api txs = Inr shown"
    and s: "s = \<lparr>sm_year = y, sm_month = m, sm_remaining = length txs, sm_transactions = shown,
                 sm_categories = map map_category_to_api cats\<rparr>"
    by (auto simp: get_screening_month_def split: sum.splits prod.splits if_splits)
  from f obtain raw where raw: "fetch_transactions cl (Some a) (Some b) 1000 None True w1 = (Inr raw, w')"
    and txs: "txs = screening_filter db da raw"
    by (auto simp: get_txs_for_screening_def split: sum.splits prod.splits)
  from fetch_transactions_Inr [OF raw] obtain ff domain where
    ff: "cl_fetch_transactions cl (Some a) (Some b) 1000 None w1 = (Inr ff, w')"
      "mapE tx_from_ff_tx ff = Inr domain" "raw = filter_out_categorized domain" by auto
  have "txs = filter (\<lambda>t. tx_category t = None \<and> \<not> desc_matches db True t \<and>
       tag_value action_req \<notin> tx_tags t \<and> \<not> allegro_pending da t) domain"
    by (auto simp: txs screening_filter_def filter_by_description_def Let_def ff(3)
        filter_out_categorized_def simp del: tag_value.simps intro!: filter_cong)
  moreover from month_range_Inr [OF ab] have "valid_date (Date (nat y) (nat m) 1)"
    "a = Date (nat y) (nat m) 1" "b = Date (nat y) (nat m) (days_in_month (nat y) (nat m))" by auto
  ultimately show ?thesis
    using ff(1,2) ne s sh
    by (intro exI [of _ w1] exI [of _ ff] exI [of _ domain] exI [of _ txs]) (simp del: valid_date.simps)
qed

theorem screening_month_shows_witness:
  "\<exists>s. endpoint_get_screening_month sample_client (U ''blik'') (U ''allegro'') 2024 5 0 = (Inr s, 0) \<and>
     sm_remaining s = 1"
proof -
  obtain shown where sh: "mapE map_tx_to_api [sample_tx] = Inr shown" using sample_tx_shown by blast
  have run: "endpoint_get_screening_month sample_client (U ''blik'') (U ''allegro'') 2024 5 0 =
    (Inr \<lparr>sm_year = 2024, sm_month = 5, sm_remaining = 1, sm_transactions = shown,
          sm_categories = [map_category_to_api (category_from_ff_category (1, U ''Food''))]\<rparr>, 0)"
    using sh by (simp add: endpoint_get_screening_month_def screening_query_ok_def
        get_screening_month_def get_categories_def get_txs_for_screening_def
        fetch_transactions_def filter_out_categorized_def del: mapE.simps)
  from screening_month_shows [OF run] run show ?thesis by auto
qed

end
