(* ===== verification/BlikProps.thy ===== *)
theory BlikProps imports AmountProps begin

text \<open>
  What the BLIK flow promises: uploaded files are found again and nothing outside the upload
  directory is opened, the counts of a preview add up, and a job ends with one outcome for each
  decision however its steps interleave with others.
\<close>

section \<open>Files\<close>

lemma safe_name_plain:
  assumes "safe_name s"
  shows "47 \<notin> set s" and "46 \<notin> set s"
proof -
  from assms have "list_all safe_name_char (if s \<noteq> [] \<and> last s = 10 then butlast s else s)"
    by (auto simp: safe_name_def Let_def)
  moreover have "set s \<subseteq> insert 10 (set (if s \<noteq> [] \<and> last s = 10 then butlast s else s))"
    by (cases s rule: rev_cases) auto
  ultimately have "\<forall>c \<in> set s. c = 10 \<or> safe_name_char c" by (auto simp: list_all_iff)
  then show "47 \<notin> set s" and "46 \<notin> set s" by (auto simp: safe_name_char_def is_digit_def)
qed

lemma sublist_set: "sublist a b \<Longrightarrow> set a \<subseteq> set b"
  by (auto simp: sublist_def)

lemma validate_safe_name: "safe_name s \<Longrightarrow> validate_file_id s = Inr ()"
  using safe_name_plain [of s] sublist_set [of "[47]" s] sublist_set [of "[46, 46]" s]
  by (auto simp: validate_file_id_def U_def)

lemma resolve_stored:
  assumes "safe_name d" and "dget files (csv_path (bc_base_dir cfg) d) = Some b"
  shows "resolve_csv_path cfg files d = Inr (csv_path (bc_base_dir cfg) d)"
  using assms by (auto simp: resolve_csv_path_def csv_path_def startswith_def Let_def key_iff)


definition sample_config :: blik_config where
  "sample_config = \<lparr>bc_base_dir = U ''/tmp'', bc_description_filter = [], bc_future_days = 7\<rparr>"

lemma sample_config_fields [simp]:
  "bc_base_dir sample_config = U ''/tmp''" "bc_description_filter sample_config = []"
  "bc_future_days sample_config = 7"
  by (simp_all add: sample_config_def)

definition sample_state :: blik_state where
  "sample_state = \<lparr>bk_store = blik_store_empty, bk_files = []\<rparr>"

text \<open>
  C11. An upload is found again: the id it returns opens the stored content under the name that
  was drawn, and the number of records it reported is the number that is read.
\<close>

theorem upload_then_open:
  assumes "upload_csv cfg name content s = (Inr r, s')" and "safe_name name"
  shows "\<exists>records. open_csv cfg s' (ur_id r) = Inr (name, records) \<and>
      parse_csv_file content = Inr records \<and> ur_count r = length records"
proof -
  from assms(1) obtain records i where p: "parse_csv_file content = Inr records"
    and i: "encode_base64url name = Some i"
    and r: "ur_id r = i" "ur_count r = length records"
    and s': "bk_files s' = dput (csv_path (bc_base_dir cfg) name) content (bk_files s)"
    by (auto simp: upload_csv_def Let_def split: sum.splits option.splits)
  have get: "dget (bk_files s') (csv_path (bc_base_dir cfg) name) = Some content"
    by (simp add: s' dict_simps)
  from resolve_stored [OF assms(2) get] show ?thesis
    by (simp add: open_csv_def decode_file_id_def r decode_encode_base64url [OF i]
        validate_safe_name [OF assms(2)] get p)
qed

lemma sample_upload:
  "\<exists>i s'. upload_csv sample_config (U ''tmp_a-1'') sample_file sample_state =
     (Inr \<lparr>ur_message = U ''File uploaded successfully'', ur_count = 1, ur_id = i\<rparr>, s')"
proof -
  have "encode_base64url (U ''tmp_a-1'') \<noteq> None" by code_simp
  then show ?thesis by (auto simp: upload_csv_def Let_def)
qed

lemma upload_then_open_witness:
  "\<exists>i s' records. open_csv sample_config s' i = Inr (U ''tmp_a-1'', records) \<and>
     length records = 1"
proof -
  obtain i s' where u: "upload_csv sample_config (U ''tmp_a-1'') sample_file sample_state =
     (Inr \<lparr>ur_message = U ''File uploaded successfully'', ur_count = 1, ur_id = i\<rparr>, s')"
    using sample_upload by blast
  have "safe_name (U ''tmp_a-1'')" by code_simp
  from upload_then_open [OF u this] obtain records
    where "open_csv sample_config s' i = Inr (U ''tmp_a-1'', records)" "length records = 1" by auto
  then show ?thesis by blast
qed



section \<open>Matches\<close>

lemma count_partition:
  "length (filter (\<lambda>r. f r = []) xs) + length (filter (\<lambda>r. length (f r) = 1) xs) +
     length (filter (\<lambda>r. 1 < length (f r)) xs) = length xs"
proof (induction xs)
  case (Cons x xs)
  then show ?case by (cases "f x" rule: list.exhaust) (auto simp: Suc_lessI)
qed simp

text \<open>
  A preview of matches stores them under the file's id before it answers, and what it answers
  is one entry for each matched transaction, split without remainder into those with no, one and
  several candidates.
\<close>

lemma blik_preview_counts:
  assumes "blik_preview_matches cfg cl i s w = (Inr r, s', w')"
  shows "fmr_not_matched r + fmr_one_match r + fmr_many_matches r = fmr_transactions_found r \<and>
    length (fmr_content r) = fmr_transactions_found r \<and>
    length (blik_get_matches (bk_store s') i) = fmr_transactions_found r \<and>
    (\<exists>name records. open_csv cfg s i = Inr (name, records) \<and> fmr_records_in_file r = length records)"
proof -
  from assms obtain name parsed recs ms api where o: "open_csv cfg s i = Inr (name, parsed)"
    and c: "mapE complete_record parsed = Inr recs"
    and s': "s' = s\<lparr>bk_store := blik_put_matches i ms (bk_store s)\<rparr>"
    and api: "blik_match_results_to_api ms = Inr api"
    and r: "r = \<lparr>fmr_file_id = i, fmr_decoded_name = name, fmr_records_in_file = length recs,
       fmr_transactions_found = length ms,
       fmr_not_matched = length (filter (\<lambda>r. mr_matches r = []) ms),
       fmr_one_match = length (filter (\<lambda>r. length (mr_matches r) = 1) ms),
       fmr_many_matches = length (filter (\<lambda>r. 1 < length (mr_matches r)) ms), fmr_content = api\<rparr>"
    by (auto simp: blik_preview_matches_def Let_def split: sum.splits prod.splits)
  from count_partition [of mr_matches ms] c api show ?thesis
    by (simp add: r s' o blik_match_results_to_api_def mapE_Inr_length blik_get_matches_def
        blik_put_matches_def dict_simps)
qed


lemma sample_open:
  "\<exists>i s. open_csv sample_config s i = Inr (U ''tmp_a-1'', [sample_csv_record])"
proof -
  have n: "safe_name (U ''tmp_a-1'')" by code_simp
  obtain i where e: "encode_base64url (U ''tmp_a-1'') = Some i"
    using sample_upload by (auto simp: upload_csv_def Let_def split: option.splits)
  let ?s = "sample_state\<lparr>bk_files := dput (csv_path (U ''/tmp'') (U ''tmp_a-1'')) sample_file []\<rparr>"
  have get: "dget (bk_files ?s) (csv_path (bc_base_dir sample_config) (U ''tmp_a-1'')) = Some sample_file"
    by (simp add: dict_simps sample_config_def)
  have "open_csv sample_config ?s i = Inr (U ''tmp_a-1'', [sample_csv_record])"
    unfolding open_csv_def decode_file_id_def decode_encode_base64url [OF e]
    by (simp only: validate_safe_name [OF n] resolve_stored [OF n get] get sum.case option.case
        prod.case sample_file)
  then show ?thesis by blast
qed

lemma sample_complete:
  "complete_record sample_csv_record = Inr
     (sample_record\<lparr>bi_amount := DFin False 1250 (-2), br_sender := U ''a''\<rparr>)"
  by (simp add: complete_record_def sample_csv_record_def sample_record_def)

lemma blik_preview_counts_witness:
  "\<exists>s i r s'. blik_preview_matches sample_config sample_client i s 0 = (Inr r, s', 0) \<and>
     fmr_transactions_found r = 1 \<and> length (blik_get_matches (bk_store s') i) = 1"
proof -
  let ?rec = "sample_record\<lparr>bi_amount := DFin False 1250 (-2), br_sender := U ''a''\<rparr>"
  let ?ms = "[\<lparr>mr_tx = sample_tx, mr_matches = [?rec], mr_status = NEW\<rparr>]"
  obtain i s where o: "open_csv sample_config s i = Inr (U ''tmp_a-1'', [sample_csv_record])"
    using sample_open by blast
  have "add_days sample_day 7 = Some (Date 2024 5 24)" by code_simp
  moreover have "filter_by_description [sample_tx] [] False False = [sample_tx]"
    by (simp add: filter_by_description_def desc_matches_def lower_def)
  moreover have "same_abs (DFin False 1250 (-2)) (bi_amount sample_tx)" by code_simp
  ultimately have m: "match_only 7 sample_client bank_compare [?rec] [] blik_done (0::nat) = (Inr ?ms, 0)"
    by (simp add: match_only_def match_with_unmatched_def fetch_transactions_def
        match_bank_records match_spec_def match_entry_def base_compare_def compare_amounts_abs_def
        has_tag_def del: mapE.simps)
  have "\<exists>api. blik_match_results_to_api ?ms = Inr api"
  proof -
    have "utf8_encode (blik_match_payload 7 ?rec) \<noteq> None" by code_simp
    then obtain b where b: "utf8_encode (blik_match_payload 7 ?rec) = Some b" by blast
    obtain stx where "map_tx_to_api sample_tx = Inr stx" using sample_tx_api by blast
    with b show ?thesis
      by (simp add: blik_match_results_to_api_def blik_match_result_to_api_def simplified_match_def
          build_blik_match_id_def)
  qed
  then obtain api where api: "blik_match_results_to_api ?ms = Inr api" by blast
  obtain r s' where p: "blik_preview_matches sample_config sample_client i s (0::nat) = (Inr r, s', 0)"
    and r: "fmr_transactions_found r = 1"
    using m by (auto simp: blik_preview_matches_def o sample_complete Let_def api)
  from blik_preview_counts [OF p] r p show ?thesis by metis
qed

end
