(* ===== verification/JobProps.thy ===== *)
theory JobProps imports Samples begin

text \<open>
  What apply jobs promise to whoever polls them: counters that agree with the outcomes, an end
  that is never revised, and updates only for pairs that were matched, whatever the interleaving.
\<close>

section \<open>Reachable states\<close>

lemma blik_reachable_star: "(blik_step cl)\<^sup>*\<^sup>* W W' \<Longrightarrow> blik_reachable cl W \<Longrightarrow> blik_reachable cl W'"
  by (induction rule: rtranclp_induct) (auto intro: blik_reachable.step)

lemma blik_done_stays:
  assumes "(blik_step cl)\<^sup>*\<^sup>* W W'" and "blik_reachable cl W"
    and "dget (bs_jobs (bw_store W)) k = Some j" and "job_stat j = DONE"
  shows "dget (bs_jobs (bw_store W')) k = Some j"
  using assms
proof (induction rule: rtranclp_induct)
  case (step W1 W2)
  then have "blik_reachable cl W1" using blik_reachable_star by blast
  with step show ?case using blik_closed_stable blik_inv_reachable by metis
qed simp



text \<open>A job that is done is no longer any task's, so it is closed.\<close>

lemma blik_done_closed:
  assumes "blik_reachable cl W" and "dget (bs_jobs (bw_store W)) k = Some j" and "job_stat j = DONE"
  shows "job_closed j \<and> job_id j = k"
proof -
  from assms(1) have inv: "blik_inv W" by (rule blik_inv_reachable)
  have "k \<notin> bt_job ` set (bw_tasks W)"
  proof
    assume "k \<in> bt_job ` set (bw_tasks W)"
    then obtain t where "t \<in> set (bw_tasks W)" "bt_job t = k" by blast
    with inv have "task_ok (bs_jobs (bw_store W)) t" by (auto simp: blik_inv_def)
    with \<open>bt_job t = k\<close> assms(2,3) show False by (auto simp: task_ok_def split: if_splits)
  qed
  with inv assms(2) show ?thesis by (auto simp: blik_inv_def)
qed


text \<open>
  C13. In every reachable state of the event loop, a BLIK job that reads as done has one outcome
  for each of its decisions, counters that add up to their number and a time of completion; and
  no later step, of its own task or another, changes it.
\<close>

theorem blik_job_done:
  assumes "blik_reachable cl W" and "dget (bs_jobs (bw_store W)) k = Some j" and "job_stat j = DONE"
    and "(blik_step cl)\<^sup>*\<^sup>* W W'"
  shows "job_id j = k \<and> length (job_results j) = job_total j \<and>
      job_applied j + job_failed j = job_total j \<and> job_finished_at j \<noteq> None \<and>
      dget (bs_jobs (bw_store W')) k = Some j"
  using blik_done_closed [OF assms(1-3)] blik_done_stays [OF assms(4,1-3)] job_closed_counts [of j]
  by (auto simp: job_closed_def)



section \<open>A run\<close>

definition sample_decision :: blik_decision where
  "sample_decision = \<lparr>bd_transaction_id = 99, bd_selected_match_id = U ''x''\<rparr>"

definition sample_match :: "bank_record match_result" where
  "sample_match = \<lparr>mr_tx = sample_tx, mr_matches = [sample_record], mr_status = NEW\<rparr>"

definition sample_store :: blik_store where
  "sample_store = blik_put_matches (U ''f'') [sample_match] blik_store_empty"

definition sample_task :: blik_task where
  "sample_task = \<lparr>bt_job = 5, bt_todo = [sample_decision], bt_index = match_index [sample_match],
     bt_outcomes = [], bt_begun = False\<rparr>"

definition sample_job :: blik_job where "sample_job = new_blik_job 5 0 (U ''f'') 1"

definition sample_world :: "nat blik_world" where
  "sample_world = \<lparr>bw_store = sample_store\<lparr>bs_jobs := [(5, sample_job)]\<rparr>, bw_tasks = [sample_task],
     bw_remote = 0\<rparr>"

lemma sample_world_reachable: "blik_reachable sample_client sample_world"
proof -
  let ?W0 = "blik_world_start 0 :: nat blik_world"
  let ?W1 = "?W0\<lparr>bw_store := sample_store, bw_remote := 0\<rparr>"
  have 1: "blik_reachable sample_client ?W1"
    using blik_step.preview [of sample_client ?W0, where enc = "U ''f''" and ms = "[sample_match]" and w' = 0]
    by (auto intro: blik_reachable.intros simp: sample_store_def blik_world_start_def)
  have st: "blik_start_apply_job 5 0 (U ''f'') [sample_decision] (bw_store ?W1) =
    (Inr (sample_job, sample_task), sample_store\<lparr>bs_jobs := [(5, sample_job)]\<rparr>)"
    by (simp add: blik_start_apply_job_def blik_get_matches_def sample_store_def blik_put_matches_def
        blik_store_empty_def blik_job_create_def sample_job_def new_blik_job_def sample_task_def
        dict_simps Let_def)
  have "blik_step sample_client ?W1 sample_world"
    using blik_step.start [OF st, of sample_client]
    by (simp add: sample_world_def sample_store_def blik_put_matches_def blik_store_empty_def
        blik_world_start_def)
  with 1 show ?thesis by (rule blik_reachable.step)
qed

lemma sample_run:
  "\<exists>j. blik_run_apply_job sample_client 1 sample_job [sample_decision] [sample_match] 0 = (j, 0) \<and>
     job_stat j = DONE \<and> job_failed j = 1"
  by (simp add: blik_run_apply_job_def blik_apply_decisions_def blik_try_decision_def match_index_def
      sample_match_def sample_decision_def dict_comp_def blik_finish_job_def count_outcome_def
      blik_outcome_of_def sample_job_def new_blik_job_def Let_def)


lemma blik_job_done_witness:
  "\<exists>W j. dget (bs_jobs (bw_store W)) 5 = Some j \<and> job_stat j = DONE \<and>
     job_applied j + job_failed j = (1 :: nat) \<and> blik_reachable sample_client W"
proof -
  obtain j where j: "blik_run_apply_job sample_client 1 sample_job [sample_decision] [sample_match] 0 = (j, 0)"
    and s: "job_stat j = DONE" "job_failed j = 1" using sample_run by blast
  obtain W' where W': "(blik_step sample_client)\<^sup>*\<^sup>* sample_world W'"
    "dget (bs_jobs (bw_store W')) (bt_job sample_task) = Some j"
    using blik_task_runs [of sample_world sample_task "[sample_match]" sample_job sample_client 1 j 0] j
    by (auto simp: sample_world_def sample_task_def)
  from W'(1) sample_world_reachable have r: "blik_reachable sample_client W'" by (rule blik_reachable_star)
  from W'(2) have d: "dget (bs_jobs (bw_store W')) 5 = Some j" by (simp add: sample_task_def)
  from j have "job_total j = 1"
    using blik_job_done [OF r d s(1) rtranclp.rtrancl_refl] s
    by (auto simp: blik_run_apply_job_def blik_apply_decisions_def blik_finish_job_def sample_job_def
        new_blik_job_def Let_def foldl_count_frame split: sum.splits prod.splits)
  with blik_job_done [OF r d s(1) rtranclp.rtrancl_refl] d s(1) r show ?thesis by auto
qed


section \<open>Decisions\<close>

lemma find_selected_sound:
  assumes "find_selected_match i m sel = Inr ev"
  shows "ev \<in> set (mr_matches m) \<and> build_blik_match_id i ev = Inr sel"
proof -
  from assms obtain ids where ids: "mapE (build_blik_match_id i) (mr_matches m) = Inr ids"
    and g: "dget (dict_comp fst snd (zip ids (mr_matches m))) sel = Some ev"
    by (auto simp: find_selected_match_def Let_def split: sum.splits option.splits)
  from g obtain x where "x \<in> set (zip ids (mr_matches m))" "fst x = sel" "snd x = ev"
    by (auto dest!: dget_dict_comp_SomeD)
  then obtain n where "n < length ids" "n < length (mr_matches m)" "ids ! n = sel" "mr_matches m ! n = ev"
    by (auto simp: set_zip)
  with ids show ?thesis by (auto simp: mapE_Inr_iff list_all2_conv_all_nth)
qed

lemma mapE_Inr_mem: "mapE f xs = Inr ys \<Longrightarrow> y \<in> set ys \<Longrightarrow> \<exists>x \<in> set xs. f x = Inr y"
  by (auto simp: mapE_Inr_iff list_all2_conv_all_nth in_set_conv_nth) (metis nth_mem)

lemma set_slice_to: "set (slice_to n xs) \<subseteq> set xs"
  by (auto simp: slice_to_def dest: in_set_takeD)

lemma blik_try_decision_cases:
  "(\<exists>m ev. m \<in> set matches \<and> tx_id (mr_tx m) = bd_transaction_id d \<and> ev \<in> set (mr_matches m) \<and>
      build_blik_match_id (bd_transaction_id d) ev = Inr (bd_selected_match_id d) \<and>
      blik_try_decision cl (match_index matches) d w
        = apply_match cl bank_build_tx_update (mr_tx m) ev w) \<or>
   (\<exists>e. blik_try_decision cl (match_index matches) d w = (Inl e, w))"
proof (cases "dget (match_index matches) (bd_transaction_id d)")
  case None
  then show ?thesis by (simp add: blik_try_decision_def)
next
  case (Some m)
  then have m: "m \<in> set matches" "tx_id (mr_tx m) = bd_transaction_id d"
    by (auto simp: match_index_def dest!: dget_dict_comp_SomeD)
  show ?thesis
  proof (cases "find_selected_match (bd_transaction_id d) m (bd_selected_match_id d)")
    case (Inl e)
    then show ?thesis by (simp add: blik_try_decision_def Some)
  next
    case (Inr ev)
    then have "ev \<in> set (mr_matches m) \<and>
      build_blik_match_id (bd_transaction_id d) ev = Inr (bd_selected_match_id d)"
      by (rule find_selected_sound)
    moreover have "blik_try_decision cl (match_index matches) d w
        = apply_match cl bank_build_tx_update (mr_tx m) ev w"
      by (simp add: blik_try_decision_def Some Inr)
    ultimately show ?thesis using m by blast
  qed
qed

text \<open>
  C12. A decision of a BLIK job reaches Firefly only for a pair the preview proposed: either it
  fails without a call, or it applies, to a matched transaction with the decision's id, a record
  proposed for it whose match id is the one selected.
\<close>

theorem blik_decision_safe:
  "(\<exists>m ev. m \<in> set matches \<and> tx_id (mr_tx m) = bd_transaction_id d \<and> ev \<in> set (mr_matches m) \<and>
      build_blik_match_id (bd_transaction_id d) ev = Inr (bd_selected_match_id d) \<and>
      blik_try_decision cl (match_index matches) d w
        = apply_match cl bank_build_tx_update (mr_tx m) ev w) \<or>
   (\<exists>e. blik_try_decision cl (match_index matches) d w = (Inl e, w))"
  by (rule blik_try_decision_cases)

text \<open>The same of Allegro decisions, which name a payment by its short id.\<close>

lemma allegro_decision_safe:
  "(\<exists>m p. m \<in> set matches \<and> tx_id (mr_tx m) = ad_transaction_id d \<and> p \<in> set (mr_matches m) \<and>
      ap_external_short_id p = ad_payment_id d \<and>
      allegro_try_decision cl (match_index matches) d w
        = apply_match cl payment_build_tx_update (mr_tx m) p w) \<or>
   (\<exists>e. allegro_try_decision cl (match_index matches) d w = (Inl e, w))"
  using allegro_try_decision_cases [of cl matches d w]
  by (metis surj_pair)

text \<open>
  C17. The decisions an automatic run makes for itself are ones it can carry out: each names a
  transaction with a single proposal, and selects that proposal.
\<close>

theorem blik_auto_apply_resolves:
  assumes "blik_start_auto_apply i now enc limit s = (Inr (job, t), s')"
    and "distinct (map (\<lambda>m. tx_id (mr_tx m)) (blik_get_matches s enc))" and "d \<in> set (bt_todo t)"
  shows "\<exists>m ev. dget (bt_index t) (bd_transaction_id d) = Some m \<and> mr_matches m = [ev] \<and>
      find_selected_match (bd_transaction_id d) m (bd_selected_match_id d) = Inr ev"
proof -
  let ?ms = "blik_get_matches s enc" and ?f = "\<lambda>m. tx_id (mr_tx m)"
  let ?single = "filter (\<lambda>m. length (mr_matches m) = 1) ?ms"
  from assms(1) obtain ds where
    ds: "mapE auto_decision (case limit of None \<Rightarrow> ?single | Some n \<Rightarrow> slice_to n ?single) = Inr ds"
    and st: "blik_start_apply_job i now enc ds s = (Inr (job, t), s')"
    by (auto simp: blik_start_auto_apply_def Let_def simp del: One_nat_def split: if_splits sum.splits)
  have idx: "bt_index t = match_index ?ms"
    using st by (auto simp: blik_start_apply_job_def Let_def split: if_splits prod.splits)
  from blik_start_cases(4) [OF st] assms(3) have "d \<in> set ds" by simp
  with ds obtain m where m: "m \<in> set (case limit of None \<Rightarrow> ?single | Some n \<Rightarrow> slice_to n ?single)"
    and d: "auto_decision m = Inr d" by (auto dest: mapE_Inr_mem)
  from m have "m \<in> set ?single" by (auto split: option.splits dest: set_slice_to [THEN subsetD])
  then have mem: "m \<in> set ?ms" and one: "length (mr_matches m) = 1" by auto
  from one obtain ev where ev: "mr_matches m = [ev]" by (cases "mr_matches m") auto
  from d ev have dd: "bd_transaction_id d = tx_id (mr_tx m)"
    "build_blik_match_id (tx_id (mr_tx m)) ev = Inr (bd_selected_match_id d)"
    by (auto simp: auto_decision_def split: sum.splits)
  have "dget (match_index ?ms) (?f m) = Some m"
    using dget_dict_comp_distinct [OF assms(2) mem, of "\<lambda>m. m"] by (simp add: match_index_def)
  moreover have "find_selected_match (?f m) m (bd_selected_match_id d) = Inr ev"
    by (simp add: find_selected_match_def ev dd(2) dict_comp_def dict_simps)
  ultimately show ?thesis using idx dd(1) ev by auto
qed


lemma blik_auto_apply_resolves_witness:
  "\<exists>job t s' d m. blik_start_auto_apply 5 0 (U ''f'') None sample_store = (Inr (job, t), s') \<and>
     bt_todo t = [d] \<and> find_selected_match (bd_transaction_id d) m (bd_selected_match_id d)
       = Inr sample_record"
proof -
  have g: "blik_get_matches sample_store (U ''f'') = [sample_match]"
    by (simp add: blik_get_matches_def sample_store_def blik_put_matches_def blik_store_empty_def dict_simps)
  have "utf8_encode (blik_match_payload 7 sample_record) \<noteq> None" by code_simp
  then obtain k where k: "build_blik_match_id 7 sample_record = Inr k"
    by (auto simp: build_blik_match_id_def)
  let ?d = "\<lparr>bd_transaction_id = 7, bd_selected_match_id = k\<rparr>"
  have a: "auto_decision sample_match = Inr ?d"
    by (simp add: auto_decision_def sample_match_def k)
  have one: "length (mr_matches sample_match) = 1" by (simp add: sample_match_def)
  obtain job t s' where st: "blik_start_auto_apply 5 0 (U ''f'') None sample_store = (Inr (job, t), s')"
    and td: "bt_todo t = [?d]"
    by (auto simp: blik_start_auto_apply_def blik_start_apply_job_def g a one Let_def blik_job_create_def
        split: prod.splits)
  have "distinct (map (\<lambda>m. tx_id (mr_tx m)) (blik_get_matches sample_store (U ''f'')))" by (simp add: g)
  from blik_auto_apply_resolves [OF st this, of ?d] td obtain m ev where
    f: "find_selected_match 7 m k = Inr ev" and "dget (bt_index t) 7 = Some m" by auto
  moreover have "bt_index t = match_index [sample_match]"
    using st by (auto simp: blik_start_auto_apply_def blik_start_apply_job_def g a one Let_def
        blik_job_create_def split: prod.splits)
  ultimately have "m = sample_match"
    by (auto simp: match_index_def dict_comp_def dict_simps sample_match_def split: if_splits)
  with find_selected_sound [OF f] have "ev = sample_record" by (simp add: sample_match_def)
  with st td f show ?thesis by fastforce
qed

section \<open>The page cache\<close>








end
