(* ===== verification/VaultProps.thy ===== *)
theory VaultProps imports UserSecrets begin

text \<open>
  What the vault and the secrets promise: a secret comes back as it was stored to whoever unlocked
  the vault, and to nobody else; a failed change leaves the database as it was.
\<close>

section \<open>A crypto library for the witnesses\<close>

text \<open>
  The properties below take the documented behaviour of Argon2 and AES-GCM as a hypothesis; this
  instance shows that it can hold. Its cipher text is the key, the nonce and the plain text.
\<close>

definition sample_crypto :: crypto where
  "sample_crypto =
     \<lparr>cy_argon2 = \<lambda>p s _ _ _ n. Inr (take (nat n) (p @ replicate 32 0)),
      cy_encrypt = \<lambda>k n m. Inr (k @ n @ m),
      cy_decrypt = \<lambda>k n c. if take (length k + length n) c = k @ n
                           then Opened (drop (length k + length n) c) else InvalidTag\<rparr>"

lemma sample_crypto_ok: "crypto_ok sample_crypto"
  by (auto simp: crypto_ok_def sample_crypto_def min_def)

definition zeros :: "nat \<Rightarrow> bytes" where "zeros n = replicate n 0"

lemma length_zeros [simp]: "length (zeros n) = n"
  by (simp add: zeros_def)

definition sample_draws :: secret_draws where
  "sample_draws = \<lparr>sd_dek = zeros 32, sd_secret_nonce = zeros 12, sd_wrapped_nonce = zeros 12\<rparr>"

definition empty_rows :: db where
  "empty_rows = \<lparr>db_users = [], db_audit = [], db_secrets = [], db_vaults = [], db_tokens = []\<rparr>"

section \<open>Vault sessions\<close>

text \<open>
  C20. Setting a vault up and unlocking it with the same passphrase opens a session that holds a
  key until its time is up; the same session then gives nothing, and neither does it after the
  vault was locked.
\<close>

theorem vault_life_cycle:
  assumes "crypto_ok cy" and "length salt = 16" and "length nonce = 12"
    and "utf8_encode passphrase \<noteq> None" and "vault_get_for_user s u = None"
  shows "\<exists>s1 s2 m2 key.
    setup_vault cy salt nonce aid now u passphrase s = (Inr (), s1) \<and>
    unlock_vault cy ttl salt2 sid aid2 now u passphrase (s1, m) = (Inr sid, (s2, m2)) \<and>
    length key = 32 \<and>
    (later < now + ttl * us_per_second \<longrightarrow>
       require_user_key later u (Some sid) (s2, m2) = (Inr key, (s2, m2))) \<and>
    (now + ttl * us_per_second \<le> later \<longrightarrow>
       fst (require_user_key later u (Some sid) (s2, m2))
         = Inl (AppError VaultSessionExpired (U ''Vault session expired''))) \<and>
    fst (require_user_key later u (Some sid) (lock_vault aid3 later u sid (s2, m2)))
      = Inl (AppError VaultSessionExpired (U ''Vault session expired''))"
proof -
  obtain s1 k c where su: "setup_vault cy salt nonce aid now u passphrase s = (Inr (), s1)"
    and k: "length k = 32"
    and row: "vault_get_for_user s1 u = Some \<lparr>va_user_id = u, va_kdf_salt = Some salt,
       va_kdf_params = Some default_kdf_params, va_check_ciphertext = Some c,
       va_check_nonce = Some nonce, va_created_at = now, va_updated_at = now\<rparr>"
    and derive: "derive_user_key cy salt2 passphrase (Some salt) (Some default_kdf_params)
      = Inr \<lparr>dk_key = k, dk_salt = salt, dk_params = default_kdf_params\<rparr>"
    and dec: "cy_decrypt cy k nonce c = Opened vault_check_plaintext"
    using setup_vault_row [OF assms] by metis
  let ?s2 = "commit (audit_log aid2 now u (U ''vault.unlock'') None None False s1)"
  let ?m2 = "snd (vss_create sid now u k ttl m)"
  have unlock: "unlock_vault cy ttl salt2 sid aid2 now u passphrase (s1, m) = (Inr sid, (?s2, ?m2))"
    by (simp add: unlock_vault_def get_vault_or_raise_def row get_kdf_params_def derive
        build_vault_check_def verify_vault_check_def dec vss_create_def Let_def)
  have conf: "vault_get_for_user ?s2 u \<noteq> None" by (simp add: row)
  have look: "vss_look ?m2 (u, sid) = Some \<lparr>vs_user_key = k, vs_expires_at = now + ttl * us_per_second\<rparr>"
    by (simp add: vss_look_create)
  have gone: "fst (require_user_key later u (Some sid) (lock_vault aid3 later u sid (?s2, ?m2)))
      = Inl (AppError VaultSessionExpired (U ''Vault session expired''))"
    using require_user_key_expired
        [where s = "fst (lock_vault aid3 later u sid (?s2, ?m2))" and i = u and x = sid
           and m = "snd (lock_vault aid3 later u sid (?s2, ?m2))" and now = later]
    by (auto simp: lock_vault_def vss_invalidate_def dict_simps row)
  show ?thesis
    using require_user_key_active [OF conf look, where now = later]
      require_user_key_expired [OF conf, where m = ?m2 and x = sid and now = later]
    by (intro exI [of _ s1] exI [of _ ?s2] exI [of _ ?m2] exI [of _ k])
       (auto simp: su unlock k look gone)
qed

lemma vault_life_cycle_witness:
  "\<exists>s1 s2 m2 key.
    setup_vault sample_crypto (zeros 16) (zeros 12) 1 0 7 (U ''pass'') (open_session empty_rows) = (Inr (), s1) \<and>
    unlock_vault sample_crypto 900 [] (U ''sid'') 2 0 7 (U ''pass'') (s1, []) = (Inr (U ''sid''), (s2, m2)) \<and>
    require_user_key 1 7 (Some (U ''sid'')) (s2, m2) = (Inr key, (s2, m2))"
proof -
  have "utf8_encode (U ''pass'') \<noteq> None" by code_simp
  moreover have "vault_get_for_user (open_session empty_rows) 7 = None"
    by (simp add: vault_get_for_user_def empty_rows_def)
  moreover have "1 < 0 + 900 * us_per_second" by (simp add: us_per_second_def)
  ultimately show ?thesis
    using vault_life_cycle [OF sample_crypto_ok, of "zeros 16" "zeros 12" "U ''pass''"
        "open_session empty_rows" 7 1 0 900 "[]" "U ''sid''" 2 "[]" 1] by fastforce
qed


section \<open>Secrets\<close>

text \<open>
  C19. A secret that is created in an open vault session is read back as it was, in the same
  session, as long as the session lasts, and the reading counts as its first use.
\<close>

theorem secret_roundtrip:
  assumes "crypto_ok cy" and "length (sd_dek d) = 32" and "length (sd_secret_nonce d) = 12"
    and "length (sd_wrapped_nonce d) = 12" and "utf8_encode plaintext \<noteq> None"
    and "vault_get_for_user s u \<noteq> None" and "vss_look m (u, x) = Some v"
    and "now < vs_expires_at v" and "now2 < vs_expires_at v" and "length (vs_user_key v) = 32"
    and "\<forall>y \<in> set (db_secrets (cur s)). se_id y \<noteq> i"
  shows "\<exists>rm st rm2 st2.
    create_secret cy d i aid now act u (Some x) typ alias plaintext ext (s, m) = (Inr rm, st) \<and>
    get_secret_for_internal_use cy aid2 now2 i u (Some x) um st = (Inr rm2, st2) \<and>
    sm_secret rm2 = plaintext \<and> rm_usage_count rm2 = 1"
  using assms by (rule create_then_use)

definition sample_vault_db :: db where
  "sample_vault_db = empty_rows\<lparr>db_vaults := [\<lparr>va_user_id = 7, va_kdf_salt = None, va_kdf_params = None,
     va_check_ciphertext = None, va_check_nonce = None, va_created_at = 0, va_updated_at = 0\<rparr>]\<rparr>"

definition sample_sessions :: vault_sessions where
  "sample_sessions = [(7, [(U ''sid'', \<lparr>vs_user_key = zeros 32, vs_expires_at = 100\<rparr>)])]"

lemma sample_sessions_look:
  "vss_look sample_sessions (7, U ''sid'') = Some \<lparr>vs_user_key = zeros 32, vs_expires_at = 100\<rparr>"
  by (simp add: sample_sessions_def vss_look_def sessions_of_def)

lemma secret_roundtrip_witness:
  "\<exists>rm st rm2 st2.
    create_secret sample_crypto sample_draws 3 4 0 7 7 (Some (U ''sid'')) ALLEGRO None (U ''cookie'') None
      (open_session sample_vault_db, sample_sessions) = (Inr rm, st) \<and>
    get_secret_for_internal_use sample_crypto 5 1 3 7 (Some (U ''sid'')) None st = (Inr rm2, st2) \<and>
    sm_secret rm2 = U ''cookie''"
proof -
  have "utf8_encode (U ''cookie'') \<noteq> None" by code_simp
  moreover have "vault_get_for_user (open_session sample_vault_db) 7 \<noteq> None"
    by (simp add: vault_get_for_user_def sample_vault_db_def empty_rows_def)
  moreover have "\<forall>y \<in> set (db_secrets (cur (open_session sample_vault_db))). se_id y \<noteq> 3"
    by (simp add: sample_vault_db_def empty_rows_def)
  ultimately show ?thesis
    using secret_roundtrip [where s = "open_session sample_vault_db" and m = sample_sessions
        and cy = sample_crypto and d = sample_draws and u = 7 and x = "U ''sid''" and i = 3
        and plaintext = "U ''cookie''" and now = 0 and ?now2.0 = 1, OF sample_crypto_ok _ _ _ _ _ sample_sessions_look]
    by (fastforce simp: sample_draws_def)
qed

lemma setup_vault_failed:
  "setup_vault cy salt nonce aid now u p s = (Inl e, s2) \<Longrightarrow> committed s2 = committed s"
  by (auto simp: setup_vault_def vault_create_def Let_def split: option.splits sum.splits prod.splits if_splits)

lemma unlock_vault_failed:
  "unlock_vault cy ttl salt sid aid now u p st = (Inl e, st2) \<Longrightarrow> st2 = st"
  by (auto simp: unlock_vault_def Let_def split: sum.splits prod.splits if_splits)

lemma delete_secret_failed: "delete_secret aid now act u i s = (Inl e, s2) \<Longrightarrow> s2 = s"
  by (auto simp: delete_secret_def split: sum.splits)

lemma catch_kinds_Inl: "catch_kinds ks f r = Inl e \<Longrightarrow> \<exists>e0. r = Inl e0"
  by (cases r) auto

text \<open>
  C22. An endpoint of the vault or the secrets that answers with an error has changed nothing in
  the database, whatever step the error came from: the changes it had made so far are rolled back
  with its session.
\<close>

theorem failed_secret_endpoints_change_nothing:
  "(fst (endpoint_setup_vault cy salt nonce aid now u p (d, m)) = Inl e \<longrightarrow>
      fst (snd (endpoint_setup_vault cy salt nonce aid now u p (d, m))) = d) \<and>
   (fst (endpoint_unlock_vault cy ttl salt sid aid now u p (d, m)) = Inl e \<longrightarrow>
      fst (snd (endpoint_unlock_vault cy ttl salt sid aid now u p (d, m))) = d) \<and>
   (fst (endpoint_create_secret cy dr i aid now u osid typ alias ext p (d, m)) = Inl e \<longrightarrow>
      fst (snd (endpoint_create_secret cy dr i aid now u osid typ alias ext p (d, m))) = d) \<and>
   (fst (endpoint_update_secret cy dr aid now u i osid oalias oext op (d, m)) = Inl e \<longrightarrow>
      fst (snd (endpoint_update_secret cy dr aid now u i osid oalias oext op (d, m))) = d) \<and>
   (fst (endpoint_delete_secret aid now u i (d, m)) = Inl e \<longrightarrow>
      fst (snd (endpoint_delete_secret aid now u i (d, m))) = d)"
proof (intro conjI impI)
  assume "fst (endpoint_setup_vault cy salt nonce aid now u p (d, m)) = Inl e"
  then show "fst (snd (endpoint_setup_vault cy salt nonce aid now u p (d, m))) = d"
    by (auto simp: endpoint_setup_vault_def dest!: catch_kinds_Inl setup_vault_failed
        split: if_splits prod.splits sum.splits)
next
  assume "fst (endpoint_unlock_vault cy ttl salt sid aid now u p (d, m)) = Inl e"
  then show "fst (snd (endpoint_unlock_vault cy ttl salt sid aid now u p (d, m))) = d"
    by (auto simp: endpoint_unlock_vault_def dest!: catch_kinds_Inl unlock_vault_failed
        split: if_splits prod.splits sum.splits)
next
  assume "fst (endpoint_create_secret cy dr i aid now u osid typ alias ext p (d, m)) = Inl e"
  then show "fst (snd (endpoint_create_secret cy dr i aid now u osid typ alias ext p (d, m))) = d"
    by (auto simp: endpoint_create_secret_def dest!: catch_kinds_Inl create_secret_failed
        split: if_splits prod.splits sum.splits)
next
  assume "fst (endpoint_update_secret cy dr aid now u i osid oalias oext op (d, m)) = Inl e"
  then show "fst (snd (endpoint_update_secret cy dr aid now u i osid oalias oext op (d, m))) = d"
    by (auto simp: endpoint_update_secret_def Let_def dest!: catch_kinds_Inl update_secret_failed
        split: if_splits prod.splits sum.splits)
next
  assume "fst (endpoint_delete_secret aid now u i (d, m)) = Inl e"
  then show "fst (snd (endpoint_delete_secret aid now u i (d, m))) = d"
    by (auto simp: endpoint_delete_secret_def dest!: catch_kinds_Inl delete_secret_failed
        split: if_splits prod.splits sum.splits)
qed



lemma failed_secret_endpoints_change_nothing_witness:
  "\<exists>e. fst (endpoint_setup_vault sample_crypto [] [] 1 0 7 [] (empty_rows, [])) = Inl e \<and>
     fst (snd (endpoint_setup_vault sample_crypto [] [] 1 0 7 [] (empty_rows, []))) = empty_rows"
proof -
  have "fst (endpoint_setup_vault sample_crypto [] [] 1 0 7 [] (empty_rows, [])) =
    Inl (HTTPException 422 (U ''String should have at least 1 character''))"
    by (simp add: endpoint_setup_vault_def)
  with failed_secret_endpoints_change_nothing
    [where d = empty_rows and m = "[]" and cy = sample_crypto and salt = "[]" and nonce = "[]"
       and aid = 1 and now = 0 and u = 7 and p = "[]"]
  show ?thesis by blast
qed


end
