(* ===== verification/Auth.thy ===== *)
theory Auth imports Db PySha PyBytes begin

text \<open>
  Users and tokens: \<open>services/auth.py\<close>, \<open>services/guards.py\<close>, \<open>services/db/passwords.py\<close>,
  \<open>services/password_set_tokens.py\<close>, \<open>services/system/bootstrap.py\<close> and the routers \<open>auth.py\<close>,
  \<open>users.py\<close>, \<open>me.py\<close>. PyJWT and the argon2 hasher are parameters; random tokens, ids and the
  clock are arguments. An endpoint runs on a session of its own, so it maps the committed
  database to a result and the committed database after it.
\<close>

section \<open>Settings and third-party parts\<close>

record auth_config =
  ac_secret_key :: ustring
  ac_pepper :: "ustring option"
  ac_internal_api_key :: "ustring option"
  ac_access_minutes :: int
  ac_refresh_days :: int
  ac_set_token_hours :: int
  ac_app_public_url :: "ustring option"

type_synonym claims = "(ustring, json) dict"

datatype jwt_result = Claims claims | ExpiredSignature | InvalidToken

record jwt =
  jw_encode :: "claims \<Rightarrow> ustring \<Rightarrow> ustring"
  jw_decode :: "ustring \<Rightarrow> ustring \<Rightarrow> instant \<Rightarrow> jwt_result"

definition exp_claim :: "instant \<Rightarrow> json" where
  "exp_claim t = JNum (dec_of_int (t div us_per_second))"

text \<open>
  The documented behaviour of PyJWT: a token decodes to its claims under the key it was signed
  with, as long as the clock has not reached the second in its \<open>exp\<close>.
\<close>

definition jwt_ok :: "jwt \<Rightarrow> bool" where
  "jwt_ok jw \<longleftrightarrow>
     (\<forall>cs key now t. dget cs (U ''exp'') = Some (exp_claim t) \<longrightarrow>
        jw_decode jw (jw_encode jw cs key) key now =
          (if now div us_per_second < t div us_per_second then Claims cs else ExpiredSignature))"

datatype verify_result = Verified | VerifyMismatch | InvalidHash | VerifyError exn

record password_hasher =
  ph_hash :: "ustring \<Rightarrow> bytes \<Rightarrow> ustring"
  ph_verify :: "ustring \<Rightarrow> ustring \<Rightarrow> verify_result"

definition hasher_ok :: "password_hasher \<Rightarrow> bool" where
  "hasher_ok ph \<longleftrightarrow> (\<forall>p salt. ph_verify ph (ph_hash ph p salt) p = Verified)"

definition verify_password :: "password_hasher \<Rightarrow> ustring \<Rightarrow> ustring \<Rightarrow> bool res" where
  "verify_password ph password password_hash =
     (case ph_verify ph password_hash password of
        Verified \<Rightarrow> Inr True
      | VerifyMismatch \<Rightarrow> Inr False
      | InvalidHash \<Rightarrow> Inr False
      | VerifyError e \<Rightarrow> Inl e)"

definition unauthorized :: exn where
  "unauthorized = HTTPException 401 (U ''Unauthorized'')"

definition forbidden :: exn where
  "forbidden = HTTPException 403 (U ''Forbidden'')"

section \<open>\<open>services/auth.py\<close> and \<open>services/guards.py\<close>\<close>

definition decode_access_token :: "auth_config \<Rightarrow> jwt \<Rightarrow> instant \<Rightarrow> ustring \<Rightarrow> ustring res" where
  "decode_access_token cfg jw now token =
     (case jw_decode jw token (ac_secret_key cfg) now of
        Claims payload \<Rightarrow>
          (if dget payload (U ''typ'') \<noteq> Some (JStr (U ''access'')) then Inl unauthorized
           else case dget payload (U ''sub'') of
                  Some (JStr sub) \<Rightarrow> (if sub = [] then Inl unauthorized else Inr sub)
                | _ \<Rightarrow> Inl unauthorized)
      | _ \<Rightarrow> Inl unauthorized)"

definition get_current_user ::
    "auth_config \<Rightarrow> jwt \<Rightarrow> instant \<Rightarrow> ustring option \<Rightarrow> ustring option \<Rightarrow> ustring res" where
  "get_current_user cfg jw now credentials cookie =
     (case (case credentials of Some c \<Rightarrow> Some c | None \<Rightarrow> cookie) of
        None \<Rightarrow> Inl unauthorized
      | Some token \<Rightarrow> decode_access_token cfg jw now token)"

definition require_superuser :: "ustring \<Rightarrow> session \<Rightarrow> uuid res" where
  "require_superuser user_id s =
     (case parse_uuid user_id of
        None \<Rightarrow> Inl unauthorized
      | Some i \<Rightarrow> (if user_is_superuser s i then Inr i else Inl forbidden))"

definition require_active_user :: "ustring \<Rightarrow> session \<Rightarrow> uuid res" where
  "require_active_user user_id s =
     (case parse_uuid user_id of
        None \<Rightarrow> Inl unauthorized
      | Some i \<Rightarrow>
          (case user_get_by_id s i of
             Inl e \<Rightarrow> Inl e
           | Inr None \<Rightarrow> Inl unauthorized
           | Inr (Some u) \<Rightarrow> (if us_is_active u then Inr i else Inl forbidden)))"

text \<open>\<open>compare_digest\<close> of two texts wants ASCII in both.\<close>

definition compare_digest :: "ustring \<Rightarrow> ustring \<Rightarrow> bool res" where
  "compare_digest a b =
     (if list_all (\<lambda>c. c < 128) a \<and> list_all (\<lambda>c. c < 128) b then Inr (a = b)
      else Inl (TypeError (U ''comparing strings with non-ASCII characters is not supported'')))"

definition require_internal_api_key :: "auth_config \<Rightarrow> ustring option \<Rightarrow> unit res" where
  "require_internal_api_key cfg internal_api_key =
     (case ac_internal_api_key cfg of
        Some (k # ks) \<Rightarrow>
          (case compare_digest (case internal_api_key of None \<Rightarrow> [] | Some x \<Rightarrow> x) (k # ks) of
             Inl e \<Rightarrow> Inl e
           | Inr ok \<Rightarrow> (if ok then Inr () else Inl unauthorized))
      | _ \<Rightarrow> Inl (HTTPException 503 (U ''Service Unavailable'')))"

text \<open>The guards as the routers use them: the token first, then the user.\<close>

definition guard_active ::
    "auth_config \<Rightarrow> jwt \<Rightarrow> instant \<Rightarrow> ustring option \<Rightarrow> ustring option \<Rightarrow> db \<Rightarrow> uuid res" where
  "guard_active cfg jw now credentials cookie d =
     (case get_current_user cfg jw now credentials cookie of
        Inl e \<Rightarrow> Inl e
      | Inr sub \<Rightarrow> require_active_user sub (open_session d))"

definition guard_superuser ::
    "auth_config \<Rightarrow> jwt \<Rightarrow> instant \<Rightarrow> ustring option \<Rightarrow> ustring option \<Rightarrow> db \<Rightarrow> uuid res" where
  "guard_superuser cfg jw now credentials cookie d =
     (case get_current_user cfg jw now credentials cookie of
        Inl e \<Rightarrow> Inl e
      | Inr sub \<Rightarrow> require_superuser sub (open_session d))"

section \<open>Password-set tokens\<close>

definition encode_utf8 :: "ustring \<Rightarrow> bytes res" where
  "encode_utf8 s =
     (case utf8_encode s of None \<Rightarrow> Inl (ValueError (U ''utf-8 codec cannot encode'')) | Some b \<Rightarrow> Inr b)"

definition hash_password_set_token :: "auth_config \<Rightarrow> ustring \<Rightarrow> ustring res" where
  "hash_password_set_token cfg token =
     (case encode_utf8 (case ac_pepper cfg of Some (p # ps) \<Rightarrow> p # ps | _ \<Rightarrow> ac_secret_key cfg) of
        Inl e \<Rightarrow> Inl e
      | Inr key \<Rightarrow>
          (case encode_utf8 token of
             Inl e \<Rightarrow> Inl e
           | Inr msg \<Rightarrow> Inr (hmac_sha256_hexdigest key msg)))"

definition get_password_set_expiry :: "auth_config \<Rightarrow> instant \<Rightarrow> instant" where
  "get_password_set_expiry cfg now = now + ac_set_token_hours cfg * 3600 * us_per_second"

definition build_invite_url :: "auth_config \<Rightarrow> ustring \<Rightarrow> ustring option" where
  "build_invite_url cfg token =
     (case ac_app_public_url cfg of
        Some (c # cs) \<Rightarrow>
          Some (rstrip_by (\<lambda>x. x = 47) (c # cs) @ U ''/set-password?token='' @ token)
      | _ \<Rightarrow> None)"

section \<open>\<open>api/routers/auth.py\<close>\<close>

definition create_access_token :: "auth_config \<Rightarrow> jwt \<Rightarrow> instant \<Rightarrow> ustring \<Rightarrow> ustring" where
  "create_access_token cfg jw now subject =
     jw_encode jw [(U ''sub'', JStr subject), (U ''typ'', JStr (U ''access'')),
                   (U ''exp'', exp_claim (now + ac_access_minutes cfg * 60 * us_per_second))]
       (ac_secret_key cfg)"

definition create_refresh_token :: "auth_config \<Rightarrow> jwt \<Rightarrow> instant \<Rightarrow> ustring \<Rightarrow> ustring" where
  "create_refresh_token cfg jw now subject =
     jw_encode jw [(U ''sub'', JStr subject), (U ''typ'', JStr (U ''refresh'')),
                   (U ''exp'', exp_claim (now + ac_refresh_days cfg * 86400 * us_per_second))]
       (ac_secret_key cfg)"

definition decode_token :: "auth_config \<Rightarrow> jwt \<Rightarrow> instant \<Rightarrow> ustring \<Rightarrow> claims res" where
  "decode_token cfg jw now token =
     (case jw_decode jw token (ac_secret_key cfg) now of
        Claims payload \<Rightarrow> Inr payload
      | ExpiredSignature \<Rightarrow> Inl (HTTPException 401 (U ''Token expired''))
      | InvalidToken \<Rightarrow> Inl (HTTPException 401 (U ''Invalid token'')))"

definition bad_login :: exn where
  "bad_login = HTTPException 401 (U ''Incorrect username or password'')"

text \<open>Login: the access token of the body and the refresh token of the cookie.\<close>

definition login ::
    "auth_config \<Rightarrow> jwt \<Rightarrow> password_hasher \<Rightarrow> instant \<Rightarrow> ustring \<Rightarrow> ustring \<Rightarrow> db
       \<Rightarrow> (ustring \<times> ustring) res" where
  "login cfg jw ph now username password d =
     (case user_get_by_username (open_session d) username of
        Inl e \<Rightarrow> Inl e
      | Inr None \<Rightarrow> Inl bad_login
      | Inr (Some u) \<Rightarrow>
          (if \<not> us_is_active u then Inl bad_login
           else case verify_password ph password (us_password_hash u) of
                  Inl e \<Rightarrow> Inl e
                | Inr ok \<Rightarrow>
                    (if \<not> ok then Inl bad_login
                     else Inr (create_access_token cfg jw now (uuid_str (us_id u)),
                               create_refresh_token cfg jw now (uuid_str (us_id u))))))"

text \<open>\<open>str(subject)\<close> of a claim; only texts are ever signed.\<close>

fun json_subject :: "json \<Rightarrow> ustring" where
  "json_subject (JStr s) = s"
| "json_subject (JNum d) = dec_str d"
| "json_subject (JBool b) = U (if b then ''True'' else ''False'')"
| "json_subject _ = []"

definition refresh_access_token ::
    "auth_config \<Rightarrow> jwt \<Rightarrow> instant \<Rightarrow> ustring option \<Rightarrow> ustring res" where
  "refresh_access_token cfg jw now cookie =
     (case cookie of
        Some (c # cs) \<Rightarrow>
          (case decode_token cfg jw now (c # cs) of
             Inl e \<Rightarrow> Inl e
           | Inr payload \<Rightarrow>
               (if dget payload (U ''typ'') \<noteq> Some (JStr (U ''refresh''))
                then Inl (HTTPException 401 (U ''Invalid refresh token''))
                else case dget payload (U ''sub'') of
                       None \<Rightarrow> Inl (HTTPException 401 (U ''Invalid refresh token''))
                     | Some subject \<Rightarrow>
                         (if \<not> json_truthy subject
                          then Inl (HTTPException 401 (U ''Invalid refresh token''))
                          else Inr (create_access_token cfg jw now (json_subject subject)))))
      | _ \<Rightarrow> Inl (HTTPException 401 (U ''Missing refresh token'')))"

definition system_actor_id :: uuid where
  "system_actor_id = 0"

definition bad_set_token :: exn where
  "bad_set_token = HTTPException 400 (U ''Invalid or expired token'')"

definition set_password ::
    "auth_config \<Rightarrow> password_hasher \<Rightarrow> bytes \<Rightarrow> uuid \<Rightarrow> instant \<Rightarrow> ustring \<Rightarrow> ustring \<Rightarrow> db
       \<Rightarrow> unit res \<times> db" where
  "set_password cfg ph salt audit_id now token new_password d =
     (let s = open_session d
      in if token = [] \<or> length new_password < 8 \<or> 255 < length new_password
         then (Inl (HTTPException 422 (U ''Unprocessable'')), d)
         else
     (case hash_password_set_token cfg token of Inl e \<Rightarrow> (Inl e, close_session s)
      | Inr h \<Rightarrow>
     (case token_get_by_hash s h of Inl e \<Rightarrow> (Inl e, close_session s)
      | Inr None \<Rightarrow> (Inl bad_set_token, close_session s)
      | Inr (Some t) \<Rightarrow>
          (if tk_used_at t \<noteq> None \<or> tk_expires_at t < now then (Inl bad_set_token, close_session s)
           else
     (case user_get_by_id s (tk_user_id t) of Inl e \<Rightarrow> (Inl e, close_session s)
      | Inr None \<Rightarrow> (Inl bad_set_token, close_session s)
      | Inr (Some u) \<Rightarrow>
          (if \<not> us_is_active u then (Inl bad_set_token, close_session s)
           else
     (case user_set_password (tk_user_id t) (ph_hash ph new_password salt) False now False s of
        (Inl e, s1) \<Rightarrow> (Inl e, close_session s1)
      | (Inr _, s1) \<Rightarrow>
     (case token_consume (tk_id t) now False s1 of
        (Inl e, s2) \<Rightarrow> (Inl e, close_session s2)
      | (Inr _, s2) \<Rightarrow>
          (Inr (), close_session (commit
             (audit_log audit_id now system_actor_id (U ''user.password.set'') (Some (tk_user_id t))
                (Some (JObj [(U ''by_token'', JBool True)])) False s2)))))))))))"

section \<open>\<open>api/routers/users.py\<close>\<close>

record user_response =
  ure_id :: uuid
  ure_username :: ustring
  ure_is_superuser :: bool
  ure_is_active :: bool
  ure_must_change_password :: bool

record invite_response =
  inv_url :: "ustring option"
  inv_token :: ustring
  inv_expires_at :: instant

definition user_to_response :: "user \<Rightarrow> user_response" where
  "user_to_response u =
     \<lparr>ure_id = us_id u, ure_username = us_username u, ure_is_superuser = us_is_superuser u,
      ure_is_active = us_is_active u, ure_must_change_password = us_must_change_password u\<rparr>"

definition list_users :: "db \<Rightarrow> user_response list" where
  "list_users d = map user_to_response (user_list_all (open_session d))"

text \<open>
  What the administrator's endpoints draw: the plain token, the password and the salt of the
  placeholder hash, and the ids of the new rows.
\<close>

record admin_draws =
  dr_token :: ustring
  dr_placeholder :: ustring
  dr_salt :: bytes
  dr_user_id :: uuid
  dr_token_id :: uuid
  dr_audit_id :: uuid

definition create_user ::
    "auth_config \<Rightarrow> password_hasher \<Rightarrow> admin_draws \<Rightarrow> instant \<Rightarrow> uuid \<Rightarrow> ustring \<Rightarrow> bool \<Rightarrow> db
       \<Rightarrow> (user_response \<times> invite_response) res \<times> db" where
  "create_user cfg ph dr now admin_id username is_superuser d =
     (let s = open_session d;
          expires_at = get_password_set_expiry cfg now
      in case user_create (dr_user_id dr) now username (ph_hash ph (dr_placeholder dr) (dr_salt dr))
                is_superuser True None False s of
           (Inl e, s1) \<Rightarrow> (Inl e, close_session s1)
         | (Inr u, s1) \<Rightarrow>
             (case hash_password_set_token cfg (dr_token dr) of
                Inl e \<Rightarrow> (Inl e, close_session s1)
              | Inr h \<Rightarrow>
                  (case token_create (dr_token_id dr) now (us_id u) h expires_at (Some admin_id) None
                          False s1 of
                     (Inl e, s2) \<Rightarrow> (Inl e, close_session s2)
                   | (Inr _, s2) \<Rightarrow>
                       (Inr (user_to_response u,
                             \<lparr>inv_url = build_invite_url cfg (dr_token dr), inv_token = dr_token dr,
                              inv_expires_at = expires_at\<rparr>),
                        close_session (commit
                          (audit_log (dr_audit_id dr) now admin_id (U ''user.create'')
                             (Some (us_id u)) None False s2))))))"

definition invite_user ::
    "auth_config \<Rightarrow> password_hasher \<Rightarrow> admin_draws \<Rightarrow> instant \<Rightarrow> uuid \<Rightarrow> uuid \<Rightarrow> db
       \<Rightarrow> invite_response res \<times> db" where
  "invite_user cfg ph dr now admin_id user_id d =
     (let s = open_session d;
          expires_at = get_password_set_expiry cfg now
      in case user_get_by_id s user_id of
           Inl e \<Rightarrow> (Inl e, close_session s)
         | Inr None \<Rightarrow> (Inl (HTTPException 404 (U ''User not found'')), close_session s)
         | Inr (Some u) \<Rightarrow>
             (case mark_password_reset_required user_id (ph_hash ph (dr_placeholder dr) (dr_salt dr))
                     False s of
                (Inl e, s1) \<Rightarrow> (Inl e, close_session s1)
              | (Inr _, s1) \<Rightarrow>
                  (case token_invalidate_previous user_id now False s1 of
                     (n, s2) \<Rightarrow>
                       (case hash_password_set_token cfg (dr_token dr) of
                          Inl e \<Rightarrow> (Inl e, close_session s2)
                        | Inr h \<Rightarrow>
                            (case token_create (dr_token_id dr) now user_id h expires_at
                                    (Some admin_id) None False s2 of
                               (Inl e, s3) \<Rightarrow> (Inl e, close_session s3)
                             | (Inr _, s3) \<Rightarrow>
                                 (Inr \<lparr>inv_url = build_invite_url cfg (dr_token dr),
                                       inv_token = dr_token dr, inv_expires_at = expires_at\<rparr>,
                                  close_session (commit
                                    (audit_log (dr_audit_id dr) now admin_id (U ''user.invite'')
                                       (Some user_id) None False s3))))))))"

text \<open>The five endpoints that change a flag or delete: the change commits, then the audit row does.\<close>

definition admin_change ::
    "(uuid \<Rightarrow> session \<Rightarrow> unit res \<times> session) \<Rightarrow> ustring \<Rightarrow> uuid \<Rightarrow> instant \<Rightarrow> uuid \<Rightarrow> uuid \<Rightarrow> db
       \<Rightarrow> unit res \<times> db" where
  "admin_change op action audit_id now admin_id user_id d =
     (case op user_id (open_session d) of
        (Inl e, s1) \<Rightarrow> (Inl e, close_session s1)
      | (Inr _, s1) \<Rightarrow>
          (Inr (), close_session (audit_log audit_id now admin_id action (Some user_id) None True s1)))"

definition disable_user :: "uuid \<Rightarrow> instant \<Rightarrow> uuid \<Rightarrow> uuid \<Rightarrow> db \<Rightarrow> unit res \<times> db" where
  "disable_user audit_id now admin_id user_id d =
     admin_change user_disable (U ''user.disable'') audit_id now admin_id user_id d"

definition enable_user :: "uuid \<Rightarrow> instant \<Rightarrow> uuid \<Rightarrow> uuid \<Rightarrow> db \<Rightarrow> unit res \<times> db" where
  "enable_user audit_id now admin_id user_id d =
     admin_change user_enable (U ''user.enable'') audit_id now admin_id user_id d"

definition promote_user :: "uuid \<Rightarrow> instant \<Rightarrow> uuid \<Rightarrow> uuid \<Rightarrow> db \<Rightarrow> unit res \<times> db" where
  "promote_user audit_id now admin_id user_id d =
     admin_change promote_to_superuser (U ''user.promote'') audit_id now admin_id user_id d"

definition demote_user :: "uuid \<Rightarrow> instant \<Rightarrow> uuid \<Rightarrow> uuid \<Rightarrow> db \<Rightarrow> unit res \<times> db" where
  "demote_user audit_id now admin_id user_id d =
     admin_change demote_from_superuser (U ''user.demote'') audit_id now admin_id user_id d"

definition delete_user :: "uuid \<Rightarrow> instant \<Rightarrow> uuid \<Rightarrow> uuid \<Rightarrow> db \<Rightarrow> unit res \<times> db" where
  "delete_user audit_id now admin_id user_id d =
     admin_change user_delete (U ''user.delete'') audit_id now admin_id user_id d"

text \<open>
  The audit log's query. The text search on the metadata is the database's \<open>ILIKE\<close>, a parameter.
\<close>

record audit_query =
  aq_actor_id :: "uuid option"
  aq_target_id :: "uuid option"
  aq_action :: "ustring option"
  aq_created_from :: "instant option"
  aq_created_to :: "instant option"
  aq_meta_contains :: "ustring option"
  aq_limit :: int
  aq_offset :: int

definition audit_matches :: "(json option \<Rightarrow> ustring \<Rightarrow> bool) \<Rightarrow> audit_query \<Rightarrow> audit_row \<Rightarrow> bool" where
  "audit_matches ilike q r \<longleftrightarrow>
     (case aq_actor_id q of None \<Rightarrow> True | Some a \<Rightarrow> au_actor_id r = a) \<and>
     (case aq_target_id q of None \<Rightarrow> True | Some t \<Rightarrow> au_target_id r = Some t) \<and>
     (case aq_action q of None \<Rightarrow> True | Some a \<Rightarrow> au_action r = a) \<and>
     (case aq_created_from q of None \<Rightarrow> True | Some t \<Rightarrow> t \<le> au_created_at r) \<and>
     (case aq_created_to q of None \<Rightarrow> True | Some t \<Rightarrow> au_created_at r \<le> t) \<and>
     (case aq_meta_contains q of Some (c # cs) \<Rightarrow> ilike (au_meta r) (c # cs) | _ \<Rightarrow> True)"

definition list_audit_log ::
    "(json option \<Rightarrow> ustring \<Rightarrow> bool) \<Rightarrow> audit_query \<Rightarrow> db \<Rightarrow> audit_row list res" where
  "list_audit_log ilike q d =
     (if aq_limit q < 1 \<or> 200 < aq_limit q \<or> aq_offset q < 0
      then Inl (HTTPException 422 (U ''Unprocessable''))
      else Inr (take (nat (aq_limit q)) (drop (nat (aq_offset q))
             (sort_key (\<lambda>r. - au_created_at r) (filter (audit_matches ilike q) (db_audit d))))))"

section \<open>\<open>api/routers/me.py\<close> and the bootstrap\<close>

definition get_me :: "uuid \<Rightarrow> db \<Rightarrow> user_response res" where
  "get_me user_id d =
     (case user_get_by_id (open_session d) user_id of
        Inl e \<Rightarrow> Inl e
      | Inr None \<Rightarrow> Inl unauthorized
      | Inr (Some u) \<Rightarrow> Inr (user_to_response u))"

definition is_bootstrapped :: "session \<Rightarrow> bool" where
  "is_bootstrapped s \<longleftrightarrow> 0 < count_users s"

definition bootstrap_superuser ::
    "uuid \<Rightarrow> instant \<Rightarrow> ustring \<Rightarrow> ustring \<Rightarrow> session \<Rightarrow> unit res \<times> session" where
  "bootstrap_superuser new_id now username password_hash s =
     (if is_bootstrapped s then (Inl (BootstrapAlreadyDone (U ''System already bootstrapped'')), s)
      else case user_create new_id now username password_hash True False None True s of
             (Inl e, s') \<Rightarrow> (Inl e, s')
           | (Inr _, s') \<Rightarrow> (Inr (), s'))"

definition bootstrap_system ::
    "password_hasher \<Rightarrow> bytes \<Rightarrow> uuid \<Rightarrow> instant \<Rightarrow> ustring \<Rightarrow> ustring \<Rightarrow> db \<Rightarrow> unit res \<times> db" where
  "bootstrap_system ph salt new_id now username password d =
     (case bootstrap_superuser new_id now username (ph_hash ph password salt) (open_session d) of
        (Inl (BootstrapAlreadyDone m), s) \<Rightarrow>
          (Inl (HTTPException 409 (U ''System already bootstrapped'')), close_session s)
      | (r, s) \<Rightarrow> (r, close_session s))"

end
