(* ===== verification/AuthProps.thy ===== *)
theory AuthProps imports Auth begin

text \<open>
  What the endpoints of \<open>Auth\<close> do to the database, each as one equation, and what follows: an
  error changes nothing, every change leaves its audit row, and in every database that the
  endpoints can produce a user has at most one open password token.
\<close>

section \<open>The effect of each endpoint\<close>

lemma audit_log_fields [simp]:
  "cur (audit_log a n i act t md com s) =
     (cur s)\<lparr>db_audit := db_audit (cur s) @
       [\<lparr>au_id = a, au_actor_id = i, au_action = act, au_target_id = t, au_meta = md,
         au_created_at = n\<rparr>]\<rparr>"
  "committed (audit_log a n i act t md com s) = (if com then cur (audit_log a n i act t md com s) else committed s)"
  by (simp_all add: audit_log_def Let_def)

definition audit_entry ::
    "uuid \<Rightarrow> instant \<Rightarrow> uuid \<Rightarrow> ustring \<Rightarrow> uuid \<Rightarrow> json option \<Rightarrow> audit_row" where
  "audit_entry a now actor action target md =
     \<lparr>au_id = a, au_actor_id = actor, au_action = action, au_target_id = Some target,
      au_meta = md, au_created_at = now\<rparr>"

definition update_users :: "uuid \<Rightarrow> (user \<Rightarrow> user) \<Rightarrow> db \<Rightarrow> db" where
  "update_users i f d = d\<lparr>db_users := map (\<lambda>u. if us_id u = i then f u else u) (db_users d)\<rparr>"

definition add_audit :: "audit_row \<Rightarrow> db \<Rightarrow> db" where
  "add_audit a d = d\<lparr>db_audit := db_audit d @ [a]\<rparr>"

definition delete_user_rows :: "uuid \<Rightarrow> db \<Rightarrow> db" where
  "delete_user_rows i d = d\<lparr>
     db_users := filter (\<lambda>u. us_id u \<noteq> i) (db_users d),
     db_secrets := filter (\<lambda>x. se_user_id x \<noteq> i) (db_secrets d),
     db_vaults := filter (\<lambda>v. va_user_id v \<noteq> i) (db_vaults d),
     db_tokens := filter (\<lambda>t. tk_user_id t \<noteq> i) (db_tokens d)\<rparr>"

lemma update_users_fields [simp]:
  "db_tokens (update_users i f d) = db_tokens d" "db_audit (update_users i f d) = db_audit d"
  "db_secrets (update_users i f d) = db_secrets d" "db_vaults (update_users i f d) = db_vaults d"
  "db_users (update_users i f d) = map (\<lambda>u. if us_id u = i then f u else u) (db_users d)"
  by (simp_all add: update_users_def)

lemma add_audit_fields [simp]:
  "db_tokens (add_audit a d) = db_tokens d" "db_audit (add_audit a d) = db_audit d @ [a]"
  "db_secrets (add_audit a d) = db_secrets d" "db_vaults (add_audit a d) = db_vaults d"
  "db_users (add_audit a d) = db_users d"
  by (simp_all add: add_audit_def)

lemma user_update_eq:
  "user_update i f com s = (r, s') \<Longrightarrow>
     (case r of Inl e \<Rightarrow> s' = s | Inr _ \<Rightarrow> cur s' = update_users i f (cur s) \<and>
        committed s' = (if com then cur s' else committed s))"
  by (auto simp: user_update_def update_users_def split: sum.splits)

lemma admin_change_eq:
  assumes "\<And>s. op i s = user_update i f True s"
  shows "admin_change op action a now admin i d = (r, d') \<Longrightarrow>
     (case r of Inl e \<Rightarrow> d' = d
      | Inr _ \<Rightarrow> d' = add_audit (audit_entry a now admin action i None) (update_users i f d))"
  using user_update_eq [of i f True "open_session d"]
  by (auto simp: admin_change_def assms add_audit_def audit_entry_def split: prod.splits sum.splits)

lemma disable_user_eq:
  "disable_user a now admin i d = (r, d') \<Longrightarrow>
     (case r of Inl e \<Rightarrow> d' = d
      | Inr _ \<Rightarrow> d' = add_audit (audit_entry a now admin (U ''user.disable'') i None) (update_users i (us_is_active_update (\<lambda>_. False)) d))"
  unfolding disable_user_def by (rule admin_change_eq) (rule user_disable_def)

lemma enable_user_eq:
  "enable_user a now admin i d = (r, d') \<Longrightarrow>
     (case r of Inl e \<Rightarrow> d' = d
      | Inr _ \<Rightarrow> d' = add_audit (audit_entry a now admin (U ''user.enable'') i None) (update_users i (us_is_active_update (\<lambda>_. True)) d))"
  unfolding enable_user_def by (rule admin_change_eq) (rule user_enable_def)

lemma promote_user_eq:
  "promote_user a now admin i d = (r, d') \<Longrightarrow>
     (case r of Inl e \<Rightarrow> d' = d
      | Inr _ \<Rightarrow> d' = add_audit (audit_entry a now admin (U ''user.promote'') i None) (update_users i (us_is_superuser_update (\<lambda>_. True)) d))"
  unfolding promote_user_def by (rule admin_change_eq) (rule promote_to_superuser_def)

lemma demote_user_eq:
  "demote_user a now admin i d = (r, d') \<Longrightarrow>
     (case r of Inl e \<Rightarrow> d' = d
      | Inr _ \<Rightarrow> d' = add_audit (audit_entry a now admin (U ''user.demote'') i None) (update_users i (us_is_superuser_update (\<lambda>_. False)) d))"
  unfolding demote_user_def by (rule admin_change_eq) (rule demote_from_superuser_def)

lemma delete_user_eq:
  "delete_user a now admin i d = (r, d') \<Longrightarrow>
     (case r of Inl e \<Rightarrow> d' = d
      | Inr _ \<Rightarrow> d' = add_audit (audit_entry a now admin (U ''user.delete'') i None) (delete_user_rows i d))"
  by (auto simp: delete_user_def admin_change_def user_delete_def delete_user_rows_def add_audit_def
      audit_entry_def split: prod.splits sum.splits)

definition new_token :: "admin_draws \<Rightarrow> instant \<Rightarrow> uuid \<Rightarrow> ustring \<Rightarrow> instant \<Rightarrow> uuid \<Rightarrow> token_row" where
  "new_token dr now u h ex admin =
     \<lparr>tk_id = dr_token_id dr, tk_user_id = u, tk_hash = h, tk_expires_at = ex, tk_used_at = None,
      tk_created_at = now, tk_created_by = Some admin, tk_meta = None\<rparr>"

definition new_user :: "password_hasher \<Rightarrow> admin_draws \<Rightarrow> ustring \<Rightarrow> bool \<Rightarrow> user" where
  "new_user ph dr name su =
     \<lparr>us_id = dr_user_id dr, us_username = name,
      us_password_hash = ph_hash ph (dr_placeholder dr) (dr_salt dr), us_is_superuser = su,
      us_is_active = True, us_must_change_password = True, us_password_changed_at = None\<rparr>"

lemma create_user_eq:
  assumes "create_user cfg ph dr now admin name su d = (r, d')"
  shows "case r of Inl e \<Rightarrow> d' = d
    | Inr (ur, iv) \<Rightarrow> \<exists>h. hash_password_set_token cfg (dr_token dr) = Inr h \<and>
        dr_user_id dr \<notin> us_id ` set (db_users d) \<and> name \<notin> us_username ` set (db_users d) \<and>
        h \<notin> tk_hash ` set (db_tokens d) \<and> dr_token_id dr \<notin> tk_id ` set (db_tokens d) \<and>
        inv_token iv = dr_token dr \<and>
        d' = add_audit (audit_entry (dr_audit_id dr) now admin (U ''user.create'') (dr_user_id dr) None)
          (d\<lparr>db_users := db_users d @ [new_user ph dr name su],
             db_tokens := db_tokens d @
               [new_token dr now (dr_user_id dr) h (get_password_set_expiry cfg now) admin]\<rparr>)"
  using assms
  by (auto simp: create_user_def user_create_def token_create_def new_token_def new_user_def
      add_audit_def audit_entry_def Let_def split: sum.splits if_splits)

definition invalidate_tokens :: "uuid \<Rightarrow> instant \<Rightarrow> token_row list \<Rightarrow> token_row list" where
  "invalidate_tokens u now ts = map (\<lambda>t. if token_open u t then t\<lparr>tk_used_at := Some now\<rparr> else t) ts"

definition reset_user :: "ustring \<Rightarrow> user \<Rightarrow> user" where
  "reset_user h u = u\<lparr>us_password_hash := h, us_must_change_password := True, us_password_changed_at := None\<rparr>"

lemma one_or_none_Some: "one_or_none xs = Inr (Some x) \<Longrightarrow> xs = [x]"
  by (cases xs rule: one_or_none.cases) auto

lemma user_get_by_id_mem:
  assumes "user_get_by_id s i = Inr (Some u)"
  shows "u \<in> set (db_users (cur s)) \<and> us_id u = i"
proof -
  have "filter (\<lambda>u. us_id u = i) (db_users (cur s)) = [u]"
    using assms by (auto simp: user_get_by_id_def dest: one_or_none_Some)
  then have "u \<in> set (filter (\<lambda>u. us_id u = i) (db_users (cur s)))" by simp
  then show ?thesis by simp
qed

lemma token_get_by_hash_mem:
  assumes "token_get_by_hash s h = Inr (Some t)"
  shows "t \<in> set (db_tokens (cur s)) \<and> tk_hash t = h"
proof -
  have "filter (\<lambda>t. tk_hash t = h) (db_tokens (cur s)) = [t]"
    using assms by (auto simp: token_get_by_hash_def dest: one_or_none_Some)
  then have "t \<in> set (filter (\<lambda>t. tk_hash t = h) (db_tokens (cur s)))" by simp
  then show ?thesis by simp
qed

lemma invalidate_tokens_keys:
  "map tk_hash (invalidate_tokens i now ts) = map tk_hash ts"
  "map tk_id (invalidate_tokens i now ts) = map tk_id ts"
  "map tk_user_id (invalidate_tokens i now ts) = map tk_user_id ts"
  by (simp_all add: invalidate_tokens_def)

lemma invalidate_tokens_key_sets:
  "tk_hash ` set (invalidate_tokens i now ts) = tk_hash ` set ts"
  "tk_id ` set (invalidate_tokens i now ts) = tk_id ` set ts"
  "tk_user_id ` set (invalidate_tokens i now ts) = tk_user_id ` set ts"
  using invalidate_tokens_keys [of i now ts] by (metis list.set_map)+

lemma invite_user_eq:
  assumes "invite_user cfg ph dr now admin i d = (r, d')"
  shows "case r of Inl e \<Rightarrow> d' = d
    | Inr iv \<Rightarrow> \<exists>h. hash_password_set_token cfg (dr_token dr) = Inr h \<and>
        i \<in> us_id ` set (db_users d) \<and>
        h \<notin> tk_hash ` set (db_tokens d) \<and> dr_token_id dr \<notin> tk_id ` set (db_tokens d) \<and>
        inv_token iv = dr_token dr \<and>
        d' = add_audit (audit_entry (dr_audit_id dr) now admin (U ''user.invite'') i None)
          ((update_users i (reset_user (ph_hash ph (dr_placeholder dr) (dr_salt dr))) d)
             \<lparr>db_tokens := invalidate_tokens i now (db_tokens d) @
               [new_token dr now i h (get_password_set_expiry cfg now) admin]\<rparr>)"
proof -
  have found: "user_get_by_id (open_session d) i = Inr (Some u) \<Longrightarrow> i \<in> us_id ` set (db_users d)" for u
    using user_get_by_id_mem [of "open_session d" i u] by auto
  show ?thesis
    using assms found
    by (auto simp: invite_user_def mark_password_reset_required_def user_update_def
        token_invalidate_previous_def token_create_def new_token_def add_audit_def audit_entry_def
        Let_def update_users_def reset_user_def invalidate_tokens_key_sets
        simp flip: invalidate_tokens_def split: sum.splits option.splits if_splits)
qed

definition consume_token :: "uuid \<Rightarrow> instant \<Rightarrow> token_row list \<Rightarrow> token_row list" where
  "consume_token i now ts = map (\<lambda>t. if tk_id t = i then t\<lparr>tk_used_at := Some now\<rparr> else t) ts"

definition set_user_password :: "ustring \<Rightarrow> instant \<Rightarrow> user \<Rightarrow> user" where
  "set_user_password h now u =
     u\<lparr>us_password_hash := h, us_must_change_password := False, us_password_changed_at := Some now\<rparr>"

lemma set_password_eq:
  assumes "set_password cfg ph salt aid now tok pw d = (r, d')"
  shows "case r of Inl e \<Rightarrow> d' = d
    | Inr _ \<Rightarrow> \<exists>h t. hash_password_set_token cfg tok = Inr h \<and> t \<in> set (db_tokens d) \<and> tk_hash t = h \<and>
        tk_used_at t = None \<and> now \<le> tk_expires_at t \<and>
        (\<exists>u \<in> set (db_users d). us_id u = tk_user_id t \<and> us_is_active u) \<and>
        8 \<le> length pw \<and> length pw \<le> 255 \<and>
        d' = add_audit (audit_entry aid now system_actor_id (U ''user.password.set'') (tk_user_id t)
              (Some (JObj [(U ''by_token'', JBool True)])))
          ((update_users (tk_user_id t) (set_user_password (ph_hash ph pw salt) now) d)
             \<lparr>db_tokens := consume_token (tk_id t) now (db_tokens d)\<rparr>)"
proof (cases r)
  case (Inl e)
  with assms show ?thesis
    by (auto simp: set_password_def user_set_password_def user_update_def token_consume_def Let_def
        split: sum.splits option.splits if_splits)
next
  case (Inr x)
  with assms obtain h t u where *: "hash_password_set_token cfg tok = Inr h"
    "token_get_by_hash (open_session d) h = Inr (Some t)" "tk_used_at t = None" "now \<le> tk_expires_at t"
    "user_get_by_id (open_session d) (tk_user_id t) = Inr (Some u)" "us_is_active u"
    "8 \<le> length pw" "length pw \<le> 255"
    and d': "d' = add_audit (audit_entry aid now system_actor_id (U ''user.password.set'') (tk_user_id t)
              (Some (JObj [(U ''by_token'', JBool True)])))
          ((update_users (tk_user_id t) (set_user_password (ph_hash ph pw salt) now) d)
             \<lparr>db_tokens := consume_token (tk_id t) now (db_tokens d)\<rparr>)"
    by (auto simp: set_password_def user_set_password_def user_update_def token_consume_def Let_def
        add_audit_def audit_entry_def update_users_def set_user_password_def
        simp flip: consume_token_def split: sum.splits option.splits if_splits)
  from token_get_by_hash_mem [OF *(2)] user_get_by_id_mem [OF *(5)] * d' Inr show ?thesis
    by auto
qed

lemma bootstrap_system_eq:
  assumes "bootstrap_system ph salt i now name pw d = (r, d')"
  shows "case r of Inl e \<Rightarrow> d' = d
    | Inr _ \<Rightarrow> db_users d = [] \<and> d' = d\<lparr>db_users :=
        [\<lparr>us_id = i, us_username = name, us_password_hash = ph_hash ph pw salt,
          us_is_superuser = True, us_is_active = True, us_must_change_password = False,
          us_password_changed_at = Some now\<rparr>]\<rparr>"
  using assms
  by (auto simp: bootstrap_system_def bootstrap_superuser_def user_create_def is_bootstrapped_def
      count_users_def Let_def split: prod.splits sum.splits exn.splits if_splits)

section \<open>All reachable databases\<close>

text \<open>Every endpoint that writes users or tokens, called by anyone with any arguments.\<close>

inductive admin_step :: "auth_config \<Rightarrow> password_hasher \<Rightarrow> db \<Rightarrow> db \<Rightarrow> bool"
  for cfg :: auth_config and ph :: password_hasher where
  bootstrap: "bootstrap_system ph salt i now name pw d = (r, d') \<Longrightarrow> admin_step cfg ph d d'"
| create: "create_user cfg ph dr now admin name su d = (r, d') \<Longrightarrow> admin_step cfg ph d d'"
| invite: "invite_user cfg ph dr now admin i d = (r, d') \<Longrightarrow> admin_step cfg ph d d'"
| disable: "disable_user a now admin i d = (r, d') \<Longrightarrow> admin_step cfg ph d d'"
| enable: "enable_user a now admin i d = (r, d') \<Longrightarrow> admin_step cfg ph d d'"
| promote: "promote_user a now admin i d = (r, d') \<Longrightarrow> admin_step cfg ph d d'"
| demote: "demote_user a now admin i d = (r, d') \<Longrightarrow> admin_step cfg ph d d'"
| delete: "delete_user a now admin i d = (r, d') \<Longrightarrow> admin_step cfg ph d d'"
| set_pw: "set_password cfg ph salt a now tok pw d = (r, d') \<Longrightarrow> admin_step cfg ph d d'"

definition empty_db :: db where
  "empty_db = \<lparr>db_users = [], db_audit = [], db_secrets = [], db_vaults = [], db_tokens = []\<rparr>"

inductive admin_reachable :: "auth_config \<Rightarrow> password_hasher \<Rightarrow> db \<Rightarrow> bool"
  for cfg :: auth_config and ph :: password_hasher where
  init: "admin_reachable cfg ph empty_db"
| step: "admin_reachable cfg ph d \<Longrightarrow> admin_step cfg ph d d' \<Longrightarrow> admin_reachable cfg ph d'"

definition users_inv :: "db \<Rightarrow> bool" where
  "users_inv d \<longleftrightarrow>
     distinct (map us_id (db_users d)) \<and> distinct (map us_username (db_users d)) \<and>
     distinct (map tk_id (db_tokens d)) \<and> distinct (map tk_hash (db_tokens d)) \<and>
     tk_user_id ` set (db_tokens d) \<subseteq> us_id ` set (db_users d) \<and>
     (\<forall>u. length (filter (token_open u) (db_tokens d)) \<le> 1)"

lemma users_inv_add_audit [simp]: "users_inv (add_audit a d) = users_inv d"
  by (simp add: users_inv_def)

lemma update_users_keys:
  assumes "\<And>u. us_id (f u) = us_id u" and "\<And>u. us_username (f u) = us_username u"
  shows "map us_id (db_users (update_users i f d)) = map us_id (db_users d)"
    and "map us_username (db_users (update_users i f d)) = map us_username (db_users d)"
    and "us_id ` set (db_users (update_users i f d)) = us_id ` set (db_users d)"
proof -
  show 1: "map us_id (db_users (update_users i f d)) = map us_id (db_users d)"
    and "map us_username (db_users (update_users i f d)) = map us_username (db_users d)"
    using assms by simp_all
  from 1 show "us_id ` set (db_users (update_users i f d)) = us_id ` set (db_users d)"
    by (metis list.set_map)
qed

lemma users_inv_update:
  assumes "users_inv d" and "\<And>u. us_id (f u) = us_id u" and "\<And>u. us_username (f u) = us_username u"
  shows "users_inv (update_users i f d)"
  using assms(1) update_users_keys [of f, OF assms(2,3)]
  unfolding users_inv_def by (simp only: update_users_fields simp_thms)

lemma token_open_used [simp]: "\<not> token_open u (t\<lparr>tk_used_at := Some now\<rparr>)"
  by (simp add: token_open_def)

lemma token_open_user: "token_open u t \<Longrightarrow> tk_user_id t = u"
  by (simp add: token_open_def)

lemma open_invalidated:
  "filter (token_open u) (invalidate_tokens i now ts) = (if u = i then [] else filter (token_open u) ts)"
  by (induction ts) (auto simp: invalidate_tokens_def dest: token_open_user)

lemma open_consumed:
  "length (filter (token_open u) (consume_token i now ts)) \<le> length (filter (token_open u) ts)"
  by (induction ts) (auto simp: consume_token_def)

lemma consume_token_keys:
  "map tk_hash (consume_token i now ts) = map tk_hash ts"
  "map tk_id (consume_token i now ts) = map tk_id ts"
  "map tk_user_id (consume_token i now ts) = map tk_user_id ts"
  by (simp_all add: consume_token_def)

lemma users_inv_tokens:
  assumes "users_inv d" and "map tk_hash ts = map tk_hash (db_tokens d)"
    and "map tk_id ts = map tk_id (db_tokens d)" and "map tk_user_id ts = map tk_user_id (db_tokens d)"
    and "\<And>u. length (filter (token_open u) ts) \<le> length (filter (token_open u) (db_tokens d))"
  shows "users_inv (d\<lparr>db_tokens := ts\<rparr>)"
proof -
  from assms(4) have "tk_user_id ` set ts = tk_user_id ` set (db_tokens d)" by (metis list.set_map)
  with assms show ?thesis by (auto simp: users_inv_def) (meson le_trans)
qed

lemma users_inv_create:
  assumes "users_inv d" and "us_id u \<notin> us_id ` set (db_users d)"
    and "us_username u \<notin> us_username ` set (db_users d)" and "tk_user_id t = us_id u"
    and "tk_hash t \<notin> tk_hash ` set (db_tokens d)" and "tk_id t \<notin> tk_id ` set (db_tokens d)"
  shows "users_inv (d\<lparr>db_users := db_users d @ [u], db_tokens := db_tokens d @ [t]\<rparr>)"
proof -
  have "tk_user_id x \<noteq> us_id u" if "x \<in> set (db_tokens d)" for x
  proof -
    have "tk_user_id x \<in> us_id ` set (db_users d)" using that assms(1) by (auto simp: users_inv_def)
    with assms(2) show ?thesis by metis
  qed
  then have "filter (token_open (us_id u)) (db_tokens d) = []"
    by (auto simp: filter_empty_conv dest: token_open_user)
  with assms show ?thesis by (auto simp: users_inv_def dest: token_open_user)
qed

lemma users_inv_invite:
  assumes "users_inv d" and "i \<in> us_id ` set (db_users d)" and "tk_user_id t = i"
    and "tk_hash t \<notin> tk_hash ` set (db_tokens d)" and "tk_id t \<notin> tk_id ` set (db_tokens d)"
  shows "users_inv (d\<lparr>db_tokens := invalidate_tokens i now (db_tokens d) @ [t]\<rparr>)"
proof -
  have "length (filter (token_open u) (invalidate_tokens i now (db_tokens d) @ [t])) \<le> 1" for u
    using assms(1,3) by (cases "u = i") (auto simp: users_inv_def open_invalidated dest: token_open_user)
  with assms show ?thesis
    by (simp add: users_inv_def invalidate_tokens_keys invalidate_tokens_key_sets)
qed

lemma users_inv_delete:
  assumes "users_inv d"
  shows "users_inv (delete_user_rows i d)"
proof -
  have "length (filter (token_open u) (filter (\<lambda>t. tk_user_id t \<noteq> i) (db_tokens d))) \<le> 1" for u
  proof -
    have "length (filter (token_open u) (filter (\<lambda>t. tk_user_id t \<noteq> i) (db_tokens d)))
        \<le> length (filter (token_open u) (db_tokens d))"
      by (induction "db_tokens d") (auto intro: length_filter_le_filter)
    with assms show ?thesis unfolding users_inv_def by (meson le_trans)
  qed
  with assms show ?thesis
    by (auto simp: users_inv_def delete_user_rows_def distinct_filter_map image_subset_iff)
qed

lemma reset_user_keys [simp]:
  "us_id (reset_user h u) = us_id u" "us_username (reset_user h u) = us_username u"
  "us_id (set_user_password h n u) = us_id u" "us_username (set_user_password h n u) = us_username u"
  by (simp_all add: reset_user_def set_user_password_def)

lemma users_inv_set_password:
  assumes "users_inv d"
  shows "users_inv ((update_users j (set_user_password h now) d)\<lparr>db_tokens := consume_token i now (db_tokens d)\<rparr>)"
proof -
  have "users_inv (update_users j (set_user_password h now) d)"
    by (rule users_inv_update [OF assms]) simp_all
  then show ?thesis
    by (rule users_inv_tokens) (simp_all add: consume_token_keys open_consumed)
qed

lemma users_inv_invite_user:
  assumes "users_inv d" and "i \<in> us_id ` set (db_users d)" and "tk_user_id t = i"
    and "tk_hash t \<notin> tk_hash ` set (db_tokens d)" and "tk_id t \<notin> tk_id ` set (db_tokens d)"
  shows "users_inv ((update_users i (reset_user h) d)
    \<lparr>db_tokens := invalidate_tokens i now (db_tokens d) @ [t]\<rparr>)"
proof -
  have 1: "users_inv (update_users i (reset_user h) d)"
    by (rule users_inv_update [OF assms(1)]) simp_all
  have "i \<in> us_id ` set (db_users (update_users i (reset_user h) d))"
    using assms(2) update_users_keys(3) [of "reset_user h" i d] by simp
  from users_inv_invite [OF 1 this assms(3)] assms(4,5) show ?thesis by simp
qed

lemma users_inv_step:
  assumes "users_inv d" and "admin_step cfg ph d d'"
  shows "users_inv d'"
  using assms(2)
proof cases
  case (bootstrap salt i now name pw r)
  from bootstrap_system_eq [OF this] assms(1) show ?thesis
    by (auto simp: users_inv_def split: sum.splits)
next
  case (create dr now admin name su r)
  from create_user_eq [OF this] users_inv_create [OF assms(1)] assms(1) show ?thesis
    by (fastforce simp: new_token_def new_user_def split: sum.splits prod.splits)
next
  case (invite dr now admin i r)
  from invite_user_eq [OF this] users_inv_invite_user [OF assms(1)] assms(1) show ?thesis
    by (fastforce simp: new_token_def split: sum.splits)
next
  case (disable a now admin i r)
  from disable_user_eq [OF this] users_inv_update [OF assms(1)] assms(1) show ?thesis
    by (auto split: sum.splits)
next
  case (enable a now admin i r)
  from enable_user_eq [OF this] users_inv_update [OF assms(1)] assms(1) show ?thesis
    by (auto split: sum.splits)
next
  case (promote a now admin i r)
  from promote_user_eq [OF this] users_inv_update [OF assms(1)] assms(1) show ?thesis
    by (auto split: sum.splits)
next
  case (demote a now admin i r)
  from demote_user_eq [OF this] users_inv_update [OF assms(1)] assms(1) show ?thesis
    by (auto split: sum.splits)
next
  case (delete a now admin i r)
  from delete_user_eq [OF this] users_inv_delete [OF assms(1)] assms(1) show ?thesis
    by (auto split: sum.splits)
next
  case (set_pw salt a now tok pw r)
  from set_password_eq [OF this] users_inv_set_password [OF assms(1)] assms(1) show ?thesis
    by (auto split: sum.splits)
qed

lemma users_inv_reachable: "admin_reachable cfg ph d \<Longrightarrow> users_inv d"
proof (induction rule: admin_reachable.induct)
  case init
  then show ?case by (simp add: users_inv_def empty_db_def)
next
  case (step d d')
  then show ?case by (blast intro: users_inv_step)
qed

text \<open>The audit log only grows, by at most one row a step.\<close>

lemma audit_grows:
  assumes "admin_step cfg ph d d'"
  shows "db_audit d' = db_audit d \<or> (\<exists>a. db_audit d' = db_audit d @ [a])"
  using assms
proof cases
  case (bootstrap salt i now name pw r)
  from bootstrap_system_eq [OF this] show ?thesis by (auto split: sum.splits)
next
  case (create dr now admin name su r)
  from create_user_eq [OF this] show ?thesis by (auto split: sum.splits prod.splits)
next
  case (invite dr now admin i r)
  from invite_user_eq [OF this] show ?thesis by (auto split: sum.splits)
next
  case (disable a now admin i r)
  from disable_user_eq [OF this] show ?thesis by (auto split: sum.splits)
next
  case (enable a now admin i r)
  from enable_user_eq [OF this] show ?thesis by (auto split: sum.splits)
next
  case (promote a now admin i r)
  from promote_user_eq [OF this] show ?thesis by (auto split: sum.splits)
next
  case (demote a now admin i r)
  from demote_user_eq [OF this] show ?thesis by (auto split: sum.splits)
next
  case (delete a now admin i r)
  from delete_user_eq [OF this] show ?thesis by (auto simp: delete_user_rows_def split: sum.splits)
next
  case (set_pw salt a now tok pw r)
  from set_password_eq [OF this] show ?thesis by (auto split: sum.splits)
qed

section \<open>Tokens of the session\<close>

text \<open>Under the documented behaviour of PyJWT, an access token identifies its user until it expires.\<close>

lemma access_token_valid:
  assumes "jwt_ok jw" and "now div us_per_second < (t0 + ac_access_minutes cfg * 60 * us_per_second) div us_per_second"
    and "subject \<noteq> []"
  shows "decode_access_token cfg jw now (create_access_token cfg jw t0 subject) = Inr subject"
  using assms by (simp add: jwt_ok_def decode_access_token_def create_access_token_def)

text \<open>A refresh token is never good for access, and an access token never for a refresh.\<close>

lemma refresh_token_no_access:
  assumes "jwt_ok jw"
  shows "decode_access_token cfg jw now (create_refresh_token cfg jw t0 subject) = Inl unauthorized"
  using assms by (simp add: jwt_ok_def decode_access_token_def create_refresh_token_def)

lemma access_token_no_refresh:
  assumes "jwt_ok jw"
  shows "\<exists>e. refresh_access_token cfg jw now (Some (create_access_token cfg jw t0 subject)) = Inl e"
proof (cases "create_access_token cfg jw t0 subject")
  case Nil
  then show ?thesis by (simp add: refresh_access_token_def)
next
  case (Cons c cs)
  have "\<exists>e. decode_token cfg jw now (c # cs) = Inl e \<or>
    (\<exists>p. decode_token cfg jw now (c # cs) = Inr p \<and> dget p (U ''typ'') = Some (JStr (U ''access'')))"
    using assms unfolding Cons [symmetric]
    by (simp add: jwt_ok_def create_access_token_def decode_token_def)
  then show ?thesis
    unfolding Cons by (auto simp: refresh_access_token_def)
qed

lemma access_token_expired:
  assumes "jwt_ok jw" and "(t0 + ac_access_minutes cfg * 60 * us_per_second) div us_per_second \<le> now div us_per_second"
  shows "decode_access_token cfg jw now (create_access_token cfg jw t0 subject) = Inl unauthorized"
  using assms by (simp add: jwt_ok_def decode_access_token_def create_access_token_def)

lemma uuid_str_nonempty [simp]: "uuid_str u \<noteq> []"
  by (simp add: uuid_str_def Let_def U_def)

text \<open>What a login gives passes the guard exactly while the user is there and active.\<close>

lemma require_active_user_iff:
  assumes "users_inv d" and "uuid_ok i"
  shows "require_active_user (uuid_str i) (open_session d) =
    (case find (\<lambda>u. us_id u = i) (db_users d) of
       None \<Rightarrow> Inl unauthorized
     | Some u \<Rightarrow> if us_is_active u then Inr i else Inl forbidden)"
proof -
  have "user_get_by_id (open_session d) i = Inr (find (\<lambda>u. us_id u = i) (db_users d))"
    using assms(1) by (simp add: user_get_by_id_def users_inv_def one_or_none_key)
  with assms(2) show ?thesis
    by (simp add: require_active_user_def parse_uuid_str split: option.splits)
qed

lemma login_Inr:
  assumes "login cfg jw ph now name pw d = Inr (atok, rtok)"
  shows "\<exists>u \<in> set (db_users d). us_username u = name \<and> us_is_active u \<and>
    ph_verify ph (us_password_hash u) pw = Verified \<and>
    atok = create_access_token cfg jw now (uuid_str (us_id u)) \<and>
    rtok = create_refresh_token cfg jw now (uuid_str (us_id u))"
proof -
  from assms obtain u where u: "user_get_by_username (open_session d) name = Inr (Some u)" "us_is_active u"
    "verify_password ph pw (us_password_hash u) = Inr True"
    "atok = create_access_token cfg jw now (uuid_str (us_id u))"
    "rtok = create_refresh_token cfg jw now (uuid_str (us_id u))"
    by (auto simp: login_def split: sum.splits option.splits if_splits)
  from u(1) have "filter (\<lambda>u. us_username u = name) (db_users d) = [u]"
    by (auto simp: user_get_by_username_def dest: one_or_none_Some)
  then have "u \<in> set (filter (\<lambda>u. us_username u = name) (db_users d))" by simp
  with u show ?thesis
    by (auto simp: verify_password_def split: verify_result.splits)
qed

end
