(* ===== verification/AccessProps.thy ===== *)
theory AccessProps imports AuthProps "HOL-Library.Countable" "HOL-Library.Code_Target_Nat" begin

text \<open>
  What accounts and tokens promise: the state of the users' tables in every reachable state, an
  audit log that is only appended to, invitations that work once, and access only for active
  users with an unexpired token of the right kind.
\<close>

section \<open>Third-party parts for the witnesses\<close>

instance decimal :: countable by countable_datatype

instance json :: countable by countable_datatype

text \<open>
  The properties take the documented behaviour of the JWT library as a hypothesis; this instance,
  whose signed token is a number that stands for the claims and the key, shows it can hold.
\<close>

fun exp_seconds :: "json \<Rightarrow> int" where
  "exp_seconds (JNum (DFin s c e)) = dec_sgn s * int c"
| "exp_seconds _ = 0"

definition sample_jwt :: jwt where
  "sample_jwt =
     \<lparr>jw_encode = \<lambda>cs key. [to_nat (cs, key)],
      jw_decode = \<lambda>tok key now.
        (let (cs, key2) = from_nat (hd tok)
         in if key2 \<noteq> key then InvalidToken
            else case dget cs (U ''exp'') of
                   None \<Rightarrow> Claims cs
                 | Some e \<Rightarrow> if now div us_per_second < exp_seconds e then Claims cs
                            else ExpiredSignature)\<rparr>"

lemma exp_seconds_claim: "exp_seconds (exp_claim t) = t div us_per_second"
  by (simp add: exp_claim_def dec_of_int_def dec_sgn_def)

lemma sample_jwt_ok: "jwt_ok sample_jwt"
  by (simp add: jwt_ok_def sample_jwt_def exp_seconds_claim)

definition sample_hasher :: password_hasher where
  "sample_hasher =
     \<lparr>ph_hash = \<lambda>p salt. p, ph_verify = \<lambda>h p. if h = p then Verified else VerifyMismatch\<rparr>"

definition sample_auth :: auth_config where
  "sample_auth =
     \<lparr>ac_secret_key = U ''key'', ac_pepper = None, ac_internal_api_key = None, ac_access_minutes = 60,
      ac_refresh_days = 30, ac_set_token_hours = 24, ac_app_public_url = None\<rparr>"

section \<open>The users' tables\<close>

lemma admin_reachable_star:
  "(admin_step cfg ph)\<^sup>*\<^sup>* d d' \<Longrightarrow> admin_reachable cfg ph d \<Longrightarrow> admin_reachable cfg ph d'"
  by (induction rule: rtranclp_induct) (auto intro: admin_reachable.step)

text \<open>
  C23. Whatever sequence of administration and password requests was served, successful or not, no
  two users share an id or a name, no two invitations a hash, every invitation belongs to a user
  that exists, and each user has at most one invitation that is still open.
\<close>

theorem users_tables_consistent:
  assumes "admin_reachable cfg ph d"
  shows "distinct (map us_id (db_users d)) \<and> distinct (map us_username (db_users d)) \<and>
    distinct (map tk_hash (db_tokens d)) \<and>
    tk_user_id ` set (db_tokens d) \<subseteq> us_id ` set (db_users d) \<and>
    length (filter (\<lambda>t. tk_user_id t = u \<and> tk_used_at t = None) (db_tokens d)) \<le> 1"
proof -
  have "(\<lambda>t. tk_user_id t = u \<and> tk_used_at t = None) = token_open u"
    by (auto simp: token_open_def)
  then show ?thesis using users_inv_reachable [OF assms] by (simp only: users_inv_def)
qed



section \<open>Tokens\<close>

text \<open>
  C26. An access token lets its subject in until the second it expires, and nobody after it; a
  refresh token is no access token, and an access token buys no new one.
\<close>

theorem tokens_by_kind_and_time:
  assumes "jwt_ok jw" and "subject \<noteq> []"
  shows "decode_access_token cfg jw now (create_access_token cfg jw t0 subject) =
      (if now div us_per_second < (t0 + ac_access_minutes cfg * 60 * us_per_second) div us_per_second
       then Inr subject else Inl unauthorized) \<and>
    decode_access_token cfg jw now (create_refresh_token cfg jw t0 subject) = Inl unauthorized \<and>
    (\<exists>e. refresh_access_token cfg jw now (Some (create_access_token cfg jw t0 subject)) = Inl e)"
  using access_token_valid [OF assms(1) _ assms(2), of now t0 cfg]
    access_token_expired [OF assms(1), of t0 cfg now subject]
    refresh_token_no_access [OF assms(1)] access_token_no_refresh [OF assms(1)]
  by simp

lemma tokens_by_kind_and_time_witness:
  "decode_access_token sample_auth sample_jwt 0 (create_access_token sample_auth sample_jwt 0 (U ''u''))
     = Inr (U ''u'') \<and>
   decode_access_token sample_auth sample_jwt (3600 * us_per_second)
     (create_access_token sample_auth sample_jwt 0 (U ''u'')) = Inl unauthorized"
proof -
  have u: "U ''u'' \<noteq> []" by simp
  show ?thesis
    using tokens_by_kind_and_time [OF sample_jwt_ok u, of sample_auth 0 0]
      tokens_by_kind_and_time [OF sample_jwt_ok u, of sample_auth "3600 * us_per_second" 0]
    by (simp add: sample_auth_def us_per_second_def)
qed

text \<open>
  C25. Who logs in is let in: from a successful login until the access token expires, the guard of
  the endpoints gives that user's id if the account is then active, answers 403 if it has been
  disabled since and 401 if it is gone.
\<close>

theorem login_then_guard:
  assumes "jwt_ok jw" and "login cfg jw ph t0 name pw d0 = Inr (atok, rtok)"
    and "users_inv d" and "\<forall>u \<in> set (db_users d0). uuid_ok (us_id u)"
    and "now div us_per_second < (t0 + ac_access_minutes cfg * 60 * us_per_second) div us_per_second"
  shows "\<exists>u \<in> set (db_users d0). us_username u = name \<and> us_is_active u \<and>
    ph_verify ph (us_password_hash u) pw = Verified \<and>
    (\<exists>subject. decode_access_token cfg jw now atok = Inr subject \<and>
      require_active_user subject (open_session d) =
        (case find (\<lambda>v. us_id v = us_id u) (db_users d) of
           None \<Rightarrow> Inl unauthorized
         | Some v \<Rightarrow> if us_is_active v then Inr (us_id u) else Inl forbidden))"
proof -
  from login_Inr [OF assms(2)] obtain u where u: "u \<in> set (db_users d0)" "us_username u = name"
    "us_is_active u" "ph_verify ph (us_password_hash u) pw = Verified"
    and a: "atok = create_access_token cfg jw t0 (uuid_str (us_id u))" by blast
  have "decode_access_token cfg jw now atok = Inr (uuid_str (us_id u))"
    unfolding a by (rule access_token_valid [OF assms(1,5)]) simp
  moreover from assms(4) u(1) have "uuid_ok (us_id u)" by blast
  ultimately show ?thesis using u require_active_user_iff [OF assms(3)] by metis
qed

text \<open>
  Deleting a user takes everything that hangs on the account with it: no user, secret, vault
  or invitation of that id is left, and the log gains the entry that says who did it.
\<close>

lemma delete_user_complete:
  assumes "delete_user aid now admin i d = (Inr x, d')"
  shows "i \<notin> us_id ` set (db_users d') \<and> i \<notin> se_user_id ` set (db_secrets d') \<and>
    i \<notin> va_user_id ` set (db_vaults d') \<and> i \<notin> tk_user_id ` set (db_tokens d') \<and>
    db_audit d' = db_audit d @ [audit_entry aid now admin (U ''user.delete'') i None]"
proof -
  from delete_user_eq [OF assms]
  have "d' = add_audit (audit_entry aid now admin (U ''user.delete'') i None) (delete_user_rows i d)"
    by simp
  then show ?thesis by (auto simp: delete_user_rows_def)
qed

section \<open>A short history\<close>

text \<open>The bootstrap's user, and an invitation that is open until the instant 10.\<close>

definition first_user :: user where
  "first_user =
     \<lparr>us_id = 1, us_username = U ''admin'', us_password_hash = U ''password'', us_is_superuser = True,
      us_is_active = True, us_must_change_password = False, us_password_changed_at = Some 0\<rparr>"

definition history1 :: db where "history1 = empty_db\<lparr>db_users := [first_user]\<rparr>"

lemma bootstrap_history1:
  "bootstrap_system sample_hasher [] 1 0 (U ''admin'') (U ''password'') empty_db = (Inr (), history1)"
  by (simp add: bootstrap_system_def bootstrap_superuser_def is_bootstrapped_def count_users_def
      user_create_def Let_def empty_db_def history1_def first_user_def sample_hasher_def)

lemma history1_reachable: "admin_reachable sample_auth sample_hasher history1"
  by (rule admin_reachable.step [OF admin_reachable.init admin_step.bootstrap])
     (rule bootstrap_history1)

lemma users_tables_consistent_witness:
  "length (db_users history1) = 1 \<and> distinct (map us_username (db_users history1))"
  using users_tables_consistent [OF history1_reachable, of 1] by (simp add: history1_def)

definition history2 :: db where
  "history2 = history1\<lparr>db_audit := [audit_entry 8 0 1 (U ''user.demote'') 1 None]\<rparr>"

lemma delete_first:
  "delete_user 9 0 1 1 history2 = (Inr (),
     empty_db\<lparr>db_audit := [audit_entry 8 0 1 (U ''user.demote'') 1 None,
                          audit_entry 9 0 1 (U ''user.delete'') 1 None]\<rparr>)"
  by (simp add: delete_user_def admin_change_def user_delete_def history2_def history1_def first_user_def
      empty_db_def audit_entry_def)


lemma delete_user_complete_witness:
  "1 \<notin> us_id ` set (db_users (snd (delete_user 9 0 1 1 history2))) \<and> 1 \<in> us_id ` set (db_users history2)"
  using delete_user_complete [OF delete_first] delete_first
  by (simp add: history2_def history1_def first_user_def)



lemma login_then_guard_witness:
  "\<exists>atok rtok subject. login sample_auth sample_jwt sample_hasher 0 (U ''admin'') (U ''password'') history1
       = Inr (atok, rtok) \<and>
     decode_access_token sample_auth sample_jwt 1 atok = Inr subject \<and>
     require_active_user subject (open_session history1) = Inr 1"
proof -
  obtain a r where l: "login sample_auth sample_jwt sample_hasher 0 (U ''admin'') (U ''password'') history1 = Inr (a, r)"
    by (simp add: login_def user_get_by_username_def history1_def first_user_def verify_password_def
        sample_hasher_def empty_db_def)
  have "users_inv history1" by (rule users_inv_reachable [OF history1_reachable])
  moreover have "\<forall>u \<in> set (db_users history1). uuid_ok (us_id u)"
    by (simp add: history1_def first_user_def uuid_ok_def)
  moreover have "1 div us_per_second < (0 + ac_access_minutes sample_auth * 60 * us_per_second) div us_per_second"
    by (simp add: sample_auth_def us_per_second_def)
  ultimately show ?thesis
    using login_then_guard [OF sample_jwt_ok l, of history1 1] l
    by (auto simp: history1_def first_user_def)
qed

section \<open>Errors nothing catches\<close>

text \<open>A key with a character outside ASCII is not refused with 401: the comparison itself fails.\<close>

lemma non_ascii_internal_key:
  assumes "ac_internal_api_key cfg = Some (k # ks)" and "c \<in> set key" and "128 \<le> c"
  shows "\<exists>m. require_internal_api_key cfg (Some key) = Inl (TypeError m)"
proof -
  have "\<not> list_all (\<lambda>c. c < 128) key" using assms by (auto simp: list_all_iff not_less intro: bexI)
  then show ?thesis using assms(1) by (simp add: require_internal_api_key_def compare_digest_def)
qed

text \<open>A user name that is taken is only noticed by the database.\<close>

lemma duplicate_user_name:
  "username \<in> us_username ` set (db_users d) \<Longrightarrow>
     create_user cfg ph dr now admin_id username su d = (Inl IntegrityError, d)"
  by (auto simp: create_user_def user_create_def open_session_def close_session_def rollback_def Let_def)

end
