(* ===== verification/OrdersProps.thy ===== *)
theory OrdersProps imports AllegroOrders CsvReader ApiMappers "HOL-Library.Multiset" "HOL-Library.Code_Target_Nat" begin

text \<open>
  What the order mapping and the conversions promise: no order is lost or counted twice when
  orders are grouped into payments, titles stay within their bounds, and texts that
  the service writes are read back as they were.
\<close>

section \<open>Grouping\<close>

lemma mset_filter_groups:
  "distinct I \<Longrightarrow> mset (concat (map (\<lambda>i. filter (\<lambda>x. k x = i) xs) I)) = filter_mset (\<lambda>x. k x \<in> set I) (mset xs)"
proof (induction I)
  case (Cons i I)
  have "filter_mset (\<lambda>x. k x \<in> set (i # I)) M =
    filter_mset (\<lambda>x. k x = i) M + filter_mset (\<lambda>x. k x \<in> set I) M" for M
    using Cons.prems by (induction M) auto
  with Cons show ?case by simp
qed simp

text \<open>
  C28. Grouping orders into payments neither loses an order nor counts one twice: the orders of the
  payments together are the orders that were given, every payment holds those of one payment id in
  their order, and no two payments share an id.
\<close>

theorem payments_partition_orders:
  "mset (concat (map pa_orders (payments_from_orders orders))) = mset orders \<and>
   distinct (map pa_id (payments_from_orders orders)) \<and>
   [] \<notin> pa_orders ` set (payments_from_orders orders)"
proof -
  let ?ps = "payments_from_orders orders"
  have "map pa_orders ?ps = map (\<lambda>i. filter (\<lambda>x. or_payment_id x = i) orders) (map pa_id ?ps)"
    by (simp add: payments_from_orders_mem(1))
  moreover have "filter_mset (\<lambda>x. or_payment_id x \<in> set (map pa_id ?ps)) (mset orders) = mset orders"
    using payments_from_orders_ids(2) [of _ orders] by (intro filter_mset_eq_conv [THEN iffD2]) force
  ultimately have "mset (concat (map pa_orders ?ps)) = mset orders"
    by (metis mset_filter_groups payments_from_orders_ids(1))
  moreover have "[] \<notin> pa_orders ` set ?ps" using payments_from_orders_mem(2) [of _ orders] by force
  ultimately show ?thesis using payments_from_orders_ids(1) by blast
qed

text \<open>
  An offer's shortened title always fits the 32 characters it is cut to, whatever the title;
  it never consists of more than three words joined by single blanks.
\<close>

lemma simplified_title_bounds:
  "length (get_simplified_title p) \<le> 32 \<and>
   (\<exists>ws. length ws \<le> 3 \<and> get_simplified_title p = join (U '' '') ws)"
proof -
  let ?w = "title_loop (split_ws (filter (\<lambda>c. is_word_char c \<or> is_space c \<or> c = 45) (of_title p))) [] 0"
  have "length ?w \<le> 3" using title_loop_bounds [of 0 "[]"] by simp
  moreover have "get_simplified_title p = join (U '' '') ?w"
    by (simp add: get_simplified_title_def Let_def U_def)
  ultimately show ?thesis using simplified_title_length by blast
qed

text \<open>
  A payment counts as balanced exactly when what was charged differs from the items and
  deliveries together by at most one hundredth.
\<close>

lemma payment_balance_test:
  assumes "dec_short (payment_balance_difference p)" and "p \<in> set (payments_from_orders orders)"
  shows "payment_is_balanced p \<longleftrightarrow> \<bar>dec_val (payment_balance_difference p)\<bar> \<le> 1 / 100"
  using assms by (simp add: payment_balanced_iff payments_from_orders_mem(3))

definition sample_order :: order where
  "sample_order =
     \<lparr>or_id = U ''o'', or_group_id = U ''g'', or_purchase_id = None, or_seller = U ''s'',
      or_offers = [\<lparr>of_id = U ''1'', of_title = U ''Book'', of_unit_price = DFin False 1000 (-2),
        of_currency = U ''PLN'', of_friendly_url = [], of_quantity = 2, of_image_url = []\<rparr>],
      or_delivery = None, or_order_date_raw = \<lparr>dt_date = Date 2024 5 17, dt_us = 0, dt_offset = None\<rparr>,
      or_create_date_raw = None, or_payment_date_raw = None, or_total_cost_amount = DFin False 2001 (-2),
      or_payment_amount = DFin False 2001 (-2), or_currency_code = U ''PLN'',
      or_payment_provider = U ''P24'', or_payment_method = U ''online'', or_payment_id = U ''p''\<rparr>"

lemma payment_balance_test_witness:
  "payment_is_balanced (mk_payment (U ''p'') [sample_order]) \<and>
   \<bar>dec_val (payment_balance_difference (mk_payment (U ''p'') [sample_order]))\<bar> \<le> 1 / 100"
proof -
  have "mk_payment (U ''p'') [sample_order] \<in> set (payments_from_orders [sample_order])"
    by (simp add: payments_from_orders_def group_orders_def sample_order_def)
  moreover have "dec_short (payment_balance_difference (mk_payment (U ''p'') [sample_order]))"
    by code_simp
  moreover have "payment_is_balanced (mk_payment (U ''p'') [sample_order])" by code_simp
  ultimately show ?thesis using payment_balance_test by blast
qed

section \<open>Conversions\<close>

text \<open>
  URL-safe base64 without padding is undone by the decoder, for every text that has an encoding.
\<close>

lemma base64url_roundtrip:
  assumes "encode_base64url s = Some i"
  shows "decode_base64url i = Some s \<and> 61 \<notin> set i"
proof -
  from encode_base64url_body [OF assms] obtain b where b: "utf8_encode s = Some b" "i = b64_body b" by blast
  have "61 \<notin> set (b64_body b)"
    using b64_body_chars [of b 61] utf8_encode_bytes [OF b(1)] b64_char_pad by fastforce
  with decode_encode_base64url [OF assms] b(2) show ?thesis by blast
qed

lemma base64url_roundtrip_witness:
  "\<exists>i. encode_base64url (U ''a?~'') = Some i \<and> decode_base64url i = Some (U ''a?~'')"
proof -
  have "encode_base64url (U ''a?~'') \<noteq> None" by code_simp
  then obtain i where i: "encode_base64url (U ''a?~'') = Some i" by blast
  from base64url_roundtrip [OF i] i show ?thesis by blast
qed

text \<open>
  The reader of the bank's dates reads every day of the calendar back from its usual form, and
  never makes up a day that does not exist.
\<close>

lemma pl_date_roundtrip:
  "(valid_date d \<longrightarrow> parse_pl_date (format_dmy d) = Inr d) \<and>
   (parse_pl_date s = Inr d' \<longrightarrow> valid_date d')"
  using parse_format_dmy parse_pl_date_valid by blast

lemma pl_date_roundtrip_witness:
  "format_dmy (Date 2024 2 29) = U ''29-02-2024'' \<and>
   parse_pl_date (U ''29-02-2024'') = Inr (Date 2024 2 29)"
proof -
  have f: "format_dmy (Date 2024 2 29) = U ''29-02-2024''" and v: "valid_date (Date 2024 2 29)"
    by code_simp+
  from pl_date_roundtrip [of "Date 2024 2 29"] v show ?thesis by (simp add: f [symmetric] del: valid_date.simps)
qed

end
