(* ===== verification/Citi.thy ===== *)
theory Citi imports JobStores CsvReader ApiMappers begin

text \<open>
  \<open>services/citi_import\<close> and \<open>api/routers/citi_import.py\<close>: transactions are read from text copied
  out of the bank's pages, kept under a file id, and exported as a zip of CSV files. The zip
  container is a parameter; its entries are what the code writes into it.
\<close>

section \<open>The parser\<close>

definition months_pl :: "(ustring, int) dict" where
  "months_pl =
     [(U ''sty'', 1), (U ''lut'', 2), (U ''mar'', 3), (U ''kwi'', 4), (U ''maj'', 5), (U ''cze'', 6),
      (U ''lip'', 7), (U ''sie'', 8), (U ''wrz'', 9), (U ''pa'' @ [378], 10), (U ''paz'', 10),
      (U ''lis'', 11), (U ''gru'', 12)]"

record parsed_citi =
  pc_date :: date
  pc_payee :: ustring
  pc_amount_text :: ustring
  pc_amount_currency :: ustring
  pc_amount_value :: ustring

text \<open>\<open>int(s)\<close> refuses a text of more than 4300 digits.\<close>

definition py_int :: "ustring \<Rightarrow> int option" where
  "py_int s = (if 4300 < length (filter is_digit s) then None else int_of_str s)"

definition c_int :: "int \<Rightarrow> bool" where
  "c_int i \<longleftrightarrow> - 2147483648 \<le> i \<and> i \<le> 2147483647"

text \<open>
  Only \<open>ValueError\<close> is caught around \<open>datetime(year, month, day)\<close>: a number that fits no C integer
  raises \<open>OverflowError\<close> out of the parser.
\<close>

definition parse_polish_date :: "ustring \<Rightarrow> date option res" where
  "parse_polish_date value =
     (case split_ws (strip value) of
        [day_str, month_str, year_str] \<Rightarrow>
          (case (py_int day_str, py_int year_str) of
             (Some day, Some year) \<Rightarrow>
               (case dget months_pl (lower (take 3 month_str)) of
                  None \<Rightarrow> Inr None
                | Some month \<Rightarrow>
                    (if \<not> c_int year \<or> \<not> c_int day
                     then Inl (OverflowError (U ''Python int too large to convert to C int''))
                     else Inr (mk_date year month day)))
           | _ \<Rightarrow> Inr None)
      | _ \<Rightarrow> Inr None)"

record parsed_amount =
  pam_normalized_value :: ustring
  pam_currency :: ustring
  pam_value :: decimal

definition parse_citi_amount :: "ustring \<Rightarrow> parsed_amount option" where
  "parse_citi_amount value =
     (let compact = replace_char 44 46 (remove_char 32 value);
          letters = upper (filter is_alpha compact);
          currency = (if letters \<noteq> [] then letters else U ''PLN'');
          number = removesuffix compact currency
      in if number = [] then None
         else case float_text number of
                None \<Rightarrow> None
              | Some v \<Rightarrow> Some \<lparr>pam_normalized_value = number, pam_currency = currency, pam_value = v\<rparr>)"

record citi_parse_result =
  cpr_transactions :: "parsed_citi list"
  cpr_warnings :: "ustring list"

text \<open>
  The loop over the lines; the list is what is left from the line with the given index on, so
  \<open>index + 3 >= len(lines)\<close> is having fewer than four lines left.
\<close>

fun citi_loop ::
    "bool \<Rightarrow> nat \<Rightarrow> ustring list \<Rightarrow> parsed_citi list \<Rightarrow> ustring list \<Rightarrow> citi_parse_result res" where
  "citi_loop incl index [] txs warnings = Inr \<lparr>cpr_transactions = txs, cpr_warnings = warnings\<rparr>"
| "citi_loop incl index (l # rest) txs warnings =
     (case parse_polish_date l of
        Inl e \<Rightarrow> Inl e
      | Inr None \<Rightarrow> citi_loop incl (index + 1) rest txs warnings
      | Inr (Some d) \<Rightarrow>
          (case rest of
             payee # _ # amount_line # rest' \<Rightarrow>
               (case parse_citi_amount amount_line of
                  None \<Rightarrow>
                    citi_loop incl (index + 4) rest' txs
                      (warnings @ [U ''Skipped transaction at line '' @ str_nat (index + 1)
                                   @ U '': invalid amount '' @ [39] @ amount_line @ [39]])
                | Some a \<Rightarrow>
                    (if \<not> incl \<and> float_positive (pam_value a)
                     then citi_loop incl (index + 4) rest' txs warnings
                     else citi_loop incl (index + 4) rest'
                            (txs @ [\<lparr>pc_date = d, pc_payee = payee, pc_amount_text = amount_line,
                                     pc_amount_currency = pam_currency a,
                                     pc_amount_value = pam_normalized_value a\<rparr>]) warnings))
           | _ \<Rightarrow> Inr \<lparr>cpr_transactions = txs,
                      cpr_warnings = warnings @
                        [U ''Incomplete transaction block starting at line '' @ str_nat (index + 1)]\<rparr>))"

definition citi_lines :: "ustring \<Rightarrow> ustring list" where
  "citi_lines raw_text = map strip (filter (\<lambda>l. strip l \<noteq> []) (splitlines raw_text))"

definition citi_parse :: "bool \<Rightarrow> ustring \<Rightarrow> citi_parse_result res" where
  "citi_parse include_positive raw_text = citi_loop include_positive 0 (citi_lines raw_text) [] []"

section \<open>The mapper\<close>

definition citi_to_bank_record :: "parsed_citi \<Rightarrow> bank_record res" where
  "citi_to_bank_record t =
     (case decimal_of_str (pc_amount_value t) of
        None \<Rightarrow> Inl (OtherError (U ''InvalidOperation''))
      | Some a \<Rightarrow>
          Inr \<lparr>bi_date = pc_date t, bi_amount = a, br_details = pc_payee t, br_recipient = pc_payee t,
               br_operation_amount = a, br_sender = [], br_operation_currency = pc_amount_currency t,
               br_account_currency = pc_amount_currency t, br_sender_account = [],
               br_recipient_account = []\<rparr>)"

definition citi_to_bank_records :: "parsed_citi list \<Rightarrow> bank_record list res" where
  "citi_to_bank_records ts = mapE citi_to_bank_record ts"

section \<open>The store\<close>

record citi_file =
  cf_file_id :: ustring
  cf_records :: "bank_record list"
  cf_warnings :: "ustring list"
  cf_chunk_size :: int
  cf_include_positive :: bool
  cf_source_name :: "ustring option"
  cf_created_at :: instant

type_synonym citi_store = "(ustring, citi_file) dict"

definition citi_store_create ::
    "uuid \<Rightarrow> instant \<Rightarrow> bank_record list \<Rightarrow> ustring list \<Rightarrow> int \<Rightarrow> bool \<Rightarrow> ustring option \<Rightarrow> citi_store
       \<Rightarrow> citi_file \<times> citi_store" where
  "citi_store_create new_id now records warnings chunk_size include_positive source_name s =
     (let file_id = uuid_str new_id;
          entry = \<lparr>cf_file_id = file_id, cf_records = records, cf_warnings = warnings,
                   cf_chunk_size = chunk_size, cf_include_positive = include_positive,
                   cf_source_name = source_name, cf_created_at = now\<rparr>
      in (entry, dput file_id entry s))"

definition citi_validate_file_id :: "ustring \<Rightarrow> unit res" where
  "citi_validate_file_id file_id =
     (case parse_uuid file_id of
        None \<Rightarrow> Inl (AppError InvalidFileId file_id)
      | Some _ \<Rightarrow> Inr ())"

definition citi_store_get :: "ustring \<Rightarrow> citi_store \<Rightarrow> citi_file res" where
  "citi_store_get file_id s =
     (case citi_validate_file_id file_id of
        Inl e \<Rightarrow> Inl e
      | Inr _ \<Rightarrow>
          (case dget s file_id of
             None \<Rightarrow> Inl (AppError FileNotFound [])
           | Some entry \<Rightarrow> Inr entry))"

section \<open>The exporter\<close>

definition citi_headers :: "ustring list" where
  "citi_headers =
     [U ''Date'', U ''Amount'', U ''Payee'', U ''Description'', U ''Category'', U ''Source account'',
      U ''Destination account'', U ''Tags'', U ''Notes'']"

definition citi_row :: "bank_record \<Rightarrow> ustring list" where
  "citi_row r =
     [isoformat (bi_date r), dec_fmt2 (bi_amount r), br_recipient r, br_details r, [], U ''Bank'',
      br_recipient r, [], []]"

definition citi_render_csv :: "bank_record list \<Rightarrow> ustring" where
  "citi_render_csv records = csv_write (citi_headers # map citi_row records)"

definition citi_export_name :: "ustring \<Rightarrow> bank_record list \<Rightarrow> ustring" where
  "citi_export_name file_id records =
     (let short_file_id = take 6 file_id
      in if records = [] then U ''citi_'' @ short_file_id
         else U ''citi_'' @ short_file_id @ U ''_'' @ strftime_ymd (bi_date (hd records)) @ U ''_''
                @ strftime_ymd (bi_date (last records)))"

text \<open>\<open>[records[i : i + k] for i in range(0, len(records), k)] or [[]]\<close>\<close>

function slices :: "nat \<Rightarrow> 'a list \<Rightarrow> 'a list list" where
  "slices k xs = (if xs = [] \<or> k = 0 then [] else take k xs # slices k (drop k xs))"
  by pat_completeness auto
termination by (relation "measure (\<lambda>(k, xs). length xs)") auto

declare slices.simps [simp del]

definition citi_chunks :: "int \<Rightarrow> bank_record list \<Rightarrow> bank_record list list" where
  "citi_chunks chunk_size records =
     (let chunks = slices (nat (max 1 chunk_size)) records in if chunks = [] then [[]] else chunks)"

text \<open>The entries of the archive: names and texts; \<open>writestr\<close> encodes a text as UTF-8.\<close>

definition citi_entries :: "ustring \<Rightarrow> int \<Rightarrow> bank_record list \<Rightarrow> (ustring \<times> ustring) list" where
  "citi_entries file_id chunk_size records =
     (let name = citi_export_name file_id records; chunks = citi_chunks chunk_size records
      in map (\<lambda>(i, chunk).
                (name @ (if 1 < length chunks then U ''_'' @ str_nat i else []) @ U ''.csv'',
                 citi_render_csv chunk)) (enumerate 1 chunks))"

definition citi_export_zip ::
    "((ustring \<times> nat list) list \<Rightarrow> nat list) \<Rightarrow> ustring \<Rightarrow> int \<Rightarrow> bank_record list \<Rightarrow> nat list res" where
  "citi_export_zip zip_of file_id chunk_size records =
     (case mapE (\<lambda>(n, t). case utf8_encode t of
                   None \<Rightarrow> Inl (ValueError (U ''utf-8 codec cannot encode''))
                 | Some b \<Rightarrow> Inr (n, b)) (citi_entries file_id chunk_size records) of
        Inl e \<Rightarrow> Inl e
      | Inr entries \<Rightarrow> Inr (zip_of entries))"

section \<open>The service\<close>

record citi_preview =
  cp_file_id :: ustring
  cp_record_count :: nat
  cp_preview :: "bank_record list"
  cp_warnings :: "ustring list"

definition citi_build_preview :: "ustring \<Rightarrow> bank_record list \<Rightarrow> ustring list \<Rightarrow> citi_preview" where
  "citi_build_preview file_id records warnings =
     \<lparr>cp_file_id = file_id, cp_record_count = length records, cp_preview = records,
      cp_warnings = warnings\<rparr>"

definition citi_parse_text ::
    "uuid \<Rightarrow> instant \<Rightarrow> ustring \<Rightarrow> bool \<Rightarrow> int \<Rightarrow> ustring option \<Rightarrow> citi_store
       \<Rightarrow> citi_preview res \<times> citi_store" where
  "citi_parse_text new_id now raw_text include_positive chunk_size source_name s =
     (case citi_parse include_positive raw_text of
        Inl e \<Rightarrow> (Inl e, s)
      | Inr parsed \<Rightarrow>
          (case citi_to_bank_records (cpr_transactions parsed) of
             Inl e \<Rightarrow> (Inl e, s)
           | Inr records \<Rightarrow>
               (case citi_store_create new_id now records (cpr_warnings parsed) chunk_size
                       include_positive source_name s of
                  (entry, s') \<Rightarrow>
                    (Inr (citi_build_preview (cf_file_id entry) records (cpr_warnings parsed)), s'))))"

text \<open>Code page 1250 above 127; a zero stands for a byte that has no character.\<close>

definition cp1250_high :: "nat list" where
  "cp1250_high =
     [8364, 0, 8218, 0, 8222, 8230, 8224, 8225, 0, 8240, 352, 8249, 346, 356, 381, 377,
      0, 8216, 8217, 8220, 8221, 8226, 8211, 8212, 0, 8482, 353, 8250, 347, 357, 382, 378,
      160, 711, 728, 321, 164, 260, 166, 167, 168, 169, 350, 171, 172, 173, 174, 379,
      176, 177, 731, 322, 180, 181, 182, 183, 184, 261, 351, 187, 317, 733, 318, 380,
      340, 193, 194, 258, 196, 313, 262, 199, 268, 201, 280, 203, 282, 205, 206, 270,
      272, 323, 327, 211, 212, 336, 214, 215, 344, 366, 218, 368, 220, 221, 354, 223,
      341, 225, 226, 259, 228, 314, 263, 231, 269, 233, 281, 235, 283, 237, 238, 271,
      273, 324, 328, 243, 244, 337, 246, 247, 345, 367, 250, 369, 252, 253, 355, 729]"

definition cp1250_char :: "nat \<Rightarrow> nat option" where
  "cp1250_char b =
     (if b < 128 then Some b
      else let c = cp1250_high ! (b - 128) in if c = 0 then None else Some c)"

definition cp1250_decode :: "nat list \<Rightarrow> ustring option" where
  "cp1250_decode bs =
     (let cs = map cp1250_char bs in if None \<in> set cs then None else Some (map the cs))"

definition utf8_sig_decode :: "nat list \<Rightarrow> ustring option" where
  "utf8_sig_decode bs = utf8_decode (if take 3 bs = [239, 187, 191] then drop 3 bs else bs)"

text \<open>Latin-1 decodes every byte, so the loop always returns.\<close>

definition citi_decode_text :: "nat list \<Rightarrow> ustring" where
  "citi_decode_text bs =
     (case utf8_sig_decode bs of
        Some s \<Rightarrow> s
      | None \<Rightarrow> (case cp1250_decode bs of Some s \<Rightarrow> s | None \<Rightarrow> bs))"

definition citi_upload_text_file ::
    "uuid \<Rightarrow> instant \<Rightarrow> ustring option \<Rightarrow> nat list \<Rightarrow> bool \<Rightarrow> int \<Rightarrow> citi_store
       \<Rightarrow> citi_preview res \<times> citi_store" where
  "citi_upload_text_file new_id now filename file_bytes include_positive chunk_size s =
     (if (case filename of None \<Rightarrow> False
          | Some f \<Rightarrow> f \<noteq> [] \<and> \<not> endswith (lower f) (U ''.txt''))
      then (Inl (AppError InvalidFileFormat (U ''Only .txt files are supported'')), s)
      else citi_parse_text new_id now (citi_decode_text file_bytes) include_positive chunk_size
             filename s)"

definition citi_get_file :: "ustring \<Rightarrow> citi_store \<Rightarrow> citi_preview res" where
  "citi_get_file file_id s =
     (case citi_store_get file_id s of
        Inl e \<Rightarrow> Inl e
      | Inr entry \<Rightarrow>
          Inr (citi_build_preview (cf_file_id entry) (cf_records entry) (cf_warnings entry)))"

record citi_payload =
  cx_filename :: ustring
  cx_media_type :: ustring
  cx_content :: "nat list"

definition citi_export_csv_zip ::
    "((ustring \<times> nat list) list \<Rightarrow> nat list) \<Rightarrow> ustring \<Rightarrow> citi_store \<Rightarrow> citi_payload res" where
  "citi_export_csv_zip zip_of file_id s =
     (case citi_store_get file_id s of
        Inl e \<Rightarrow> Inl e
      | Inr entry \<Rightarrow>
          (case citi_export_zip zip_of file_id (cf_chunk_size entry) (cf_records entry) of
             Inl e \<Rightarrow> Inl e
           | Inr content \<Rightarrow>
               Inr \<lparr>cx_filename = citi_export_name file_id (cf_records entry) @ U ''.zip'',
                    cx_media_type = U ''application/zip'', cx_content = content\<rparr>))"

section \<open>The endpoints\<close>

record citi_record_api = simplified_item +
  cra_details :: ustring
  cra_recipient :: ustring
  cra_operation_amount :: pydouble
  cra_sender :: ustring
  cra_operation_currency :: ustring
  cra_account_currency :: ustring
  cra_sender_account :: ustring
  cra_recipient_account :: ustring

definition citi_record_to_api :: "bank_record \<Rightarrow> citi_record_api" where
  "citi_record_to_api r =
     \<lparr>si_date = bi_date r, si_amount = float_of_decimal (bi_amount r), cra_details = br_details r,
      cra_recipient = br_recipient r, cra_operation_amount = float_of_decimal (br_operation_amount r),
      cra_sender = br_sender r, cra_operation_currency = br_operation_currency r,
      cra_account_currency = br_account_currency r, cra_sender_account = br_sender_account r,
      cra_recipient_account = br_recipient_account r\<rparr>"

record citi_response =
  cir_file_id :: ustring
  cir_record_count :: nat
  cir_preview :: "citi_record_api list"
  cir_warnings :: "ustring list"

definition citi_preview_to_response :: "citi_preview \<Rightarrow> citi_response" where
  "citi_preview_to_response p =
     \<lparr>cir_file_id = cp_file_id p, cir_record_count = cp_record_count p,
      cir_preview = map citi_record_to_api (cp_preview p), cir_warnings = cp_warnings p\<rparr>"

text \<open>\<open>ge=1, le=1000\<close> of the chunk size, checked before the handler runs.\<close>

definition citi_chunk_size_ok :: "int \<Rightarrow> bool" where
  "citi_chunk_size_ok n \<longleftrightarrow> 1 \<le> n \<and> n \<le> 1000"

definition citi_bad_chunk_size :: exn where
  "citi_bad_chunk_size = HTTPException 422 (U ''Unprocessable'')"

fun citi_http_error :: "exn \<Rightarrow> exn" where
  "citi_http_error (AppError InvalidFileFormat m) = HTTPException 400 m"
| "citi_http_error (AppError InvalidFileId m) = HTTPException 400 m"
| "citi_http_error (AppError FileNotFound m) = HTTPException 404 (U ''File not found'')"
| "citi_http_error e = e"

definition endpoint_upload_citi_text ::
    "uuid \<Rightarrow> instant \<Rightarrow> ustring option \<Rightarrow> nat list \<Rightarrow> bool \<Rightarrow> int \<Rightarrow> citi_store
       \<Rightarrow> citi_response res \<times> citi_store" where
  "endpoint_upload_citi_text new_id now filename content include_positive chunk_size s =
     (if \<not> citi_chunk_size_ok chunk_size then (Inl citi_bad_chunk_size, s)
      else case citi_upload_text_file new_id now filename content include_positive chunk_size s of
             (r, s') \<Rightarrow>
               (catch_kinds [InvalidFileFormat] citi_http_error (map_sum id citi_preview_to_response r), s'))"

definition endpoint_parse_citi_text ::
    "uuid \<Rightarrow> instant \<Rightarrow> ustring \<Rightarrow> bool \<Rightarrow> int \<Rightarrow> citi_store \<Rightarrow> citi_response res \<times> citi_store" where
  "endpoint_parse_citi_text new_id now text include_positive chunk_size s =
     (if \<not> citi_chunk_size_ok chunk_size then (Inl citi_bad_chunk_size, s)
      else case citi_parse_text new_id now text include_positive chunk_size None s of
             (r, s') \<Rightarrow> (map_sum id citi_preview_to_response r, s'))"

definition endpoint_get_citi_file :: "ustring \<Rightarrow> citi_store \<Rightarrow> citi_response res" where
  "endpoint_get_citi_file file_id s =
     catch_kinds [InvalidFileId, FileNotFound] citi_http_error
       (map_sum id citi_preview_to_response (citi_get_file file_id s))"

definition endpoint_export_citi_csv ::
    "((ustring \<times> nat list) list \<Rightarrow> nat list) \<Rightarrow> ustring \<Rightarrow> citi_store \<Rightarrow> citi_payload res" where
  "endpoint_export_citi_csv zip_of file_id s =
     catch_kinds [InvalidFileId, FileNotFound] citi_http_error (citi_export_csv_zip zip_of file_id s)"

section \<open>Lemmas\<close>

text \<open>The store as a keyed store: an entry is put under the id it carries.\<close>

interpretation citi_files: keyed_store
  "[] :: citi_store" dget "\<lambda>k e. dput k e" "\<lambda>_. True"
  by unfold_locales (simp_all add: dict_simps)

lemma citi_store_get_create:
  assumes "uuid_ok i"
  shows "citi_store_get (uuid_str i) (snd (citi_store_create i now rs ws k incl src s)) =
    Inr (fst (citi_store_create i now rs ws k incl src s))"
  using assms
  by (simp add: citi_store_get_def citi_validate_file_id_def parse_uuid_str citi_store_create_def
      Let_def dict_simps)

lemma citi_store_get_Inr: "citi_store_get f s = Inr e \<longleftrightarrow> parse_uuid f \<noteq> None \<and> dget s f = Some e"
  by (auto simp: citi_store_get_def citi_validate_file_id_def split: option.splits)

text \<open>What the parser keeps can be mapped: the mapper never fails on it.\<close>

definition citi_tx_ok :: "bool \<Rightarrow> parsed_citi \<Rightarrow> bool" where
  "citi_tx_ok incl t \<longleftrightarrow> valid_date (pc_date t) \<and>
     (\<exists>a. float_text (pc_amount_value t) = Some a \<and> (incl \<or> \<not> float_positive a))"

lemma parse_polish_date_valid: "parse_polish_date s = Inr (Some d) \<Longrightarrow> valid_date d"
  by (auto simp: parse_polish_date_def dest: mk_date_valid
      split: list.splits option.splits if_splits)

lemma parse_citi_amount_value:
  "parse_citi_amount s = Some a \<Longrightarrow> float_text (pam_normalized_value a) = Some (pam_value a)"
  by (auto simp: parse_citi_amount_def Let_def split: option.splits if_splits)

lemma citi_loop_ok:
  "citi_loop incl i ls txs ws = Inr p \<Longrightarrow> list_all (citi_tx_ok incl) txs \<Longrightarrow>
     list_all (citi_tx_ok incl) (cpr_transactions p)"
proof (induction incl i ls txs ws rule: citi_loop.induct)
  case (2 incl i l rest txs ws)
  note IH = 2(1-4) and run = 2(5) and ok = 2(6)
  show ?case
  proof (cases "parse_polish_date l")
    case (Inr od)
    show ?thesis
    proof (cases od)
      case None
      with run Inr IH(1) ok show ?thesis by simp
    next
      case (Some d)
      have d: "valid_date d" using parse_polish_date_valid Inr Some by blast
      show ?thesis
      proof (cases "length rest < 3")
        case True
        then have "cpr_transactions p = txs"
          using run Inr Some by (auto split: list.splits)
        with ok show ?thesis by simp
      next
        case False
        then obtain payee x al rest' where rest: "rest = payee # x # al # rest'"
          by (metis length_Cons less_Suc0 less_Suc_eq list.size(3) neq_Nil_conv numeral_3_eq_3 not_less_eq zero_less_Suc)
        show ?thesis
        proof (cases "parse_citi_amount al")
          case None
          with run Inr Some IH(2) rest ok show ?thesis by simp
        next
          case (Some a)
          have a: "float_text (pam_normalized_value a) = Some (pam_value a)"
            using parse_citi_amount_value Some by blast
          show ?thesis
          proof (cases "\<not> incl \<and> float_positive (pam_value a)")
            case True
            with run Inr \<open>od = Some d\<close> Some IH(3) rest ok show ?thesis by simp
          next
            case False
            with run Inr \<open>od = Some d\<close> Some IH(4) rest ok d a show ?thesis
              by (auto simp: citi_tx_ok_def simp del: valid_date.simps)
          qed
        qed
      qed
    qed
  qed (use run in simp)
qed auto

lemma citi_to_bank_record_ok:
  assumes "citi_tx_ok incl t"
  shows "\<exists>r. citi_to_bank_record t = Inr r \<and> bi_date r = pc_date t \<and> br_details r = pc_payee t \<and>
    valid_date (bi_date r) \<and> (incl \<or> \<not> float_positive (bi_amount r))"
  using assms by (auto simp: citi_tx_ok_def citi_to_bank_record_def dest!: float_text_decimal)

text \<open>Slicing loses nothing, and every slice is short enough.\<close>

lemma concat_slices: "0 < k \<Longrightarrow> concat (slices k xs) = xs"
  by (induction k xs rule: slices.induct) (subst slices.simps, auto)

lemma slices_short: "s \<in> set (slices k xs) \<Longrightarrow> s \<noteq> [] \<and> length s \<le> k"
proof (induction k xs rule: slices.induct)
  case (1 k xs)
  then show ?case by (subst (asm) slices.simps) (auto split: if_splits)
qed

end
