(* ===== verification/CitiProps.thy ===== *)
theory CitiProps imports Citi Samples "HOL-Library.Code_Target_Nat" begin

text \<open>
  What the Citi import promises: whatever it parses it can also map, store, answer and export, and
  the exported files hold every stored record once.
\<close>



text \<open>A block of four lines as the bank's page has it; the third line is not read.\<close>

record citi_block =
  cb_date_line :: ustring
  cb_date :: date
  cb_payee :: ustring
  cb_extra :: ustring
  cb_amount_line :: ustring

definition citi_block_lines :: "citi_block \<Rightarrow> ustring list" where
  "citi_block_lines b = [cb_date_line b, cb_payee b, cb_extra b, cb_amount_line b]"

definition citi_block_tx :: "bool \<Rightarrow> citi_block \<Rightarrow> parsed_citi option" where
  "citi_block_tx incl b =
     (case parse_citi_amount (cb_amount_line b) of
        None \<Rightarrow> None
      | Some a \<Rightarrow>
          (if \<not> incl \<and> float_positive (pam_value a) then None
           else Some \<lparr>pc_date = cb_date b, pc_payee = cb_payee b, pc_amount_text = cb_amount_line b,
                      pc_amount_currency = pam_currency a, pc_amount_value = pam_normalized_value a\<rparr>))"

abbreviation citi_block_bad :: "citi_block \<Rightarrow> bool" where
  "citi_block_bad b \<equiv> parse_citi_amount (cb_amount_line b) = None"

lemma citi_loop_blocks:
  assumes "\<forall>b \<in> set bs. parse_polish_date (cb_date_line b) = Inr (Some (cb_date b))"
  shows "\<exists>more. citi_loop incl i (concat (map citi_block_lines bs)) txs ws =
    Inr \<lparr>cpr_transactions = txs @ List.map_filter (citi_block_tx incl) bs, cpr_warnings = ws @ more\<rparr> \<and>
    length more = length (filter citi_block_bad bs)"
  using assms
proof (induction bs arbitrary: i txs ws)
  case (Cons b bs)
  then have IH: "\<And>i txs ws. \<exists>more. citi_loop incl i (concat (map citi_block_lines bs)) txs ws =
    Inr \<lparr>cpr_transactions = txs @ List.map_filter (citi_block_tx incl) bs, cpr_warnings = ws @ more\<rparr> \<and>
    length more = length (filter citi_block_bad bs)" by simp
  note bl = citi_block_lines_def [of b] and bt = citi_block_tx_def [of _ b]
  have d: "parse_polish_date (cb_date_line b) = Inr (Some (cb_date b))" using Cons.prems by simp
  show ?case
  proof (cases "parse_citi_amount (cb_amount_line b)")
    case None
    let ?w = "U ''Skipped transaction at line '' @ str_nat (i + 1) @ U '': invalid amount ''
      @ [39] @ cb_amount_line b @ [39]"
    from IH [of "i + 4" txs "ws @ [?w]"] obtain more where
      "citi_loop incl (i + 4) (concat (map citi_block_lines bs)) txs (ws @ [?w]) =
        Inr \<lparr>cpr_transactions = txs @ List.map_filter (citi_block_tx incl) bs,
             cpr_warnings = (ws @ [?w]) @ more\<rparr>"
      "length more = length (filter citi_block_bad bs)" by blast
    with None d show ?thesis
      by (intro exI [of _ "?w # more"])
        (simp add: bl bt List.map_filter_simps)
  next
    case (Some a)
    let ?new = "case citi_block_tx incl b of None \<Rightarrow> [] | Some t \<Rightarrow> [t]"
    from IH [of "i + 4" "txs @ ?new" ws] obtain more where
      "citi_loop incl (i + 4) (concat (map citi_block_lines bs)) (txs @ ?new) ws =
        Inr \<lparr>cpr_transactions = (txs @ ?new) @ List.map_filter (citi_block_tx incl) bs,
             cpr_warnings = ws @ more\<rparr>"
      "length more = length (filter citi_block_bad bs)" by blast
    with Some d show ?thesis
      by (intro exI [of _ more])
        (cases "\<not> incl \<and> float_positive (pam_value a)", auto simp add: bl bt List.map_filter_simps)
  qed
qed (simp add: List.map_filter_simps)

text \<open>
  C30. A text made of complete blocks gives one transaction for each block whose amount can be read
  and is wanted, in the order of the text, and one warning for each block whose amount cannot.
\<close>

theorem citi_parse_blocks:
  assumes "citi_lines raw = concat (map citi_block_lines bs)"
    and "\<forall>b \<in> set bs. parse_polish_date (cb_date_line b) = Inr (Some (cb_date b))"
  shows "\<exists>p. citi_parse incl raw = Inr p \<and>
    cpr_transactions p = List.map_filter (citi_block_tx incl) bs \<and>
    length (cpr_warnings p) = length (filter citi_block_bad bs)"
  using citi_loop_blocks [OF assms(2), of incl 0 "[]" "[]"]
  by (auto simp: citi_parse_def assms(1))

theorem citi_parse_blocks_witness:
  "\<exists>p. citi_parse False (U ''12 maj 2024'' @ [10] @ U ''Shop'' @ [10] @ U ''Card'' @ [10] @ U ''-12,50 PLN'') = Inr p \<and>
     length (cpr_transactions p) = 1 \<and> cpr_warnings p = []"
proof -
  define b where "b = \<lparr>cb_date_line = U ''12 maj 2024'', cb_date = Date 2024 5 12,
    cb_payee = U ''Shop'', cb_extra = U ''Card'', cb_amount_line = U ''-12,50 PLN''\<rparr>"
  have l: "citi_lines (U ''12 maj 2024'' @ [10] @ U ''Shop'' @ [10] @ U ''Card'' @ [10] @ U ''-12,50 PLN'')
      = concat (map citi_block_lines [b])" unfolding b_def by code_simp
  have d: "\<forall>b \<in> set [b]. parse_polish_date (cb_date_line b) = Inr (Some (cb_date b))"
    unfolding b_def by code_simp
  have "length (List.map_filter (citi_block_tx False) [b]) = 1" "filter citi_block_bad [b] = []"
    unfolding b_def by code_simp+
  then show ?thesis using citi_parse_blocks [OF l d, of False] by auto
qed

lemma length_isoformat: "valid_date d \<Longrightarrow> length (isoformat d) = 10"
  by (cases d) (auto simp: length_pad_num days_in_month_def split: if_splits
      dest!: le_trans [of _ _ 99])

lemma str_nat_inject [simp]: "str_nat m = str_nat n \<longleftrightarrow> m = n"
  by (metis digits_val_str_nat option.inject)

text \<open>A record whose texts fit the reader's limit for a field.\<close>

definition citi_record_fits :: "bank_record \<Rightarrow> bool" where
  "citi_record_fits r \<longleftrightarrow> valid_date (bi_date r) \<and> length (br_recipient r) \<le> csv_field_limit \<and>
     length (br_details r) \<le> csv_field_limit \<and> length (dec_fmt2 (bi_amount r)) \<le> csv_field_limit"

lemma citi_rendered_read:
  assumes "list_all citi_record_fits rs"
  shows "csv_read (citi_render_csv rs) = Inr (citi_headers # map citi_row rs)"
  unfolding citi_render_csv_def
proof (rule csv_read_write, intro ballI)
  fix row f assume row: "row \<in> set (citi_headers # map citi_row rs)" and f: "f \<in> set row"
  show "length f \<le> csv_field_limit"
  proof (cases "row = citi_headers")
    case True
    with f show ?thesis by (auto simp: citi_headers_def csv_field_limit_def)
  next
    case False
    with row obtain r where r: "r \<in> set rs" "row = citi_row r" by auto
    with assms have "citi_record_fits r" by (simp add: list_all_iff)
    with f r(2) length_isoformat [of "bi_date r"] show ?thesis
      by (auto simp: citi_row_def citi_record_fits_def csv_field_limit_def)
  qed
qed

lemma map_enumerate_fst: "map (\<lambda>p. g (fst p)) (enumerate n xs) = map g [n..<n + length xs]"
  by (induction xs arbitrary: n) (simp_all add: upt_conv_Cons del: upt_Suc)

lemma map_enumerate_snd: "map (\<lambda>p. g (snd p)) (enumerate n xs) = map g xs"
  by (induction xs arbitrary: n) simp_all

lemma distinct_short: "length xs \<le> 1 \<Longrightarrow> distinct xs"
  by (cases xs) simp_all

lemma citi_entry_names: "distinct (map fst (citi_entries f k records))"
proof -
  define nm where "nm = (\<lambda>i. citi_export_name f records @
    (if 1 < length (citi_chunks k records) then U ''_'' @ str_nat i else []) @ U ''.csv'')"
  have "map fst (citi_entries f k records) =
      map (\<lambda>p. nm (fst p)) (enumerate 1 (citi_chunks k records))"
    by (simp add: citi_entries_def Let_def nm_def case_prod_unfold comp_def)
  also have "\<dots> = map nm [1..<1 + length (citi_chunks k records)]"
    by (rule map_enumerate_fst)
  finally have e: "map fst (citi_entries f k records)
      = map nm [1..<1 + length (citi_chunks k records)]" .
  show ?thesis
  proof (cases "1 < length (citi_chunks k records)")
    case True
    then have "inj nm" by (auto simp: nm_def inj_def)
    then show ?thesis unfolding e by (simp add: distinct_map inj_on_subset [of nm UNIV])
  next
    case False
    then have "length (map nm [1..<1 + length (citi_chunks k records)]) \<le> 1" by simp
    then show ?thesis unfolding e by (rule distinct_short)
  qed
qed

lemma citi_entry_texts:
  "map (\<lambda>(n, t). g t) (citi_entries f k records) = map (\<lambda>c. g (citi_render_csv c)) (citi_chunks k records)"
proof -
  have "map (\<lambda>(n, t). g t) (citi_entries f k records)
      = map (\<lambda>p. g (citi_render_csv (snd p))) (enumerate 1 (citi_chunks k records))"
    by (simp add: citi_entries_def Let_def case_prod_unfold comp_def)
  also have "\<dots> = map (\<lambda>c. g (citi_render_csv c)) (citi_chunks k records)"
    by (rule map_enumerate_snd)
  finally show ?thesis .
qed

lemma citi_chunks_concat: "concat (citi_chunks k records) = records"
  using concat_slices [of "nat (max 1 k)" records] by (auto simp: citi_chunks_def Let_def)

lemma citi_chunks_short: "c \<in> set (citi_chunks k records) \<Longrightarrow> length c \<le> nat (max 1 k)"
  using slices_short [of c "nat (max 1 k)" records]
  by (auto simp: citi_chunks_def Let_def split: if_splits)

lemma citi_chunks_fit:
  assumes "list_all citi_record_fits records" and "c \<in> set (citi_chunks k records)"
  shows "list_all citi_record_fits c"
proof -
  have "set c \<subseteq> set (concat (citi_chunks k records))" using assms(2) by auto
  then have "set c \<subseteq> set records" by (simp only: citi_chunks_concat)
  with assms(1) show ?thesis by (auto simp: list_all_iff)
qed

text \<open>
  C31. The exported archive loses nothing: reading its CSV files back and putting their rows
  together gives one row for each record, in order, under the header row of each file; no file has
  more rows than were asked for, and no two files share a name.
\<close>

theorem citi_export_complete:
  assumes "list_all citi_record_fits records"
  shows "\<exists>bodies. map (\<lambda>(n, t). csv_read t) (citi_entries f k records)
      = map (\<lambda>b. Inr (citi_headers # b)) bodies \<and>
    concat bodies = map citi_row records \<and>
    (\<forall>b \<in> set bodies. length b \<le> nat (max 1 k)) \<and>
    distinct (map fst (citi_entries f k records))"
proof -
  let ?bs = "map (map citi_row) (citi_chunks k records)"
  have "map (\<lambda>(n, t). csv_read t) (citi_entries f k records)
      = map (\<lambda>c. csv_read (citi_render_csv c)) (citi_chunks k records)"
    by (rule citi_entry_texts)
  also have "\<dots> = map (\<lambda>c. Inr (citi_headers # map citi_row c)) (citi_chunks k records)"
    using citi_chunks_fit [OF assms] by (auto intro: citi_rendered_read)
  also have "\<dots> = map (\<lambda>b. Inr (citi_headers # b)) ?bs" by (simp add: comp_def)
  finally have "map (\<lambda>(n, t). csv_read t) (citi_entries f k records) = \<dots>" .
  moreover have "concat ?bs = map citi_row records"
    by (simp only: map_concat [symmetric] citi_chunks_concat)
  moreover have "\<forall>b \<in> set ?bs. length b \<le> nat (max 1 k)" using citi_chunks_short by auto
  ultimately show ?thesis using citi_entry_names [of f k records] by blast
qed

theorem citi_export_complete_witness:
  "\<exists>bodies. map (\<lambda>(n, t). csv_read t) (citi_entries (U ''abcdef'') 2 [sample_record, sample_record, sample_record])
      = map (\<lambda>b. Inr (citi_headers # b)) bodies \<and>
    concat bodies = map citi_row [sample_record, sample_record, sample_record]"
proof -
  have "list_all citi_record_fits [sample_record, sample_record, sample_record]" by code_simp
  from citi_export_complete [OF this, of "U ''abcdef''" 2] show ?thesis by blast
qed

section \<open>Inputs the parser fails on\<close>

lemma citi_huge_day:
  "parse_polish_date (U ''99999999999 sty 2024'')
     = Inl (OverflowError (U ''Python int too large to convert to C int''))"
  by code_simp

lemma citi_lower_case_currency:
  "parse_citi_amount (U ''12,50 pln'') = None" "parse_citi_amount (U ''12,50 PLN'') \<noteq> None"
  by code_simp+

end
