(* ===== verification/SnapshotProps.thy ===== *)
theory SnapshotProps imports Snapshot Samples "HOL-Library.Code_Target_Nat" begin

text \<open>
  What the snapshot service promises its callers under every interleaving: one refresh at a time,
  nobody waits for a task that does not exist, and nobody gets a copy older than agreed.
\<close>

section \<open>The invariant\<close>

definition fetched_in :: "instant \<Rightarrow> instant \<Rightarrow> transaction_snapshot \<Rightarrow> bool" where
  "fetched_in lo hi sn =
     (case ts_fetched_at sn of Aware u \<Rightarrow> lo \<le> u \<and> u \<le> hi | Naive _ \<Rightarrow> False)"

definition young :: "int \<Rightarrow> instant \<Rightarrow> transaction_snapshot \<Rightarrow> bool" where
  "young max_age now sn =
     (case ts_fetched_at sn of Aware u \<Rightarrow> now - u \<le> max_age * us_per_second | Naive _ \<Rightarrow> False)"

text \<open>What an ended call may have got: a copy fetched after the call, or, unless it was forced, one
  that was young enough when the call was made.\<close>

fun call_end_ok :: "int \<Rightarrow> instant \<Rightarrow> snapshot_call \<Rightarrow> transaction_snapshot task_end \<Rightarrow> bool" where
  "call_end_ok max_age clock c (Result (Inr sn)) \<longleftrightarrow>
     fetched_in (ca_at c) clock sn \<or> (\<not> ca_forced c \<and> young max_age (ca_at c) sn)"
| "call_end_ok max_age clock c r \<longleftrightarrow> True"

text \<open>What a task that is done must have brought a caller that waits for it.\<close>

fun task_end_ok :: "instant \<Rightarrow> instant \<Rightarrow> transaction_snapshot task_state \<Rightarrow> bool" where
  "task_end_ok lo hi (Ended (Result (Inr sn))) \<longleftrightarrow> fetched_in lo hi sn"
| "task_end_ok lo hi st \<longleftrightarrow> True"

definition call_ok ::
    "int \<Rightarrow> instant \<Rightarrow> (nat, transaction_snapshot task_state) dict \<Rightarrow> snapshot_call \<Rightarrow> bool" where
  "call_ok max_age clock tasks c \<longleftrightarrow>
     ca_at c \<le> clock \<and>
     (case ca_end c of
        Some r \<Rightarrow> call_end_ok max_age clock c r
      | None \<Rightarrow>
          (case ca_waits c of
             None \<Rightarrow> False
           | Some t \<Rightarrow>
               (case dget tasks t of
                  None \<Rightarrow> False
                | Some st \<Rightarrow> task_end_ok (ca_at c) clock st)))"

definition tasks_ok :: "snapshot_service \<Rightarrow> bool" where
  "tasks_ok s \<longleftrightarrow>
     (\<forall>t st. dget (ss_tasks s) t = Some st \<longrightarrow>
        t < ss_next s \<and> (\<not> task_done st \<longrightarrow> ss_refresh_task s = Some t))"

definition calls_ok :: "int \<Rightarrow> snapshot_world \<Rightarrow> bool" where
  "calls_ok max_age w \<longleftrightarrow>
     (\<forall>c call. dget (sw_calls w) c = Some call \<longrightarrow>
        call_ok max_age (sw_clock w) (ss_tasks (sw_service w)) call)"

definition snapshot_inv :: "int \<Rightarrow> snapshot_world \<Rightarrow> bool" where
  "snapshot_inv max_age w \<longleftrightarrow> tasks_ok (sw_service w) \<and> calls_ok max_age w"

lemma tasks_okD:
  "tasks_ok s \<Longrightarrow> dget (ss_tasks s) t = Some st \<Longrightarrow> t < ss_next s"
  "tasks_ok s \<Longrightarrow> dget (ss_tasks s) t = Some st \<Longrightarrow> \<not> task_done st \<Longrightarrow> ss_refresh_task s = Some t"
  by (auto simp: tasks_ok_def)

lemma calls_okI:
  "(\<And>c call. dget (sw_calls w) c = Some call \<Longrightarrow>
     call_ok m (sw_clock w) (ss_tasks (sw_service w)) call) \<Longrightarrow> calls_ok m w"
  by (auto simp: calls_ok_def)

lemma calls_okD:
  "calls_ok m w \<Longrightarrow> dget (sw_calls w) c = Some call \<Longrightarrow>
     call_ok m (sw_clock w) (ss_tasks (sw_service w)) call"
  by (auto simp: calls_ok_def)

lemma fetched_in_mono: "fetched_in lo hi sn \<Longrightarrow> hi \<le> hi' \<Longrightarrow> fetched_in lo hi' sn"
  by (auto simp: fetched_in_def split: stamp.splits)

lemma call_end_ok_mono: "call_end_ok m a c r \<Longrightarrow> a \<le> b \<Longrightarrow> call_end_ok m b c r"
  by (induction m a c r rule: call_end_ok.induct) (auto intro: fetched_in_mono)

lemma task_end_ok_mono: "task_end_ok lo a st \<Longrightarrow> a \<le> b \<Longrightarrow> task_end_ok lo b st"
  by (induction lo a st rule: task_end_ok.induct) (auto intro: fetched_in_mono)

lemma task_end_ok_busy: "\<not> task_done st \<Longrightarrow> task_end_ok lo hi st"
  by (cases st) auto

lemma call_ok_mono: "call_ok m a ts c \<Longrightarrow> a \<le> b \<Longrightarrow> call_ok m b ts c"
  by (auto simp: call_ok_def intro: call_end_ok_mono task_end_ok_mono split: option.splits)

text \<open>A task that changes its state leaves the calls in order if its new state is in order.\<close>

lemma call_ok_task:
  assumes "call_ok m a ts c" and "ca_at c \<le> a \<Longrightarrow> task_end_ok (ca_at c) a st"
  shows "call_ok m a (dput t st ts) c"
  using assms by (auto simp: call_ok_def dict_simps split: option.splits)

section \<open>Answers\<close>

lemma snapshot_fresh_young:
  "snapshot_fresh now m s = Inr (Some sn) \<Longrightarrow> young m now sn"
  by (auto simp: snapshot_fresh_def snapshot_store_get_def snapshot_is_stale_def young_def
      split: option.splits stamp.splits if_splits)

lemma start_or_join_cases:
  assumes "start_or_join s = (t, s')"
  obtains (join) st where "s' = s" "ss_refresh_task s = Some t" "dget (ss_tasks s) t = Some st"
      "\<not> task_done st"
    | (new) "refresh_running s = None" "t = ss_next s"
      "s' = s\<lparr>ss_refresh_task := Some t, ss_tasks := dput t Working (ss_tasks s), ss_next := t + 1\<rparr>"
  using assms
  by (auto simp: start_or_join_def refresh_running_def split: option.splits if_splits)

lemma ensure_snapshot_cases:
  assumes "ensure_snapshot f now m s = (a, s')"
  obtains (now) r where "a = Now r" "s' = s" "\<And>sn. r = Inr sn \<Longrightarrow> \<not> f \<and> young m now sn"
    | (wait) t where "a = Wait t" "start_or_join s = (t, s')"
  using assms
  by (auto simp: ensure_snapshot_def split: if_splits sum.splits option.splits prod.splits
      dest: snapshot_fresh_young)

lemma get_snapshot_cases:
  assumes "get_snapshot now m s = (a, s')"
  obtains (now) r where "a = Now r" "s' = s" "\<And>sn. r = Inr sn \<Longrightarrow> young m now sn"
    | (wait) t where "a = Wait t" "start_or_join s = (t, s')"
proof (cases "snapshot_fresh now m (ss_store s)")
  case (Inr x)
  show ?thesis
  proof (cases x)
    case None
    with Inr assms have "ensure_snapshot False now m s = (a, s')" by (simp add: get_snapshot_def)
    then show ?thesis by (cases rule: ensure_snapshot_cases) (auto intro: that)
  qed (use assms Inr snapshot_fresh_young in \<open>auto simp: get_snapshot_def intro: that\<close>)
qed (use assms in \<open>auto simp: get_snapshot_def intro: that\<close>)

section \<open>Every step keeps the invariant\<close>

lemma call_of_Now:
  "(\<And>sn. r = Inr sn \<Longrightarrow> \<not> f \<and> young m now sn) \<Longrightarrow> call_ok m now ts (call_of f now (Now r))"
  by (cases r) (auto simp: call_ok_def call_of_def)

lemma call_of_Wait:
  "dget ts t = Some st \<Longrightarrow> \<not> task_done st \<Longrightarrow> call_ok m now ts (call_of f now (Wait t))"
  by (auto simp: call_ok_def call_of_def intro: task_end_ok_busy)

text \<open>A call that starts a task finds all older tasks done.\<close>

lemma start_or_join_tasks:
  assumes ok: "tasks_ok s" and st: "start_or_join s = (t, s')"
  shows "tasks_ok s'" and "\<exists>x. dget (ss_tasks s') t = Some x \<and> \<not> task_done x"
    and "call_ok m now (ss_tasks s) call \<Longrightarrow> call_ok m now (ss_tasks s') call"
proof -
  from st have "tasks_ok s' \<and> (\<exists>x. dget (ss_tasks s') t = Some x \<and> \<not> task_done x) \<and>
    (call_ok m now (ss_tasks s) call \<longrightarrow> call_ok m now (ss_tasks s') call)"
  proof (cases rule: start_or_join_cases)
    case (join x)
    with ok show ?thesis by auto
  next
    case new
    have old: "u < t \<and> task_done x" if "dget (ss_tasks s) u = Some x" for u x
      using tasks_okD [OF ok that] new(1,2) that
      by (cases "task_done x") (auto simp: refresh_running_def)
    have "tasks_ok s'" unfolding tasks_ok_def
      using old by (auto simp: new(3) dict_simps intro: less_SucI)
    then show ?thesis by (auto simp: new(3) dict_simps intro: call_ok_task)
  qed
  then show "tasks_ok s'" and "\<exists>x. dget (ss_tasks s') t = Some x \<and> \<not> task_done x"
    and "call_ok m now (ss_tasks s) call \<Longrightarrow> call_ok m now (ss_tasks s') call" by auto
qed

lemma snapshot_inv_call:
  assumes inv: "snapshot_inv m w"
    and ans: "(\<exists>r. a = Now r \<and> s = sw_service w \<and>
          (\<forall>sn. r = Inr sn \<longrightarrow> \<not> f \<and> young m (sw_clock w) sn)) \<or>
        (\<exists>t. a = Wait t \<and> start_or_join (sw_service w) = (t, s))"
  shows "snapshot_inv m
    (w\<lparr>sw_service := s, sw_calls := dput c (call_of f (sw_clock w) a) (sw_calls w)\<rparr>)"
proof -
  from inv have ok: "tasks_ok (sw_service w)" "calls_ok m w" by (auto simp: snapshot_inv_def)
  have "tasks_ok s \<and> call_ok m (sw_clock w) (ss_tasks s) (call_of f (sw_clock w) a) \<and>
    (\<forall>call. call_ok m (sw_clock w) (ss_tasks (sw_service w)) call \<longrightarrow>
       call_ok m (sw_clock w) (ss_tasks s) call)"
    using ans
  proof (elim disjE exE conjE)
    fix r assume "a = Now r" "s = sw_service w"
      and "\<forall>sn. r = Inr sn \<longrightarrow> \<not> f \<and> young m (sw_clock w) sn"
    with ok(1) show ?thesis by (auto intro: call_of_Now)
  next
    fix t assume "a = Wait t" and "start_or_join (sw_service w) = (t, s)"
    with start_or_join_tasks [OF ok(1)] show ?thesis by (auto intro: call_of_Wait)
  qed
  then show ?thesis using calls_okD [OF ok(2)]
    by (auto simp: snapshot_inv_def dict_simps intro!: calls_okI split: if_splits)
qed

lemma snapshot_inv_task:
  assumes inv: "snapshot_inv m w" and old: "dget (ss_tasks (sw_service w)) t = Some x" "\<not> task_done x"
    and st: "\<And>lo. lo \<le> sw_clock w \<Longrightarrow> task_end_ok lo (sw_clock w) st"
    and s: "ss_tasks s = dput t st (ss_tasks (sw_service w))" "ss_next s = ss_next (sw_service w)"
      "ss_refresh_task s = ss_refresh_task (sw_service w)"
  shows "snapshot_inv m (w\<lparr>sw_service := s\<rparr>)"
proof -
  from inv have ok: "tasks_ok (sw_service w)" "calls_ok m w" by (auto simp: snapshot_inv_def)
  have "tasks_ok s" unfolding tasks_ok_def
    using tasks_okD [OF ok(1)] tasks_okD(2) [OF ok(1) old]
    by (auto simp: s dict_simps old(1) split: if_splits)
  moreover have "calls_ok m (w\<lparr>sw_service := s\<rparr>)"
    using calls_okD [OF ok(2)] by (auto simp: s intro!: calls_okI call_ok_task st)
  ultimately show ?thesis by (simp add: snapshot_inv_def)
qed

lemma task_end_cases:
  obtains (got) sn where "r = Result (Inr sn)" | (raised) e where "r = Result (Inl e)"
    | (cancelled) "r = Cancelled"
  by (cases r) (auto, (metis sum.exhaust))

lemma snapshot_inv_step: "snapshot_step m w w' \<Longrightarrow> snapshot_inv m w \<Longrightarrow> snapshot_inv m w'"
proof (induction rule: snapshot_step.induct)
  case (sn_tick w now)
  then show ?case by (auto simp: snapshot_inv_def calls_ok_def intro: call_ok_mono)
next
  case (sn_get w c a s)
  from sn_get(2) have "(\<exists>r. a = Now r \<and> s = sw_service w \<and>
          (\<forall>sn. r = Inr sn \<longrightarrow> \<not> False \<and> young m (sw_clock w) sn)) \<or>
        (\<exists>t. a = Wait t \<and> start_or_join (sw_service w) = (t, s))"
    by (cases rule: get_snapshot_cases) auto
  then show ?case by (rule snapshot_inv_call [OF sn_get(3)])
next
  case (sn_refresh w c a s)
  from sn_refresh(2) have "(\<exists>r. a = Now r \<and> s = sw_service w \<and>
          (\<forall>sn. r = Inr sn \<longrightarrow> \<not> True \<and> young m (sw_clock w) sn)) \<or>
        (\<exists>t. a = Wait t \<and> start_or_join (sw_service w) = (t, s))"
    unfolding refresh_snapshot_def by (cases rule: ensure_snapshot_cases) auto
  then show ?case by (rule snapshot_inv_call [OF sn_refresh(3)])
next
  case (sn_fetched w t fetched)
  obtain r st where f: "fetch_and_store_snapshot fetched (sw_clock w) (ss_store (sw_service w)) = (r, st)"
    by fastforce
  then have "lo \<le> sw_clock w \<Longrightarrow> task_end_ok lo (sw_clock w) (Ended (Result r))" for lo
    by (auto simp: fetch_and_store_snapshot_def Let_def fetched_in_def split: option.splits sum.splits prod.splits)
  then show ?case
    by (intro snapshot_inv_task [OF sn_fetched(2,1)]) (auto simp: snapshot_task_ends_def f)
next
  case (sn_cancel w c call t)
  then show ?case by (intro snapshot_inv_task [OF sn_cancel(5,4)]) auto
next
  case (sn_stopped w t)
  then show ?case by (intro snapshot_inv_task [OF sn_stopped(2,1)]) auto
next
  case (sn_resume w c call t r)
  then have ok: "tasks_ok (sw_service w)" "calls_ok m w" by (auto simp: snapshot_inv_def)
  from calls_okD [OF ok(2) sn_resume(1)] sn_resume(2-4)
  have "call_ok m (sw_clock w) (ss_tasks (sw_service w)) (call\<lparr>ca_end := Some r\<rparr>)"
    by (cases r rule: task_end_cases) (auto simp: call_ok_def)
  moreover have "tasks_ok (snapshot_resume t (sw_service w))" unfolding tasks_ok_def
    using tasks_okD [OF ok(1)] sn_resume(4)
    by (auto simp: snapshot_resume_def) (metis option.inject task_done.simps(1))+
  moreover have "ss_tasks (snapshot_resume t (sw_service w)) = ss_tasks (sw_service w)"
    by (simp add: snapshot_resume_def)
  ultimately show ?case using calls_okD [OF ok(2)]
    by (auto simp: snapshot_inv_def dict_simps intro!: calls_okI split: if_splits)
qed

lemma snapshot_inv_start: "snapshot_inv m (snapshot_world_start now)"
  by (simp add: snapshot_inv_def tasks_ok_def calls_ok_def snapshot_world_start_def snapshot_service_start_def)

interpretation snapshot_machine: invariant_system
  "\<lambda>w. \<exists>now. w = snapshot_world_start now" "snapshot_step m" "snapshot_inv m" for m
  by unfold_locales (auto intro: snapshot_inv_start snapshot_inv_step)

lemma snapshot_reachable_inv: "snapshot_reachable m w \<Longrightarrow> snapshot_inv m w"
  unfolding snapshot_reachable_def by (blast intro: snapshot_machine.inv_reached)

lemma call_ok_ended:
  "call_ok m now ts call \<Longrightarrow> ca_end call = Some (Result (Inr sn)) \<Longrightarrow>
     fetched_in (ca_at call) now sn \<or> \<not> ca_forced call \<and> young m (ca_at call) sn"
  by (auto simp: call_ok_def)

lemma snapshot_reachable_start: "snapshot_reachable m (snapshot_world_start now)"
  by (auto simp: snapshot_reachable_def)

lemma snapshot_reachable_step: "snapshot_reachable m w \<Longrightarrow> snapshot_step m w w' \<Longrightarrow> snapshot_reachable m w'"
  unfolding snapshot_reachable_def by (meson rtranclp.rtrancl_into_rtrancl)

text \<open>
  C32. However calls, fetches, cancellations and the clock interleave: only the current refresh task
  is ever unfinished, so two fetches never overlap; and a call that has ended with a copy got one
  fetched after it was made, or, if it did not force a refresh, one no older than the age limit at
  the time of the call.
\<close>

theorem snapshot_single_flight_and_fresh:
  assumes "snapshot_reachable max_age w"
  shows "(\<forall>t st. dget (ss_tasks (sw_service w)) t = Some st \<and> \<not> task_done st \<longrightarrow>
      ss_refresh_task (sw_service w) = Some t) \<and>
    (\<forall>c call sn. dget (sw_calls w) c = Some call \<and> ca_end call = Some (Result (Inr sn)) \<longrightarrow>
      fetched_in (ca_at call) (sw_clock w) sn \<or>
      \<not> ca_forced call \<and> young max_age (ca_at call) sn)"
proof -
  from snapshot_reachable_inv [OF assms] have "tasks_ok (sw_service w)" "calls_ok max_age w"
    by (simp_all add: snapshot_inv_def)
  then show ?thesis using call_ok_ended calls_okD tasks_okD(2) by blast
qed

section \<open>Every call can end\<close>

lemma calls_step_frame:
  "dget (sw_calls w) c = Some call \<Longrightarrow> ca_end call = None \<Longrightarrow> ca_waits call = Some t \<Longrightarrow>
   dget (ss_tasks (sw_service w)) t = Some (Ended r) \<Longrightarrow>
   \<exists>w'. snapshot_step m w w' \<and> dget (sw_calls w') c = Some (call\<lparr>ca_end := Some r\<rparr>)"
  by (rule exI, rule conjI, rule sn_resume) (auto simp: dict_simps)


text \<open>
  The shared task is not shielded: cancelling one caller cancels the fetch for all that wait for it.
\<close>

lemma cancel_reaches_other_callers:
  assumes "dget (sw_calls w) a = Some ca" "ca_end ca = None" "ca_waits ca = Some t"
    and "dget (sw_calls w) b = Some cb" "ca_end cb = None" "ca_waits cb = Some t"
    and "dget (ss_tasks (sw_service w)) t = Some Working"
  shows "\<exists>w'. (snapshot_step m)\<^sup>*\<^sup>* w w' \<and> dget (sw_calls w') b = Some (cb\<lparr>ca_end := Some Cancelled\<rparr>)"
proof -
  let ?s = "sw_service w"
  let ?w1 = "w\<lparr>sw_service := ?s\<lparr>ss_tasks := dput t Cancelling (ss_tasks ?s)\<rparr>\<rparr>"
  let ?w2 = "w\<lparr>sw_service := ?s\<lparr>ss_tasks := dput t (Ended Cancelled) (dput t Cancelling (ss_tasks ?s))\<rparr>\<rparr>"
  have "snapshot_step m w ?w1" using assms(1-3,7) by (rule sn_cancel)
  moreover have "snapshot_step m ?w1 ?w2"
    using sn_stopped [of ?w1 t m] by (simp add: dict_simps)
  moreover obtain w' where "snapshot_step m ?w2 w'"
      "dget (sw_calls w') b = Some (cb\<lparr>ca_end := Some Cancelled\<rparr>)"
    using calls_step_frame [of ?w2 b cb t Cancelled m] assms(4-6) by (auto simp: dict_simps)
  ultimately show ?thesis by (meson rtranclp.rtrancl_into_rtrancl rtranclp.rtrancl_refl)
qed

section \<open>A run\<close>

definition sample_fetch :: "(transaction list \<times> fetch_metrics) res option" where
  "sample_fetch = Some (Inr ([sample_tx], \<lparr>fm_total_transactions = 1, fm_fetching_duration_ms = 5,
     fm_invalid = 0, fm_multipart = 0\<rparr>))"

text \<open>One caller has called and waits; the fetch has come back; the caller has gone on.\<close>

definition sample_waiting :: snapshot_world where
  "sample_waiting =
     (case get_snapshot 10 300 snapshot_service_start of
        (a, s) \<Rightarrow> \<lparr>sw_clock = 10, sw_service = s, sw_calls = [(0, call_of False 10 a)]\<rparr>)"

definition sample_fetched :: snapshot_world where
  "sample_fetched = sample_waiting
     \<lparr>sw_service := snapshot_task_ends 0 sample_fetch 10 (sw_service sample_waiting)\<rparr>"

definition sample_call :: snapshot_call where
  "sample_call = \<lparr>ca_forced = False, ca_at = 10, ca_waits = Some 0, ca_end = None\<rparr>"

lemma sample_waiting_simps:
  "sw_clock sample_waiting = 10" "dget (sw_calls sample_waiting) 0 = Some sample_call"
  "dget (ss_tasks (sw_service sample_waiting)) 0 = Some Working"
  "ca_end sample_call = None" "ca_waits sample_call = Some 0"
  by (simp_all add: sample_waiting_def get_snapshot_def ensure_snapshot_def snapshot_fresh_def
      snapshot_store_get_def snapshot_service_start_def start_or_join_def refresh_running_def
      call_of_def sample_call_def)

lemma sample_waiting_reachable: "snapshot_reachable 300 sample_waiting"
proof -
  obtain a s where g: "get_snapshot 10 300 snapshot_service_start = (a, s)" by fastforce
  have "snapshot_step 300 (snapshot_world_start 10)
    ((snapshot_world_start 10)\<lparr>sw_service := s, sw_calls := dput 0 (call_of False 10 a) []\<rparr>)"
    using sn_get [of "snapshot_world_start 10" 0 300 a s] g by (simp add: snapshot_world_start_def)
  then show ?thesis
    using snapshot_reachable_step [OF snapshot_reachable_start] g
    by (fastforce simp: sample_waiting_def snapshot_world_start_def)
qed


theorem snapshot_single_flight_and_fresh_witness:
  "\<exists>w sn. snapshot_reachable 300 w \<and>
     dget (sw_calls w) 0 = Some (sample_call\<lparr>ca_end := Some (Result (Inr sn))\<rparr>) \<and>
     (fetched_in 10 (sw_clock w) sn \<or> young 300 10 sn)"
proof -
  obtain r st where r: "fetch_and_store_snapshot sample_fetch 10 (ss_store (sw_service sample_waiting)) = (Inr r, st)"
    by (auto simp: fetch_and_store_snapshot_def sample_fetch_def Let_def)
  have f: "snapshot_reachable 300 sample_fetched"
    using snapshot_reachable_step [OF sample_waiting_reachable] sn_fetched [OF sample_waiting_simps(3)]
    by (simp add: sample_fetched_def sample_waiting_simps)
  have "dget (ss_tasks (sw_service sample_fetched)) 0 = Some (Ended (Result (Inr r)))"
    "dget (sw_calls sample_fetched) 0 = Some sample_call"
    by (simp_all add: sample_fetched_def snapshot_task_ends_def r dict_simps sample_waiting_simps)
  from calls_step_frame [OF this(2) sample_waiting_simps(4,5) this(1)] obtain w' where
    w': "snapshot_step 300 sample_fetched w'"
      "dget (sw_calls w') 0 = Some (sample_call\<lparr>ca_end := Some (Result (Inr r))\<rparr>)" by blast
  from snapshot_reachable_step [OF f w'(1)] have "snapshot_reachable 300 w'" .
  moreover from this have "fetched_in 10 (sw_clock w') r \<or> young 300 10 r"
    using snapshot_single_flight_and_fresh [of 300 w'] w'(2) by (force simp: sample_call_def)
  ultimately show ?thesis using w'(2) by blast
qed

end
