(* ===== verification/MetricsProps.thy ===== *)
theory MetricsProps imports Metrics Samples "HOL-Library.Code_Target_Nat" begin

text \<open>
  What the statistics promise: the numbers agree with each other and with the screening, and the
  managers recompute one at a time and never serve metrics of an older snapshot as current.
\<close>

section \<open>Where the metrics come from\<close>

text \<open>Every kind of metrics carries the time of the snapshot it was computed from.\<close>

locale metrics_source =
  fixes build :: "transaction_snapshot \<Rightarrow> 'm"
    and stamp_of :: "'m \<Rightarrow> stamp"
  assumes stamp_build: "stamp_of (build sn) = ts_fetched_at sn"
begin

text \<open>Metrics of the snapshot that is still fresh are served without a new computation.\<close>

lemma fresh_is_current:
  assumes "mt_status (mg_state g) = DONE" and "mt_result (mg_state g) = Some (build sn)"
    and "get_cached_snapshot_timestamp now max_age s = Inr (Some u)" and "ss_store s = Some sn"
  shows "manager_ensure_current stamp_of (get_cached_snapshot_timestamp now max_age s) g
    = (Inr (mg_state g), g)"
proof -
  have "ts_fetched_at sn = u"
    using assms(3,4) by (auto simp: get_cached_snapshot_timestamp_def snapshot_fresh_def
        snapshot_store_get_def split: sum.splits if_splits)
  then show ?thesis
    using assms by (simp add: manager_ensure_current_def stamp_build)
qed

end

interpretation tx_source: metrics_source "build_tx_metrics months b a" txm_time_stamp for months b a
  by unfold_locales (simp add: build_tx_metrics_def Let_def)

interpretation blik_source: metrics_source "build_blik_metrics months b" bkm_time_stamp for months b
  by unfold_locales (simp add: build_blik_metrics_def Let_def)

interpretation allegro_source: metrics_source "build_allegro_metrics months a" alm_time_stamp for months a
  by unfold_locales (simp add: build_allegro_metrics_def Let_def)

section \<open>Counting by month\<close>

text \<open>
  The reference for the data frame's work: each month that occurs, in the order of its text, with
  the number of dates in it. Pandas keeps times in nanoseconds, so it is relied on for the years
  1678 to 2261 only.
\<close>

definition month_label :: "date \<Rightarrow> ustring" where
  "month_label d = pad_num 4 (d_year d) @ U ''-'' @ pad_num 2 (d_month d)"

definition month_counts :: "date list \<Rightarrow> (ustring, nat) dict" where
  "month_counts ds =
     (let ls = map month_label ds in map (\<lambda>l. (l, count_list ls l)) (sort (remdups ls)))"

definition pandas_date :: "date \<Rightarrow> bool" where
  "pandas_date d \<longleftrightarrow> valid_date d \<and> 1678 \<le> d_year d \<and> d_year d \<le> 2261"

definition months_ok :: "(date list \<Rightarrow> (ustring, nat) dict) \<Rightarrow> bool" where
  "months_ok months \<longleftrightarrow> (\<forall>ds. list_all pandas_date ds \<longrightarrow> months ds = month_counts ds)"

lemma sum_count_list_eq: "set xs \<subseteq> set ks \<Longrightarrow> distinct ks \<Longrightarrow> sum_list (map (count_list xs) ks) = length xs"
  using sum_count_set [of xs "set ks"] by (simp add: sum_list_distinct_conv_sum_set)

lemma month_counts_total: "sum_list (map snd (month_counts ds)) = length ds"
proof -
  let ?ls = "map month_label ds"
  have "sum_list (map snd (month_counts ds)) = sum_list (map (count_list ?ls) (sort (remdups ?ls)))"
    by (simp add: month_counts_def Let_def comp_def)
  also have "\<dots> = length ?ls" by (rule sum_count_list_eq) auto
  finally show ?thesis by simp
qed

lemma group_tx_by_month_total:
  assumes "months_ok months" and "list_all (\<lambda>t. pandas_date (bi_date t)) txs"
  shows "sum_list (map snd (group_tx_by_month months txs)) = length txs"
proof -
  from assms have "months (map bi_date txs) = month_counts (map bi_date txs)"
    by (auto simp: months_ok_def list_all_iff)
  then show ?thesis by (auto simp: group_tx_by_month_def month_counts_total)
qed

text \<open>
  C34. The screening statistics add up: the categorizable transactions are exactly those the
  screening would show, every uncategorized transaction is counted once as categorizable or under
  one of the three reasons it is not, and the months add up to the categorizable ones.
\<close>

theorem tx_metrics_add_up:
  assumes "months_ok months" and "list_all (\<lambda>t. pandas_date (bi_date t)) (ts_transactions sn)"
  shows "\<exists>m. build_tx_metrics months blik allegro sn = m \<and>
    txm_categorizable m
      = length (screening_filter blik allegro (filter_out_categorized (ts_transactions sn))) \<and>
    int (txm_uncategorized_transactions m)
      = txm_blik_not_ok m + txm_action_req m + txm_allegro_not_ok m + int (txm_categorizable m) \<and>
    0 \<le> txm_blik_not_ok m \<and> 0 \<le> txm_action_req m \<and> 0 \<le> txm_allegro_not_ok m \<and>
    sum_list (map snd (txm_categorizable_by_month m)) = txm_categorizable m"
proof -
  let ?f = "screening_filter blik allegro (filter_out_categorized (ts_transactions sn))"
  have "list_all (\<lambda>t. pandas_date (bi_date t)) ?f"
    using assms(2) by (auto simp: screening_filter_def filter_by_description_def
        filter_out_categorized_def list_all_iff Let_def)
  from group_tx_by_month_total [OF assms(1) this] show ?thesis
    by (auto simp: build_tx_metrics_def screening_filter_def Let_def filter_by_description_def
        intro!: length_filter_le_filter simp del: tag_value.simps)
qed

section \<open>The managers' invariant\<close>

definition unfinished :: "'m manager \<Rightarrow> nat \<Rightarrow> bool" where
  "unfinished g t \<longleftrightarrow> (case dget (mg_tasks g) t of None \<Rightarrow> False | Some k \<Rightarrow> k \<noteq> Over)"

definition state_ok :: "bool \<Rightarrow> 'm metrics_state \<Rightarrow> bool" where
  "state_ok busy st \<longleftrightarrow>
     (mt_status st = RUNNING \<longleftrightarrow> busy) \<and> (mt_status st = DONE \<longleftrightarrow> mt_result st \<noteq> None) \<and>
     (mt_status st = FAILED \<longleftrightarrow> mt_error st \<noteq> None)"

text \<open>At most the current task is unfinished, and the state says whether it is.\<close>

definition manager_inv :: "'m manager \<Rightarrow> bool" where
  "manager_inv g \<longleftrightarrow>
     (\<forall>t. dget (mg_tasks g) t \<noteq> None \<longrightarrow> t < mg_next g) \<and>
     (\<forall>t. unfinished g t \<longrightarrow> mg_task g = Some t) \<and>
     state_ok (\<exists>t. unfinished g t) (mg_state g)"

lemma manager_busy_iff: "manager_busy g \<longleftrightarrow> (\<exists>t. mg_task g = Some t \<and> unfinished g t)"
  by (auto simp: manager_busy_def unfinished_def split: option.splits)

lemma unfinished_dput [simp]:
  "unfinished (g\<lparr>mg_state := st, mg_tasks := dput t k (mg_tasks g)\<rparr>) u
     \<longleftrightarrow> (if u = t then k \<noteq> Over else unfinished g u)"
  "unfinished (g\<lparr>mg_tasks := dput t k (mg_tasks g)\<rparr>) u \<longleftrightarrow> (if u = t then k \<noteq> Over else unfinished g u)"
  by (simp_all add: unfinished_def dict_simps)

lemma state_ok_RUNNING: "state_ok b st \<Longrightarrow> mt_status st = RUNNING \<longleftrightarrow> b"
  by (simp add: state_ok_def)

lemma state_ok_begins: "state_ok True (recompute_begins st)"
  by (simp add: state_ok_def recompute_begins_def)

lemma state_ok_ends: "state_ok True st \<Longrightarrow> state_ok False (recompute_ends r now st)"
  by (auto simp: state_ok_def recompute_ends_def split: sum.splits)

text \<open>A start in an idle state makes exactly one task, which is then the current one.\<close>

lemma manager_inv_start_op:
  assumes inv: "manager_inv g" shows "manager_inv (snd (manager_start f g))"
proof (cases "mt_status (mg_state g) = RUNNING \<or> manager_busy g")
  case False
  with inv have idle: "\<not> unfinished g t" for t
    using state_ok_RUNNING by (auto simp: manager_inv_def)
  define g' where "g' = snd (manager_start f g)"
  from False have g': "mg_tasks g' = dput (mg_next g) (Queued f) (mg_tasks g)"
    "mg_next g' = mg_next g + 1" "mg_task g' = Some (mg_next g)"
    and st: "state_ok True (mg_state g')"
    by (simp_all add: g'_def manager_start_def Let_def state_ok_def)
  from g'(1) idle have u: "unfinished g' t \<longleftrightarrow> t = mg_next g" for t
    by (simp add: unfinished_def dict_simps)
  have "t < mg_next g'" if "dget (mg_tasks g') t \<noteq> None" for t
    using that inv by (auto simp: g' dict_simps manager_inv_def less_SucI split: if_splits)
  with u g'(3) st show ?thesis by (simp add: manager_inv_def flip: g'_def)
qed (use inv in \<open>auto simp: manager_start_def\<close>)

lemma manager_ensure_current_cases:
  "manager_ensure_current stamp_of cached g = (r, g') \<Longrightarrow> g' = g \<or> g' = snd (manager_start False g)"
  by (auto simp: manager_ensure_current_def split: sum.splits if_splits prod.splits)

text \<open>A task that moves on: all other tasks are finished, so its state decides.\<close>

lemma manager_inv_task:
  assumes inv: "manager_inv g" and t: "unfinished g t"
    and st: "state_ok True (mg_state g) \<Longrightarrow> state_ok (k \<noteq> Over) st"
  shows "manager_inv (g\<lparr>mg_state := st, mg_tasks := dput t k (mg_tasks g)\<rparr>)"
proof -
  have "state_ok (\<exists>t. unfinished g t) (mg_state g)" using inv by (simp add: manager_inv_def)
  with t have "state_ok True (mg_state g)" by (metis (mono_tags, lifting))
  then have "state_ok (k \<noteq> Over) st" by (rule st)
  moreover have only: "u = t" if "unfinished g u" for u
    using inv t that unfolding manager_inv_def by (metis option.inject)
  moreover have "t < mg_next g"
    using inv t by (auto simp: manager_inv_def unfinished_def split: option.splits)
  moreover have cur: "mg_task g = Some t" using inv t by (simp add: manager_inv_def)
  moreover define g' where "g' = g\<lparr>mg_state := st, mg_tasks := dput t k (mg_tasks g)\<rparr>"
  ultimately have u: "unfinished g' u \<longleftrightarrow> u = t \<and> k \<noteq> Over" for u by auto
  then have "(\<exists>u. unfinished g' u) \<longleftrightarrow> k \<noteq> Over" by blast
  with \<open>state_ok (k \<noteq> Over) st\<close> have "state_ok (\<exists>u. unfinished g' u) (mg_state g')"
    by (simp only:) (simp add: g'_def)
  moreover have "dget (mg_tasks g') v \<noteq> None \<Longrightarrow> v < mg_next g'" for v
    using inv \<open>t < mg_next g\<close> by (auto simp: g'_def manager_inv_def dict_simps split: if_splits)
  moreover have "mg_task g' = Some t" using cur by (simp add: g'_def)
  ultimately show ?thesis using u unfolding manager_inv_def g'_def [symmetric] by metis
qed

lemma manager_inv_step: "manager_step False stamp_of g g' \<Longrightarrow> manager_inv g \<Longrightarrow> manager_inv g'"
proof (induction rule: manager_step.induct)
  case (mg_ensure cached g r g')
  from manager_ensure_current_cases [OF mg_ensure(1)] mg_ensure(2) manager_inv_start_op [of g False]
  show ?case by auto
next
  case (mg_refresh g st g')
  from mg_refresh(1) manager_inv_start_op [OF mg_refresh(2), of True] show ?case
    by (simp add: manager_refresh_def)
next
  case (mg_begins g t force)
  then show ?case
    by (intro manager_inv_task) (simp_all add: unfinished_def state_ok_begins)
next
  case (mg_ends g t force r now)
  then show ?case
    by (intro manager_inv_task) (simp_all add: unfinished_def state_ok_ends)
next
  case (mg_done g t)
  have "unfinished (manager_task_done t g) u \<longleftrightarrow> unfinished g u" for u
    using mg_done(1) by (simp add: unfinished_def manager_task_done_def Let_def dict_simps)
  moreover from mg_done have "\<not> unfinished g t" by (simp add: unfinished_def)
  ultimately show ?case using mg_done(2)
    by (auto simp: manager_inv_def manager_task_done_def Let_def dict_simps split: if_splits)
qed simp

lemma manager_inv_new: "manager_inv manager_new"
  by (simp add: manager_inv_def state_ok_def manager_new_def metrics_state_start_def unfinished_def)

interpretation manager_machine: invariant_system
  "\<lambda>g. g = manager_new" "manager_step False stamp_of" manager_inv for stamp_of :: "'m \<Rightarrow> stamp"
  by unfold_locales (auto intro: manager_inv_new manager_inv_step)

text \<open>An answer that says DONE holds metrics of the snapshot that is current.\<close>

lemma ensure_current_done:
  assumes inv: "manager_inv g" and e: "manager_ensure_current stamp_of cached g = (Inr st, g')"
    and d: "mt_status st = DONE"
  shows "\<exists>m u. mt_result st = Some m \<and> cached = Inr (Some u) \<and> stamp_of m = u"
proof -
  have "mt_status (fst (manager_start f g)) = RUNNING" for f
  proof (cases "manager_busy g")
    case True
    then show ?thesis using inv by (auto simp: manager_start_def manager_busy_iff manager_inv_def state_ok_def)
  qed (simp add: manager_start_def Let_def)
  then have "fst (manager_start False g) \<noteq> st" using d by force
  with e d show ?thesis
    by (auto simp: manager_ensure_current_def split: if_splits sum.splits prod.splits)
qed

text \<open>
  C35. A metrics manager whose tasks are not cancelled: at most one recomputation is unfinished,
  and exactly while one is the state says RUNNING; DONE comes with a result and FAILED with an
  error, and nothing else does; a request is answered with DONE only if the result was computed
  from the snapshot that is current now.
\<close>

theorem metrics_manager_consistent:
  assumes "(manager_step False stamp_of)\<^sup>*\<^sup>* manager_new g"
  shows "(mt_status (mg_state g) = RUNNING \<longleftrightarrow> (\<exists>t. unfinished g t)) \<and>
    (\<forall>t u. unfinished g t \<and> unfinished g u \<longrightarrow> t = u) \<and>
    (mt_status (mg_state g) = DONE \<longleftrightarrow> mt_result (mg_state g) \<noteq> None) \<and>
    (mt_status (mg_state g) = FAILED \<longleftrightarrow> mt_error (mg_state g) \<noteq> None) \<and>
    (\<forall>cached st g'. manager_ensure_current stamp_of cached g = (Inr st, g') \<and> mt_status st = DONE \<longrightarrow>
       (\<exists>m u. mt_result st = Some m \<and> cached = Inr (Some u) \<and> stamp_of m = u))"
proof -
  have inv: "manager_inv g" using manager_machine.inv_reached [OF refl assms] .
  then have "\<forall>t u. unfinished g t \<and> unfinished g u \<longrightarrow> t = u"
    unfolding manager_inv_def by (metis option.inject)
  with inv ensure_current_done [OF inv] show ?thesis
    unfolding manager_inv_def state_ok_def by blast
qed

text \<open>
  A cancelled recomputation leaves RUNNING behind with no task to end it, and then no request ever
  starts another one.
\<close>

definition stuck :: "'m manager \<Rightarrow> bool" where
  "stuck g \<longleftrightarrow> mt_status (mg_state g) = RUNNING \<and> (\<forall>t k. dget (mg_tasks g) t = Some k \<longrightarrow> k = Over)"

lemma stuck_step: "stuck g \<Longrightarrow> manager_step cancels stamp_of g g' \<Longrightarrow> stuck g'"
  by (auto simp: stuck_def manager_ensure_current_def manager_refresh_def manager_start_def
      manager_task_done_def Let_def dict_simps elim!: manager_step.cases split: if_splits)

interpretation stuck_machine: invariant_system stuck "manager_step True stamp_of" stuck
  for stamp_of :: "'m \<Rightarrow> stamp"
  by unfold_locales (auto intro: stuck_step)

lemma cancelled_manager_stuck:
  assumes "manager_inv g" and "unfinished g t"
    and "(manager_step True stamp_of)\<^sup>*\<^sup>* (g\<lparr>mg_tasks := dput t Over (mg_tasks g)\<rparr>) g'"
  shows "manager_step True stamp_of g (g\<lparr>mg_tasks := dput t Over (mg_tasks g)\<rparr>) \<and>
    mt_status (mg_state g') = RUNNING \<and> \<not> (\<exists>u. unfinished g' u)"
proof -
  let ?g = "g\<lparr>mg_tasks := dput t Over (mg_tasks g)\<rparr>"
  have only: "u = t" if "unfinished g u" for u
    using assms(1,2) that unfolding manager_inv_def by (metis option.inject)
  have "k = Over" if "dget (mg_tasks ?g) u = Some k" for u k
    using that only [of u] by (auto simp: dict_simps unfinished_def split: if_splits)
  moreover have "mt_status (mg_state ?g) = RUNNING"
    using assms(1,2) by (auto simp: manager_inv_def state_ok_def)
  ultimately have "stuck ?g" by (auto simp: stuck_def)
  from stuck_machine.inv_steps [OF assms(3) this] have "stuck g'" .
  moreover have "manager_step True stamp_of g ?g"
    using assms(2) by (auto simp: unfinished_def split: option.splits intro: manager_step.mg_cancelled)
  ultimately show ?thesis by (auto simp: stuck_def unfinished_def split: option.splits)
qed

section \<open>Examples\<close>

definition sample_snapshot :: transaction_snapshot where
  "sample_snapshot =
     \<lparr>ts_transactions = [sample_tx], ts_metrics = \<lparr>fm_total_transactions = 1,
        fm_fetching_duration_ms = 5, fm_invalid = 0, fm_multipart = 0\<rparr>,
      ts_fetched_at = Aware 10, ts_schema_version = 1\<rparr>"

theorem tx_metrics_add_up_witness:
  "months_ok month_counts \<and>
   sum_list (map snd (txm_categorizable_by_month
     (build_tx_metrics month_counts (U ''blik'') (U ''allegro'') sample_snapshot))) = 1"
proof -
  have m: "months_ok month_counts" by (simp add: months_ok_def)
  have p: "list_all (\<lambda>t. pandas_date (bi_date t)) (ts_transactions sample_snapshot)" by code_simp
  have "txm_categorizable (build_tx_metrics month_counts (U ''blik'') (U ''allegro'') sample_snapshot) = 1"
    by code_simp
  with tx_metrics_add_up [OF m p, of "U ''blik''" "U ''allegro''"] m show ?thesis by metis
qed

theorem metrics_manager_consistent_witness:
  "\<exists>g st. (manager_step False txm_time_stamp)\<^sup>*\<^sup>* manager_new g \<and>
     tx_manager_ensure_current (Inr (Some (Aware 10))) manager_new = (Inr st, g) \<and>
     mt_status (mg_state g) = RUNNING \<and> (\<exists>t. unfinished g t)"
proof -
  obtain st and g :: "tx_metrics manager" where e: "manager_ensure_current txm_time_stamp (Inr (Some (Aware 10))) manager_new = (Inr st, g)"
    and r: "mt_status (mg_state g) = RUNNING"
    by (simp add: manager_ensure_current_def manager_new_def metrics_state_start_def manager_start_def
        manager_busy_def Let_def)
  have "(manager_step False txm_time_stamp)\<^sup>*\<^sup>* manager_new g"
    by (rule r_into_rtranclp, rule manager_step.mg_ensure, rule e)
  with conjunct1 [OF metrics_manager_consistent [OF this]] e r show ?thesis
    unfolding tx_manager_ensure_current_def by blast
qed

end
