(* ===== verification/Routers.thy ===== *)
theory Routers imports BlikApp AllegroApp TxApp begin

text \<open>
  The endpoints of \<open>api/routers/blik_files.py\<close> and \<open>api/routers/allegro.py\<close>: what the service's
  errors become, how ids in the path are read, and the answers. The guard that all of them depend
  on is \<open>require_active_user\<close> (theory Auth). A starting endpoint also returns the task it created.
\<close>

section \<open>BLIK files\<close>

text \<open>The \<open>except\<close> clauses of the apply endpoints; the previews have the first ones only.\<close>

fun blik_http_error :: "exn \<Rightarrow> exn" where
  "blik_http_error (AppError InvalidFileId m) = HTTPException 400 m"
| "blik_http_error (AppError FileNotFound m) = HTTPException 404 (U ''File not found'')"
| "blik_http_error (AppError MatchesNotComputed m) = HTTPException 400 (U ''No match data found'')"
| "blik_http_error (AppError TransactionNotFound m) = HTTPException 400 m"
| "blik_http_error (AppError InvalidMatchSelection m) = HTTPException 400 m"
| "blik_http_error (AppError ExternalServiceFailed m) = HTTPException 502 m"
| "blik_http_error e = e"

definition endpoint_blik_statistics ::
    "instant \<Rightarrow> int \<Rightarrow> snapshot_service \<Rightarrow> blik_metrics manager
       \<Rightarrow> blik_metrics_result metrics_status_response res \<times> blik_metrics manager" where
  "endpoint_blik_statistics now max_age s g =
     (case blik_manager_ensure_current (get_cached_snapshot_timestamp now max_age s) g of
        (Inl e, g') \<Rightarrow> (Inl e, g')
      | (Inr st, g') \<Rightarrow> (Inr (map_blik_state_to_response st), g'))"

definition endpoint_blik_refresh_statistics ::
    "blik_metrics manager \<Rightarrow> blik_metrics_result metrics_status_response \<times> blik_metrics manager" where
  "endpoint_blik_refresh_statistics g =
     (case manager_refresh g of (st, g') \<Rightarrow> (map_blik_state_to_response st, g'))"

definition endpoint_blik_upload ::
    "blik_config \<Rightarrow> ustring \<Rightarrow> nat list \<Rightarrow> blik_state \<Rightarrow> upload_response res \<times> blik_state" where
  "endpoint_blik_upload cfg tmp_name content s = upload_csv cfg tmp_name content s"

definition endpoint_blik_preview :: "blik_config \<Rightarrow> blik_state \<Rightarrow> ustring \<Rightarrow> file_preview res" where
  "endpoint_blik_preview cfg s encoded_id =
     catch_kinds [InvalidFileId, FileNotFound] blik_http_error (preview_csv cfg s encoded_id)"

definition endpoint_blik_matches ::
    "blik_config \<Rightarrow> 'w ff_client \<Rightarrow> ustring \<Rightarrow> blik_state \<Rightarrow> 'w
       \<Rightarrow> file_match res \<times> blik_state \<times> 'w" where
  "endpoint_blik_matches cfg cl encoded_id s w =
     (case blik_preview_matches cfg cl encoded_id s w of
        (r, s', w') \<Rightarrow>
          (catch_kinds [InvalidFileId, FileNotFound, ExternalServiceFailed] blik_http_error r, s', w'))"

definition blik_apply_kinds :: "app_kind list" where
  "blik_apply_kinds =
     [InvalidFileId, MatchesNotComputed, TransactionNotFound, InvalidMatchSelection,
      ExternalServiceFailed]"

definition blik_started ::
    "(blik_job \<times> blik_task) res \<Rightarrow> (blik_job_response \<times> blik_task) res" where
  "blik_started r =
     catch_kinds blik_apply_kinds blik_http_error
       (map_sum id (\<lambda>(job, t). (blik_job_to_response job, t)) r)"

definition endpoint_blik_apply ::
    "uuid \<Rightarrow> instant \<Rightarrow> ustring \<Rightarrow> (int \<times> ustring) list \<Rightarrow> blik_store
       \<Rightarrow> (blik_job_response \<times> blik_task) res \<times> blik_store" where
  "endpoint_blik_apply new_id now encoded_id payload s =
     (case blik_start_apply_job new_id now encoded_id (blik_payload_to_decisions payload) s of
        (r, s') \<Rightarrow> (blik_started r, s'))"

text \<open>\<open>limit\<close>: absent, or 1 to 500.\<close>

definition auto_limit_ok :: "int option \<Rightarrow> bool" where
  "auto_limit_ok limit \<longleftrightarrow> (case limit of None \<Rightarrow> True | Some n \<Rightarrow> 1 \<le> n \<and> n \<le> 500)"

definition unprocessable :: exn where
  "unprocessable = HTTPException 422 (U ''Unprocessable'')"

definition endpoint_blik_auto_apply ::
    "uuid \<Rightarrow> instant \<Rightarrow> ustring \<Rightarrow> int option \<Rightarrow> blik_store
       \<Rightarrow> (blik_job_response \<times> blik_task) res \<times> blik_store" where
  "endpoint_blik_auto_apply new_id now encoded_id limit s =
     (if \<not> auto_limit_ok limit then (Inl unprocessable, s)
      else case blik_start_auto_apply new_id now encoded_id limit s of
             (r, s') \<Rightarrow> (blik_started r, s'))"

definition endpoint_blik_get_job :: "blik_store \<Rightarrow> ustring \<Rightarrow> blik_job_response res" where
  "endpoint_blik_get_job s job_id_str =
     (case parse_uuid job_id_str of
        None \<Rightarrow> Inl (HTTPException 400 (U ''Invalid job_id''))
      | Some i \<Rightarrow>
          (case blik_get_apply_job s i of
             None \<Rightarrow> Inl (HTTPException 404 (U ''Job not found''))
           | Some job \<Rightarrow> Inr (blik_job_to_response job)))"

section \<open>Allegro\<close>

text \<open>\<open>_raise_allegro_http_error\<close>\<close>

fun raise_allegro_http_error :: "exn \<Rightarrow> exn" where
  "raise_allegro_http_error (AppError VaultLocked m) = HTTPException 423 (U ''Vault is locked'')"
| "raise_allegro_http_error (AppError VaultSessionExpired m) =
     HTTPException 401 (U ''Vault session expired'')"
| "raise_allegro_http_error (AppError VaultNotConfigured m) =
     HTTPException 409 (U ''Vault not configured'')"
| "raise_allegro_http_error (AppError SecretDecryptionFailed m) =
     HTTPException 422 (U ''Secret decryption failed'')"
| "raise_allegro_http_error (AppError InvalidSecretId m) = HTTPException 400 m"
| "raise_allegro_http_error (AppError MatchesNotComputed m) =
     HTTPException 400 (U ''No match data found'')"
| "raise_allegro_http_error (AppError TransactionNotFound m) = HTTPException 400 m"
| "raise_allegro_http_error (AppError InvalidMatchSelection m) = HTTPException 400 m"
| "raise_allegro_http_error (AppError ExternalServiceFailed m) = HTTPException 502 m"
| "raise_allegro_http_error e = e"

text \<open>\<open>except ValueError: 400 "Invalid secret_id"\<close> comes first and catches every \<open>ValueError\<close>.\<close>

definition invalid_secret_id :: exn where
  "invalid_secret_id = HTTPException 400 (U ''Invalid secret_id'')"

definition catch_value_error :: "'a res \<Rightarrow> 'a res" where
  "catch_value_error r = (case r of Inl (ValueError m) \<Rightarrow> Inl invalid_secret_id | _ \<Rightarrow> r)"

definition allegro_fetch_kinds :: "app_kind list" where
  "allegro_fetch_kinds =
     [VaultLocked, VaultSessionExpired, VaultNotConfigured, SecretDecryptionFailed, InvalidSecretId,
      ExternalServiceFailed]"

definition page_query_ok :: "int \<Rightarrow> int \<Rightarrow> bool" where
  "page_query_ok limit offset \<longleftrightarrow> 1 \<le> limit \<and> limit \<le> 100 \<and> 0 \<le> offset"

definition endpoint_allegro_secrets :: "session \<Rightarrow> uuid \<Rightarrow> secret_read_model list" where
  "endpoint_allegro_secrets s user_id = get_allegro_secrets s user_id"

definition endpoint_allegro_payments ::
    "crypto \<Rightarrow> 'w allegro_http \<Rightarrow> uuid \<Rightarrow> instant \<Rightarrow> uuid \<Rightarrow> ustring \<Rightarrow> ustring option \<Rightarrow> int \<Rightarrow> int
       \<Rightarrow> vault_state \<Rightarrow> 'w \<Rightarrow> allegro_payment_api list res \<times> vault_state \<times> 'w" where
  "endpoint_allegro_payments cy http audit_id now user_id secret_str sid limit offset st w =
     (if \<not> page_query_ok limit offset then (Inl unprocessable, st, w)
      else case mk_page limit offset of
             Inl e \<Rightarrow> (Inl e, st, w)
           | Inr page \<Rightarrow>
               (case parse_uuid secret_str of
                  None \<Rightarrow> (Inl invalid_secret_id, st, w)
                | Some secret_id \<Rightarrow>
                    (case fetch_allegro_data cy http audit_id now user_id secret_id sid page st w of
                       (r, st', w') \<Rightarrow>
                         (catch_kinds allegro_fetch_kinds raise_allegro_http_error
                            (catch_value_error (map_sum id allegro_payments_to_response r)),
                          st', w'))))"

record allegro_match_response =
  amr_login :: ustring
  amr_payments_fetched :: nat
  amr_transactions_found :: nat
  amr_not_matched :: nat
  amr_one_match :: nat
  amr_many_matches :: nat
  amr_content :: "allegro_payment_api api_match_result list"
  amr_unmatched :: "allegro_payment_api list"

definition allegro_preview_to_api :: "allegro_preview \<Rightarrow> allegro_match_response res" where
  "allegro_preview_to_api p =
     (case allegro_match_results_to_api (avp_content p) of
        Inl e \<Rightarrow> Inl e
      | Inr content \<Rightarrow>
          Inr \<lparr>amr_login = avp_login p, amr_payments_fetched = avp_payments_fetched p,
               amr_transactions_found = avp_transactions_found p,
               amr_not_matched = avp_not_matched p, amr_one_match = avp_one_match p,
               amr_many_matches = avp_many_matches p, amr_content = content,
               amr_unmatched = map allegro_payment_to_response (avp_unmatched p)\<rparr>)"

definition endpoint_allegro_matches ::
    "allegro_config \<Rightarrow> crypto \<Rightarrow> 'w allegro_http \<Rightarrow> 'w ff_client \<Rightarrow> uuid \<Rightarrow> instant \<Rightarrow> uuid \<Rightarrow> ustring
       \<Rightarrow> ustring option \<Rightarrow> int \<Rightarrow> int \<Rightarrow> 'w allegro_env
       \<Rightarrow> allegro_match_response res \<times> 'w allegro_env" where
  "endpoint_allegro_matches cfg cy http cl audit_id now user_id secret_str sid limit offset env =
     (if \<not> page_query_ok limit offset then (Inl unprocessable, env)
      else case mk_page limit offset of
             Inl e \<Rightarrow> (Inl e, env)
           | Inr page \<Rightarrow>
               (case parse_uuid secret_str of
                  None \<Rightarrow> (Inl invalid_secret_id, env)
                | Some secret_id \<Rightarrow>
                    (case allegro_preview_matches cfg cy http cl audit_id now user_id secret_id sid
                            (Some page) env of
                       (r, env') \<Rightarrow>
                         (catch_kinds
                            (allegro_fetch_kinds
                             @ [MatchesNotComputed, TransactionNotFound, InvalidMatchSelection])
                            raise_allegro_http_error
                            (catch_value_error
                               (case r of Inl e \<Rightarrow> Inl e | Inr p \<Rightarrow> allegro_preview_to_api p)),
                          env'))))"

fun allegro_apply_error :: "exn \<Rightarrow> exn" where
  "allegro_apply_error (AppError InvalidSecretId m) = HTTPException 400 m"
| "allegro_apply_error (AppError InvalidFileId m) = HTTPException 400 m"
| "allegro_apply_error (AppError MatchesNotComputed m) = HTTPException 400 (U ''No match data found'')"
| "allegro_apply_error (AppError TransactionNotFound m) = HTTPException 400 m"
| "allegro_apply_error (AppError InvalidMatchSelection m) = HTTPException 400 m"
| "allegro_apply_error (AppError ExternalServiceFailed m) = HTTPException 502 m"
| "allegro_apply_error (ValueError m) = invalid_secret_id"
| "allegro_apply_error e = e"

definition endpoint_allegro_apply ::
    "uuid \<Rightarrow> instant \<Rightarrow> ustring \<Rightarrow> (ustring \<times> int \<times> strategy) list \<Rightarrow> allegro_store
       \<Rightarrow> (allegro_job_response \<times> allegro_task) res \<times> allegro_store" where
  "endpoint_allegro_apply new_id now secret_str payload s =
     (case parse_uuid secret_str of
        None \<Rightarrow> (Inl invalid_secret_id, s)
      | Some secret_id \<Rightarrow>
          (case allegro_start_apply_job new_id now secret_id (allegro_payload_to_decisions payload) s of
             (r, s') \<Rightarrow>
               (map_sum allegro_apply_error (\<lambda>(job, t). (allegro_job_to_response job, t)) r, s')))"

fun allegro_auto_error :: "exn \<Rightarrow> exn" where
  "allegro_auto_error (AppError MatchesNotComputed m) =
     HTTPException 400 (U ''No match data found; run preview first'')"
| "allegro_auto_error (AppError ExternalServiceFailed m) = HTTPException 502 m"
| "allegro_auto_error (ValueError m) = invalid_secret_id"
| "allegro_auto_error e = e"

definition endpoint_allegro_auto_apply ::
    "uuid \<Rightarrow> instant \<Rightarrow> ustring \<Rightarrow> int option \<Rightarrow> allegro_store
       \<Rightarrow> (allegro_job_response \<times> allegro_task) res \<times> allegro_store" where
  "endpoint_allegro_auto_apply new_id now secret_str limit s =
     (if \<not> auto_limit_ok limit then (Inl unprocessable, s)
      else case parse_uuid secret_str of
             None \<Rightarrow> (Inl invalid_secret_id, s)
           | Some secret_id \<Rightarrow>
               (case allegro_start_auto_apply new_id now secret_id limit s of
                  (r, s') \<Rightarrow>
                    (map_sum allegro_auto_error (\<lambda>(job, t). (allegro_job_to_response job, t)) r, s')))"

text \<open>The answer of \<open>clear_cache_for_secret\<close>: whether anything was dropped, and for a page which.\<close>

datatype cleared = ClearedSecret bool | ClearedPage bool int int

definition endpoint_allegro_clear_cache ::
    "ustring \<Rightarrow> int option \<Rightarrow> int option \<Rightarrow> allegro_store \<Rightarrow> cleared res \<times> allegro_store" where
  "endpoint_allegro_clear_cache secret_str limit offset s =
     (if \<not> (case limit of None \<Rightarrow> True | Some l \<Rightarrow> 1 \<le> l \<and> l \<le> 100)
         \<or> \<not> (case offset of None \<Rightarrow> True | Some n \<Rightarrow> 0 \<le> n)
      then (Inl unprocessable, s)
      else if (limit = None) \<noteq> (offset = None)
      then (Inl (HTTPException 400
                  (U ''Provide both limit and offset to clear a single page cache'')), s)
      else case parse_uuid secret_str of
             None \<Rightarrow> (Inl invalid_secret_id, s)
           | Some secret_id \<Rightarrow>
               (case (limit, offset) of
                  (Some l, Some n) \<Rightarrow>
                    (case mk_page l n of
                       Inl e \<Rightarrow> (Inl e, s)
                     | Inr page \<Rightarrow>
                         (case clear_cached_page secret_id page s of
                            (c, s') \<Rightarrow> (Inr (ClearedPage c (pg_limit page) (pg_offset page)), s')))
                | _ \<Rightarrow>
                    (case clear_cached_secret secret_id s of
                       (c, s') \<Rightarrow> (Inr (ClearedSecret c), s'))))"

text \<open>This endpoint lets the \<open>ValueError\<close> of \<open>UUID(job_id)\<close> pass.\<close>

definition endpoint_allegro_get_job :: "allegro_store \<Rightarrow> ustring \<Rightarrow> allegro_job_response res" where
  "endpoint_allegro_get_job s job_id_str =
     (case parse_uuid job_id_str of
        None \<Rightarrow> Inl (ValueError (U ''badly formed hexadecimal UUID string''))
      | Some i \<Rightarrow>
          (case allegro_job_get (as_jobs s) i of
             None \<Rightarrow> Inl (HTTPException 404 (U ''Job not found''))
           | Some job \<Rightarrow> Inr (allegro_job_to_response job)))"

definition endpoint_allegro_statistics ::
    "instant \<Rightarrow> int \<Rightarrow> snapshot_service \<Rightarrow> allegro_metrics manager
       \<Rightarrow> allegro_metrics_result metrics_status_response res \<times> allegro_metrics manager" where
  "endpoint_allegro_statistics now max_age s g =
     (case allegro_manager_ensure_current (get_cached_snapshot_timestamp now max_age s) g of
        (Inl e, g') \<Rightarrow> (Inl e, g')
      | (Inr st, g') \<Rightarrow> (Inr (map_allegro_state_to_response st), g'))"

definition endpoint_allegro_refresh_statistics ::
    "allegro_metrics manager
       \<Rightarrow> allegro_metrics_result metrics_status_response \<times> allegro_metrics manager" where
  "endpoint_allegro_refresh_statistics g =
     (case manager_refresh g of (st, g') \<Rightarrow> (map_allegro_state_to_response st, g'))"

end
