(* ===== verification/RouterProps.thy ===== *)
theory RouterProps imports Routers Samples "HOL-Library.Code_Target_Nat" begin

text \<open>
  What the endpoints of the two matching flows answer: a started job is found under its id, and
  what becomes of an Allegro page without payments.
\<close>

lemma blik_started_Inr:
  "blik_started r = Inr (resp, t) \<longleftrightarrow> (\<exists>job. r = Inr (job, t) \<and> resp = blik_job_to_response job)"
  by (cases r) (auto simp: blik_started_def)

text \<open>
  A started BLIK job can be asked for at once: the job endpoint answers, for the text of the
  new id, exactly what the apply endpoint answered, a pending job over all decisions of the
  payload; and what it answers for any other id does not change.
\<close>

lemma blik_job_by_id:
  assumes "endpoint_blik_apply new_id now encoded_id payload s = (Inr (resp, t), s')"
    and "uuid_ok new_id"
  shows "endpoint_blik_get_job s' (uuid_str new_id) = Inr resp \<and>
    jr_id resp = new_id \<and> jr_status resp = ApiPending \<and> jr_total resp = length payload \<and>
    jr_results resp = [] \<and> jr_file_id resp = encoded_id \<and>
    bt_todo t = blik_payload_to_decisions payload \<and> bt_job t = new_id \<and>
    (\<forall>j. parse_uuid j \<noteq> Some new_id \<longrightarrow> endpoint_blik_get_job s' j = endpoint_blik_get_job s j)"
proof -
  from assms(1) obtain job where
    st: "blik_start_apply_job new_id now encoded_id (blik_payload_to_decisions payload) s = (Inr (job, t), s')"
    and r: "resp = blik_job_to_response job"
    by (auto simp: endpoint_blik_apply_def blik_started_Inr split: prod.splits)
  from st have job: "job = new_blik_job new_id now encoded_id (length payload)"
    and s': "bs_jobs s' = dput new_id job (bs_jobs s)"
    and t: "bt_todo t = blik_payload_to_decisions payload" "bt_job t = new_id"
    by (auto simp: blik_start_apply_job_def blik_job_create_def Let_def new_blik_job_def
        blik_payload_to_decisions_def split: if_splits)
  from s' job have get: "blik_get_apply_job s' i = (if i = new_id then Some job else blik_get_apply_job s i)" for i
    by (simp add: blik_get_apply_job_def blik_job_get_def dict_simps)
  show ?thesis using assms(2) t
    by (auto simp: r job get endpoint_blik_get_job_def parse_uuid_str blik_job_to_response_def
        new_blik_job_def split: option.splits)
qed

theorem blik_job_by_id_witness:
  "\<exists>resp t s'. endpoint_blik_apply 5 0 (U ''f'') [(7, U ''m'')]
      \<lparr>bs_matches = [(U ''f'', [\<lparr>mr_tx = sample_tx, mr_matches = [sample_record], mr_status = NEW\<rparr>])],
       bs_jobs = []\<rparr> = (Inr (resp, t), s') \<and>
     endpoint_blik_get_job s' (uuid_str 5) = Inr resp \<and> jr_total resp = 1"
proof -
  let ?s = "\<lparr>bs_matches = [(U ''f'', [\<lparr>mr_tx = sample_tx, mr_matches = [sample_record], mr_status = NEW\<rparr>])],
       bs_jobs = []\<rparr>"
  obtain resp t s' where run: "endpoint_blik_apply 5 0 (U ''f'') [(7, U ''m'')] ?s = (Inr (resp, t), s')"
    by (simp add: endpoint_blik_apply_def blik_start_apply_job_def blik_get_matches_def
        blik_job_create_def Let_def blik_started_def)
  have "uuid_ok 5" by code_simp
  from blik_job_by_id [OF run this] run show ?thesis by auto
qed

text \<open>
  A page without payments: the matching's \<open>min()\<close> raises a \<open>ValueError\<close>, which the endpoint takes
  for a malformed id.
\<close>

lemma empty_allegro_page:
  assumes "page_query_ok limit offset" and "parse_uuid secret_str = Some secret_id"
    and "mk_page limit offset = Inr page"
    and "fetch_allegro_data cy http audit_id now user_id secret_id sid page st w = (Inr [], st', w')"
  shows "fst (endpoint_allegro_matches cfg cy http cl audit_id now user_id secret_str sid limit offset (st, s, w))
    = Inl (HTTPException 400 (U ''Invalid secret_id''))"
  using assms
  by (simp add: endpoint_allegro_matches_def allegro_preview_matches_def Let_def allegro_match_page_def
      match_with_unmatched_empty catch_value_error_def invalid_secret_id_def catch_kinds_def)

text \<open>The BLIK preview of a file without records lets the same error pass.\<close>

lemma empty_blik_file:
  assumes "open_csv cfg s encoded_id = Inr (decoded, [])"
  shows "fst (endpoint_blik_matches cfg cl encoded_id s w)
    = Inl (ValueError (U ''min() iterable argument is empty''))"
  using assms
  by (simp add: endpoint_blik_matches_def blik_preview_matches_def match_only_def
      match_with_unmatched_empty catch_kinds_def)

text \<open>The job endpoint of the Allegro flow lets the error of a malformed id pass; the other answers 400.\<close>

lemma malformed_job_id:
  "parse_uuid i = None \<Longrightarrow> \<exists>m. endpoint_allegro_get_job st i = Inl (ValueError m)"
  "parse_uuid i = None \<Longrightarrow> endpoint_blik_get_job s i = Inl (HTTPException 400 (U ''Invalid job_id''))"
  by (simp_all add: endpoint_allegro_get_job_def endpoint_blik_get_job_def)

end
