(* ===== verification/SeqMatch.thy ===== *)
theory SeqMatch imports PyFloat begin

text \<open>
  \<open>difflib.SequenceMatcher(None, a, b).ratio()\<close> of Python's library, as far as the similarity engine
  uses it: no junk function, and the heuristic that leaves characters out of the index which are
  frequent in a second text of 200 characters or more.
\<close>

section \<open>The longest match in a range\<close>

definition popular :: "'a list \<Rightarrow> 'a \<Rightarrow> bool" where
  "popular b c \<longleftrightarrow> 200 \<le> length b \<and> length b div 100 + 1 < count_list b c"

definition b2j :: "'a list \<Rightarrow> 'a \<Rightarrow> nat list" where
  "b2j b c = (if popular b c then [] else filter (\<lambda>j. b ! j = c) [0..<length b])"

text \<open>\<open>j2len.get(j - 1, 0)\<close>\<close>

definition j2len_before :: "(nat, nat) dict \<Rightarrow> nat \<Rightarrow> nat" where
  "j2len_before d j =
     (case j of 0 \<Rightarrow> 0 | Suc j' \<Rightarrow> (case dget d j' of None \<Rightarrow> 0 | Some k \<Rightarrow> k))"

type_synonym match = "nat \<times> nat \<times> nat"

fun row_loop ::
    "nat \<Rightarrow> nat \<Rightarrow> nat \<Rightarrow> (nat, nat) dict \<Rightarrow> nat list \<Rightarrow> (nat, nat) dict \<Rightarrow> match
       \<Rightarrow> (nat, nat) dict \<times> match" where
  "row_loop blo bhi i d [] new best = (new, best)"
| "row_loop blo bhi i d (j # js) new best =
     (if j < blo then row_loop blo bhi i d js new best
      else if bhi \<le> j then (new, best)
      else let k = Suc (j2len_before d j)
           in row_loop blo bhi i d js (dput j k new)
                (if snd (snd best) < k then (Suc i - k, Suc j - k, k) else best))"

fun rows_loop ::
    "'a list \<Rightarrow> 'a list \<Rightarrow> nat \<Rightarrow> nat \<Rightarrow> nat list \<Rightarrow> (nat, nat) dict \<Rightarrow> match \<Rightarrow> match" where
  "rows_loop a b blo bhi [] d best = best"
| "rows_loop a b blo bhi (i # is) d best =
     (case row_loop blo bhi i d (b2j b (a ! i)) [] best of
        (new, best') \<Rightarrow> rows_loop a b blo bhi is new best')"

fun extend_left :: "'a list \<Rightarrow> 'a list \<Rightarrow> nat \<Rightarrow> nat \<Rightarrow> nat \<Rightarrow> nat \<Rightarrow> nat \<Rightarrow> match" where
  "extend_left a b alo blo i j k =
     (if alo < i \<and> blo < j \<and> a ! (i - 1) = b ! (j - 1)
      then extend_left a b alo blo (i - 1) (j - 1) (k + 1) else (i, j, k))"

function extend_right :: "'a list \<Rightarrow> 'a list \<Rightarrow> nat \<Rightarrow> nat \<Rightarrow> nat \<Rightarrow> nat \<Rightarrow> nat \<Rightarrow> match" where
  "extend_right a b ahi bhi i j k =
     (if i + k < ahi \<and> j + k < bhi \<and> a ! (i + k) = b ! (j + k)
      then extend_right a b ahi bhi i j (k + 1) else (i, j, k))"
  by pat_completeness auto
termination by (relation "measure (\<lambda>(a, b, ahi, bhi, i, j, k). ahi - (i + k))") auto

declare extend_left.simps [simp del] extend_right.simps [simp del]

definition find_longest_match ::
    "'a list \<Rightarrow> 'a list \<Rightarrow> nat \<Rightarrow> nat \<Rightarrow> nat \<Rightarrow> nat \<Rightarrow> match" where
  "find_longest_match a b alo ahi blo bhi =
     (case rows_loop a b blo bhi [alo..<ahi] [] (alo, blo, 0) of
        (i, j, k) \<Rightarrow>
          (case extend_left a b alo blo i j k of
             (i', j', k') \<Rightarrow> extend_right a b ahi bhi i' j' k'))"

section \<open>The match stays in its range\<close>

definition in_range :: "nat \<Rightarrow> nat \<Rightarrow> nat \<Rightarrow> nat \<Rightarrow> match \<Rightarrow> bool" where
  "in_range alo ahi blo bhi m \<longleftrightarrow>
     (case m of (i, j, k) \<Rightarrow> alo \<le> i \<and> i + k \<le> ahi \<and> blo \<le> j \<and> j + k \<le> bhi)"

text \<open>Before row \<open>i\<close> the lengths in the dictionary fit between the starts and their ends.\<close>

definition lens_ok :: "nat \<Rightarrow> nat \<Rightarrow> nat \<Rightarrow> (nat, nat) dict \<Rightarrow> bool" where
  "lens_ok alo blo i d \<longleftrightarrow> (\<forall>j k. dget d j = Some k \<longrightarrow> k + alo \<le> i \<and> k + blo \<le> Suc j)"

lemma lens_ok_Nil [simp]: "lens_ok alo blo i []"
  by (simp add: lens_ok_def)

lemma lens_ok_before:
  "lens_ok alo blo i d \<Longrightarrow> alo \<le> i \<Longrightarrow> blo \<le> j \<Longrightarrow>
     j2len_before d j + alo \<le> i \<and> j2len_before d j + blo \<le> j"
  by (auto simp: lens_ok_def j2len_before_def split: nat.splits option.splits)

lemma row_loop_ok:
  "row_loop blo bhi i d js new best = (new', best') \<Longrightarrow> lens_ok alo blo i d \<Longrightarrow>
     lens_ok alo blo (Suc i) new \<Longrightarrow> in_range alo ahi blo bhi best \<Longrightarrow> alo \<le> i \<Longrightarrow> i < ahi \<Longrightarrow>
     lens_ok alo blo (Suc i) new' \<and> in_range alo ahi blo bhi best'"
proof (induction blo bhi i d js new best rule: row_loop.induct)
  case (2 blo bhi i d j js new best)
  show ?case
  proof (cases "j < blo \<or> bhi \<le> j")
    case False
    let ?k = "Suc (j2len_before d j)"
    have k: "?k + alo \<le> Suc i" "?k + blo \<le> Suc j"
      using lens_ok_before [OF 2(4,7), of j] False by auto
    have "lens_ok alo blo (Suc i) (dput j ?k new)"
      using 2(5) k by (auto simp: lens_ok_def dict_simps)
    moreover have "in_range alo ahi blo bhi
        (if snd (snd best) < ?k then (Suc i - ?k, Suc j - ?k, ?k) else best)"
      using 2(6,8) k False by (auto simp: in_range_def)
    ultimately show ?thesis using 2(2) [OF _ _ refl] 2(3-8) False by (simp add: Let_def)
  qed (use 2 in \<open>auto split: if_splits\<close>)
qed simp

lemma rows_loop_ok:
  "in_range alo ahi blo bhi best \<Longrightarrow> lens_ok alo blo i d \<Longrightarrow> alo \<le> i \<Longrightarrow> i \<le> ahi \<Longrightarrow>
     in_range alo ahi blo bhi (rows_loop a b blo bhi [i..<ahi] d best)"
proof (induction "ahi - i" arbitrary: i d best)
  case (Suc n)
  then have i: "i < ahi" by simp
  obtain new best' where r: "row_loop blo bhi i d (b2j b (a ! i)) [] best = (new, best')"
    by (cases "row_loop blo bhi i d (b2j b (a ! i)) [] best")
  from row_loop_ok [OF r Suc(4) _ Suc(3,5) i] Suc(1) [of "Suc i" best' new] Suc(2,5) i
  show ?case by (simp add: upt_conv_Cons r)
qed simp

lemma extend_left_ok:
  "in_range alo ahi blo bhi (i, j, k) \<Longrightarrow>
     in_range alo ahi blo bhi (extend_left a b alo blo i j k)"
proof (induction a b alo blo i j k rule: extend_left.induct)
  case (1 a b alo blo i j k)
  show ?case
  proof (cases "alo < i \<and> blo < j \<and> a ! (i - 1) = b ! (j - 1)")
    case True
    moreover from True 1(2) have "in_range alo ahi blo bhi (i - 1, j - 1, k + 1)"
      by (auto simp: in_range_def)
    ultimately have "in_range alo ahi blo bhi (extend_left a b alo blo (i - 1) (j - 1) (k + 1))"
      by (rule 1(1))
    with True show ?thesis by (subst extend_left.simps) simp
  qed (use 1(2) in \<open>subst extend_left.simps, auto\<close>)
qed

lemma extend_right_ok:
  "in_range alo ahi blo bhi (i, j, k) \<Longrightarrow>
     in_range alo ahi blo bhi (extend_right a b ahi bhi i j k)"
proof (induction a b ahi bhi i j k rule: extend_right.induct)
  case (1 a b ahi bhi i j k)
  show ?case
  proof (cases "i + k < ahi \<and> j + k < bhi \<and> a ! (i + k) = b ! (j + k)")
    case True
    moreover from True 1(2) have "in_range alo ahi blo bhi (i, j, k + 1)"
      by (auto simp: in_range_def)
    ultimately have "in_range alo ahi blo bhi (extend_right a b ahi bhi i j (k + 1))"
      by (rule 1(1))
    with True show ?thesis by (subst extend_right.simps) simp
  qed (use 1(2) in \<open>subst extend_right.simps, auto\<close>)
qed

lemma find_longest_in_range:
  assumes "alo \<le> ahi" and "blo \<le> bhi"
  shows "in_range alo ahi blo bhi (find_longest_match a b alo ahi blo bhi)"
proof -
  have "in_range alo ahi blo bhi (rows_loop a b blo bhi [alo..<ahi] [] (alo, blo, 0))"
    using assms by (intro rows_loop_ok) (auto simp: in_range_def)
  then show ?thesis
    unfolding find_longest_match_def by (auto split: prod.splits intro: extend_right_ok)
      (metis extend_left_ok extend_right_ok)
qed

lemma find_longest_bounds:
  assumes "(i, j, k) = find_longest_match a b alo ahi blo bhi" and "\<not> ahi < alo" and "\<not> bhi < blo"
  shows "alo \<le> i" and "i + k \<le> ahi" and "blo \<le> j" and "j + k \<le> bhi"
  using assms find_longest_in_range [of alo ahi blo bhi a b] by (auto simp: in_range_def)

section \<open>The matching blocks\<close>

text \<open>
  The sum of the lengths of \<open>get_matching_blocks\<close>: the queue of ranges is worked off in some order,
  which the sum does not depend on.
\<close>

function matched_size :: "'a list \<Rightarrow> 'a list \<Rightarrow> nat \<Rightarrow> nat \<Rightarrow> nat \<Rightarrow> nat \<Rightarrow> nat" where
  "matched_size a b alo ahi blo bhi =
     (if ahi < alo \<or> bhi < blo then 0
      else case find_longest_match a b alo ahi blo bhi of
             (i, j, k) \<Rightarrow>
               (if k = 0 then 0
                else k
                  + (if alo < i \<and> blo < j then matched_size a b alo i blo j else 0)
                  + (if i + k < ahi \<and> j + k < bhi then matched_size a b (i + k) ahi (j + k) bhi
                     else 0)))"
  by pat_completeness auto
termination
proof (relation "measure (\<lambda>(a, b, alo, ahi, blo, bhi). ahi - alo)")
qed (auto dest: find_longest_bounds(1,2))

declare matched_size.simps [simp del]

definition seq_ratio :: "'a list \<Rightarrow> 'a list \<Rightarrow> pyfloat" where
  "seq_ratio a b =
     (let matches = matched_size a b 0 (length a) 0 (length b); n = length a + length b
      in if n = 0 then 1 else fdiv (fmul 2 (fint matches)) (fint n))"

lemma matched_size_le:
  "matched_size a b alo ahi blo bhi \<le> ahi - alo \<and> matched_size a b alo ahi blo bhi \<le> bhi - blo"
proof (induction a b alo ahi blo bhi rule: matched_size.induct)
  case (1 a b alo ahi blo bhi)
  show ?case
  proof (cases "ahi < alo \<or> bhi < blo")
    case False
    obtain i j k where m: "find_longest_match a b alo ahi blo bhi = (i, j, k)" by (cases rule: prod_cases3)
    from False have r: "alo \<le> i" "i + k \<le> ahi" "blo \<le> j" "j + k \<le> bhi"
      using find_longest_bounds [OF m [symmetric]] by auto
    show ?thesis
    proof (cases "k = 0")
      case False
      note IH = 1 [OF \<open>\<not> (ahi < alo \<or> bhi < blo)\<close> m [symmetric] refl False]
      show ?thesis
        using IH(1) IH(2) r \<open>\<not> (ahi < alo \<or> bhi < blo)\<close> False
        by (subst (1 2) matched_size.simps) (auto simp: m)
    qed (use \<open>\<not> (ahi < alo \<or> bhi < blo)\<close> in \<open>subst (1 2) matched_size.simps, simp add: m\<close>)
  qed (subst (1 2) matched_size.simps, simp)
qed

lemma seq_ratio_unit: "0 \<le> seq_ratio a b \<and> seq_ratio a b \<le> 1"
proof -
  let ?m = "matched_size a b 0 (length a) 0 (length b)"
  have "2 * ?m \<le> length a + length b"
    using matched_size_le [of a b 0 "length a" 0 "length b"] by simp
  then show ?thesis
    unfolding seq_ratio_def Let_def fmul_2_fint
    using fdiv_unit [OF fint_nonneg fint_mono] by simp
qed

end
