(* ===== verification/Categorize.thy ===== *)
theory Categorize imports SeqMatch TxApp "HOL-Library.Product_Lexorder" begin

text \<open>
  \<open>services/categorization\<close>: category suggestions for a transaction, from the categories of similar
  transactions in the snapshot. Unicode's compatibility decomposition (\<open>unicodedata.normalize\<close>, a
  data table) is the parameter \<open>nfkd\<close>; scores are binary64 numbers (theory PyFloat).
\<close>

section \<open>The preprocessor\<close>

text \<open>A \<open>re.sub(" ")\<close> of runs: each maximal run of at least \<open>n\<close> characters becomes one space.\<close>

function sub_runs :: "(nat \<Rightarrow> bool) \<Rightarrow> nat \<Rightarrow> ustring \<Rightarrow> ustring" where
  "sub_runs P n [] = []"
| "sub_runs P n (c # s) =
     (if P c
      then (let r = c # takeWhile P s in if n \<le> length r then [32] else r)
             @ sub_runs P n (dropWhile P s)
      else c # sub_runs P n s)"
  by pat_completeness auto
termination
  by (relation "measure (\<lambda>(P, n, s). length s)") (auto simp: less_Suc_eq_le length_dropWhile_le)

definition diacritics :: "(nat, nat) dict" where
  "diacritics =
     [(261, 97), (263, 99), (281, 101), (322, 108), (324, 110), (243, 111), (347, 115), (380, 122),
      (378, 122), (260, 65), (262, 67), (280, 69), (321, 76), (323, 78), (211, 79), (346, 83),
      (379, 90), (377, 90)]"

definition translate :: "(nat, nat) dict \<Rightarrow> ustring \<Rightarrow> ustring" where
  "translate d s = map (\<lambda>c. case dget d c of None \<Rightarrow> c | Some c' \<Rightarrow> c') s"

definition is_ascii :: "nat \<Rightarrow> bool" where
  "is_ascii c \<longleftrightarrow> c < 128"

definition cat_normalize :: "(ustring \<Rightarrow> ustring) \<Rightarrow> ustring option \<Rightarrow> ustring" where
  "cat_normalize nfkd value =
     (case value of
        None \<Rightarrow> []
      | Some v \<Rightarrow>
          (let text = strip v
           in if text = [] then []
              else strip (sub_runs is_space 1 (lower (sub_runs is_digit 6
                     (filter is_ascii (translate diacritics (nfkd text))))))))"

definition cat_tokens :: "(ustring \<Rightarrow> ustring) \<Rightarrow> ustring option \<Rightarrow> ustring set" where
  "cat_tokens nfkd value =
     (let normalized = cat_normalize nfkd value
      in if normalized = [] then {} else set (split_on 32 normalized))"

section \<open>The bucketizer\<close>

definition bucket_bounds :: "decimal list" where
  "bucket_bounds =
     [DFin False 10 0, DFin False 25 0, DFin False 50 0, DFin False 100 0, DFin False 250 0,
      DFin False 500 0, DInf False]"

definition bucket_labels :: "ustring list" where
  "bucket_labels =
     [U ''0-10'', U ''10-25'', U ''25-50'', U ''50-100'', U ''100-250'', U ''250-500'', U ''500+'']"

text \<open>A comparison with a NaN raises.\<close>

fun bucket_loop :: "decimal \<Rightarrow> (decimal \<times> ustring) list \<Rightarrow> ustring res" where
  "bucket_loop a [] = Inr (last bucket_labels)"
| "bucket_loop a ((bound, label) # bs) =
     (case dec_le a bound of
        None \<Rightarrow> Inl (OtherError (U ''InvalidOperation''))
      | Some True \<Rightarrow> Inr label
      | Some False \<Rightarrow> bucket_loop a bs)"

definition bucket_for_amount :: "decimal \<Rightarrow> ustring res" where
  "bucket_for_amount amount = bucket_loop (dec_abs amount) (zip bucket_bounds bucket_labels)"

fun list_index :: "'a list \<Rightarrow> 'a \<Rightarrow> nat option" where
  "list_index [] x = None"
| "list_index (y # ys) x = (if y = x then Some 0 else map_option Suc (list_index ys x))"

definition bucket_index :: "ustring \<Rightarrow> nat" where
  "bucket_index bucket =
     (case list_index bucket_labels bucket of
        None \<Rightarrow> length bucket_labels - 1
      | Some i \<Rightarrow> i)"

definition bucket_score :: "nat \<Rightarrow> nat \<Rightarrow> pyfloat" where
  "bucket_score left_index right_index =
     (let distance = \<bar>int left_index - int right_index\<bar>
      in if distance = 0 then 1 else if distance = 1 then flit 65 100
         else if distance = 2 then flit 35 100 else 0)"

definition bucket_similarity :: "decimal \<Rightarrow> decimal \<Rightarrow> pyfloat res" where
  "bucket_similarity left_amount right_amount =
     (case bucket_for_amount left_amount of Inl e \<Rightarrow> Inl e
      | Inr l \<Rightarrow>
          (case bucket_for_amount right_amount of Inl e \<Rightarrow> Inl e
           | Inr r \<Rightarrow> Inr (bucket_score (bucket_index l) (bucket_index r))))"

section \<open>Queries and documents\<close>

record categorization_query =
  cq_transaction_id :: "ustring option"
  cq_title :: ustring
  cq_merchant :: "ustring option"
  cq_notes :: "ustring option"
  cq_amount :: decimal
  cq_source_type :: ustring

record tx_query =
  tq_transaction_id :: "ustring option"
  tq_title :: ustring
  tq_merchant :: "ustring option"
  tq_notes :: "ustring option"
  tq_amount :: decimal
  tq_amount_bucket :: ustring
  tq_source_type :: ustring

record tx_document =
  td_transaction_id :: ustring
  td_user_id :: ustring
  td_category_id :: ustring
  td_category_name :: ustring
  td_title :: ustring
  td_merchant :: "ustring option"
  td_notes :: "ustring option"
  td_amount :: decimal
  td_amount_bucket :: ustring
  td_source_type :: ustring

record similar_match =
  si_transaction_id :: ustring
  si_category_id :: ustring
  si_category_name :: ustring
  si_similarity_score :: pyfloat
  si_matched_by :: ustring

record suggestion =
  sg_category_id :: ustring
  sg_category_name :: ustring
  sg_score :: pyfloat
  sg_reason :: ustring

section \<open>The snapshot provider\<close>

text \<open>
  \<open>getattr(tx, "merchant", None)\<close>: a transaction of the domain has no such attribute, so the
  merchant is always \<open>None\<close>.
\<close>

definition tx_merchant :: "transaction \<Rightarrow> ustring option" where
  "tx_merchant t = None"

definition infer_source_type :: "transaction \<Rightarrow> ustring option \<Rightarrow> ustring" where
  "infer_source_type t merchant =
     (if tag_value blik_done \<in> tx_tags t \<and> merchant \<noteq> None \<and> merchant \<noteq> Some [] then U ''blik''
      else if tag_value allegro_done \<in> tx_tags t \<and> tx_notes t \<noteq> None \<and> tx_notes t \<noteq> Some []
      then U ''allegro''
      else U ''bank'')"

definition internal_account :: "account_ref option \<Rightarrow> bool" where
  "internal_account oa =
     (case oa of None \<Rightarrow> False | Some a \<Rightarrow> acc_type a = INITIAL_BALANCE \<or> acc_type a = RECONCILIATION)"

definition is_internal_operation :: "transaction \<Rightarrow> bool" where
  "is_internal_operation t \<longleftrightarrow>
     tx_type t = TRANSFER \<or> internal_account (tx_source t) \<or> internal_account (tx_destination t)"

definition to_document :: "transaction \<Rightarrow> ustring \<Rightarrow> tx_document option res" where
  "to_document t user_id =
     (case tx_category t of
        None \<Rightarrow> Inr None
      | Some cat \<Rightarrow>
          (if is_internal_operation t then Inr None
           else case bucket_for_amount (bi_amount t) of
                  Inl e \<Rightarrow> Inl e
                | Inr bucket \<Rightarrow>
                    Inr (Some \<lparr>td_transaction_id = str_int (tx_id t), td_user_id = user_id,
                               td_category_id = str_int (cat_id cat),
                               td_category_name = cat_name cat, td_title = tx_description t,
                               td_merchant = tx_merchant t, td_notes = tx_notes t,
                               td_amount = bi_amount t, td_amount_bucket = bucket,
                               td_source_type = infer_source_type t (tx_merchant t)\<rparr>)))"

fun candidate_documents_loop ::
    "ustring \<Rightarrow> transaction list \<Rightarrow> tx_document list \<Rightarrow> tx_document list res" where
  "candidate_documents_loop user_id [] documents = Inr documents"
| "candidate_documents_loop user_id (t # ts) documents =
     (case to_document t user_id of
        Inl e \<Rightarrow> Inl e
      | Inr None \<Rightarrow> candidate_documents_loop user_id ts documents
      | Inr (Some d) \<Rightarrow> candidate_documents_loop user_id ts (documents @ [d]))"

definition get_candidate_documents ::
    "ustring \<Rightarrow> transaction_snapshot \<Rightarrow> tx_document list res" where
  "get_candidate_documents user_id sn = candidate_documents_loop user_id (ts_transactions sn) []"

fun find_transaction :: "transaction list \<Rightarrow> ustring \<Rightarrow> transaction option" where
  "find_transaction [] i = None"
| "find_transaction (t # ts) i = (if str_int (tx_id t) = i then Some t else find_transaction ts i)"

definition get_query_for_transaction_id :: "ustring \<Rightarrow> transaction_snapshot \<Rightarrow> tx_query res" where
  "get_query_for_transaction_id transaction_id sn =
     (case find_transaction (ts_transactions sn) transaction_id of
        None \<Rightarrow> Inl (AppError TransactionNotFound
                  (U ''Transaction id '' @ transaction_id @ U '' not found''))
      | Some t \<Rightarrow>
          (case bucket_for_amount (bi_amount t) of
             Inl e \<Rightarrow> Inl e
           | Inr bucket \<Rightarrow>
               Inr \<lparr>tq_transaction_id = Some (str_int (tx_id t)), tq_title = tx_description t,
                    tq_merchant = tx_merchant t, tq_notes = tx_notes t, tq_amount = bi_amount t,
                    tq_amount_bucket = bucket,
                    tq_source_type = infer_source_type t (tx_merchant t)\<rparr>))"

section \<open>The similarity engine\<close>

record weights =
  w_title :: pyfloat
  w_merchant :: pyfloat
  w_notes :: pyfloat
  w_amount :: pyfloat

definition percents :: "int \<Rightarrow> int \<Rightarrow> int \<Rightarrow> int \<Rightarrow> weights" where
  "percents t m n a =
     \<lparr>w_title = flit t 100, w_merchant = flit m 100, w_notes = flit n 100, w_amount = flit a 100\<rparr>"

definition select_weights :: "(ustring \<Rightarrow> ustring) \<Rightarrow> tx_query \<Rightarrow> weights" where
  "select_weights nfkd q =
     (let source_type = lower (strip (tq_source_type q));
          merchant_present = (cat_normalize nfkd (tq_merchant q) \<noteq> []);
          notes_present = (cat_normalize nfkd (tq_notes q) \<noteq> [])
      in if source_type = U ''blik'' \<and> merchant_present then percents 25 50 15 10
         else if source_type = U ''allegro'' \<and> notes_present then percents 20 10 55 15
         else if merchant_present then percents 35 40 15 10
         else if notes_present then percents 45 0 40 15
         else percents 75 0 10 15)"

definition text_similarity ::
    "(ustring \<Rightarrow> ustring) \<Rightarrow> ustring option \<Rightarrow> ustring option \<Rightarrow> pyfloat" where
  "text_similarity nfkd left right =
     (let left_normalized = cat_normalize nfkd left; right_normalized = cat_normalize nfkd right
      in if left_normalized = [] \<or> right_normalized = [] then 0
         else let ratio = seq_ratio left_normalized right_normalized;
                  left_tokens = cat_tokens nfkd left; right_tokens = cat_tokens nfkd right
              in if left_tokens = {} \<or> right_tokens = {} then ratio
                 else max ratio (rnd (of_nat (card (left_tokens \<inter> right_tokens))
                                      / of_nat (card (left_tokens \<union> right_tokens)))))"

definition amount_similarity :: "ustring \<Rightarrow> ustring \<Rightarrow> pyfloat" where
  "amount_similarity query_bucket candidate_bucket =
     (if query_bucket = [] \<or> candidate_bucket = [] then 0
      else bucket_score (bucket_index query_bucket) (bucket_index candidate_bucket))"

definition field_priority :: "ustring \<Rightarrow> nat" where
  "field_priority f =
     (if f = U ''merchant'' then 3 else if f = U ''notes'' then 2 else if f = U ''title'' then 1
      else 0)"

text \<open>\<open>max(items, key = ...)\<close>: the first item whose key no other exceeds.\<close>

fun max_item :: "(ustring \<times> pyfloat) list \<Rightarrow> ustring \<times> pyfloat \<Rightarrow> ustring \<times> pyfloat" where
  "max_item [] best = best"
| "max_item (x # xs) best =
     max_item xs
       (if snd best < snd x \<or> snd best = snd x \<and> field_priority (fst best) < field_priority (fst x)
        then x else best)"

definition score_pair ::
    "(ustring \<Rightarrow> ustring) \<Rightarrow> tx_query \<Rightarrow> tx_document \<Rightarrow> pyfloat \<times> ustring" where
  "score_pair nfkd q d =
     (let w = select_weights nfkd q;
          title = (U ''title'', fmul (w_title w) (text_similarity nfkd (Some (tq_title q)) (Some (td_title d))));
          merchant = (U ''merchant'', fmul (w_merchant w) (text_similarity nfkd (tq_merchant q) (td_merchant d)));
          notes = (U ''notes'', fmul (w_notes w) (text_similarity nfkd (tq_notes q) (td_notes d)));
          amount = (U ''amount'', fmul (w_amount w) (amount_similarity (tq_amount_bucket q) (td_amount_bucket d)))
      in (fsum [snd title, snd merchant, snd notes, snd amount],
          fst (max_item [merchant, notes, amount] title)))"

definition min_similarity :: pyfloat where
  "min_similarity = flit 35 100"

fun find_similar_loop ::
    "(ustring \<Rightarrow> ustring) \<Rightarrow> tx_query \<Rightarrow> tx_document list \<Rightarrow> similar_match list
       \<Rightarrow> similar_match list" where
  "find_similar_loop nfkd q [] matches = matches"
| "find_similar_loop nfkd q (d # ds) matches =
     (if tq_transaction_id q \<noteq> None \<and> Some (td_transaction_id d) = tq_transaction_id q
      then find_similar_loop nfkd q ds matches
      else case score_pair nfkd q d of
             (weighted_score, matched_by) \<Rightarrow>
               (if weighted_score < min_similarity then find_similar_loop nfkd q ds matches
                else find_similar_loop nfkd q ds
                       (matches @ [\<lparr>si_transaction_id = td_transaction_id d,
                                    si_category_id = td_category_id d,
                                    si_category_name = td_category_name d,
                                    si_similarity_score = fround4 weighted_score,
                                    si_matched_by = matched_by\<rparr>])))"

definition find_similar ::
    "(ustring \<Rightarrow> ustring) \<Rightarrow> tx_query \<Rightarrow> tx_document list \<Rightarrow> nat \<Rightarrow> similar_match list" where
  "find_similar nfkd q candidates limit =
     take limit
       (sort_key (\<lambda>m. (- si_similarity_score m, lower (si_category_name m), si_transaction_id m))
          (find_similar_loop nfkd q candidates []))"

section \<open>The suggestion service\<close>

record aggregate =
  ag_category_name :: ustring
  ag_score :: pyfloat
  ag_best_match :: similar_match

definition aggregate_add :: "similar_match \<Rightarrow> aggregate \<Rightarrow> aggregate" where
  "aggregate_add m b =
     b\<lparr>ag_score := fsub 1 (fmul (fsub 1 (ag_score b)) (fsub 1 (si_similarity_score m))),
       ag_best_match := (if si_similarity_score (ag_best_match b) < si_similarity_score m then m
                         else ag_best_match b)\<rparr>"

fun aggregate_loop ::
    "similar_match list \<Rightarrow> (ustring, aggregate) dict \<Rightarrow> (ustring, aggregate) dict" where
  "aggregate_loop [] d = d"
| "aggregate_loop (m # ms) d =
     (let bucket = (case dget d (si_category_id m) of
                      Some b \<Rightarrow> b
                    | None \<Rightarrow> \<lparr>ag_category_name = si_category_name m, ag_score = 0,
                              ag_best_match = m\<rparr>)
      in aggregate_loop ms (dput (si_category_id m) (aggregate_add m bucket) d))"

definition reason_from_match :: "similar_match \<Rightarrow> ustring" where
  "reason_from_match m =
     (if si_matched_by m = U ''merchant'' then U ''similar merchant in previous transactions''
      else if si_matched_by m = U ''notes'' then U ''similar notes in previous transactions''
      else if si_matched_by m = U ''title'' then U ''similar title pattern in previous transactions''
      else U ''similar previous transactions'')"

definition suggestion_key :: "suggestion \<Rightarrow> pyfloat \<times> ustring \<times> ustring" where
  "suggestion_key s = (- sg_score s, lower (sg_category_name s), sg_category_id s)"

definition aggregate_matches :: "similar_match list \<Rightarrow> nat \<Rightarrow> suggestion list" where
  "aggregate_matches matches limit =
     (if matches = [] then []
      else take limit
             (sort_key suggestion_key
                (map (\<lambda>(i, a). \<lparr>sg_category_id = i, sg_category_name = ag_category_name a,
                               sg_score = fround4 (ag_score a),
                               sg_reason = reason_from_match (ag_best_match a)\<rparr>)
                   (aggregate_loop matches []))))"

definition suggest_for_transaction ::
    "(ustring \<Rightarrow> ustring) \<Rightarrow> ustring \<Rightarrow> categorization_query \<Rightarrow> nat \<Rightarrow> transaction_snapshot
       \<Rightarrow> suggestion list res" where
  "suggest_for_transaction nfkd user_id t limit sn =
     (case bucket_for_amount (cq_amount t) of
        Inl e \<Rightarrow> Inl e
      | Inr bucket \<Rightarrow>
          (let query = \<lparr>tq_transaction_id = cq_transaction_id t, tq_title = cq_title t,
                        tq_merchant = cq_merchant t, tq_notes = cq_notes t,
                        tq_amount = cq_amount t, tq_amount_bucket = bucket,
                        tq_source_type = cq_source_type t\<rparr>
           in case get_candidate_documents user_id sn of
                Inl e \<Rightarrow> Inl e
              | Inr candidates \<Rightarrow> Inr (aggregate_matches (find_similar nfkd query candidates 20) limit)))"

text \<open>The snapshot is asked for twice, so the two copies may differ.\<close>

definition suggest_for_transaction_id ::
    "(ustring \<Rightarrow> ustring) \<Rightarrow> ustring \<Rightarrow> ustring \<Rightarrow> nat \<Rightarrow> transaction_snapshot
       \<Rightarrow> transaction_snapshot \<Rightarrow> suggestion list res" where
  "suggest_for_transaction_id nfkd user_id transaction_id limit sn1 sn2 =
     (case get_query_for_transaction_id transaction_id sn1 of
        Inl e \<Rightarrow> Inl e
      | Inr query \<Rightarrow>
          (case get_candidate_documents user_id sn2 of
             Inl e \<Rightarrow> Inl e
           | Inr candidates \<Rightarrow> Inr (aggregate_matches (find_similar nfkd query candidates 20) limit)))"

text \<open>The endpoint of \<open>api/routers/tx.py\<close>; the answer carries the same four fields.\<close>

fun not_found_404 :: "exn \<Rightarrow> exn" where
  "not_found_404 (AppError TransactionNotFound m) = HTTPException 404 m"
| "not_found_404 e = e"

definition endpoint_suggest_category ::
    "(ustring \<Rightarrow> ustring) \<Rightarrow> uuid \<Rightarrow> int \<Rightarrow> transaction_snapshot \<Rightarrow> transaction_snapshot
       \<Rightarrow> suggestion list res" where
  "endpoint_suggest_category nfkd user_id i sn1 sn2 =
     map_sum not_found_404 id
       (suggest_for_transaction_id nfkd (uuid_str user_id) (str_int i) 3 sn1 sn2)"

end
