(* ===== verification/CategorizeProps.thy ===== *)
theory CategorizeProps imports Categorize Samples "HOL-Library.Code_Target_Nat" begin

text \<open>
  What the category suggestions promise: they are ranked, bounded, and come from other categorized
  transactions; and the text the engine compares is in a normal form.
\<close>

section \<open>Scores are numbers from 0 to 1\<close>

lemma flit_percent_unit: "0 \<le> p \<Longrightarrow> p \<le> 100 \<Longrightarrow> 0 \<le> flit p 100 \<and> flit p 100 \<le> 1"
  unfolding flit_def by (intro rnd_unit) auto

lemma bucket_score_unit: "0 \<le> bucket_score i j \<and> bucket_score i j \<le> 1"
  using flit_percent_unit [of 65] flit_percent_unit [of 35] by (simp add: bucket_score_def Let_def)

lemma amount_similarity_unit: "0 \<le> amount_similarity a b \<and> amount_similarity a b \<le> 1"
  using bucket_score_unit by (simp add: amount_similarity_def)

lemma finite_cat_tokens [simp]: "finite (cat_tokens nfkd v)"
  by (simp add: cat_tokens_def Let_def)

lemma text_similarity_unit: "0 \<le> text_similarity nfkd a b \<and> text_similarity nfkd a b \<le> 1"
proof -
  have "card (A \<inter> B) \<le> card (A \<union> B)" if "finite A" "finite B" for A B :: "ustring set"
    using that by (intro card_mono) auto
  then have "0 \<le> rnd (of_nat (card (cat_tokens nfkd a \<inter> cat_tokens nfkd b))
          / of_nat (card (cat_tokens nfkd a \<union> cat_tokens nfkd b))) \<and>
      rnd (of_nat (card (cat_tokens nfkd a \<inter> cat_tokens nfkd b))
          / of_nat (card (cat_tokens nfkd a \<union> cat_tokens nfkd b))) \<le> 1"
    by (intro rnd_unit) (auto simp: divide_le_eq_1)
  then show ?thesis using seq_ratio_unit by (auto simp: text_similarity_def Let_def)
qed

lemma percents_weights:
  "w_title (percents t m n a) = flit t 100" "w_merchant (percents t m n a) = flit m 100"
  "w_notes (percents t m n a) = flit n 100" "w_amount (percents t m n a) = flit a 100"
  by (simp_all add: percents_def)

lemma select_weights_cases:
  obtains t m n a where "select_weights nfkd q = percents t m n a" "0 \<le> t" "0 \<le> m" "0 \<le> n" "0 \<le> a"
    "t + m + n + a = 100"
proof -
  have "select_weights nfkd q \<in> {percents 25 50 15 10, percents 20 10 55 15, percents 35 40 15 10,
    percents 45 0 40 15, percents 75 0 10 15}"
    by (simp add: select_weights_def Let_def)
  then consider "select_weights nfkd q = percents 25 50 15 10" | "select_weights nfkd q = percents 20 10 55 15"
    | "select_weights nfkd q = percents 35 40 15 10" | "select_weights nfkd q = percents 45 0 40 15"
    | "select_weights nfkd q = percents 75 0 10 15" by blast
  then show thesis by cases (auto intro: that)
qed

text \<open>A product with a weight stays below the weight.\<close>

lemma weighted_le: "0 \<le> p \<Longrightarrow> 0 \<le> s \<Longrightarrow> s \<le> 1 \<Longrightarrow> 0 \<le> fmul (flit p 100) s \<and> fmul (flit p 100) s \<le> flit p 100"
proof -
  assume p: "0 \<le> p" and s: "0 \<le> s" "s \<le> 1"
  have w: "0 \<le> flit p 100" using p by (simp add: flit_def rnd_nonneg)
  with s have "flit p 100 * s \<le> flit p 100" by (simp add: mult_left_le)
  then have "rnd (flit p 100 * s) \<le> rnd (flit p 100)" by (rule rnd_mono)
  moreover have "rnd (flit p 100) = flit p 100" by (simp add: flit_def)
  ultimately show ?thesis using w s by (simp add: fmul_def rnd_nonneg)
qed

text \<open>The compensated sum of four such products is off by far less than \<open>round\<close> can see.\<close>

definition tiny :: rat where
  "tiny = 1 / 1000000000"

lemma rnd_near: "\<bar>x\<bar> \<le> 8 \<Longrightarrow> \<bar>rnd x - x\<bar> \<le> tiny"
proof -
  assume "\<bar>x\<bar> \<le> 8"
  then have "\<bar>x\<bar> / 2 ^ 53 \<le> 8 / 2 ^ 53" by (intro divide_right_mono) simp_all
  also have "\<dots> \<le> tiny" by (simp add: tiny_def)
  finally show ?thesis using rnd_error [of x] by linarith
qed

lemma tiny_bounds: "0 < tiny" "tiny \<le> 1 / 100000000"
  by (simp_all add: tiny_def)

lemma fsum_step:
  assumes "\<bar>f\<bar> \<le> 2" and "\<bar>x\<bar> \<le> 2" and "\<bar>c\<bar> \<le> 1"
  defines "t \<equiv> fadd f x"
  defines "d \<equiv> fadd c (if \<bar>x\<bar> \<le> \<bar>f\<bar> then fadd (fsub f t) x else fadd (fsub x t) f)"
  shows "\<bar>t - (f + x)\<bar> \<le> tiny" and "\<bar>d - c\<bar> \<le> 4 * tiny"
proof -
  show t: "\<bar>t - (f + x)\<bar> \<le> tiny"
    unfolding t_def fadd_def using assms(1,2) by (intro rnd_near) linarith
  have part: "\<bar>fadd (fsub a t) b\<bar> \<le> 3 * tiny" if "a + b = f + x" "\<bar>a\<bar> \<le> 2" "\<bar>b\<bar> \<le> 2" for a b
  proof -
    have "\<bar>a - t\<bar> \<le> 8" using t that assms(1,2) tiny_bounds by linarith
    then have s: "\<bar>fsub a t - (a - t)\<bar> \<le> tiny" unfolding fsub_def by (rule rnd_near)
    then have "\<bar>fsub a t + b\<bar> \<le> 2 * tiny" using t that(1) by linarith
    moreover from this have "\<bar>fadd (fsub a t) b - (fsub a t + b)\<bar> \<le> tiny"
      unfolding fadd_def using tiny_bounds by (intro rnd_near) linarith
    ultimately show ?thesis by linarith
  qed
  let ?e = "if \<bar>x\<bar> \<le> \<bar>f\<bar> then fadd (fsub f t) x else fadd (fsub x t) f"
  have e: "\<bar>?e\<bar> \<le> 3 * tiny" using part [of f x] part [of x f] assms(1,2) by auto
  then have "\<bar>fadd c ?e - (c + ?e)\<bar> \<le> tiny"
    unfolding fadd_def using assms(3) tiny_bounds by (intro rnd_near) linarith
  with e show "\<bar>d - c\<bar> \<le> 4 * tiny" unfolding d_def by linarith
qed

lemma fsum_four:
  assumes "0 \<le> a" "0 \<le> b" "0 \<le> c" "0 \<le> e" and "a + b + c + e \<le> 1 + 4 * tiny"
  shows "\<bar>fsum [a, b, c, e] - (a + b + c + e)\<bar> \<le> 20 * tiny"
proof -
  define t2 c2 where "t2 = fadd a b"
    and "c2 = fadd 0 (if \<bar>b\<bar> \<le> \<bar>a\<bar> then fadd (fsub a t2) b else fadd (fsub b t2) a)"
  define t3 c3 where "t3 = fadd t2 c"
    and "c3 = fadd c2 (if \<bar>c\<bar> \<le> \<bar>t2\<bar> then fadd (fsub t2 t3) c else fadd (fsub c t3) t2)"
  define t4 c4 where "t4 = fadd t3 e"
    and "c4 = fadd c3 (if \<bar>e\<bar> \<le> \<bar>t3\<bar> then fadd (fsub t3 t4) e else fadd (fsub e t4) t3)"
  have small: "\<bar>a\<bar> \<le> 2" "\<bar>b\<bar> \<le> 2" "\<bar>c\<bar> \<le> 2" "\<bar>e\<bar> \<le> 2" "\<bar>0 :: rat\<bar> \<le> 1"
    using assms tiny_bounds by linarith+
  note s2 = fsum_step [OF small(1,2,5), folded t2_def, folded c2_def]
  have "\<bar>t2\<bar> \<le> 2" "\<bar>c2\<bar> \<le> 1" using s2 assms tiny_bounds by linarith+
  note s3 = fsum_step [OF this(1) small(3) this(2), folded t3_def, folded c3_def]
  have "\<bar>t3\<bar> \<le> 2" "\<bar>c3\<bar> \<le> 1" using s2 s3 assms tiny_bounds by linarith+
  note s4 = fsum_step [OF this(1) small(4) this(2), folded t4_def, folded c4_def]
  have "\<bar>t4\<bar> \<le> 4" "\<bar>c4\<bar> \<le> 1" using s2 s3 s4 assms tiny_bounds by linarith+
  then have "\<bar>fadd t4 c4 - (t4 + c4)\<bar> \<le> tiny" unfolding fadd_def by (intro rnd_near) linarith
  moreover have "fsum [a, b, c, e] = (if c4 \<noteq> 0 then fadd t4 c4 else t4)"
    by (simp only: fsum.simps fsum_loop.simps Let_def t2_def c2_def t3_def c3_def t4_def c4_def)
  moreover have "\<bar>t4 - (a + b + c + e)\<bar> \<le> 3 * tiny" "\<bar>c4\<bar> \<le> 12 * tiny" using s2 s3 s4 by linarith+
  ultimately show ?thesis using tiny_bounds by (auto simp: abs_le_iff)
qed

lemma fsum_four_le:
  assumes "0 \<le> a" "0 \<le> b" "0 \<le> c" "0 \<le> e" and "a + b + c + e \<le> 1 + 4 * tiny"
  shows "fsum [a, b, c, e] \<le> 1 + 1 / 100000"
  using fsum_four [OF assms] assms(5) tiny_bounds unfolding abs_le_iff by linarith

lemma fround4_above_1: "x \<le> 1 + 1 / 100000 \<Longrightarrow> fround4 x \<le> 1"
proof -
  assume "x \<le> 1 + 1 / 100000"
  then have "fround4 x \<le> fround4 (1 + 1 / 100000)" by (rule fround4_mono)
  also have "\<lfloor>100001 / 10 :: rat\<rfloor> = 10000" by (simp add: floor_eq_iff)
  then have "rhe ((1 + 1 / 100000) * 10000) = 10000" by (simp add: rhe_def Let_def)
  then have "fround4 (1 + 1 / 100000) = 1" by (simp add: fround4_def)
  finally show ?thesis .
qed

lemma score_pair_rounded: "score_pair nfkd q d = (s, by_field) \<Longrightarrow> fround4 s \<le> 1"
proof -
  assume sp: "score_pair nfkd q d = (s, by_field)"
  obtain t m n a where w: "select_weights nfkd q = percents t m n a"
    and nn: "0 \<le> t" "0 \<le> m" "0 \<le> n" "0 \<le> a" and sum: "t + m + n + a = 100"
    by (rule select_weights_cases)
  have f: "flit p 100 \<le> of_int p / 100 + tiny" if "0 \<le> p" "p \<le> 100" for p
    using rnd_near [of "of_int p / 100"] that unfolding flit_def by (auto simp: abs_le_iff)
  have "flit t 100 + flit m 100 + flit n 100 + flit a 100
      \<le> of_int (t + m + n + a) / 100 + 4 * tiny"
    using f [of t] f [of m] f [of n] f [of a] nn sum by (simp add: add_divide_distrib)
  then have total: "flit t 100 + flit m 100 + flit n 100 + flit a 100 \<le> 1 + 4 * tiny"
    by (simp add: sum)
  from sp have "s = fsum [fmul (flit t 100) (text_similarity nfkd (Some (tq_title q)) (Some (td_title d))),
      fmul (flit m 100) (text_similarity nfkd (tq_merchant q) (td_merchant d)),
      fmul (flit n 100) (text_similarity nfkd (tq_notes q) (td_notes d)),
      fmul (flit a 100) (amount_similarity (tq_amount_bucket q) (td_amount_bucket d))]"
    by (simp add: score_pair_def Let_def w percents_weights del: fsum.simps)
  also have "\<dots> \<le> 1 + 1 / 100000"
  proof -
    have w: "0 \<le> fmul (flit p 100) x \<and> fmul (flit p 100) x \<le> flit p 100"
      if "0 \<le> p" "0 \<le> x \<and> x \<le> 1" for p x using weighted_le that by blast
    note w1 = w [OF nn(1) text_similarity_unit] and w2 = w [OF nn(2) text_similarity_unit]
      and w3 = w [OF nn(3) text_similarity_unit] and w4 = w [OF nn(4) amount_similarity_unit]
    show ?thesis
      by (intro fsum_four_le conjunct1 [OF w1] conjunct1 [OF w2] conjunct1 [OF w3] conjunct1 [OF w4]
          order_trans [OF _ total] add_mono conjunct2 [OF w1] conjunct2 [OF w2] conjunct2 [OF w3]
          conjunct2 [OF w4])
  qed
  finally show ?thesis by (rule fround4_above_1)
qed

section \<open>Matches and aggregates\<close>

text \<open>What a match is made of: a document that is not the query's own.\<close>

definition match_of :: "tx_query \<Rightarrow> tx_document list \<Rightarrow> similar_match \<Rightarrow> bool" where
  "match_of q ds m \<longleftrightarrow>
     0 \<le> si_similarity_score m \<and> si_similarity_score m \<le> 1 \<and>
     (\<exists>d \<in> set ds. si_category_id m = td_category_id d \<and> si_category_name m = td_category_name d \<and>
        tq_transaction_id q \<noteq> Some (td_transaction_id d))"

lemma min_similarity_nonneg: "0 \<le> min_similarity"
  using flit_percent_unit [of 35] by (simp add: min_similarity_def)

lemma find_similar_loop_ok:
  "list_all (match_of q all) ms \<Longrightarrow> set ds \<subseteq> set all \<Longrightarrow>
     list_all (match_of q all) (find_similar_loop nfkd q ds ms)"
proof (induction nfkd q ds ms rule: find_similar_loop.induct)
  case (2 nfkd q d ds ms)
  obtain s by_field where sp: "score_pair nfkd q d = (s, by_field)" by fastforce
  show ?case
  proof (cases "(tq_transaction_id q \<noteq> None \<and> Some (td_transaction_id d) = tq_transaction_id q)
      \<or> s < min_similarity")
    case True
    with 2 sp show ?thesis by auto
  next
    case False
    then have "0 \<le> fround4 s" using fround4_mono [of 0 s] min_similarity_nonneg by simp
    with False 2(5) score_pair_rounded [OF sp]
    have "match_of q all \<lparr>si_transaction_id = td_transaction_id d, si_category_id = td_category_id d,
        si_category_name = td_category_name d, si_similarity_score = fround4 s, si_matched_by = by_field\<rparr>"
      by (force simp: match_of_def)
    with False 2(4,5) 2(3) [OF _ sp [symmetric]] sp show ?thesis by auto
  qed
qed simp

lemma find_similar_ok: "m \<in> set (find_similar nfkd q ds n) \<Longrightarrow> match_of q ds m"
  using find_similar_loop_ok [of q ds "[]" ds nfkd]
  by (auto simp: find_similar_def list_all_iff dest!: in_set_takeD)

definition aggregate_ok :: "tx_query \<Rightarrow> tx_document list \<Rightarrow> ustring \<Rightarrow> aggregate \<Rightarrow> bool" where
  "aggregate_ok q ds i a \<longleftrightarrow> 0 \<le> ag_score a \<and> ag_score a \<le> 1 \<and>
     (\<exists>d \<in> set ds. i = td_category_id d \<and> ag_category_name a = td_category_name d \<and>
        tq_transaction_id q \<noteq> Some (td_transaction_id d))"

lemma aggregate_add_ok: "aggregate_ok q ds i a \<Longrightarrow> match_of q ds m \<Longrightarrow> aggregate_ok q ds i (aggregate_add m a)"
  using fsub_unit fmul_unit by (auto simp: aggregate_ok_def match_of_def aggregate_add_def)

lemma aggregate_loop_ok:
  "\<forall>m \<in> set ms. match_of q ds m \<Longrightarrow> dict_ok d \<Longrightarrow> \<forall>(i, a) \<in> set d. aggregate_ok q ds i a \<Longrightarrow>
     dict_ok (aggregate_loop ms d) \<and> (\<forall>(i, a) \<in> set (aggregate_loop ms d). aggregate_ok q ds i a)"
proof (induction ms d rule: aggregate_loop.induct)
  case (2 m ms d)
  let ?b = "case dget d (si_category_id m) of Some b \<Rightarrow> b
    | None \<Rightarrow> \<lparr>ag_category_name = si_category_name m, ag_score = 0, ag_best_match = m\<rparr>"
  have m: "match_of q ds m" using 2(2) by simp
  have "aggregate_ok q ds (si_category_id m) ?b"
  proof (cases "dget d (si_category_id m)")
    case None
    with m show ?thesis by (auto simp: aggregate_ok_def match_of_def)
  next
    case (Some b)
    with 2(4) show ?thesis by (auto dest: map_of_SomeD)
  qed
  from aggregate_add_ok [OF this m] 2(4)
  have "\<forall>(i, a) \<in> set (dput (si_category_id m) (aggregate_add m ?b) d). aggregate_ok q ds i a"
    using set_dput [of "si_category_id m" "aggregate_add m ?b" d] by auto
  with 2(1) [OF refl] 2(2,3) show ?case by (simp add: Let_def dict_ok_dput)
qed simp

lemma candidate_documents_loop_ok:
  "candidate_documents_loop u ts ds = Inr docs \<Longrightarrow> d \<in> set docs \<Longrightarrow>
     d \<in> set ds \<or> (\<exists>t \<in> set ts. to_document t u = Inr (Some d))"
  by (induction u ts ds rule: candidate_documents_loop.induct) (auto split: sum.splits option.splits)

lemma to_document_Some:
  "to_document t u = Inr (Some d) \<Longrightarrow>
     \<exists>c. tx_category t = Some c \<and> \<not> is_internal_operation t \<and> td_transaction_id d = str_int (tx_id t) \<and>
         td_category_id d = str_int (cat_id c) \<and> td_category_name d = cat_name c"
  by (auto simp: to_document_def split: option.splits if_splits sum.splits)

lemma find_transaction_Some: "find_transaction ts i = Some t \<Longrightarrow> t \<in> set ts \<and> str_int (tx_id t) = i"
  by (induction ts i rule: find_transaction.induct) (auto split: if_splits)

lemma sorted_take: "sorted xs \<Longrightarrow> sorted (take n xs)"
  by (simp add: sorted_wrt_take)

text \<open>
  C36. Category suggestions: at most three, in the order of their scores and then of their names and
  ids, no category twice, every score from 0 to 1, and every suggested category is that of some
  other transaction of the snapshot, with its name, and not of a transfer or another internal
  operation.
\<close>

theorem suggestions_ranked:
  assumes "endpoint_suggest_category nfkd user_id i sn1 sn2 = Inr ss"
  shows "length ss \<le> 3 \<and> sorted (map suggestion_key ss) \<and> distinct (map sg_category_id ss) \<and>
    (\<exists>t \<in> set (ts_transactions sn1). tx_id t = i) \<and>
    list_all (\<lambda>s. 0 \<le> sg_score s \<and> sg_score s \<le> 1 \<and>
      (\<exists>t c. t \<in> set (ts_transactions sn2) \<and> tx_category t = Some c \<and> \<not> is_internal_operation t \<and>
         tx_id t \<noteq> i \<and> sg_category_id s = str_int (cat_id c) \<and> sg_category_name s = cat_name c)) ss"
proof -
  from assms obtain q ds where q: "get_query_for_transaction_id (str_int i) sn1 = Inr q"
    and ds: "get_candidate_documents (uuid_str user_id) sn2 = Inr ds"
    and ss: "ss = aggregate_matches (find_similar nfkd q ds 20) 3"
    by (auto simp: endpoint_suggest_category_def suggest_for_transaction_id_def split: sum.splits)
  let ?agg = "aggregate_loop (find_similar nfkd q ds 20) []"
  let ?mk = "\<lambda>(i, a). \<lparr>sg_category_id = i, sg_category_name = ag_category_name a,
      sg_score = fround4 (ag_score a), sg_reason = reason_from_match (ag_best_match a)\<rparr>"
  have agg: "dict_ok ?agg" "\<forall>(j, a) \<in> set ?agg. aggregate_ok q ds j a"
    using aggregate_loop_ok [of "find_similar nfkd q ds 20" q ds "[]"] find_similar_ok by auto
  have full: "ss = take 3 (sort_key suggestion_key (map ?mk ?agg))"
    by (simp add: ss aggregate_matches_def)
  have "distinct (map sg_category_id (map ?mk ?agg))"
    using agg(1) by (simp add: dict_ok_def comp_def case_prod_unfold)
  then have "distinct (map sg_category_id (sort_key suggestion_key (map ?mk ?agg)))"
    by (simp add: distinct_map del: map_map)
  then have d: "distinct (map sg_category_id ss)" by (simp add: full take_map [symmetric])
  have o: "sorted (map suggestion_key ss)" unfolding full take_map [symmetric]
    by (intro sorted_take sorted_sort_key)
  from q obtain t0 where t0: "t0 \<in> set (ts_transactions sn1)" "tx_id t0 = i"
    and qi: "tq_transaction_id q = Some (str_int i)"
    by (auto simp: get_query_for_transaction_id_def dest!: find_transaction_Some
        split: option.splits sum.splits)
  have "list_all (\<lambda>s. 0 \<le> sg_score s \<and> sg_score s \<le> 1 \<and>
      (\<exists>t c. t \<in> set (ts_transactions sn2) \<and> tx_category t = Some c \<and> \<not> is_internal_operation t \<and>
         tx_id t \<noteq> i \<and> sg_category_id s = str_int (cat_id c) \<and> sg_category_name s = cat_name c)) ss"
    unfolding list_all_iff
  proof
    fix s assume "s \<in> set ss"
    then obtain j a where "(j, a) \<in> set ?agg" and s: "s = ?mk (j, a)"
      by (auto simp: full dest!: in_set_takeD)
    with agg(2) have ok: "aggregate_ok q ds j a" by blast
    then obtain dd where dd: "dd \<in> set ds" "j = td_category_id dd" "ag_category_name a = td_category_name dd"
      "tq_transaction_id q \<noteq> Some (td_transaction_id dd)" by (auto simp: aggregate_ok_def)
    from candidate_documents_loop_ok [OF ds [unfolded get_candidate_documents_def] dd(1)] obtain t where
      t: "t \<in> set (ts_transactions sn2)" "to_document t (uuid_str user_id) = Inr (Some dd)" by auto
    from to_document_Some [OF t(2)] dd qi t(1)
    have "\<exists>t c. t \<in> set (ts_transactions sn2) \<and> tx_category t = Some c \<and> \<not> is_internal_operation t \<and>
         tx_id t \<noteq> i \<and> sg_category_id s = str_int (cat_id c) \<and> sg_category_name s = cat_name c"
      by (auto simp: s)
    moreover have "0 \<le> sg_score s \<and> sg_score s \<le> 1"
      using ok by (simp add: s aggregate_ok_def fround4_unit)
    ultimately show "0 \<le> sg_score s \<and> sg_score s \<le> 1 \<and>
      (\<exists>t c. t \<in> set (ts_transactions sn2) \<and> tx_category t = Some c \<and> \<not> is_internal_operation t \<and>
         tx_id t \<noteq> i \<and> sg_category_id s = str_int (cat_id c) \<and> sg_category_name s = cat_name c)" by blast
  qed
  with d o t0 show ?thesis by (auto simp: full)
qed

definition sample_cat_tx :: transaction where
  "sample_cat_tx = sample_tx\<lparr>tx_id := 8, tx_category := Some \<lparr>cat_id = 3, cat_name = U ''Food''\<rparr>\<rparr>"

definition sample_cat_snapshot :: transaction_snapshot where
  "sample_cat_snapshot =
     \<lparr>ts_transactions = [sample_tx, sample_cat_tx], ts_metrics = \<lparr>fm_total_transactions = 2,
        fm_fetching_duration_ms = 5, fm_invalid = 0, fm_multipart = 0\<rparr>,
      ts_fetched_at = Aware 10, ts_schema_version = 1\<rparr>"

lemma sample_normalized: "cat_normalize (\<lambda>s. s) (Some (U ''Shop'')) = U ''shop''"
  by code_simp

lemma cat_normalize_None [simp]: "cat_normalize f None = []"
  by (simp add: cat_normalize_def)

lemma sample_ratio: "seq_ratio (U ''shop'') (U ''shop'') = 1"
proof -
  have "matched_size (U ''shop'') (U ''shop'') 0 4 0 4 = 4" by code_simp
  moreover have "fdiv (fmul 2 (fint 4)) (fint 8) = 1" by code_simp
  moreover have "length (U ''shop'') = 4" by code_simp
  ultimately show ?thesis unfolding seq_ratio_def Let_def by (simp only:) simp
qed

lemma sample_similarity: "text_similarity (\<lambda>s. s) (Some (U ''Shop'')) (Some (U ''Shop'')) = 1"
proof -
  have "cat_tokens (\<lambda>s. s) (Some (U ''Shop'')) = {U ''shop''}"
    unfolding cat_tokens_def sample_normalized by code_simp
  then show ?thesis by (simp add: text_similarity_def sample_normalized sample_ratio Let_def)
qed

lemma text_similarity_None [simp]:
  "text_similarity f None x = 0" "text_similarity f x None = 0"
  by (simp_all add: text_similarity_def Let_def)

definition sample_query :: tx_query where
  "sample_query =
     \<lparr>tq_transaction_id = Some (U ''7''), tq_title = U ''Shop'', tq_merchant = None, tq_notes = None,
      tq_amount = DFin True 1250 (-2), tq_amount_bucket = U ''10-25'', tq_source_type = U ''bank''\<rparr>"

definition sample_document :: tx_document where
  "sample_document =
     \<lparr>td_transaction_id = U ''8'', td_user_id = uuid_str 1, td_category_id = U ''3'',
      td_category_name = U ''Food'', td_title = U ''Shop'', td_merchant = None, td_notes = None,
      td_amount = DFin True 1250 (-2), td_amount_bucket = U ''10-25'', td_source_type = U ''bank''\<rparr>"

lemma sample_query: "get_query_for_transaction_id (str_int 7) sample_cat_snapshot = Inr sample_query"
  by code_simp

lemma sample_documents: 
  "get_candidate_documents (uuid_str 1) sample_cat_snapshot = Inr [sample_document]"
  by (subst sample_document_def) code_simp

lemma sample_score: "min_similarity \<le> fst (score_pair (\<lambda>s. s) sample_query sample_document)"
proof -
  have w: "select_weights (\<lambda>s. s) sample_query = percents 75 0 10 15" by code_simp
  have sel: "tq_title sample_query = U ''Shop''" "tq_merchant sample_query = None"
    "tq_notes sample_query = None" "tq_amount_bucket sample_query = U ''10-25''"
    "td_title sample_document = U ''Shop''" "td_amount_bucket sample_document = U ''10-25''"
    by (simp_all add: sample_query_def sample_document_def)
  have a: "amount_similarity (U ''10-25'') (U ''10-25'') = 1" by code_simp
  have e: "fmul x 0 = 0" for x by (simp add: fmul_def)
  have i: "fmul (flit x 100) 1 = flit x 100" for x by (simp add: fmul_def flit_def)
  have s: "fst (score_pair (\<lambda>s. s) sample_query sample_document) = fsum [flit 75 100, 0, 0, flit 15 100]"
    by (simp add: score_pair_def w percents_weights Let_def sel sample_similarity a e i del: fsum.simps)
  have near: "\<bar>rnd (of_int p / 100) - of_int p / 100\<bar> \<le> tiny" if "0 \<le> p" "p \<le> 100" for p
    using that by (intro rnd_near) simp
  have b: "\<bar>flit 75 100 - 75 / 100\<bar> \<le> tiny" "\<bar>flit 15 100 - 15 / 100\<bar> \<le> tiny" "\<bar>flit 35 100 - 35 / 100\<bar> \<le> tiny"
    using near [of 75] near [of 15] near [of 35] by (simp_all add: flit_def)
  then have "\<bar>fsum [flit 75 100, 0, 0, flit 15 100] - (flit 75 100 + 0 + 0 + flit 15 100)\<bar> \<le> 20 * tiny"
    using tiny_bounds flit_percent_unit [of 75] flit_percent_unit [of 15] by (intro fsum_four) auto
  with b tiny_bounds show ?thesis by (simp add: s min_similarity_def)
qed

lemma sample_suggestions:
  "\<exists>s. endpoint_suggest_category (\<lambda>s. s) 1 7 sample_cat_snapshot sample_cat_snapshot = Inr [s]"
proof -
  have "Some (td_transaction_id sample_document) \<noteq> tq_transaction_id sample_query"
    by (simp add: sample_query_def sample_document_def)
  moreover obtain x f where "score_pair (\<lambda>s. s) sample_query sample_document = (x, f)" by fastforce
  moreover from this sample_score have "\<not> x < min_similarity" by simp
  ultimately show ?thesis
    by (simp add: endpoint_suggest_category_def suggest_for_transaction_id_def sample_query
        sample_documents [unfolded One_nat_def] find_similar_def aggregate_matches_def Let_def dict_simps split: prod.splits)
qed

theorem suggestions_ranked_witness:
  "\<exists>s. endpoint_suggest_category (\<lambda>s. s) 1 7 sample_cat_snapshot sample_cat_snapshot = Inr [s] \<and>
     0 \<le> sg_score s \<and> sg_score s \<le> 1"
  using sample_suggestions suggestions_ranked [of "\<lambda>s. s" 1 7 sample_cat_snapshot sample_cat_snapshot]
  by auto

section \<open>The normal form of a text\<close>

text \<open>No run of characters in \<open>P\<close> is as long as \<open>n\<close>; \<open>k\<close> of them came just before.\<close>

fun runs_below :: "(nat \<Rightarrow> bool) \<Rightarrow> nat \<Rightarrow> nat \<Rightarrow> ustring \<Rightarrow> bool" where
  "runs_below P n k [] \<longleftrightarrow> k < n"
| "runs_below P n k (c # s) \<longleftrightarrow>
     (if P c then runs_below P n (Suc k) s else k < n \<and> runs_below P n 0 s)"

lemma runs_below_mono: "runs_below P n k s \<Longrightarrow> j \<le> k \<Longrightarrow> runs_below P n j s"
  by (induction P n k s arbitrary: j rule: runs_below.induct) (auto split: if_splits)

lemma runs_below_start: "runs_below P n k s \<Longrightarrow> k < n"
  by (induction P n k s rule: runs_below.induct) (auto split: if_splits)

lemma runs_below_prefix: "runs_below P n k (s @ t) \<Longrightarrow> runs_below P n k s"
  by (induction P n k s rule: runs_below.induct) (auto split: if_splits dest: runs_below_start)

lemma runs_below_suffix: "runs_below P n k (s @ t) \<Longrightarrow> runs_below P n 0 t"
  by (induction P n k s rule: runs_below.induct) (auto split: if_splits dest: runs_below_mono [of _ _ _ _ 0])

lemma runs_below_run: "\<forall>c \<in> set r. P c \<Longrightarrow> runs_below P n k (r @ s) = runs_below P n (k + length r) s"
  by (induction r arbitrary: k) auto

lemma runs_below_map: "(\<And>c. P (f c) = P c) \<Longrightarrow> runs_below P n k (map f s) = runs_below P n k s"
  by (induction P n k s rule: runs_below.induct) auto

text \<open>After a run ends, the count starts again.\<close>

lemma sub_runs_dropWhile: "sub_runs P n (dropWhile P s) = [] \<or> (\<exists>c t. sub_runs P n (dropWhile P s) = c # t \<and> \<not> P c)"
proof (cases "dropWhile P s")
  case (Cons c t)
  then have "\<not> P c" by (simp add: dropWhile_eq_Cons_conv)
  with Cons show ?thesis by simp
qed (simp only: sub_runs.simps simp_thms)

lemma runs_below_restart:
  "s = [] \<or> (\<exists>c t. s = c # t \<and> \<not> P c) \<Longrightarrow> runs_below P n 0 s \<Longrightarrow> runs_below P n k s \<longleftrightarrow> k < n"
  by auto

lemma run_split: "c # s = (c # takeWhile P s) @ dropWhile P s"
  by simp

lemma sub_runs_below:
  "\<not> P 32 \<Longrightarrow> 0 < n \<Longrightarrow> runs_below P n 0 (sub_runs P n s)"
proof (induction P n s rule: sub_runs.induct)
  case (2 P n c s)
  show ?case
  proof (cases "P c")
    case True
    let ?r = "c # takeWhile P s" and ?rest = "sub_runs P n (dropWhile P s)"
    have rest: "runs_below P n 0 ?rest" using 2 True by simp
    have all: "\<forall>c \<in> set ?r. P c" using True by (auto dest: set_takeWhileD)
    show ?thesis
    proof (cases "n \<le> length ?r")
      case True
      with \<open>P c\<close> rest 2(3,4) show ?thesis by simp
    next
      case False
      then have "runs_below P n (0 + length ?r) ?rest"
        using runs_below_restart [OF sub_runs_dropWhile rest] by simp
      then have "runs_below P n 0 (?r @ ?rest)" unfolding runs_below_run [OF all] .
      with \<open>P c\<close> False show ?thesis by (simp add: Let_def)
    qed
  qed (use 2 in simp)
qed simp

lemma sub_runs_id: "runs_below P n 0 s \<Longrightarrow> sub_runs P n s = s"
proof (induction P n s rule: sub_runs.induct)
  case (2 P n c s)
  show ?case
  proof (cases "P c")
    case True
    let ?r = "c # takeWhile P s"
    have all: "\<forall>c \<in> set ?r. P c" using True by (auto dest: set_takeWhileD)
    have "runs_below P n (0 + length ?r) (dropWhile P s)"
      using 2(3) unfolding run_split [of c s P] runs_below_run [OF all] .
    then have "length ?r < n" "runs_below P n 0 (dropWhile P s)"
      by (auto dest: runs_below_start runs_below_mono [of _ _ _ _ 0])
    with 2 True show ?thesis by (simp add: Let_def)
  qed (use 2 in simp)
qed simp

text \<open>Collapsing: single blanks only, and runs of other characters stay as they are.\<close>

lemma single_blanks: "P 32 \<Longrightarrow> runs_below P 2 0 (sub_runs P (Suc 0) s)"
proof (induction P "Suc 0" s rule: sub_runs.induct)
  case (2 P c s)
  then show ?case using runs_below_restart [OF sub_runs_dropWhile, of P 2 "Suc 0" s 1]
    by (auto simp: Let_def)
qed simp

lemma single_blanks_id:
  "runs_below P 2 0 s \<Longrightarrow> \<forall>c \<in> set s. P c \<longrightarrow> c = 32 \<Longrightarrow> sub_runs P (Suc 0) s = s"
proof (induction P "Suc 0" s rule: sub_runs.induct)
  case (2 P c s)
  show ?case
  proof (cases "P c")
    case True
    with 2(3) have s: "runs_below P 2 (Suc 0) s" by simp
    have "takeWhile P s = []" "dropWhile P s = s"
      using s by (cases s; auto dest: runs_below_start)+
    with 2 True runs_below_mono [OF s, of 0] show ?thesis by simp
  qed (use 2 in simp)
qed simp

lemma collapse_keeps_runs:
  "(\<And>c. Q c \<Longrightarrow> \<not> P c) \<Longrightarrow> \<not> P 32 \<Longrightarrow> runs_below P n k s \<Longrightarrow> runs_below P n k (sub_runs Q (Suc 0) s)"
proof (induction Q "Suc 0" s arbitrary: k rule: sub_runs.induct)
  case (2 Q c s)
  show ?case
  proof (cases "Q c")
    case True
    with 2(3,5) have "k < n" "runs_below P n 0 s" by auto
    then have "runs_below P n 0 (dropWhile Q s)"
      using runs_below_suffix [of P n 0 "takeWhile Q s" "dropWhile Q s"] by simp
    with 2 True \<open>k < n\<close> show ?thesis by simp
  next
    case False
    with 2 show ?thesis by (auto split: if_splits)
  qed
qed simp

lemma sub_runs_set: "set (sub_runs P n s) \<subseteq> insert 32 (set s)"
proof (induction P n s rule: sub_runs.induct)
  case (2 P n c s)
  have "set (takeWhile P s) \<subseteq> set s" "set (dropWhile P s) \<subseteq> set s"
    by (auto dest: set_takeWhileD set_dropWhileD)
  with 2 show ?case by (cases "P c") (simp add: Let_def; blast)+
qed simp

lemma collapsed_blanks: "c \<in> set (sub_runs P (Suc 0) s) \<Longrightarrow> P c \<Longrightarrow> c = 32"
proof (induction P "Suc 0" s rule: sub_runs.induct)
  case (2 P x s)
  then show ?case by (cases "P x") auto
qed simp


definition normal_text :: "ustring \<Rightarrow> bool" where
  "normal_text r \<longleftrightarrow>
     list_all is_ascii r \<and> list_all (\<lambda>c. c < 65 \<or> 90 < c) r \<and> list_all (\<lambda>c. is_space c \<longrightarrow> c = 32) r \<and>
     runs_below is_space 2 0 r \<and> runs_below is_digit 6 0 r \<and> strip r = r"

lemma normal_text_Nil [simp]: "normal_text []"
  by (simp add: normal_text_def strip_def strip_by_def)

lemma lower_ascii: "\<forall>c \<in> set s. is_ascii c \<Longrightarrow> lower s = map (\<lambda>c. if 65 \<le> c \<and> c \<le> 90 then c + 32 else c) s"
  by (induction s) (auto simp: lower_def lower_cp_def is_ascii_def)

lemma strip_runs_below: "runs_below P n 0 s \<Longrightarrow> runs_below P n 0 (strip s)"
  using strip_by_decomp [of s is_space] unfolding strip_def
  by (metis runs_below_prefix runs_below_suffix)

lemma strip_strip: "strip (strip s) = strip s"
proof -
  let ?m = "dropWhile is_space s"
  obtain q where m: "?m = strip s @ q"
    by (metis rev_append rev_rev_ident strip_by_def strip_def takeWhile_dropWhile_id)
  have "strip s = [] \<or> \<not> is_space (hd (strip s)) \<and> \<not> is_space (last (strip s))"
  proof (cases "strip s = []")
    case False
    then have "?m \<noteq> []" "hd ?m = hd (strip s)" unfolding m by simp_all
    moreover from False have "dropWhile is_space (rev ?m) \<noteq> []" by (simp only: strip_def strip_by_def) simp
    ultimately show ?thesis
      using hd_dropWhile [of is_space s] hd_dropWhile [of is_space "rev ?m"]
      by (simp add: strip_def strip_by_def last_rev)
  qed simp
  then show ?thesis unfolding strip_def by (rule strip_by_id)
qed

lemma strip_subset: "set (strip s) \<subseteq> set s"
  using strip_by_decomp [of s is_space] unfolding strip_def by (metis Un_iff set_append subsetI)

lemma blank_chars: "is_space 32" "\<not> is_digit 32" "is_ascii 32"
  by (simp_all add: is_space_def is_digit_def is_ascii_def)

lemma cat_normalize_is_normal: "normal_text (cat_normalize nfkd v)"
proof (cases "v = None \<or> strip (the v) = []")
  case True
  then show ?thesis by (auto simp: cat_normalize_def split: option.splits)
next
  case False
  define a where "a = filter is_ascii (translate diacritics (nfkd (strip (the v))))"
  define d where "d = sub_runs is_digit 6 a"
  define l where "l = lower d"
  define r where "r = sub_runs is_space (Suc 0) l"
  have run: "cat_normalize nfkd v = strip r"
    using False by (auto simp: cat_normalize_def r_def l_def d_def a_def)
  have ad: "\<forall>c \<in> set d. is_ascii c"
    using sub_runs_set [of is_digit 6 a] blank_chars by (auto simp: d_def a_def)
  have l: "l = map (\<lambda>c. if 65 \<le> c \<and> c \<le> 90 then c + 32 else c) d"
    unfolding l_def by (rule lower_ascii [OF ad])
  have al: "\<forall>c \<in> set l. is_ascii c \<and> (c < 65 \<or> 90 < c)"
    using ad by (auto simp: l is_ascii_def)
  have "runs_below is_digit 6 0 d" using sub_runs_below blank_chars by (simp add: d_def)
  then have "runs_below is_digit 6 0 l" unfolding l by (subst runs_below_map) (auto simp: is_digit_def)
  then have dr: "runs_below is_digit 6 0 r"
    unfolding r_def using digit_not_space blank_chars by (intro collapse_keeps_runs) auto
  have sr: "runs_below is_space 2 0 r" unfolding r_def using blank_chars by (intro single_blanks)
  have cr: "is_ascii c \<and> (c < 65 \<or> 90 < c) \<and> (is_space c \<longrightarrow> c = 32)" if "c \<in> set r" for c
    using that sub_runs_set [of is_space "Suc 0" l] al collapsed_blanks [of c is_space l] blank_chars
    by (auto simp: r_def)
  show ?thesis unfolding run normal_text_def list_all_iff
    using cr strip_subset [of r] strip_runs_below [OF dr] strip_runs_below [OF sr] strip_strip by blast
qed

lemma normal_text_fixed: "normal_text r \<Longrightarrow> nfkd r = r \<Longrightarrow> cat_normalize nfkd (Some r) = r"
proof -
  assume n: "normal_text r" and k: "nfkd r = r"
  then have a: "\<forall>c \<in> set r. is_ascii c" by (simp add: normal_text_def list_all_iff)
  have "dget diacritics c = None" if "is_ascii c" for c
    using that by (simp add: diacritics_def is_ascii_def)
  with a have "map (\<lambda>c. case dget diacritics c of None \<Rightarrow> c | Some c' \<Rightarrow> c') r = map id r"
    by (intro map_cong) auto
  then have "translate diacritics r = r" by (simp add: translate_def)
  moreover have "filter is_ascii r = r" using a by (simp add: filter_id_conv)
  moreover have "sub_runs is_digit 6 r = r" using n by (intro sub_runs_id) (simp add: normal_text_def)
  moreover have "map (\<lambda>c. if 65 \<le> c \<and> c \<le> 90 then c + 32 else c) r = map id r"
    using n by (intro map_cong) (auto simp: normal_text_def list_all_iff)
  then have "lower r = r" using lower_ascii [OF a] by simp
  moreover have "sub_runs is_space (Suc 0) r = r"
    using n by (intro single_blanks_id) (auto simp: normal_text_def list_all_iff)
  ultimately show ?thesis using n k by (simp add: cat_normalize_def normal_text_def)
qed

text \<open>
  The text the similarity engine compares is in a normal form, whatever the decomposition
  function does: ASCII, without capitals, without a run of six digits, its words separated by
  single blanks and none at its ends. Where the decomposition leaves that text alone (as Unicode's
  does with ASCII), normalizing it again changes nothing.
\<close>

lemma normalized_text:
  "normal_text (cat_normalize nfkd v) \<and>
   (nfkd (cat_normalize nfkd v) = cat_normalize nfkd v \<longrightarrow>
      cat_normalize nfkd (Some (cat_normalize nfkd v)) = cat_normalize nfkd v)"
  using cat_normalize_is_normal normal_text_fixed by blast

theorem normalized_text_witness:
  "cat_normalize (\<lambda>s. s) (Some (cat_normalize (\<lambda>s. s) (Some (U ''  Order 1234567  No 12 '')))) =
     U ''order no 12''"
proof -
  have "cat_normalize (\<lambda>s. s) (Some (U ''  Order 1234567  No 12 '')) = U ''order no 12''" by code_simp
  then show ?thesis using normalized_text [of "\<lambda>s. s" "Some (U ''  Order 1234567  No 12 '')"] by simp
qed

text \<open>
  No transaction has a merchant, so the source type \<open>blik\<close> and the weights for merchants are never
  used for a transaction of the snapshot.
\<close>

lemma source_type_never_blik:
  "infer_source_type t (tx_merchant t) \<noteq> U ''blik''"
  "get_query_for_transaction_id i sn = Inr q \<Longrightarrow> w_merchant (select_weights nfkd q) \<in> {flit 0 100, flit 10 100}"
  by (auto simp: infer_source_type_def tx_merchant_def get_query_for_transaction_id_def
      select_weights_def percents_weights Let_def split: option.splits sum.splits)

end
