(* ===== verification/Migrations.thy ===== *)
theory Migrations imports PyUuid PyJson Prelude begin

text \<open>
  \<open>alembic/versions\<close> and \<open>services/db/types.py\<close>: the migrations as the lists of schema operations that
  their \<open>upgrade\<close> and \<open>downgrade\<close> functions call, and the schema that \<open>services/db/models.py\<close>
  declares. The operations are those of SQL's data definition language; here they act on a database
  of tables with columns, keys, indexes and rows.
\<close>

section \<open>The column type for ids\<close>

datatype dialect = Postgresql | OtherDialect

text \<open>A value for a \<open>GUID\<close> column: a \<open>uuid.UUID\<close>, or anything else by its \<open>str\<close>.\<close>

datatype guid_value = GuidUuid uuid | GuidText ustring

definition badly_formed :: exn where
  "badly_formed = ValueError (U ''badly formed hexadecimal UUID string'')"

text \<open>\<open>uuid.UUID(str(value))\<close>\<close>

definition uuid_of_str :: "ustring \<Rightarrow> uuid res" where
  "uuid_of_str s = (case parse_uuid s of None \<Rightarrow> Inl badly_formed | Some u \<Rightarrow> Inr u)"

fun guid_str :: "guid_value \<Rightarrow> ustring" where
  "guid_str (GuidUuid u) = uuid_str u"
| "guid_str (GuidText s) = s"

definition process_bind_param :: "guid_value option \<Rightarrow> dialect \<Rightarrow> guid_value option res" where
  "process_bind_param v dialect =
     (case v of
        None \<Rightarrow> Inr None
      | Some x \<Rightarrow>
          (case (case x of GuidUuid u \<Rightarrow> Inr u | GuidText s \<Rightarrow> uuid_of_str s) of
             Inl e \<Rightarrow> Inl e
           | Inr u \<Rightarrow>
               (if dialect = Postgresql then Inr (Some (GuidUuid u))
                else Inr (Some (GuidText (uuid_str u))))))"

definition process_result_value :: "guid_value option \<Rightarrow> uuid option res" where
  "process_result_value v =
     (case v of
        None \<Rightarrow> Inr None
      | Some x \<Rightarrow> map_sum id Some (uuid_of_str (guid_str x)))"

section \<open>Tables\<close>

datatype sql_type =
    GuidT | StringT "nat option" | TextT | BooleanT | IntegerT | DateTimeT | JsonT | BinaryT

datatype sql_value =
    Null | BoolV bool | IntV int | TextV ustring | BytesV "nat list" | JsonV json | TimeV int
  | GuidV uuid

record sql_column =
  sc_type :: sql_type
  sc_nullable :: bool
  sc_default :: "sql_value option"

datatype on_delete = Cascade | SetNull

record foreign_key =
  fk_column :: string
  fk_references :: "string \<times> string"
  fk_on_delete :: on_delete

record sql_index =
  ix_columns :: "string list"
  ix_unique :: bool

type_synonym sql_row = "string \<rightharpoonup> sql_value"

record sql_table =
  tb_columns :: "string \<rightharpoonup> sql_column"
  tb_primary :: "string list"
  tb_foreign :: "foreign_key set"
  tb_unique :: "string list set"
  tb_indexes :: "string \<rightharpoonup> sql_index"
  tb_rows :: "sql_row list"

type_synonym database = "string \<rightharpoonup> sql_table"

section \<open>Schema operations\<close>

datatype ddl =
    CreateTable string "(string \<times> sql_column) list" "string list" "foreign_key set" "string list set"
  | DropTable string
  | AddColumn string string sql_column
  | DropColumn string string
  | AlterDefault string string "sql_value option"
  | CreateIndex string string "string list" bool
  | DropIndex string string

text \<open>The columns that keys and indexes mention cannot be dropped.\<close>

definition used_columns :: "sql_table \<Rightarrow> string set" where
  "used_columns tb =
     set (tb_primary tb) \<union> fk_column ` tb_foreign tb \<union> \<Union> (set ` tb_unique tb)
     \<union> \<Union> (set ` ix_columns ` ran (tb_indexes tb))"

text \<open>A new column holds its default in the rows there are; without one it has to allow \<open>NULL\<close>.\<close>

definition add_column :: "string \<Rightarrow> sql_column \<Rightarrow> sql_table \<Rightarrow> sql_table option" where
  "add_column c col tb =
     (if tb_columns tb c \<noteq> None \<or> (\<not> sc_nullable col \<and> sc_default col = None \<and> tb_rows tb \<noteq> [])
      then None
      else let v = (case sc_default col of None \<Rightarrow> Null | Some x \<Rightarrow> x)
           in Some (tb\<lparr>tb_columns := (tb_columns tb)(c \<mapsto> col),
                       tb_rows := map (\<lambda>r. r(c \<mapsto> v)) (tb_rows tb)\<rparr>))"

definition drop_column :: "string \<Rightarrow> sql_table \<Rightarrow> sql_table option" where
  "drop_column c tb =
     (if tb_columns tb c = None \<or> c \<in> used_columns tb then None
      else Some (tb\<lparr>tb_columns := (tb_columns tb)(c := None),
                    tb_rows := map (\<lambda>r. r(c := None)) (tb_rows tb)\<rparr>))"

definition alter_default :: "string \<Rightarrow> sql_value option \<Rightarrow> sql_table \<Rightarrow> sql_table option" where
  "alter_default c v tb =
     (case tb_columns tb c of
        None \<Rightarrow> None
      | Some col \<Rightarrow> Some (tb\<lparr>tb_columns := (tb_columns tb)(c \<mapsto> col\<lparr>sc_default := v\<rparr>)\<rparr>))"

text \<open>A unique index compares the keys without \<open>NULL\<close>.\<close>

definition create_index :: "string \<Rightarrow> sql_index \<Rightarrow> sql_table \<Rightarrow> sql_table option" where
  "create_index i ix tb =
     (if tb_indexes tb i \<noteq> None \<or> \<not> list_all (\<lambda>c. tb_columns tb c \<noteq> None) (ix_columns ix)
         \<or> ix_unique ix \<and> \<not> distinct (filter (\<lambda>k. Some Null \<notin> set k) (map (\<lambda>r. map r (ix_columns ix)) (tb_rows tb)))
      then None
      else Some (tb\<lparr>tb_indexes := (tb_indexes tb)(i \<mapsto> ix)\<rparr>))"

definition drop_index :: "string \<Rightarrow> sql_table \<Rightarrow> sql_table option" where
  "drop_index i tb =
     (if tb_indexes tb i = None then None
      else Some (tb\<lparr>tb_indexes := (tb_indexes tb)(i := None)\<rparr>))"

definition on_table :: "string \<Rightarrow> (sql_table \<Rightarrow> sql_table option) \<Rightarrow> database \<Rightarrow> database option" where
  "on_table t f d =
     (case d t of
        None \<Rightarrow> None
      | Some tb \<Rightarrow> map_option (\<lambda>tb'. d(t \<mapsto> tb')) (f tb))"

text \<open>\<open>None\<close> is an error of the database, which rolls the migration back.\<close>

fun apply_ddl :: "ddl \<Rightarrow> database \<Rightarrow> database option" where
  "apply_ddl (CreateTable t cols pk fks us) d =
     (if d t \<noteq> None then None
      else Some (d(t \<mapsto> \<lparr>tb_columns = map_of cols, tb_primary = pk, tb_foreign = fks, tb_unique = us,
                        tb_indexes = Map.empty, tb_rows = []\<rparr>)))"
| "apply_ddl (DropTable t) d = (if d t = None then None else Some (d(t := None)))"
| "apply_ddl (AddColumn t c col) d = on_table t (add_column c col) d"
| "apply_ddl (DropColumn t c) d = on_table t (drop_column c) d"
| "apply_ddl (AlterDefault t c v) d = on_table t (alter_default c v) d"
| "apply_ddl (CreateIndex i t cs u) d = on_table t (create_index i \<lparr>ix_columns = cs, ix_unique = u\<rparr>) d"
| "apply_ddl (DropIndex i t) d = on_table t (drop_index i) d"

fun run_ddl :: "ddl list \<Rightarrow> database \<Rightarrow> database option" where
  "run_ddl [] d = Some d"
| "run_ddl (x # xs) d = (case apply_ddl x d of None \<Rightarrow> None | Some d' \<Rightarrow> run_ddl xs d')"

section \<open>The migrations\<close>

record migration =
  mg_revision :: string
  mg_down_revision :: "string option"
  mg_upgrade :: "ddl list"
  mg_downgrade :: "ddl list"

definition req :: "sql_type \<Rightarrow> sql_column" where
  "req ty = \<lparr>sc_type = ty, sc_nullable = False, sc_default = None\<rparr>"

definition opt :: "sql_type \<Rightarrow> sql_column" where
  "opt ty = \<lparr>sc_type = ty, sc_nullable = True, sc_default = None\<rparr>"

definition fk_users :: "string \<Rightarrow> on_delete \<Rightarrow> foreign_key" where
  "fk_users c od = \<lparr>fk_column = c, fk_references = (''users'', ''id''), fk_on_delete = od\<rparr>"

definition migration_init :: migration where
  "migration_init =
     \<lparr>mg_revision = ''287bec6d8d4e'', mg_down_revision = None,
      mg_upgrade =
        [CreateTable ''audit_log''
           [(''id'', req GuidT), (''actor_id'', req GuidT), (''action'', req (StringT (Some 80))),
            (''target_id'', opt GuidT), (''meta'', opt JsonT), (''created_at'', req DateTimeT)]
           [''id''] {} {},
         CreateTable ''users''
           [(''id'', req GuidT), (''username'', req (StringT None)),
            (''password_hash'', req (StringT None)), (''is_superuser'', req BooleanT),
            (''is_active'', req BooleanT)]
           [''id''] {} {},
         CreateIndex ''ix_users_username'' ''users'' [''username''] True],
      mg_downgrade =
        [DropIndex ''ix_users_username'' ''users'', DropTable ''users'', DropTable ''audit_log'']\<rparr>"

definition migration_user_secrets :: migration where
  "migration_user_secrets =
     \<lparr>mg_revision = ''adc7ba2730be'', mg_down_revision = Some ''287bec6d8d4e'',
      mg_upgrade =
        [CreateTable ''user_secrets''
           [(''id'', req GuidT), (''user_id'', req GuidT), (''type'', req (StringT (Some 32))),
            (''secret'', req TextT), (''usage_count'', (req IntegerT)\<lparr>sc_default := Some (IntV 0)\<rparr>),
            (''last_used_at'', opt DateTimeT), (''last_used_meta'', opt JsonT),
            (''created_at'', req DateTimeT), (''updated_at'', req DateTimeT)]
           [''id''] {fk_users ''user_id'' Cascade} {},
         CreateIndex ''ix_user_secrets_user_id'' ''user_secrets'' [''user_id''] False,
         CreateIndex ''ix_user_secrets_type'' ''user_secrets'' [''type''] False],
      mg_downgrade =
        [DropIndex ''ix_user_secrets_type'' ''user_secrets'',
         DropIndex ''ix_user_secrets_user_id'' ''user_secrets'', DropTable ''user_secrets'']\<rparr>"

definition migration_invites :: migration where
  "migration_invites =
     \<lparr>mg_revision = ''5801f6f0a1a8'', mg_down_revision = Some ''adc7ba2730be'',
      mg_upgrade =
        [AddColumn ''users'' ''must_change_password''
           ((req BooleanT)\<lparr>sc_default := Some (BoolV False)\<rparr>),
         AddColumn ''users'' ''password_changed_at'' (opt DateTimeT),
         CreateTable ''user_password_set_tokens''
           [(''id'', req GuidT), (''user_id'', req GuidT), (''token_hash'', req TextT),
            (''expires_at'', req DateTimeT), (''used_at'', opt DateTimeT),
            (''created_at'', req DateTimeT), (''created_by'', opt GuidT), (''meta'', opt JsonT)]
           [''id''] {fk_users ''created_by'' SetNull, fk_users ''user_id'' Cascade} {[''token_hash'']},
         CreateIndex ''ix_user_password_set_tokens_user_id'' ''user_password_set_tokens'' [''user_id'']
           False,
         AlterDefault ''users'' ''must_change_password'' None],
      mg_downgrade =
        [DropIndex ''ix_user_password_set_tokens_user_id'' ''user_password_set_tokens'',
         DropTable ''user_password_set_tokens'',
         DropColumn ''users'' ''password_changed_at'',
         DropColumn ''users'' ''must_change_password'']\<rparr>"

definition migration_alias :: migration where
  "migration_alias =
     \<lparr>mg_revision = ''e1170f5f7dbf'', mg_down_revision = Some ''5801f6f0a1a8'',
      mg_upgrade = [AddColumn ''user_secrets'' ''alias'' (opt (StringT (Some 16)))],
      mg_downgrade = [DropColumn ''user_secrets'' ''alias'']\<rparr>"

definition migration_crypto :: migration where
  "migration_crypto =
     \<lparr>mg_revision = ''8f4e1b6d2c3a'', mg_down_revision = Some ''e1170f5f7dbf'',
      mg_upgrade =
        [AddColumn ''user_secrets'' ''external_username'' (opt TextT),
         AddColumn ''user_secrets'' ''ciphertext'' (opt BinaryT),
         AddColumn ''user_secrets'' ''secret_nonce'' (opt BinaryT),
         AddColumn ''user_secrets'' ''wrapped_dek'' (opt BinaryT),
         AddColumn ''user_secrets'' ''wrapped_dek_nonce'' (opt BinaryT),
         AddColumn ''user_secrets'' ''crypto_version'' (opt IntegerT),
         CreateTable ''user_secret_vaults''
           [(''user_id'', req GuidT), (''kdf_salt'', opt BinaryT), (''kdf_params_json'', opt JsonT),
            (''vault_check_ciphertext'', opt BinaryT), (''vault_check_nonce'', opt BinaryT),
            (''created_at'', req DateTimeT), (''updated_at'', req DateTimeT)]
           [''user_id''] {fk_users ''user_id'' Cascade} {}],
      mg_downgrade =
        [DropTable ''user_secret_vaults'',
         DropColumn ''user_secrets'' ''crypto_version'',
         DropColumn ''user_secrets'' ''wrapped_dek_nonce'',
         DropColumn ''user_secrets'' ''wrapped_dek'',
         DropColumn ''user_secrets'' ''secret_nonce'',
         DropColumn ''user_secrets'' ''ciphertext'',
         DropColumn ''user_secrets'' ''external_username'']\<rparr>"

definition migration_drop_secret :: migration where
  "migration_drop_secret =
     \<lparr>mg_revision = ''4d7f8e9a1b2c'', mg_down_revision = Some ''8f4e1b6d2c3a'',
      mg_upgrade = [DropColumn ''user_secrets'' ''secret''],
      mg_downgrade =
        [AddColumn ''user_secrets'' ''secret'' ((req TextT)\<lparr>sc_default := Some (TextV [])\<rparr>)]\<rparr>"

text \<open>The scripts of the directory in the order of their file names.\<close>

definition migrations :: "migration list" where
  "migrations =
     [migration_init, migration_drop_secret, migration_invites, migration_crypto,
      migration_user_secrets, migration_alias]"

text \<open>\<open>upgrade head\<close> follows the down revisions from the base; no script is visited twice.\<close>

fun script_order :: "nat \<Rightarrow> string option \<Rightarrow> migration list" where
  "script_order 0 r = []"
| "script_order (Suc n) r =
     (case filter (\<lambda>m. mg_down_revision m = r) migrations of
        [m] \<Rightarrow> m # script_order n (Some (mg_revision m))
      | _ \<Rightarrow> [])"

definition upgrade_path :: "migration list" where
  "upgrade_path = script_order (length migrations) None"

definition upgrade_head :: "database \<Rightarrow> database option" where
  "upgrade_head d = run_ddl (concat (map mg_upgrade upgrade_path)) d"

section \<open>The declared schema\<close>

text \<open>An empty table; \<open>index=True\<close> makes an index named after the table and the column.\<close>

definition orm_table ::
    "(string \<times> sql_column) list \<Rightarrow> string list \<Rightarrow> foreign_key set \<Rightarrow> string list set
       \<Rightarrow> (string \<times> sql_index) list \<Rightarrow> sql_table" where
  "orm_table cols pk fks us ixs =
     \<lparr>tb_columns = map_of cols, tb_primary = pk, tb_foreign = fks, tb_unique = us,
      tb_indexes = map_of ixs, tb_rows = []\<rparr>"

definition orm_users :: sql_table where
  "orm_users =
     orm_table
       [(''id'', req GuidT), (''username'', req (StringT None)), (''password_hash'', req (StringT None)),
        (''is_superuser'', req BooleanT), (''is_active'', req BooleanT),
        (''must_change_password'', req BooleanT), (''password_changed_at'', opt DateTimeT)]
       [''id''] {} {}
       [(''ix_users_username'', \<lparr>ix_columns = [''username''], ix_unique = True\<rparr>)]"

definition orm_audit_log :: sql_table where
  "orm_audit_log =
     orm_table
       [(''id'', req GuidT), (''actor_id'', req GuidT), (''action'', req (StringT (Some 80))),
        (''target_id'', opt GuidT), (''meta'', opt JsonT), (''created_at'', req DateTimeT)]
       [''id''] {} {} []"

definition orm_user_secrets :: sql_table where
  "orm_user_secrets =
     orm_table
       [(''id'', req GuidT), (''user_id'', req GuidT), (''type'', req (StringT (Some 32))),
        (''alias'', opt (StringT (Some 16))), (''external_username'', opt TextT),
        (''ciphertext'', opt BinaryT), (''secret_nonce'', opt BinaryT),
        (''wrapped_dek'', opt BinaryT), (''wrapped_dek_nonce'', opt BinaryT),
        (''crypto_version'', opt IntegerT), (''usage_count'', req IntegerT),
        (''last_used_at'', opt DateTimeT), (''last_used_meta'', opt JsonT),
        (''created_at'', req DateTimeT), (''updated_at'', req DateTimeT)]
       [''id''] {fk_users ''user_id'' Cascade} {}
       [(''ix_user_secrets_user_id'', \<lparr>ix_columns = [''user_id''], ix_unique = False\<rparr>),
        (''ix_user_secrets_type'', \<lparr>ix_columns = [''type''], ix_unique = False\<rparr>)]"

definition orm_user_secret_vaults :: sql_table where
  "orm_user_secret_vaults =
     orm_table
       [(''user_id'', req GuidT), (''kdf_salt'', opt BinaryT), (''kdf_params_json'', opt JsonT),
        (''vault_check_ciphertext'', opt BinaryT), (''vault_check_nonce'', opt BinaryT),
        (''created_at'', req DateTimeT), (''updated_at'', req DateTimeT)]
       [''user_id''] {fk_users ''user_id'' Cascade} {} []"

definition orm_password_set_tokens :: sql_table where
  "orm_password_set_tokens =
     orm_table
       [(''id'', req GuidT), (''user_id'', req GuidT), (''token_hash'', req TextT),
        (''expires_at'', req DateTimeT), (''used_at'', opt DateTimeT), (''created_at'', req DateTimeT),
        (''created_by'', opt GuidT), (''meta'', opt JsonT)]
       [''id''] {fk_users ''user_id'' Cascade, fk_users ''created_by'' SetNull} {[''token_hash'']}
       [(''ix_user_password_set_tokens_user_id'', \<lparr>ix_columns = [''user_id''], ix_unique = False\<rparr>)]"

definition orm_schema :: database where
  "orm_schema =
     map_of
       [(''users'', orm_users), (''audit_log'', orm_audit_log), (''user_secrets'', orm_user_secrets),
        (''user_secret_vaults'', orm_user_secret_vaults),
        (''user_password_set_tokens'', orm_password_set_tokens)]"

text \<open>\<open>DatabaseBootstrap.run\<close>: the service refuses to start on a database Alembic has not touched.\<close>

definition bootstrap_run :: "(string \<Rightarrow> bool) \<Rightarrow> unit res" where
  "bootstrap_run has_table =
     (if \<not> has_table ''alembic_version''
      then Inl (OtherError
                  (U ''Database schema not initialized. Run `alembic upgrade head` first.''))
      else Inr ())"

end
