(* ===== verification/MigrationProps.thy ===== *)
theory MigrationProps imports Migrations begin

text \<open>
  What the migrations promise: together they build the schema that the ORM declares, each downgrade
  takes back its upgrade, and ids survive the column type they are stored in.
\<close>

section \<open>The migrated schema\<close>

lemma upgrade_path_eq:
  "upgrade_path = [migration_init, migration_user_secrets, migration_invites, migration_alias,
     migration_crypto, migration_drop_secret]"
  by (simp add: upgrade_path_def migrations_def numeral_2_eq_2 migration_init_def
      migration_user_secrets_def migration_invites_def migration_alias_def migration_crypto_def
      migration_drop_secret_def)

lemmas migration_defs = migration_init_def migration_user_secrets_def migration_invites_def
  migration_alias_def migration_crypto_def migration_drop_secret_def

lemmas ddl_defs = on_table_def add_column_def drop_column_def alter_default_def create_index_def
  drop_index_def

text \<open>
  C38. From an empty database the migrations, in the order of their down revisions, all succeed and
  build exactly the tables, columns, types, keys and indexes that the ORM's classes declare; the only
  difference is a default for the usage counter that the database keeps.
\<close>

theorem migrations_build_declared_schema:
  "upgrade_head Map.empty =
     Some (orm_schema(''user_secrets'' \<mapsto> orm_user_secrets\<lparr>tb_columns :=
       (tb_columns orm_user_secrets)(''usage_count'' \<mapsto> (req IntegerT)\<lparr>sc_default := Some (IntV 0)\<rparr>)\<rparr>))"
proof -
  note ops = migration_defs ddl_defs used_columns_def fk_users_def req_def opt_def
  note orm = orm_schema_def orm_users_def orm_audit_log_def orm_user_secrets_def
    orm_user_secret_vaults_def orm_password_set_tokens_def orm_table_def fk_users_def req_def opt_def
  show ?thesis unfolding upgrade_head_def upgrade_path_eq
    by (simp add: ops) (rule ext, simp add: orm fun_eq_iff insert_commute)
qed

section \<open>Taking back\<close>

text \<open>
  A database is well-typed when every row has, in exactly the columns of its table, values of the
  columns' types (\<open>NULL\<close> only where it is allowed), and keys and indexes are over columns there are.
\<close>

fun has_type :: "sql_value \<Rightarrow> sql_type \<Rightarrow> bool" where
  "has_type (BoolV b) BooleanT = True"
| "has_type (IntV i) IntegerT = True"
| "has_type (TextV s) (StringT n) = True"
| "has_type (TextV s) TextT = True"
| "has_type (BytesV b) BinaryT = True"
| "has_type (JsonV j) JsonT = True"
| "has_type (TimeV t) DateTimeT = True"
| "has_type (GuidV u) GuidT = True"
| "has_type _ _ = False"

definition fits :: "sql_column \<Rightarrow> sql_value \<Rightarrow> bool" where
  "fits col v \<longleftrightarrow> (if v = Null then sc_nullable col else has_type v (sc_type col))"

fun cell_ok :: "sql_column option \<Rightarrow> sql_value option \<Rightarrow> bool" where
  "cell_ok None v \<longleftrightarrow> v = None"
| "cell_ok (Some col) v \<longleftrightarrow> (case v of None \<Rightarrow> False | Some x \<Rightarrow> fits col x)"

definition row_ok :: "(string \<rightharpoonup> sql_column) \<Rightarrow> sql_row \<Rightarrow> bool" where
  "row_ok cols r \<longleftrightarrow> (\<forall>c. cell_ok (cols c) (r c))"

definition table_ok :: "sql_table \<Rightarrow> bool" where
  "table_ok tb \<longleftrightarrow> list_all (row_ok (tb_columns tb)) (tb_rows tb) \<and>
     used_columns tb \<subseteq> dom (tb_columns tb)"

definition database_ok :: "database \<Rightarrow> bool" where
  "database_ok d \<longleftrightarrow> (\<forall>tb \<in> ran d. table_ok tb)"

lemma database_okD: "database_ok d \<Longrightarrow> d t = Some tb \<Longrightarrow> table_ok tb"
  by (auto simp: database_ok_def ran_def)

lemma database_ok_upd: "database_ok d \<Longrightarrow> table_ok tb \<Longrightarrow> database_ok (d(t \<mapsto> tb))"
  by (auto simp: database_ok_def ran_def)

lemma database_ok_drop: "database_ok d \<Longrightarrow> database_ok (d(t := None))"
  by (auto simp: database_ok_def ran_def)

lemma row_ok_outside: "row_ok cols r \<Longrightarrow> cols c = None \<Longrightarrow> r c = None"
  unfolding row_ok_def by (metis cell_ok.simps(1))

lemma row_ok_add: "row_ok cols r \<Longrightarrow> fits col v \<Longrightarrow> row_ok (cols(c \<mapsto> col)) (r(c \<mapsto> v))"
  by (simp add: row_ok_def)

lemma row_ok_drop: "row_ok cols r \<Longrightarrow> row_ok (cols(c := None)) (r(c := None))"
  by (simp add: row_ok_def)

lemma cell_ok_default: "cell_ok (Some (col\<lparr>sc_default := v\<rparr>)) x = cell_ok (Some col) x"
  by (simp add: fits_def split: option.splits)

lemma row_ok_default:
  "row_ok cols r \<Longrightarrow> cols c = Some col \<Longrightarrow> row_ok (cols(c \<mapsto> col\<lparr>sc_default := v\<rparr>)) r"
  unfolding row_ok_def fun_upd_apply by (metis cell_ok_default)

lemma on_table_Some:
  "on_table t f d = Some d' \<longleftrightarrow> (\<exists>tb tb'. d t = Some tb \<and> f tb = Some tb' \<and> d' = d(t \<mapsto> tb'))"
  by (auto simp: on_table_def split: option.splits)

lemma used_columns_cong [simp]:
  "used_columns (tb\<lparr>tb_columns := cs, tb_rows := rs\<rparr>) = used_columns tb"
  "used_columns (tb\<lparr>tb_columns := cs\<rparr>) = used_columns tb"
  by (simp_all add: used_columns_def)

text \<open>What an operation has to bring with it: a default of the column's type, keys over columns.\<close>

fun ddl_ok :: "ddl \<Rightarrow> bool" where
  "ddl_ok (CreateTable t cols pk fks us) \<longleftrightarrow>
     set pk \<union> fk_column ` fks \<union> \<Union> (set ` us) \<subseteq> fst ` set cols"
| "ddl_ok (AddColumn t c col) \<longleftrightarrow> (case sc_default col of None \<Rightarrow> True | Some v \<Rightarrow> fits col v)"
| "ddl_ok _ \<longleftrightarrow> True"

lemma add_column_eq:
  assumes "add_column c col tb = Some tb'" and "ddl_ok (AddColumn t c col)"
  obtains v where "tb_columns tb c = None" "fits col v \<or> tb_rows tb = []"
    "tb' = tb\<lparr>tb_columns := (tb_columns tb)(c \<mapsto> col), tb_rows := map (\<lambda>r. r(c \<mapsto> v)) (tb_rows tb)\<rparr>"
proof -
  let ?v = "case sc_default col of None \<Rightarrow> Null | Some x \<Rightarrow> x"
  from assms(1) have c: "tb_columns tb c = None" and n: "sc_nullable col \<or> sc_default col \<noteq> None \<or> tb_rows tb = []"
    and tb': "tb' = tb\<lparr>tb_columns := (tb_columns tb)(c \<mapsto> col), tb_rows := map (\<lambda>r. r(c \<mapsto> ?v)) (tb_rows tb)\<rparr>"
    unfolding add_column_def Let_def by (metis option.discI option.inject)+
  have "fits col ?v \<or> tb_rows tb = []"
    using n assms(2) by (cases "sc_default col") (auto simp: fits_def)
  with c tb' show thesis by (intro that)
qed

lemma add_column_ok:
  assumes "add_column c col tb = Some tb'" and "ddl_ok (AddColumn t c col)" and "table_ok tb"
  shows "table_ok tb'" and "drop_column c tb' = Some tb"
proof -
  obtain v where c: "tb_columns tb c = None" "fits col v \<or> tb_rows tb = []"
    and tb': "tb' = tb\<lparr>tb_columns := (tb_columns tb)(c \<mapsto> col), tb_rows := map (\<lambda>r. r(c \<mapsto> v)) (tb_rows tb)\<rparr>"
    by (rule add_column_eq [OF assms(1,2)])
  have rows: "\<And>r. r \<in> set (tb_rows tb) \<Longrightarrow> row_ok (tb_columns tb) r"
    using assms(3) by (auto simp: table_ok_def list_all_iff)
  with c(2) assms(3) show "table_ok tb'"
    by (auto simp: tb' table_ok_def list_all_iff row_ok_add)
  have u: "c \<notin> used_columns tb" using assms(3) c(1) by (auto simp: table_ok_def)
  have "map (\<lambda>r. r(c := None)) (map (\<lambda>r. r(c \<mapsto> v)) (tb_rows tb)) = map id (tb_rows tb)"
    unfolding map_map by (rule map_cong) (auto simp: comp_def row_ok_outside [OF rows c(1)])
  moreover have "(tb_columns tb)(c \<mapsto> col, c := None) = tb_columns tb" using c(1) by auto
  ultimately show "drop_column c tb' = Some tb" using u by (simp add: tb' drop_column_def)
qed

lemma drop_column_ok: "drop_column c tb = Some tb' \<Longrightarrow> table_ok tb \<Longrightarrow> table_ok tb'"
  by (auto simp: drop_column_def table_ok_def list_all_iff row_ok_drop split: if_splits)

lemma create_index_ok:
  assumes "create_index i ix tb = Some tb'" and "table_ok tb"
  shows "table_ok tb'" and "drop_index i tb' = Some tb"
proof -
  from assms(1) have i: "tb_indexes tb i = None" and cs: "list_all (\<lambda>c. tb_columns tb c \<noteq> None) (ix_columns ix)"
    and tb': "tb' = tb\<lparr>tb_indexes := (tb_indexes tb)(i \<mapsto> ix)\<rparr>"
    by (auto simp: create_index_def split: if_splits)
  have "used_columns tb' = used_columns tb \<union> set (ix_columns ix)"
    using i by (auto simp: tb' used_columns_def ran_map_upd)
  moreover have "set (ix_columns ix) \<subseteq> dom (tb_columns tb)" using cs by (auto simp: list_all_iff)
  ultimately show "table_ok tb'" using assms(2) by (auto simp: tb' table_ok_def)
  have "(tb_indexes tb)(i \<mapsto> ix, i := None) = tb_indexes tb" using i by auto
  then show "drop_index i tb' = Some tb" by (simp add: tb' drop_index_def)
qed

lemma drop_index_ok: "drop_index i tb = Some tb' \<Longrightarrow> table_ok tb \<Longrightarrow> table_ok tb'"
proof -
  assume "drop_index i tb = Some tb'" and ok: "table_ok tb"
  then have tb': "tb' = tb\<lparr>tb_indexes := (tb_indexes tb)(i := None)\<rparr>"
    by (simp add: drop_index_def split: if_splits)
  have "used_columns tb' \<subseteq> used_columns tb"
    by (auto simp: tb' used_columns_def ran_def split: if_splits)
  moreover have "tb_columns tb' = tb_columns tb" "tb_rows tb' = tb_rows tb" by (simp_all add: tb')
  ultimately show ?thesis using ok by (auto simp: table_ok_def)
qed

lemma alter_default_ok:
  assumes "alter_default c v tb = Some tb'" and "table_ok tb" shows "table_ok tb'"
proof -
  from assms(1) obtain col where c: "tb_columns tb c = Some col"
    and tb': "tb' = tb\<lparr>tb_columns := (tb_columns tb)(c \<mapsto> col\<lparr>sc_default := v\<rparr>)\<rparr>"
    by (auto simp: alter_default_def split: option.splits)
  have "dom ((tb_columns tb)(c \<mapsto> col\<lparr>sc_default := v\<rparr>)) = dom (tb_columns tb)"
    using c by (simp add: insert_absorb domI)
  with assms(2) c show ?thesis
    by (auto simp: tb' table_ok_def list_all_iff row_ok_default simp del: dom_fun_upd)
qed

lemma create_table_ok:
  "ddl_ok (CreateTable t cols pk fks us) \<Longrightarrow>
     table_ok \<lparr>tb_columns = map_of cols, tb_primary = pk, tb_foreign = fks, tb_unique = us,
               tb_indexes = Map.empty, tb_rows = []\<rparr>"
  by (simp add: table_ok_def used_columns_def dom_map_of_conv_image_fst)

lemma apply_ddl_ok: "apply_ddl x d = Some d' \<Longrightarrow> ddl_ok x \<Longrightarrow> database_ok d \<Longrightarrow> database_ok d'"
proof (cases x)
  case (CreateTable t cols pk fks us)
  moreover assume "apply_ddl x d = Some d'" "ddl_ok x" "database_ok d"
  ultimately show ?thesis
    by (auto intro!: database_ok_upd create_table_ok simp del: ddl_ok.simps split: if_splits)
qed (auto simp: on_table_Some simp del: ddl_ok.simps split: if_splits
    intro!: database_ok_upd database_ok_drop
    intro: add_column_ok(1) drop_column_ok alter_default_ok create_index_ok(1) drop_index_ok
    dest: database_okD)


text \<open>Which operation takes back which.\<close>

fun takes_back :: "ddl \<Rightarrow> ddl \<Rightarrow> bool" where
  "takes_back (CreateTable t cols pk fks us) y \<longleftrightarrow> y = DropTable t"
| "takes_back (AddColumn t c col) y \<longleftrightarrow> y = DropColumn t c"
| "takes_back (CreateIndex i t cs u) y \<longleftrightarrow> y = DropIndex i t"
| "takes_back x y \<longleftrightarrow> False"

lemma takes_back_ok:
  assumes "takes_back x y" and "ddl_ok x" and "database_ok d" and "apply_ddl x d = Some d'"
  shows "apply_ddl y d' = Some d"
proof (cases x)
  case (CreateTable t cols pk fks us)
  with assms(1,4) show ?thesis by (auto split: if_splits)
next
  case (AddColumn t c col)
  with assms(4) obtain tb tb' where "d t = Some tb" "add_column c col tb = Some tb'" "d' = d(t \<mapsto> tb')"
    by (auto simp: on_table_Some)
  with AddColumn assms(1,2) add_column_ok [OF this(2) _ database_okD [OF assms(3) this(1)]] show ?thesis
    by (auto simp: on_table_def fun_upd_idem)
next
  case (CreateIndex i t cs u)
  with assms(4) obtain tb tb' where "d t = Some tb"
    "create_index i \<lparr>ix_columns = cs, ix_unique = u\<rparr> tb = Some tb'" "d' = d(t \<mapsto> tb')"
    by (auto simp: on_table_Some)
  with CreateIndex assms(1) create_index_ok [OF this(2) database_okD [OF assms(3) this(1)]] show ?thesis
    by (auto simp: on_table_def fun_upd_idem)
qed (use assms(1) in simp_all)

lemma run_ddl_append: "run_ddl (xs @ ys) d = (case run_ddl xs d of None \<Rightarrow> None | Some d' \<Rightarrow> run_ddl ys d')"
  by (induction xs d rule: run_ddl.induct) (auto split: option.splits)

lemma takes_back_run:
  "list_all2 takes_back xs ys \<Longrightarrow> list_all ddl_ok xs \<Longrightarrow> database_ok d \<Longrightarrow> run_ddl xs d = Some d' \<Longrightarrow>
     run_ddl (rev ys) d' = Some d"
proof (induction xs ys arbitrary: d rule: list_all2_induct)
  case (Cons x xs y ys)
  from Cons(6) obtain e where e: "apply_ddl x d = Some e" "run_ddl xs e = Some d'"
    by (auto split: option.splits)
  with Cons takes_back_ok [of x y d e] apply_ddl_ok [of x d e] show ?case
    by (auto simp: run_ddl_append)
qed simp

text \<open>A column that goes away takes its default with it.\<close>

lemma altered_then_dropped:
  assumes "run_ddl [DropIndex i u, DropTable u, DropColumn t b, DropColumn t c] d = Some e"
    and "apply_ddl (AlterDefault t c v) d = Some d'" and "u \<noteq> t" "b \<noteq> c"
  shows "run_ddl [DropIndex i u, DropTable u, DropColumn t b, DropColumn t c] d' = Some e"
proof -
  from assms(2) obtain tb col where d: "d t = Some tb" "tb_columns tb c = Some col"
    and d': "d' = d(t \<mapsto> tb\<lparr>tb_columns := (tb_columns tb)(c \<mapsto> col\<lparr>sc_default := v\<rparr>)\<rparr>)"
    by (auto simp: on_table_Some alter_default_def split: option.splits)
  show ?thesis using assms(1,3,4) d
    by (auto simp: d' on_table_def drop_column_def drop_index_def fun_upd_twist
        split: option.splits if_splits)
qed

lemma migrations_ok:
  "m \<in> set migrations \<Longrightarrow> list_all ddl_ok (mg_upgrade m) \<and> list_all ddl_ok (mg_downgrade m)"
  by (auto simp: migrations_def migration_defs fk_users_def req_def opt_def fits_def)

lemma invites_taken_back:
  assumes "database_ok d" and "run_ddl (mg_upgrade migration_invites) d = Some d'"
  shows "run_ddl (mg_downgrade migration_invites) d' = Some d"
proof -
  let ?last = "AlterDefault ''users'' ''must_change_password'' None"
  define xs where "xs = butlast (mg_upgrade migration_invites)"
  have split: "mg_upgrade migration_invites = xs @ [?last]" by (simp add: xs_def migration_invites_def)
  from assms(2) obtain e where e: "run_ddl xs d = Some e" "apply_ddl ?last e = Some d'"
    unfolding split run_ddl_append by (auto split: option.splits)
  have "list_all2 takes_back xs (rev (mg_downgrade migration_invites))"
    by (simp add: xs_def migration_invites_def)
  moreover have "list_all ddl_ok xs"
    using migrations_ok [of migration_invites] by (simp add: split migrations_def)
  ultimately have taken: "run_ddl (rev (rev (mg_downgrade migration_invites))) e = Some d"
    using takes_back_run [OF _ _ assms(1) e(1)] by blast
  have dn: "rev (rev (mg_downgrade migration_invites)) =
      [DropIndex ''ix_user_password_set_tokens_user_id'' ''user_password_set_tokens'',
       DropTable ''user_password_set_tokens'', DropColumn ''users'' ''password_changed_at'',
       DropColumn ''users'' ''must_change_password'']"
    by (simp add: migration_invites_def)
  have "run_ddl (rev (rev (mg_downgrade migration_invites))) d' = Some d"
    unfolding dn by (rule altered_then_dropped [OF taken [unfolded dn] e(2)]) simp_all
  then show ?thesis by simp
qed

text \<open>What is left of the plain text column when it is put back.\<close>

definition blank_secrets :: "database \<Rightarrow> database" where
  "blank_secrets d =
     (case d ''user_secrets'' of
        None \<Rightarrow> d
      | Some tb \<Rightarrow>
          d(''user_secrets'' \<mapsto>
              tb\<lparr>tb_columns := (tb_columns tb)(''secret'' \<mapsto> (req TextT)\<lparr>sc_default := Some (TextV [])\<rparr>),
                 tb_rows := map (\<lambda>r. r(''secret'' \<mapsto> TextV [])) (tb_rows tb)\<rparr>))"

lemma drop_secret_taken_back:
  assumes "run_ddl (mg_upgrade migration_drop_secret) d = Some d'"
  shows "run_ddl (mg_downgrade migration_drop_secret) d' = Some (blank_secrets d)"
proof -
  from assms obtain tb where d: "d ''user_secrets'' = Some tb"
    and d': "d' = d(''user_secrets'' \<mapsto> tb\<lparr>tb_columns := (tb_columns tb)(''secret'' := None),
                    tb_rows := map (\<lambda>r. r(''secret'' := None)) (tb_rows tb)\<rparr>)"
    by (auto simp: migration_drop_secret_def on_table_Some drop_column_def split: option.splits if_splits)
  then show ?thesis
    by (simp add: migration_drop_secret_def on_table_def add_column_def blank_secrets_def req_def comp_def)
qed


text \<open>
  C40. On a well-typed database a migration that succeeds is taken back by its downgrade, which then
  succeeds and gives the very same tables, columns, indexes and rows. The one exception is the
  migration that drops the plain text of the secrets: what comes back is the column, with an empty
  text in every row.
\<close>

theorem downgrade_takes_back_upgrade:
  assumes "m \<in> set migrations" and "database_ok d" and "run_ddl (mg_upgrade m) d = Some d'"
  shows "run_ddl (mg_downgrade m) d' =
    Some (if mg_revision m = ''4d7f8e9a1b2c'' then blank_secrets d else d)"
proof -
  from assms(1) consider "m = migration_drop_secret" | "m = migration_invites"
    | "m \<in> {migration_init, migration_crypto, migration_user_secrets, migration_alias}"
    by (auto simp: migrations_def)
  then show ?thesis
  proof cases
    case 1
    then have "mg_revision m = ''4d7f8e9a1b2c''" by (simp add: migration_drop_secret_def)
    with 1 drop_secret_taken_back assms(3) show ?thesis by simp
  next
    case 2
    then have "mg_revision m \<noteq> ''4d7f8e9a1b2c''" by (simp add: migration_invites_def)
    with 2 invites_taken_back [OF assms(2)] assms(3) show ?thesis by simp
  next
    case 3
    then have "list_all2 takes_back (mg_upgrade m) (rev (mg_downgrade m))"
      and r: "mg_revision m \<noteq> ''4d7f8e9a1b2c''"
      by (auto simp: migration_defs)
    from takes_back_run [OF this(1) _ assms(2,3)] migrations_ok [OF assms(1)]
    have "run_ddl (mg_downgrade m) d' = Some d" by simp
    with r show ?thesis by simp
  qed
qed

definition sample_database :: database where
  "sample_database =
     [''user_secrets'' \<mapsto>
       \<lparr>tb_columns = [''id'' \<mapsto> req GuidT, ''secret'' \<mapsto> req TextT], tb_primary = [''id''],
        tb_foreign = {}, tb_unique = {}, tb_indexes = Map.empty,
        tb_rows = [[''id'' \<mapsto> GuidV 5, ''secret'' \<mapsto> TextV (U ''token'')]]\<rparr>]"

lemma sample_database_ok: "database_ok sample_database"
  by (auto simp: database_ok_def sample_database_def table_ok_def used_columns_def row_ok_def fits_def
      req_def)

lemma sample_upgrade:
  "migration_drop_secret \<in> set migrations"
  "\<exists>d'. run_ddl (mg_upgrade migration_drop_secret) sample_database = Some d'"
  by (simp_all add: migrations_def migration_drop_secret_def sample_database_def on_table_def
      drop_column_def used_columns_def)


theorem downgrade_takes_back_upgrade_witness:
  "\<exists>d'. run_ddl (mg_upgrade migration_drop_secret) sample_database = Some d' \<and>
     run_ddl (mg_downgrade migration_drop_secret) d' = Some (blank_secrets sample_database)"
proof -
  have "mg_revision migration_drop_secret = ''4d7f8e9a1b2c''" by (simp add: migration_drop_secret_def)
  with sample_upgrade(2) downgrade_takes_back_upgrade [OF sample_upgrade(1) sample_database_ok]
  show ?thesis by auto
qed

section \<open>Ids\<close>

text \<open>
  What a column for ids gives back is the id that was bound, on every database and whether it was
  bound as a UUID or as its text in any of the accepted forms; a text that is no UUID is refused when
  it is bound.
\<close>

lemma guid_column_roundtrip:
  "(case process_bind_param (Some v) dialect of
      Inl e \<Rightarrow> e = badly_formed \<and> parse_uuid (guid_str v) = None \<and> (\<exists>s. v = GuidText s)
    | Inr stored \<Rightarrow> (case v of GuidUuid u \<Rightarrow> uuid_ok u \<longrightarrow> process_result_value stored = Inr (Some u)
                     | GuidText s \<Rightarrow> process_result_value stored = Inr (parse_uuid s)))"
proof (cases v)
  case (GuidUuid u)
  then show ?thesis
    by (cases dialect) (simp_all add: process_bind_param_def process_result_value_def uuid_of_str_def
      parse_uuid_str)
next
  case (GuidText s)
  then show ?thesis
  proof (cases "parse_uuid s")
    case (Some u)
    with GuidText parse_uuid_str [OF parse_uuid_ok [OF Some]] show ?thesis
      by (cases dialect) (simp_all add: process_bind_param_def process_result_value_def uuid_of_str_def)
  qed (simp add: GuidText process_bind_param_def uuid_of_str_def)
qed

theorem guid_column_roundtrip_witness:
  "process_bind_param (Some (GuidUuid 5)) OtherDialect = Inr (Some (GuidText (uuid_str 5))) \<and>
   process_result_value (Some (GuidText (uuid_str 5))) = Inr (Some 5)"
proof -
  have "uuid_ok 5" by (simp add: uuid_ok_def)
  have bound: "process_bind_param (Some (GuidUuid u)) OtherDialect = Inr (Some (GuidText (uuid_str u)))" for u
    by (simp add: process_bind_param_def)
  have "uuid_ok 5 \<longrightarrow> process_result_value (Some (GuidText (uuid_str 5))) = Inr (Some 5)"
    using guid_column_roundtrip [of "GuidUuid 5" OtherDialect] unfolding bound sum.case guid_value.case .
  then show ?thesis using \<open>uuid_ok 5\<close> unfolding bound by (simp only: simp_thms)
qed

end
