(* ===== verification/System.thy ===== *)
theory System imports BlikApp AllegroApp Auth TxApp Metrics Migrations begin

text \<open>
  The settings and how the application is put together from them (\<open>settings.py\<close>, \<open>middleware.py\<close>,
  \<open>main.py\<close>, \<open>services/db/engine.py\<close>, \<open>api/deps_db.py\<close>, \<open>utils/logger.py\<close>, \<open>alembic/env.py\<close>), the cookies
  of the endpoints, and the system endpoints for health, version and the state of the bootstrap.
  The services themselves are put together in theory Wiring. Python's JSON reader is the parameter
  \<open>loads\<close>.
\<close>

section \<open>The settings\<close>

text \<open>The value given for \<open>allowed_origins\<close>: nothing, a text (the environment), a list, anything else.\<close>

datatype origins = NoOrigins | OriginsText ustring | OriginsList "json list" | OtherOrigins ustring

definition parse_allowed_origins :: "(ustring \<Rightarrow> json option) \<Rightarrow> origins \<Rightarrow> json res" where
  "parse_allowed_origins loads v =
     (case v of
        NoOrigins \<Rightarrow> Inr (JArr [JStr (U ''*'')])
      | OriginsText s \<Rightarrow>
          (if strip s = U ''*'' then Inr (JArr [JStr (U ''*'')])
           else if 44 \<in> set s then Inr (JArr (map (\<lambda>item. JStr (strip item)) (split_on 44 s)))
           else if startswith (strip s) (U ''['')
           then (case loads s of
                   None \<Rightarrow> Inl (ValueError (U ''ALLOWED_ORIGINS must be valid JSON list''))
                 | Some j \<Rightarrow> Inr j)
           else Inr (JArr [JStr s]))
      | OriginsList xs \<Rightarrow> Inr (JArr xs)
      | OtherOrigins s \<Rightarrow> Inl (ValueError (U ''Invalid ALLOWED_ORIGINS format: '' @ s)))"

record settings =
  st_firefly_url :: "ustring option"
  st_firefly_token :: "ustring option"
  st_allowed_origins :: json
  st_demo_mode :: bool
  st_secret_key :: ustring
  st_pepper :: "ustring option"
  st_internal_api_key :: "ustring option"
  st_algorithm :: ustring
  st_access_token_minutes :: int
  st_password_set_hours :: int
  st_app_public_url :: "ustring option"
  st_blik_filter :: ustring
  st_tag_blik_done :: ustring
  st_future_days :: int
  st_snapshot_ttl :: int
  st_refresh_token_days :: int
  st_refresh_cookie :: ustring
  st_refresh_secure :: bool
  st_vault_cookie :: ustring
  st_vault_ttl :: int
  st_vault_secure :: bool
  st_log_level :: ustring
  st_database_url :: ustring

text \<open>The defaults; only the secret key has none.\<close>

definition settings_default :: "ustring \<Rightarrow> settings" where
  "settings_default secret_key =
     \<lparr>st_firefly_url = None, st_firefly_token = None, st_allowed_origins = JArr [JStr (U ''*'')],
      st_demo_mode = False, st_secret_key = secret_key, st_pepper = None, st_internal_api_key = None,
      st_algorithm = U ''HS256'', st_access_token_minutes = 60, st_password_set_hours = 24,
      st_app_public_url = None,
      st_blik_filter = U ''BLIK - p'' @ [322] @ U ''atno'' @ [347, 263] @ U '' w internecie'',
      st_tag_blik_done = U ''blik_done'', st_future_days = 7, st_snapshot_ttl = 300,
      st_refresh_token_days = 30, st_refresh_cookie = U ''refresh_token'', st_refresh_secure = False,
      st_vault_cookie = U ''vault_session_id'', st_vault_ttl = 900, st_vault_secure = False,
      st_log_level = U ''INFO'', st_database_url = U ''sqlite:///./data/app.db''\<rparr>"

section \<open>What the services get from them\<close>

definition auth_config_of :: "settings \<Rightarrow> auth_config" where
  "auth_config_of st =
     \<lparr>ac_secret_key = st_secret_key st, ac_pepper = st_pepper st,
      ac_internal_api_key = st_internal_api_key st, ac_access_minutes = st_access_token_minutes st,
      ac_refresh_days = st_refresh_token_days st, ac_set_token_hours = st_password_set_hours st,
      ac_app_public_url = st_app_public_url st\<rparr>"

text \<open>The address and the token that the client library is given; without one of them it is not made.\<close>

definition client_arguments :: "settings \<Rightarrow> (ustring \<times> ustring) res" where
  "client_arguments st =
     (case (st_firefly_url st, st_firefly_token st) of
        (Some (u # us), Some (t # ts)) \<Rightarrow> Inr (u # us, t # ts)
      | _ \<Rightarrow> Inl (OtherError (U ''Config error'')))"

text \<open>\<open>getattr(settings, "ALLEGRO_DESCRIPTION_FILTER", "allegro")\<close>: the settings have no such field.\<close>

definition allegro_description_filter :: "settings \<Rightarrow> ustring" where
  "allegro_description_filter st = U ''allegro''"

text \<open>\<open>vault_session_cookie or vault_session_header\<close>\<close>

definition get_vault_session_id :: "ustring option \<Rightarrow> ustring option \<Rightarrow> ustring option" where
  "get_vault_session_id cookie header =
     (case cookie of Some (c # cs) \<Rightarrow> Some (c # cs) | _ \<Rightarrow> header)"

section \<open>Cookies\<close>

text \<open>What an endpoint asks the response to do to the browser's cookies.\<close>

record cookie_options =
  ck_http_only :: bool
  ck_secure :: bool
  ck_same_site :: ustring
  ck_max_age :: int
  ck_path :: ustring

datatype cookie_change = SetCookie ustring ustring cookie_options | DeleteCookie ustring ustring

definition set_vault_session_cookie :: "settings \<Rightarrow> ustring \<Rightarrow> cookie_change" where
  "set_vault_session_cookie st vault_session_id =
     SetCookie (st_vault_cookie st) vault_session_id
       \<lparr>ck_http_only = True, ck_secure = st_vault_secure st, ck_same_site = U ''lax'',
        ck_max_age = st_vault_ttl st, ck_path = U ''/''\<rparr>"

definition clear_vault_session_cookie :: "settings \<Rightarrow> cookie_change" where
  "clear_vault_session_cookie st = DeleteCookie (st_vault_cookie st) (U ''/'')"

definition set_refresh_cookie :: "settings \<Rightarrow> ustring \<Rightarrow> cookie_change" where
  "set_refresh_cookie st refresh_token =
     SetCookie (st_refresh_cookie st) refresh_token
       \<lparr>ck_http_only = True, ck_secure = st_refresh_secure st, ck_same_site = U ''lax'',
        ck_max_age = st_refresh_token_days st * 86400, ck_path = U ''/''\<rparr>"

section \<open>Sessions of requests\<close>

text \<open>\<open>get_db\<close>: the endpoint runs on a fresh session, which is closed however it ends.\<close>

definition get_db :: "(session \<Rightarrow> 'a \<times> session) \<Rightarrow> db \<Rightarrow> 'a \<times> db" where
  "get_db endpoint d = (case endpoint (open_session d) of (r, s) \<Rightarrow> (r, close_session s))"

section \<open>Log lines\<close>

text \<open>
  \<open>"%(asctime)sZ [%(levelname)s] %(name)s: %(message)s"\<close>, where \<open>asctime\<close> is in UTC: the date, the time
  and the milliseconds.
\<close>

definition log_line :: "date \<Rightarrow> nat \<Rightarrow> ustring \<Rightarrow> ustring \<Rightarrow> ustring \<Rightarrow> ustring" where
  "log_line day us levelname name message =
     (let s = us div 1000000
      in isoformat day @ U '' '' @ pad_num 2 (s div 3600) @ U '':'' @ pad_num 2 (s div 60 mod 60)
         @ U '':'' @ pad_num 2 (s mod 60) @ U '','' @ pad_num 3 (us div 1000 mod 1000)
         @ U ''Z ['' @ levelname @ U ''] '' @ name @ U '': '' @ message)"

section \<open>The set-up of a migration run\<close>

text \<open>
  \<open>alembic/env.py\<close>: how Alembic's context is configured; the name of a connection's dialect comes from
  SQLAlchemy. Online, a connection that Alembic was handed is used, or one is opened for the
  settings' address.
\<close>

record migration_context =
  mc_url :: "ustring option"
  mc_literal_binds :: bool
  mc_compare_type :: bool
  mc_compare_server_default :: bool
  mc_render_as_batch :: bool

datatype migration_connection = GivenConnection ustring | OpenedConnection ustring ustring

definition configure_context :: "ustring \<Rightarrow> migration_context" where
  "configure_context dialect_name =
     \<lparr>mc_url = None, mc_literal_binds = False, mc_compare_type = True, mc_compare_server_default = True,
      mc_render_as_batch = (dialect_name = U ''sqlite'')\<rparr>"

definition run_migrations_offline :: "settings \<Rightarrow> migration_context" where
  "run_migrations_offline st =
     (let url = st_database_url st
      in \<lparr>mc_url = Some url, mc_literal_binds = True, mc_compare_type = True,
          mc_compare_server_default = True, mc_render_as_batch = startswith url (U ''sqlite'')\<rparr>)"

definition run_migrations_online ::
    "settings \<Rightarrow> (ustring \<Rightarrow> ustring) \<Rightarrow> ustring option \<Rightarrow> migration_connection \<times> migration_context" where
  "run_migrations_online st dialect_of_url given =
     (case given of
        Some dialect_name \<Rightarrow> (GivenConnection dialect_name, configure_context dialect_name)
      | None \<Rightarrow>
          (let url = st_database_url st; dialect_name = dialect_of_url url
           in (OpenedConnection url dialect_name, configure_context dialect_name)))"

section \<open>The application\<close>

record engine_config =
  en_url :: ustring
  en_check_same_thread :: "bool option"
  en_pre_ping :: bool

definition create_engine_from_url :: "ustring \<Rightarrow> engine_config" where
  "create_engine_from_url url =
     \<lparr>en_url = url,
      en_check_same_thread = (if startswith url (U ''sqlite'') then Some False else None),
      en_pre_ping = True\<rparr>"

record session_factory =
  sf_autocommit :: bool
  sf_autoflush :: bool
  sf_bind :: engine_config

definition create_session_factory :: "engine_config \<Rightarrow> session_factory" where
  "create_session_factory engine = \<lparr>sf_autocommit = False, sf_autoflush = False, sf_bind = engine\<rparr>"

record cors_config =
  co_origins :: json
  co_credentials :: bool
  co_methods :: "ustring list"
  co_headers :: "ustring list"

definition register_middlewares :: "settings \<Rightarrow> cors_config" where
  "register_middlewares st =
     \<lparr>co_origins = st_allowed_origins st, co_credentials = True, co_methods = [U ''*''],
      co_headers = [U ''*'']\<rparr>"

text \<open>The application with the prefixes of its routers; \<open>has_table\<close> is what the start-up check sees.\<close>

record application =
  app_version :: ustring
  app_cors :: cors_config
  app_routers :: "ustring list"
  app_sessions :: "session_factory option"

definition create_app :: "ustring \<Rightarrow> settings \<Rightarrow> application" where
  "create_app version st =
     \<lparr>app_version = version, app_cors = register_middlewares st,
      app_routers =
        [U ''/api/auth'', U ''/api/me'', U ''/api/blik_files'', U ''/api/tools/citi'',
         U ''/api/transactions'', U ''/api/tx'', U ''/api/allegro'', U ''/api/users'',
         U ''/api/user-secrets'', U ''/api/system''],
      app_sessions = None\<rparr>"

definition lifespan :: "engine_config option \<Rightarrow> (string \<Rightarrow> bool) \<Rightarrow> unit res" where
  "lifespan bootstrap has_table =
     (case bootstrap of None \<Rightarrow> Inr () | Some _ \<Rightarrow> bootstrap_run has_table)"

definition create_production_app :: "ustring \<Rightarrow> settings \<Rightarrow> application" where
  "create_production_app version st =
     (create_app version st)\<lparr>app_sessions :=
       Some (create_session_factory (create_engine_from_url (st_database_url st)))\<rparr>"

section \<open>System endpoints\<close>

record health_response =
  hr_status :: ustring
  hr_database :: ustring
  hr_bootstrapped :: bool

text \<open>
  \<open>ping\<close> is the outcome of \<open>SELECT 1\<close>; the second argument that of counting the users, which asks the
  same database. The answer is a status code with the body.
\<close>

definition health_check :: "unit res \<Rightarrow> bool res \<Rightarrow> (int \<times> health_response) res" where
  "health_check ping bootstrapped =
     (let ok = (case ping of Inr _ \<Rightarrow> True | Inl _ \<Rightarrow> False)
      in case bootstrapped of
           Inl e \<Rightarrow> Inl e
         | Inr b \<Rightarrow>
             Inr (if ok then 200 else 503,
                  \<lparr>hr_status = (if ok then U ''ok'' else U ''error''),
                   hr_database = (if ok then U ''ok'' else U ''error''), hr_bootstrapped = b\<rparr>))"

definition version_check :: "ustring option \<Rightarrow> ustring" where
  "version_check version = (case version of None \<Rightarrow> U ''unknown'' | Some v \<Rightarrow> v)"

definition bootstrap_status :: "db \<Rightarrow> bool" where
  "bootstrap_status d = is_bootstrapped (open_session d)"

end
