(* ===== verification/SystemProps.thy ===== *)
theory SystemProps imports System Samples "HOL-Library.Code_Target_Nat" begin

text \<open>
  How the settings are read, and what the health endpoint cannot answer.
\<close>

section \<open>Allowed origins\<close>

lemma split_on_go_part: "d \<notin> set p \<Longrightarrow> split_on_go d w (p @ s) = split_on_go d (rev p @ w) s"
  by (induction p arbitrary: w) auto

lemma split_on_join:
  "ps \<noteq> [] \<Longrightarrow> \<forall>p \<in> set ps. d \<notin> set p \<Longrightarrow> split_on d (join [d] ps) = ps"
  unfolding split_on_def
proof (induction ps rule: list_nonempty_induct)
  case (single p)
  then show ?case using split_on_go_part [of d p "[]" "[]"] by simp
next
  case (cons p ps)
  then obtain q qs where ps: "ps = q # qs" by (cases ps) auto
  with cons show ?case using split_on_go_part [of d p "[]" "d # join [d] ps"] by simp
qed

lemma strip_keeps_comma: "44 \<in> set s \<Longrightarrow> 44 \<in> set (strip s)"
proof -
  assume "44 \<in> set s"
  moreover obtain p q where "s = p @ strip s @ q" "\<forall>c \<in> set p \<union> set q. is_space c"
    using strip_by_decomp [of s is_space] unfolding strip_def by blast
  moreover have "\<not> is_space 44" by (simp add: is_space_def)
  ultimately show ?thesis by (metis Un_iff set_append)
qed

text \<open>Two or more origins separated by commas are read one by one.\<close>

lemma allowed_origins_csv:
  assumes "2 \<le> length os" and "\<forall>p \<in> set os. 44 \<notin> set p \<and> strip p = p"
  shows "parse_allowed_origins loads (OriginsText (join [44] os)) = Inr (JArr (map JStr os))"
proof -
  from assms(1) obtain p q rest where os: "os = p # q # rest"
    by (metis Suc_le_length_iff numeral_2_eq_2)
  then have c: "44 \<in> set (join [44] os)" by simp
  have "44 \<notin> set (U ''*'')" by code_simp
  with c strip_keeps_comma [of "join [44] os"] have "strip (join [44] os) \<noteq> U ''*''" by auto
  moreover have "split_on 44 (join [44] os) = os" using assms(2) os by (intro split_on_join) auto
  moreover have "map (\<lambda>item. JStr (strip item)) os = map JStr os" using assms(2) by simp
  ultimately show ?thesis using c by (simp add: parse_allowed_origins_def)
qed

text \<open>
  A JSON list of two origins has a comma, so it is never given to the JSON reader: it is cut at its
  commas, brackets and quotes included.
\<close>

lemma allowed_origins_json_misread:
  "parse_allowed_origins loads (OriginsText (U ''[\"https://a.com\",\"https://b.com\"]'')) =
     Inr (JArr [JStr (U ''[\"https://a.com\"''), JStr (U ''\"https://b.com\"]'')])"
proof -
  have "strip (U ''[\"https://a.com\",\"https://b.com\"]'') \<noteq> U ''*''"
    "44 \<in> set (U ''[\"https://a.com\",\"https://b.com\"]'')"
    "map strip (split_on 44 (U ''[\"https://a.com\",\"https://b.com\"]'')) =
       [U ''[\"https://a.com\"'', U ''\"https://b.com\"]'']"
    by code_simp+
  then show ?thesis by (simp add: parse_allowed_origins_def map_eq_Cons_conv)
qed

section \<open>Health\<close>

text \<open>
  When the database does not answer the ping it does not count the users either, and the error of the
  second question passes: the answer 503 is never given.
\<close>

lemma health_check_database_down:
  "ping = Inl e \<Longrightarrow> users = Inl e' \<Longrightarrow> health_check ping users = Inl e'"
  by (simp add: health_check_def)

section \<open>Cookies\<close>

text \<open>A browser's cookies; attributes that decide when a cookie is sent are left out.\<close>

fun apply_cookie :: "cookie_change \<Rightarrow> (ustring, ustring) dict \<Rightarrow> (ustring, ustring) dict" where
  "apply_cookie (SetCookie name v opts) jar = dput name v jar"
| "apply_cookie (DeleteCookie name path) jar = ddel name jar"

text \<open>
  The vault session that unlocking put into the cookie is the one that later requests act in; once it
  is cleared, only the header counts.
\<close>

lemma vault_cookie_read_back:
  "sid \<noteq> [] \<Longrightarrow>
     get_vault_session_id (dget (apply_cookie (set_vault_session_cookie st sid) jar) (st_vault_cookie st)) header
       = Some sid"
  "get_vault_session_id (dget (apply_cookie (clear_vault_session_cookie st) jar) (st_vault_cookie st)) header
       = header"
  by (cases sid) (simp_all add: set_vault_session_cookie_def clear_vault_session_cookie_def
      get_vault_session_id_def dict_simps)

section \<open>Sessions\<close>

text \<open>The endpoints that open and close a session themselves do what \<open>get_db\<close> does around them.\<close>

lemma admin_change_get_db:
  "admin_change op action audit_id now admin_id user_id d =
     get_db (\<lambda>s. case op user_id s of
        (Inl e, s1) \<Rightarrow> (Inl e, s1)
      | (Inr _, s1) \<Rightarrow> (Inr (), audit_log audit_id now admin_id action (Some user_id) None True s1)) d"
  by (simp add: admin_change_def get_db_def split: prod.splits sum.splits)

text \<open>What was not committed is gone with the session.\<close>

lemma get_db_uncommitted: "committed (snd (f (open_session d))) = d \<Longrightarrow> snd (get_db f d) = d"
  by (cases "f (open_session d)") (simp add: get_db_def close_session_def)

section \<open>Migration runs\<close>

text \<open>Offline and online runs agree on the batch mode that SQLite needs.\<close>

lemma batch_mode_agrees:
  assumes "dialect_of_url (st_database_url st) = U ''sqlite'' \<longleftrightarrow> startswith (st_database_url st) (U ''sqlite'')"
  shows "mc_render_as_batch (snd (run_migrations_online st dialect_of_url None)) =
    mc_render_as_batch (run_migrations_offline st)"
  using assms by (simp add: run_migrations_online_def run_migrations_offline_def configure_context_def Let_def)

end
