(* ===== verification/Wiring.thy ===== *)
theory Wiring imports System "HOL-Library.State_Monad" begin

text \<open>
  How the services of a process are made and shared: \<open>api/deps_services.py\<close> and
  \<open>api/deps_runtime.py\<close>. A provider with \<open>lru_cache\<close> makes its service once; the objects a process
  has made are a list, a reference is a position in it, and the providers are programs of the state
  monad over that list and the cache. The state inside a service is that of the component's theory.
\<close>

section \<open>Services\<close>

type_synonym ref = nat

text \<open>The three stores that are made when their modules are imported, then the cached providers.\<close>

datatype provider =
    BlikStates | AllegroStates | CitiFiles
  | FireflyClientP | FireflyBase | FireflyEnrichment | FireflyTx | SnapshotStoreP | TransactionSnapshots
  | BlikMetricsP | AllegroMetricsP | TxMetricsP | CategorySuggestions | SecretCrypto | VaultSessions
  | BlikRuntime | TxRuntime | CitiRuntime

text \<open>What the constructors keep of their arguments.\<close>

record wired_tx_service =
  wts_client :: ref
  wts_filter_blik :: ustring
  wts_filter_allegro :: ustring

record wired_snapshot_service =
  wss_store :: ref
  wss_firefly :: ref
  wss_max_age :: int

record wired_blik_metrics =
  wbm_snapshots :: ref
  wbm_filter_blik :: ustring

record wired_allegro_metrics =
  wam_snapshots :: ref
  wam_filter_allegro :: ustring

record wired_tx_metrics =
  wtm_snapshots :: ref
  wtm_filter_blik :: ustring
  wtm_filter_allegro :: ustring

record wired_blik_service =
  wbs_enrichment :: ref
  wbs_metrics :: ref
  wbs_state_store :: ref

record wired_tx_app =
  wta_tx_service :: ref
  wta_metrics :: ref

text \<open>Services of one request; a repository is the database session it was made with.\<close>

record wired_vault_service =
  wvs_db :: nat
  wvs_sessions :: ref
  wvs_crypto :: ref
  wvs_ttl :: int

record wired_secrets_service =
  wse_db :: nat
  wse_vault :: wired_vault_service
  wse_crypto :: ref

record wired_allegro_service =
  was_secrets :: wired_secrets_service
  was_enrichment :: ref
  was_metrics :: ref
  was_state_store :: ref
  was_filter_allegro :: ustring

text \<open>
  The objects of the process. The parts of the category suggestions that nobody else sees (provider,
  engine, bucketizer) are made with them, like the parser, mapper and exporter of the Citi import and
  the metrics managers of the BLIK and transaction services.
\<close>

datatype service =
    BlikStateStore | AllegroStateStore | CitiImportStore
  | FireflyClient ustring ustring
  | FireflyBaseService ref
  | FireflyEnrichmentService ref
  | FireflyTxService wired_tx_service
  | InMemorySnapshotStore
  | TransactionSnapshotService wired_snapshot_service
  | SnapshotBlikMetricsService wired_blik_metrics
  | SnapshotAllegroMetricsService wired_allegro_metrics
  | SnapshotTxMetricsService wired_tx_metrics
  | CategorySuggestionService ref
  | SecretCryptoService
  | VaultSessionStore
  | BlikApplicationService wired_blik_service
  | TxApplicationService wired_tx_app
  | CitiImportService ref

fun made_by :: "service \<Rightarrow> provider" where
  "made_by BlikStateStore = BlikStates"
| "made_by AllegroStateStore = AllegroStates"
| "made_by CitiImportStore = CitiFiles"
| "made_by (FireflyClient _ _) = FireflyClientP"
| "made_by (FireflyBaseService _) = FireflyBase"
| "made_by (FireflyEnrichmentService _) = FireflyEnrichment"
| "made_by (FireflyTxService _) = FireflyTx"
| "made_by InMemorySnapshotStore = SnapshotStoreP"
| "made_by (TransactionSnapshotService _) = TransactionSnapshots"
| "made_by (SnapshotBlikMetricsService _) = BlikMetricsP"
| "made_by (SnapshotAllegroMetricsService _) = AllegroMetricsP"
| "made_by (SnapshotTxMetricsService _) = TxMetricsP"
| "made_by (CategorySuggestionService _) = CategorySuggestions"
| "made_by SecretCryptoService = SecretCrypto"
| "made_by VaultSessionStore = VaultSessions"
| "made_by (BlikApplicationService _) = BlikRuntime"
| "made_by (TxApplicationService _) = TxRuntime"
| "made_by (CitiImportService _) = CitiRuntime"

section \<open>The process\<close>

text \<open>The Allegro state store carries the metrics manager, here by the provider of its metrics.\<close>

record process =
  pr_objects :: "service list"
  pr_cache :: "provider \<rightharpoonup> ref"
  pr_allegro_manager :: "ref option"

definition process_start :: process where
  "process_start =
     \<lparr>pr_objects = [BlikStateStore, AllegroStateStore, CitiImportStore],
      pr_cache = [BlikStates \<mapsto> 0, AllegroStates \<mapsto> 1, CitiFiles \<mapsto> 2], pr_allegro_manager = None\<rparr>"

type_synonym 'a proc = "(process, 'a res) state"

definition done_with :: "'a \<Rightarrow> 'a proc" where
  "done_with x = State_Monad.return (Inr x)"

definition and_then :: "'a proc \<Rightarrow> ('a \<Rightarrow> 'b proc) \<Rightarrow> 'b proc" where
  "and_then m f =
     State_Monad.bind m (\<lambda>r. case r of Inl e \<Rightarrow> State_Monad.return (Inl e) | Inr x \<Rightarrow> f x)"

text \<open>
  \<open>lru_cache(maxsize=1)\<close> of a function without arguments: an exception is not remembered, and a result
  is not stored when there is one by the time the function has returned.
\<close>

definition lru_finish :: "provider \<Rightarrow> service \<Rightarrow> process \<Rightarrow> ref \<times> process" where
  "lru_finish p x s =
     (let r = length (pr_objects s); s' = s\<lparr>pr_objects := pr_objects s @ [x]\<rparr>
      in (r, if pr_cache s p = None then s'\<lparr>pr_cache := (pr_cache s)(p \<mapsto> r)\<rparr> else s'))"

definition lru_cache :: "provider \<Rightarrow> service proc \<Rightarrow> ref proc" where
  "lru_cache p build =
     State (\<lambda>s. case pr_cache s p of
       Some r \<Rightarrow> (Inr r, s)
     | None \<Rightarrow>
         (case run_state build s of
            (Inl e, s') \<Rightarrow> (Inl e, s')
          | (Inr x, s') \<Rightarrow> (case lru_finish p x s' of (r, s'') \<Rightarrow> (Inr r, s''))))"

section \<open>The providers\<close>

definition get_firefly_client :: "settings \<Rightarrow> ref proc" where
  "get_firefly_client st =
     lru_cache FireflyClientP
       (case client_arguments st of
          Inl e \<Rightarrow> State_Monad.return (Inl e)
        | Inr (url, token) \<Rightarrow> done_with (FireflyClient url token))"

definition get_firefly_base_service :: "settings \<Rightarrow> ref proc" where
  "get_firefly_base_service st =
     lru_cache FireflyBase
       (and_then (get_firefly_client st) (\<lambda>client. done_with (FireflyBaseService client)))"

definition get_firefly_enrichment_service :: "settings \<Rightarrow> ref proc" where
  "get_firefly_enrichment_service st =
     lru_cache FireflyEnrichment
       (and_then (get_firefly_client st) (\<lambda>client. done_with (FireflyEnrichmentService client)))"

definition get_firefly_tx_service :: "settings \<Rightarrow> ref proc" where
  "get_firefly_tx_service st =
     lru_cache FireflyTx
       (and_then (get_firefly_client st)
         (\<lambda>client. done_with (FireflyTxService
            \<lparr>wts_client = client, wts_filter_blik = st_blik_filter st,
             wts_filter_allegro = allegro_description_filter st\<rparr>)))"

definition get_snapshot_store :: "ref proc" where
  "get_snapshot_store = lru_cache SnapshotStoreP (done_with InMemorySnapshotStore)"

definition get_transaction_snapshot_service :: "settings \<Rightarrow> ref proc" where
  "get_transaction_snapshot_service st =
     lru_cache TransactionSnapshots
       (and_then get_snapshot_store (\<lambda>snapshots.
        and_then (get_firefly_base_service st) (\<lambda>firefly.
          done_with (TransactionSnapshotService
            \<lparr>wss_store = snapshots, wss_firefly = firefly, wss_max_age = st_snapshot_ttl st\<rparr>))))"

definition get_snapshot_blik_metrics_service :: "settings \<Rightarrow> ref proc" where
  "get_snapshot_blik_metrics_service st =
     lru_cache BlikMetricsP
       (and_then (get_transaction_snapshot_service st)
         (\<lambda>sn. done_with (SnapshotBlikMetricsService
            \<lparr>wbm_snapshots = sn, wbm_filter_blik = st_blik_filter st\<rparr>)))"

definition get_snapshot_allegro_metrics_service :: "settings \<Rightarrow> ref proc" where
  "get_snapshot_allegro_metrics_service st =
     lru_cache AllegroMetricsP
       (and_then (get_transaction_snapshot_service st)
         (\<lambda>sn. done_with (SnapshotAllegroMetricsService
            \<lparr>wam_snapshots = sn, wam_filter_allegro = allegro_description_filter st\<rparr>)))"

definition get_snapshot_tx_metrics_service :: "settings \<Rightarrow> ref proc" where
  "get_snapshot_tx_metrics_service st =
     lru_cache TxMetricsP
       (and_then (get_transaction_snapshot_service st)
         (\<lambda>sn. done_with (SnapshotTxMetricsService
            \<lparr>wtm_snapshots = sn, wtm_filter_blik = st_blik_filter st,
             wtm_filter_allegro = allegro_description_filter st\<rparr>)))"

definition get_category_suggestion_service :: "settings \<Rightarrow> ref proc" where
  "get_category_suggestion_service st =
     lru_cache CategorySuggestions
       (and_then (get_transaction_snapshot_service st) (\<lambda>sn. done_with (CategorySuggestionService sn)))"

definition get_secret_crypto_service :: "ref proc" where
  "get_secret_crypto_service = lru_cache SecretCrypto (done_with SecretCryptoService)"

definition get_vault_session_store :: "ref proc" where
  "get_vault_session_store = lru_cache VaultSessions (done_with VaultSessionStore)"

text \<open>The stores of the modules are simply there.\<close>

definition get_blik_state_store :: "ref proc" where
  "get_blik_state_store = done_with 0"

definition get_allegro_state_store :: "ref proc" where
  "get_allegro_state_store = done_with 1"

definition get_citi_import_store :: "ref proc" where
  "get_citi_import_store = done_with 2"

definition get_blik_application_runtime :: "settings \<Rightarrow> ref proc" where
  "get_blik_application_runtime st =
     lru_cache BlikRuntime
       (and_then (get_firefly_enrichment_service st) (\<lambda>enrichment.
        and_then (get_snapshot_blik_metrics_service st) (\<lambda>metrics.
        and_then get_blik_state_store (\<lambda>states.
          done_with (BlikApplicationService
            \<lparr>wbs_enrichment = enrichment, wbs_metrics = metrics, wbs_state_store = states\<rparr>)))))"

definition get_tx_application_runtime :: "settings \<Rightarrow> ref proc" where
  "get_tx_application_runtime st =
     lru_cache TxRuntime
       (and_then (get_firefly_tx_service st) (\<lambda>tx.
        and_then (get_snapshot_tx_metrics_service st) (\<lambda>metrics.
          done_with (TxApplicationService \<lparr>wta_tx_service = tx, wta_metrics = metrics\<rparr>))))"

definition get_citi_import_runtime :: "ref proc" where
  "get_citi_import_runtime =
     lru_cache CitiRuntime (and_then get_citi_import_store (\<lambda>files. done_with (CitiImportService files)))"

section \<open>Services of a request\<close>

definition get_vault_service :: "settings \<Rightarrow> nat \<Rightarrow> wired_vault_service proc" where
  "get_vault_service st db =
     and_then get_vault_session_store (\<lambda>sessions.
     and_then get_secret_crypto_service (\<lambda>crypto.
       done_with \<lparr>wvs_db = db, wvs_sessions = sessions, wvs_crypto = crypto, wvs_ttl = st_vault_ttl st\<rparr>))"

definition get_user_secrets_service :: "settings \<Rightarrow> nat \<Rightarrow> wired_secrets_service proc" where
  "get_user_secrets_service st db =
     and_then (get_vault_service st db) (\<lambda>vault.
     and_then get_secret_crypto_service (\<lambda>crypto.
       done_with \<lparr>wse_db = db, wse_vault = vault, wse_crypto = crypto\<rparr>))"

text \<open>The constructor gives the state store a metrics manager when it has none.\<close>

definition allegro_service_init :: "wired_allegro_service \<Rightarrow> wired_allegro_service proc" where
  "allegro_service_init x =
     State (\<lambda>s. (Inr x, s\<lparr>pr_allegro_manager :=
       (case pr_allegro_manager s of None \<Rightarrow> Some (was_metrics x) | Some m \<Rightarrow> Some m)\<rparr>))"

definition get_allegro_application_runtime :: "settings \<Rightarrow> nat \<Rightarrow> wired_allegro_service proc" where
  "get_allegro_application_runtime st db =
     and_then (get_user_secrets_service st db) (\<lambda>secrets.
     and_then (get_firefly_enrichment_service st) (\<lambda>enrichment.
     and_then get_allegro_state_store (\<lambda>states.
     and_then (get_snapshot_allegro_metrics_service st) (\<lambda>metrics.
       allegro_service_init
         \<lparr>was_secrets = secrets, was_enrichment = enrichment, was_metrics = metrics,
          was_state_store = states, was_filter_allegro = allegro_description_filter st\<rparr>))))"

section \<open>Requests\<close>

fun provide :: "settings \<Rightarrow> provider \<Rightarrow> ref proc" where
  "provide st BlikStates = get_blik_state_store"
| "provide st AllegroStates = get_allegro_state_store"
| "provide st CitiFiles = get_citi_import_store"
| "provide st FireflyClientP = get_firefly_client st"
| "provide st FireflyBase = get_firefly_base_service st"
| "provide st FireflyEnrichment = get_firefly_enrichment_service st"
| "provide st FireflyTx = get_firefly_tx_service st"
| "provide st SnapshotStoreP = get_snapshot_store"
| "provide st TransactionSnapshots = get_transaction_snapshot_service st"
| "provide st BlikMetricsP = get_snapshot_blik_metrics_service st"
| "provide st AllegroMetricsP = get_snapshot_allegro_metrics_service st"
| "provide st TxMetricsP = get_snapshot_tx_metrics_service st"
| "provide st CategorySuggestions = get_category_suggestion_service st"
| "provide st SecretCrypto = get_secret_crypto_service"
| "provide st VaultSessions = get_vault_session_store"
| "provide st BlikRuntime = get_blik_application_runtime st"
| "provide st TxRuntime = get_tx_application_runtime st"
| "provide st CitiRuntime = get_citi_import_runtime"

text \<open>What a request asks for before its endpoint runs; the number is its database session.\<close>

datatype request = UseService provider | UseVault nat | UseSecrets nat | UseAllegro nat

fun serve :: "settings \<Rightarrow> request \<Rightarrow> process \<Rightarrow> process" where
  "serve st (UseService p) s = snd (run_state (provide st p) s)"
| "serve st (UseVault db) s = snd (run_state (get_vault_service st db) s)"
| "serve st (UseSecrets db) s = snd (run_state (get_user_secrets_service st db) s)"
| "serve st (UseAllegro db) s = snd (run_state (get_allegro_application_runtime st db) s)"

end
