(* ===== verification/WiringProps.thy ===== *)
theory WiringProps imports Wiring "HOL-Library.Sublist" begin

text \<open>
  What the wiring promises: each service of the process exists once, is made from the settings, and
  whoever uses a service uses that one; and where this depends on requests not overlapping.
\<close>

section \<open>Services and what they use\<close>

fun uses :: "service \<Rightarrow> (provider \<times> ref) list" where
  "uses BlikStateStore = []"
| "uses AllegroStateStore = []"
| "uses CitiImportStore = []"
| "uses (FireflyClient _ _) = []"
| "uses (FireflyBaseService c) = [(FireflyClientP, c)]"
| "uses (FireflyEnrichmentService c) = [(FireflyClientP, c)]"
| "uses (FireflyTxService x) = [(FireflyClientP, wts_client x)]"
| "uses InMemorySnapshotStore = []"
| "uses (TransactionSnapshotService x) = [(SnapshotStoreP, wss_store x), (FireflyBase, wss_firefly x)]"
| "uses (SnapshotBlikMetricsService x) = [(TransactionSnapshots, wbm_snapshots x)]"
| "uses (SnapshotAllegroMetricsService x) = [(TransactionSnapshots, wam_snapshots x)]"
| "uses (SnapshotTxMetricsService x) = [(TransactionSnapshots, wtm_snapshots x)]"
| "uses (CategorySuggestionService sn) = [(TransactionSnapshots, sn)]"
| "uses SecretCryptoService = []"
| "uses VaultSessionStore = []"
| "uses (BlikApplicationService x) =
     [(FireflyEnrichment, wbs_enrichment x), (BlikMetricsP, wbs_metrics x), (BlikStates, wbs_state_store x)]"
| "uses (TxApplicationService x) = [(FireflyTx, wta_tx_service x), (TxMetricsP, wta_metrics x)]"
| "uses (CitiImportService s) = [(CitiFiles, s)]"

text \<open>The values a service takes from the settings.\<close>

fun configured :: "settings \<Rightarrow> service \<Rightarrow> bool" where
  "configured st (FireflyClient url token) \<longleftrightarrow> client_arguments st = Inr (url, token)"
| "configured st (FireflyTxService x) \<longleftrightarrow>
     wts_filter_blik x = st_blik_filter st \<and> wts_filter_allegro x = allegro_description_filter st"
| "configured st (TransactionSnapshotService x) \<longleftrightarrow> wss_max_age x = st_snapshot_ttl st"
| "configured st (SnapshotBlikMetricsService x) \<longleftrightarrow> wbm_filter_blik x = st_blik_filter st"
| "configured st (SnapshotAllegroMetricsService x) \<longleftrightarrow>
     wam_filter_allegro x = allegro_description_filter st"
| "configured st (SnapshotTxMetricsService x) \<longleftrightarrow>
     wtm_filter_blik x = st_blik_filter st \<and> wtm_filter_allegro x = allegro_description_filter st"
| "configured st _ \<longleftrightarrow> True"

section \<open>The invariant\<close>

definition process_inv :: "settings \<Rightarrow> process \<Rightarrow> bool" where
  "process_inv st s \<longleftrightarrow>
     (\<forall>p r. pr_cache s p = Some r \<longrightarrow> r < length (pr_objects s) \<and> made_by (pr_objects s ! r) = p) \<and>
     (\<forall>r < length (pr_objects s). pr_cache s (made_by (pr_objects s ! r)) = Some r) \<and>
     (\<forall>x \<in> set (pr_objects s). configured st x \<and> (\<forall>(p, r) \<in> set (uses x). pr_cache s p = Some r)) \<and>
     (\<forall>r. pr_allegro_manager s = Some r \<longrightarrow> pr_cache s AllegroMetricsP = Some r) \<and>
     pr_cache s BlikStates = Some 0 \<and> pr_cache s AllegroStates = Some 1 \<and> pr_cache s CitiFiles = Some 2"

lemma process_invD:
  assumes "process_inv st s"
  shows "pr_cache s p = Some r \<Longrightarrow> r < length (pr_objects s) \<and> made_by (pr_objects s ! r) = p"
    and "r < length (pr_objects s) \<Longrightarrow> pr_cache s (made_by (pr_objects s ! r)) = Some r"
    and "x \<in> set (pr_objects s) \<Longrightarrow> configured st x \<and> (\<forall>(p, r) \<in> set (uses x). pr_cache s p = Some r)"
    and "pr_allegro_manager s = Some r \<Longrightarrow> pr_cache s AllegroMetricsP = Some r"
    and "pr_cache s BlikStates = Some 0" and "pr_cache s AllegroStates = Some 1"
    and "pr_cache s CitiFiles = Some 2"
  using assms unfolding process_inv_def by blast+

text \<open>A service uses only services of a lower level.\<close>

fun level :: "provider \<Rightarrow> nat" where
  "level FireflyBase = 1"
| "level FireflyEnrichment = 1"
| "level FireflyTx = 1"
| "level TransactionSnapshots = 2"
| "level BlikMetricsP = 3"
| "level AllegroMetricsP = 3"
| "level TxMetricsP = 3"
| "level CategorySuggestions = 3"
| "level BlikRuntime = 4"
| "level TxRuntime = 4"
| "level _ = 0"

text \<open>A later process: the objects stay where they are, and the cache keeps what it has.\<close>

definition later :: "nat \<Rightarrow> process \<Rightarrow> process \<Rightarrow> bool" where
  "later n s s' \<longleftrightarrow> prefix (pr_objects s) (pr_objects s') \<and> pr_cache s \<subseteq>\<^sub>m pr_cache s' \<and>
     (\<forall>p. n \<le> level p \<longrightarrow> pr_cache s' p = pr_cache s p)"

lemma later_refl: "later n s s"
  by (simp add: later_def)

lemma later_trans: "later n s s' \<Longrightarrow> later n s' s'' \<Longrightarrow> later n s s''"
  by (auto simp: later_def intro: map_le_trans prefix_order.trans)

lemma later_mono: "later m s s' \<Longrightarrow> m \<le> n \<Longrightarrow> later n s s'"
  by (simp add: later_def)

lemma later_cached: "later n s s' \<Longrightarrow> pr_cache s p = Some r \<Longrightarrow> pr_cache s' p = Some r"
  by (auto simp: later_def map_le_def dom_def)

definition cached :: "(provider \<times> ref) list \<Rightarrow> process \<Rightarrow> bool" where
  "cached ds s \<longleftrightarrow> (\<forall>(p, r) \<in> set ds. pr_cache s p = Some r)"

lemma cached_later: "cached ds s \<Longrightarrow> later n s s' \<Longrightarrow> cached ds s'"
  by (auto simp: cached_def dest: later_cached)

section \<open>Programs that keep it\<close>

text \<open>
  From a process with the invariant in which \<open>ds\<close> is cached the program leaves a later one with the
  invariant, touches the cache below level \<open>n\<close> only, gives a value that satisfies \<open>Q\<close>, and fails only
  for want of the client's arguments.
\<close>

definition wired ::
    "settings \<Rightarrow> nat \<Rightarrow> (provider \<times> ref) list \<Rightarrow> 'a proc \<Rightarrow> (process \<Rightarrow> 'a \<Rightarrow> bool) \<Rightarrow> bool" where
  "wired st n ds m Q \<longleftrightarrow>
     (\<forall>s r s'. process_inv st s \<and> cached ds s \<and> run_state m s = (r, s') \<longrightarrow>
        process_inv st s' \<and> later n s s' \<and>
        (case r of Inl e \<Rightarrow> client_arguments st = Inl e | Inr x \<Rightarrow> Q s' x))"

named_theorems wiring "rules for programs that keep the wiring"

lemma wiredD:
  assumes "wired st n ds m Q" and "process_inv st s" and "cached ds s" and "run_state m s = (r, s')"
  shows "process_inv st s'" and "later n s s'"
    and "r = Inl e \<Longrightarrow> client_arguments st = Inl e" and "r = Inr x \<Longrightarrow> Q s' x"
  using assms unfolding wired_def by fastforce+

lemma wired_done:
  "(\<And>s. process_inv st s \<Longrightarrow> cached ds s \<Longrightarrow> Q s x) \<Longrightarrow> wired st n ds (done_with x) Q"
  by (auto simp: wired_def done_with_def later_refl)

lemma wired_mono: "wired st m ds c Q \<Longrightarrow> m \<le> n \<Longrightarrow> wired st n ds c Q"
  unfolding wired_def using later_mono by blast

lemma wired_and_then_cached:
  assumes "wired st n ds m (\<lambda>s x. cached (g x) s)" and "\<And>x. wired st n (g x @ ds) (f x) Q"
  shows "wired st n ds (and_then m f) Q"
  unfolding wired_def
proof (intro allI impI, elim conjE)
  fix s r s'
  assume s: "process_inv st s" "cached ds s" and run: "run_state (and_then m f) s = (r, s')"
  obtain a s1 where m: "run_state m s = (a, s1)" by fastforce
  note m' = wiredD [OF assms(1) s m]
  show "process_inv st s' \<and> later n s s' \<and>
    (case r of Inl e \<Rightarrow> client_arguments st = Inl e | Inr x \<Rightarrow> Q s' x)"
  proof (cases a)
    case (Inl e)
    with m m' run show ?thesis by (auto simp: and_then_def)
  next
    case (Inr x)
    then have f: "run_state (f x) s1 = (r, s')" using m run by (simp add: and_then_def)
    have c: "cached (g x @ ds) s1"
      using m'(4) [OF Inr] cached_later [OF s(2) m'(2)] by (auto simp: cached_def)
    note f' = wiredD [OF assms(2) m'(1) c f]
    from f'(1) later_trans [OF m'(2) f'(2)] f'(3,4) show ?thesis by (cases r) auto
  qed
qed

lemma wired_and_then:
  assumes "wired st n ds m (\<lambda>s r. pr_cache s p = Some r)" and "\<And>r. wired st n ((p, r) # ds) (f r) Q"
  shows "wired st n ds (and_then m f) Q"
  by (rule wired_and_then_cached [where g = "\<lambda>r. [(p, r)]"]) (use assms in \<open>simp_all add: cached_def\<close>)

text \<open>A new object keeps the invariant when nobody has made one of its kind.\<close>

lemma process_inv_new:
  assumes s: "process_inv st s" and new: "pr_cache s (made_by x) = None"
    and x: "configured st x" "cached (uses x) s" and fin: "lru_finish (made_by x) x s = (r, s')"
  shows "process_inv st s' \<and> pr_cache s' (made_by x) = Some r \<and> prefix (pr_objects s) (pr_objects s') \<and>
    (\<forall>p. p \<noteq> made_by x \<longrightarrow> pr_cache s' p = pr_cache s p)"
proof -
  have r: "r = length (pr_objects s)" and s': "s' = s\<lparr>pr_objects := pr_objects s @ [x],
      pr_cache := (pr_cache s)(made_by x \<mapsto> r)\<rparr>"
    using fin new by (auto simp: lru_finish_def Let_def)
  have keep: "pr_cache s' p = Some i" if "pr_cache s p = Some i" for p i
    using that new by (auto simp: s')
  note S = process_invD [OF s]
  have "process_inv st s'"
    unfolding process_inv_def
  proof (intro conjI)
    show "\<forall>p i. pr_cache s' p = Some i \<longrightarrow> i < length (pr_objects s') \<and> made_by (pr_objects s' ! i) = p"
      using S(1) by (auto simp: s' r nth_append less_SucI)
    show "\<forall>i < length (pr_objects s'). pr_cache s' (made_by (pr_objects s' ! i)) = Some i"
    proof (intro allI impI)
      fix i assume "i < length (pr_objects s')"
      then consider "i = r" | "i < length (pr_objects s)" by (auto simp: s' r less_Suc_eq)
      then show "pr_cache s' (made_by (pr_objects s' ! i)) = Some i"
        by cases (use S(2) keep in \<open>auto simp: s' r nth_append\<close>)
    qed
    show "\<forall>y \<in> set (pr_objects s'). configured st y \<and> (\<forall>(p, i) \<in> set (uses y). pr_cache s' p = Some i)"
    proof
      fix y assume "y \<in> set (pr_objects s')"
      then consider "y = x" | "y \<in> set (pr_objects s)" by (auto simp: s')
      then show "configured st y \<and> (\<forall>(p, i) \<in> set (uses y). pr_cache s' p = Some i)"
        using x S(3) keep unfolding cached_def by cases blast+
    qed
    show "\<forall>i. pr_allegro_manager s' = Some i \<longrightarrow> pr_cache s' AllegroMetricsP = Some i"
      using S(4) keep by (simp add: s')
    show "pr_cache s' BlikStates = Some 0" "pr_cache s' AllegroStates = Some 1" "pr_cache s' CitiFiles = Some 2"
      using S(5-7) keep by blast+
  qed
  then show ?thesis by (simp add: s')
qed

lemma wired_lru_cache:
  assumes "wired st (level p) ds build (\<lambda>s x. made_by x = p \<and> configured st x \<and> cached (uses x) s)"
    and "level p < n"
  shows "wired st n ds (lru_cache p build) (\<lambda>s r. pr_cache s p = Some r)"
  unfolding wired_def
proof (intro allI impI, elim conjE)
  fix s r s'
  assume s: "process_inv st s" "cached ds s" and run: "run_state (lru_cache p build) s = (r, s')"
  show "process_inv st s' \<and> later n s s' \<and>
    (case r of Inl e \<Rightarrow> client_arguments st = Inl e | Inr x \<Rightarrow> pr_cache s' p = Some x)"
  proof (cases "pr_cache s p")
    case (Some i)
    with run s show ?thesis by (auto simp: lru_cache_def later_refl)
  next
    case None
    obtain a s1 where b: "run_state build s = (a, s1)" by fastforce
    note b' = wiredD [OF assms(1) s b]
    have l: "later n s s1" using b'(2) assms(2) by (simp add: later_def)
    show ?thesis
    proof (cases a)
      case (Inl e)
      with run None b b' l show ?thesis by (auto simp: lru_cache_def)
    next
      case (Inr x)
      have x: "made_by x = p" "configured st x" "cached (uses x) s1" using b'(4) [OF Inr] by auto
      have none: "pr_cache s1 p = None" using b'(2) None by (simp add: later_def)
      obtain i where fin: "lru_finish p x s1 = (i, s')" and r: "r = Inr i"
        using run None b Inr by (auto simp: lru_cache_def split: prod.splits)
      from process_inv_new [of st s1 x i s'] b'(1) none x fin
      have new: "process_inv st s'" "pr_cache s' p = Some i" "prefix (pr_objects s1) (pr_objects s')"
        "\<forall>q. q \<noteq> p \<longrightarrow> pr_cache s' q = pr_cache s1 q" by auto
      have "pr_cache s1 \<subseteq>\<^sub>m pr_cache s'" unfolding map_le_def using new(4) none by (metis domIff)
      moreover have "\<forall>q. n \<le> level q \<longrightarrow> pr_cache s' q = pr_cache s1 q" using new(4) assms(2) by (metis leD)
      ultimately have "later n s1 s'" using new(3) by (simp add: later_def)
      with later_trans [OF l] new r show ?thesis by simp
    qed
  qed
qed

section \<open>The providers\<close>

lemma wired_client: "0 < n \<Longrightarrow> wired st n ds (get_firefly_client st) (\<lambda>s r. pr_cache s FireflyClientP = Some r)"
  unfolding get_firefly_client_def
  by (rule wired_lru_cache)
     (auto simp: wired_def later_refl done_with_def cached_def split: sum.splits prod.splits)

text \<open>A program that asks for one service, or two, and then makes its own.\<close>

lemma wired_one:
  assumes "wired st (level p) ds m (\<lambda>s r. pr_cache s q = Some r)" and "level p < n"
    and "\<And>r. made_by (f r) = p \<and> configured st (f r) \<and> set (uses (f r)) \<subseteq> {(q, r)}"
  shows "wired st n ds (lru_cache p (and_then m (\<lambda>r. done_with (f r)))) (\<lambda>s r. pr_cache s p = Some r)"
  using assms(3)
  by (intro wired_lru_cache [OF _ assms(2)] wired_and_then [OF assms(1)] wired_done)
     (auto simp: cached_def subset_iff)

lemma wired_two:
  assumes "\<And>ds. wired st (level p) ds m (\<lambda>s r. pr_cache s q = Some r)"
    and "\<And>ds. wired st (level p) ds m' (\<lambda>s r. pr_cache s q' = Some r)" and "level p < n"
    and "\<And>r r'. made_by (f r r') = p \<and> configured st (f r r') \<and> set (uses (f r r')) \<subseteq> {(q, r), (q', r')}"
  shows "wired st n ds (lru_cache p (and_then m (\<lambda>r. and_then m' (\<lambda>r'. done_with (f r r')))))
    (\<lambda>s r. pr_cache s p = Some r)"
  using assms(4)
  by (intro wired_lru_cache [OF _ assms(3)] wired_and_then [OF assms(1)] wired_and_then [OF assms(2)] wired_done)
     (auto simp: cached_def subset_iff)

lemma wired_simple:
  "level p < n \<Longrightarrow> made_by x = p \<Longrightarrow> configured st x \<Longrightarrow> uses x = [] \<Longrightarrow>
     wired st n ds (lru_cache p (done_with x)) (\<lambda>s r. pr_cache s p = Some r)"
  by (intro wired_lru_cache wired_done) (simp_all add: cached_def)

lemma wired_base: "1 < n \<Longrightarrow> wired st n ds (get_firefly_base_service st) (\<lambda>s r. pr_cache s FireflyBase = Some r)"
  unfolding get_firefly_base_service_def by (rule wired_one [OF wired_client]) simp_all

lemma wired_enrichment:
  "1 < n \<Longrightarrow> wired st n ds (get_firefly_enrichment_service st) (\<lambda>s r. pr_cache s FireflyEnrichment = Some r)"
  unfolding get_firefly_enrichment_service_def by (rule wired_one [OF wired_client]) simp_all

lemma wired_tx: "1 < n \<Longrightarrow> wired st n ds (get_firefly_tx_service st) (\<lambda>s r. pr_cache s FireflyTx = Some r)"
  unfolding get_firefly_tx_service_def by (rule wired_one [OF wired_client]) simp_all

lemma wired_store: "0 < n \<Longrightarrow> wired st n ds get_snapshot_store (\<lambda>s r. pr_cache s SnapshotStoreP = Some r)"
  unfolding get_snapshot_store_def by (rule wired_simple) simp_all

lemma wired_snapshots:
  "2 < n \<Longrightarrow> wired st n ds (get_transaction_snapshot_service st) (\<lambda>s r. pr_cache s TransactionSnapshots = Some r)"
  unfolding get_transaction_snapshot_service_def
  by (rule wired_two [OF wired_store wired_base]) simp_all

lemma wired_blik_metrics:
  "3 < n \<Longrightarrow> wired st n ds (get_snapshot_blik_metrics_service st) (\<lambda>s r. pr_cache s BlikMetricsP = Some r)"
  unfolding get_snapshot_blik_metrics_service_def by (rule wired_one [OF wired_snapshots]) simp_all

lemma wired_allegro_metrics:
  "3 < n \<Longrightarrow> wired st n ds (get_snapshot_allegro_metrics_service st) (\<lambda>s r. pr_cache s AllegroMetricsP = Some r)"
  unfolding get_snapshot_allegro_metrics_service_def by (rule wired_one [OF wired_snapshots]) simp_all

lemma wired_tx_metrics:
  "3 < n \<Longrightarrow> wired st n ds (get_snapshot_tx_metrics_service st) (\<lambda>s r. pr_cache s TxMetricsP = Some r)"
  unfolding get_snapshot_tx_metrics_service_def by (rule wired_one [OF wired_snapshots]) simp_all

lemma wired_category:
  "3 < n \<Longrightarrow> wired st n ds (get_category_suggestion_service st) (\<lambda>s r. pr_cache s CategorySuggestions = Some r)"
  unfolding get_category_suggestion_service_def by (rule wired_one [OF wired_snapshots]) simp_all

lemma wired_crypto: "0 < n \<Longrightarrow> wired st n ds get_secret_crypto_service (\<lambda>s r. pr_cache s SecretCrypto = Some r)"
  unfolding get_secret_crypto_service_def by (rule wired_simple) simp_all

lemma wired_sessions: "0 < n \<Longrightarrow> wired st n ds get_vault_session_store (\<lambda>s r. pr_cache s VaultSessions = Some r)"
  unfolding get_vault_session_store_def by (rule wired_simple) simp_all

lemma wired_module_stores:
  "wired st n ds get_blik_state_store (\<lambda>s r. pr_cache s BlikStates = Some r)"
  "wired st n ds get_allegro_state_store (\<lambda>s r. pr_cache s AllegroStates = Some r)"
  "wired st n ds get_citi_import_store (\<lambda>s r. pr_cache s CitiFiles = Some r)"
  unfolding get_blik_state_store_def get_allegro_state_store_def get_citi_import_store_def
  by (rule wired_done, simp add: process_invD)+

lemma wired_citi: "0 < n \<Longrightarrow> wired st n ds get_citi_import_runtime (\<lambda>s r. pr_cache s CitiRuntime = Some r)"
  unfolding get_citi_import_runtime_def by (rule wired_one [OF wired_module_stores(3)]) simp_all

lemma wired_tx_runtime:
  "4 < n \<Longrightarrow> wired st n ds (get_tx_application_runtime st) (\<lambda>s r. pr_cache s TxRuntime = Some r)"
  unfolding get_tx_application_runtime_def by (rule wired_two [OF wired_tx wired_tx_metrics]) simp_all

lemma wired_blik_runtime:
  "4 < n \<Longrightarrow> wired st n ds (get_blik_application_runtime st) (\<lambda>s r. pr_cache s BlikRuntime = Some r)"
  unfolding get_blik_application_runtime_def
  by (intro wired_lru_cache wired_and_then [OF wired_enrichment] wired_and_then [OF wired_blik_metrics]
        wired_and_then [OF wired_module_stores(1)] wired_done) (auto simp: cached_def)

lemma wired_provide: "wired st 5 ds (provide st p) (\<lambda>s r. pr_cache s p = Some r)"
  by (cases p) (simp_all add: wired_module_stores wired_client wired_base wired_enrichment wired_tx wired_store
      wired_snapshots wired_blik_metrics wired_allegro_metrics wired_tx_metrics wired_category
      wired_crypto wired_sessions wired_blik_runtime wired_tx_runtime wired_citi)

section \<open>Services of a request\<close>

definition vault_uses :: "wired_vault_service \<Rightarrow> (provider \<times> ref) list" where
  "vault_uses x = [(VaultSessions, wvs_sessions x), (SecretCrypto, wvs_crypto x)]"

definition secrets_uses :: "wired_secrets_service \<Rightarrow> (provider \<times> ref) list" where
  "secrets_uses x = (SecretCrypto, wse_crypto x) # vault_uses (wse_vault x)"

definition allegro_uses :: "wired_allegro_service \<Rightarrow> (provider \<times> ref) list" where
  "allegro_uses x =
     [(FireflyEnrichment, was_enrichment x), (AllegroMetricsP, was_metrics x),
      (AllegroStates, was_state_store x)] @ secrets_uses (was_secrets x)"

lemma wired_vault: "0 < n \<Longrightarrow> wired st n ds (get_vault_service st db) (\<lambda>s x. cached (vault_uses x) s)"
  unfolding get_vault_service_def
  by (intro wired_and_then [OF wired_sessions] wired_and_then [OF wired_crypto] wired_done)
     (auto simp: cached_def vault_uses_def)

lemma wired_secrets: "0 < n \<Longrightarrow> wired st n ds (get_user_secrets_service st db) (\<lambda>s x. cached (secrets_uses x) s)"
  unfolding get_user_secrets_service_def
  by (intro wired_and_then_cached [OF wired_vault] wired_and_then [OF wired_crypto] wired_done)
     (auto simp: cached_def secrets_uses_def)

lemma wired_allegro_init:
  "(AllegroMetricsP, was_metrics x) \<in> set ds \<Longrightarrow> (\<And>s. cached ds s \<Longrightarrow> cached (allegro_uses x) s) \<Longrightarrow>
     wired st n ds (allegro_service_init x) (\<lambda>s x. cached (allegro_uses x) s)"
  by (force simp: wired_def allegro_service_init_def later_def process_inv_def cached_def split: option.splits)

lemma wired_allegro:
  "3 < n \<Longrightarrow> wired st n ds (get_allegro_application_runtime st db) (\<lambda>s x. cached (allegro_uses x) s)"
  unfolding get_allegro_application_runtime_def
  by (intro wired_and_then_cached [OF wired_secrets] wired_and_then [OF wired_enrichment]
        wired_and_then [OF wired_module_stores(2)] wired_and_then [OF wired_allegro_metrics]
        wired_allegro_init) (auto simp: cached_def allegro_uses_def)

section \<open>Whatever is asked for\<close>

lemma process_inv_start: "process_inv st process_start"
  by (auto simp: process_inv_def process_start_def less_Suc_eq nth_Cons split: nat.splits if_splits)

lemma cached_nil [simp]: "cached [] s"
  by (simp add: cached_def)

lemma serve_later: "process_inv st s \<Longrightarrow> process_inv st (serve st q s) \<and> later 5 s (serve st q s)"
proof -
  have *: "process_inv st (snd (run_state m s)) \<and> later 5 s (snd (run_state m s))"
    if "wired st 5 [] m Q" "process_inv st s" for m :: "'a proc" and Q
    using wiredD(1,2) [OF that cached_nil, of "fst (run_state m s)"] by simp
  assume "process_inv st s"
  then show ?thesis
    by (cases q) (simp_all add: * [OF wired_provide] * [OF wired_vault] * [OF wired_secrets] * [OF wired_allegro])
qed

lemma fold_serve_later:
  "process_inv st s \<Longrightarrow> process_inv st (fold (serve st) qs s) \<and> later 5 s (fold (serve st) qs s)"
proof (induction qs arbitrary: s)
  case (Cons q qs)
  from serve_later [OF Cons.prems, of q] Cons.IH [of "serve st q s"] show ?case
    by (auto intro: later_trans)
qed (simp add: later_refl)

text \<open>A cached service is given again and nothing changes.\<close>

lemma provide_cached:
  assumes "process_inv st s" and "pr_cache s p = Some r" shows "run_state (provide st p) s = (Inr r, s)"
proof (cases "p \<in> {BlikStates, AllegroStates, CitiFiles}")
  case True
  with assms process_invD(5-7) [OF assms(1)] show ?thesis
    by (auto simp: get_blik_state_store_def get_allegro_state_store_def get_citi_import_store_def done_with_def)
next
  case False
  have "run_state (lru_cache p build) s = (Inr r, s)" for build using assms(2) by (simp add: lru_cache_def)
  moreover have "\<exists>build. provide st p = lru_cache p build"
    using False
    by (cases p) (auto simp: get_firefly_client_def get_firefly_base_service_def
        get_firefly_enrichment_service_def get_firefly_tx_service_def get_snapshot_store_def
        get_transaction_snapshot_service_def get_snapshot_blik_metrics_service_def
        get_snapshot_allegro_metrics_service_def get_snapshot_tx_metrics_service_def
        get_category_suggestion_service_def get_secret_crypto_service_def get_vault_session_store_def
        get_blik_application_runtime_def get_tx_application_runtime_def get_citi_import_runtime_def)
  ultimately show ?thesis by auto
qed

lemma provide_again:
  assumes "process_inv st s" and "run_state (provide st p) s = (Inr r, s')"
  shows "run_state (provide st p) (fold (serve st) qs s') = (Inr r, fold (serve st) qs s')"
proof -
  note w = wiredD [OF wired_provide assms(1) cached_nil assms(2)]
  from w(4) have "pr_cache s' p = Some r" by simp
  moreover have "process_inv st (fold (serve st) qs s')" "later 5 s' (fold (serve st) qs s')"
    using fold_serve_later [OF w(1)] by blast+
  ultimately show ?thesis by (intro provide_cached) (auto dest: later_cached)
qed

lemma provide_fails:
  assumes "process_inv st s" and "run_state (provide st p) s = (Inl e, s')" shows "client_arguments st = Inl e"
  using wiredD(3) [OF wired_provide assms(1) cached_nil assms(2)] by simp

lemma provided_kind:
  assumes "process_inv st s" and "run_state (provide st p) s = (Inr r, s')"
  shows "r < length (pr_objects s') \<and> made_by (pr_objects s' ! r) = p"
  using wiredD(1,4) [OF wired_provide assms(1) cached_nil assms(2)] process_invD(1) by blast

text \<open>
  C37. However the requests of a process follow one another, each of its services exists at most once and
  is made with the values of the settings; the services it uses are the ones of their kinds, so all
  who use the snapshots, the vault sessions or a state store share it; a provider that has given a
  service gives the same one ever after; and none fails unless the address or the token of Firefly
  is missing.
\<close>

theorem services_made_once_and_shared:
  assumes "s = fold (serve st) qs process_start" and "run_state (provide st p) s = (a, s')"
  shows "(\<forall>i < length (pr_objects s). \<forall>j < length (pr_objects s).
       made_by (pr_objects s ! i) = made_by (pr_objects s ! j) \<longrightarrow> i = j) \<and>
    (\<forall>x \<in> set (pr_objects s). configured st x \<and>
       (\<forall>(q, r) \<in> set (uses x). r < length (pr_objects s) \<and> made_by (pr_objects s ! r) = q)) \<and>
    (case a of
       Inl e \<Rightarrow> client_arguments st = Inl e
     | Inr r \<Rightarrow> made_by (pr_objects s' ! r) = p \<and>
         (\<forall>qs'. run_state (provide st p) (fold (serve st) qs' s') = (Inr r, fold (serve st) qs' s')))"
proof -
  have s: "process_inv st s" using fold_serve_later [OF process_inv_start] assms(1) by simp
  note S = process_invD [OF s]
  have "i = j" if "i < length (pr_objects s)" "j < length (pr_objects s)"
    "made_by (pr_objects s ! i) = made_by (pr_objects s ! j)" for i j
    using S(2) [OF that(1)] S(2) [OF that(2)] unfolding that(3) by (metis option.inject)
  moreover have "configured st x \<and>
      (\<forall>(q, r) \<in> set (uses x). r < length (pr_objects s) \<and> made_by (pr_objects s ! r) = q)"
    if "x \<in> set (pr_objects s)" for x
    using S(3) [OF that] S(1) by blast
  moreover have "case a of
       Inl e \<Rightarrow> client_arguments st = Inl e
     | Inr r \<Rightarrow> made_by (pr_objects s' ! r) = p \<and>
         (\<forall>qs'. run_state (provide st p) (fold (serve st) qs' s') = (Inr r, fold (serve st) qs' s'))"
    using assms(2) provide_again [OF s] provide_fails [OF s] provided_kind [OF s] by (cases a) auto
  ultimately show ?thesis by blast
qed

definition sample_settings :: settings where
  "sample_settings = (settings_default (U ''key''))
     \<lparr>st_firefly_url := Some (U ''http://firefly''), st_firefly_token := Some (U ''token'')\<rparr>"

definition sample_process :: process where
  "sample_process = fold (serve sample_settings) [UseService BlikRuntime, UseAllegro 1] process_start"

theorem services_made_once_and_shared_witness:
  "length (pr_objects sample_process) = 13 \<and>
   (\<exists>r s'. run_state (provide sample_settings TxRuntime) sample_process = (Inr r, s') \<and>
     made_by (pr_objects s' ! r) = TxRuntime \<and>
     run_state (provide sample_settings TxRuntime) s' = (Inr r, s'))"
proof -
  have n: "length (pr_objects sample_process) = 13" by code_simp
  obtain a s' where p: "run_state (provide sample_settings TxRuntime) sample_process = (a, s')" by fastforce
  note t = services_made_once_and_shared [OF sample_process_def p]
  have "\<not> (\<exists>e. client_arguments sample_settings = Inl e)"
    by (simp add: client_arguments_def sample_settings_def U_def)
  then obtain r where r: "a = Inr r" using t by (cases a) auto
  with t have "\<forall>qs'. run_state (provide sample_settings TxRuntime) (fold (serve sample_settings) qs' s') =
    (Inr r, fold (serve sample_settings) qs' s')" by simp
  from spec [OF this, of "[]"] t p r n show ?thesis by auto
qed

section \<open>Requests that overlap\<close>

text \<open>
  The providers are plain functions, which FastAPI runs in a pool of threads. Two requests that both
  find the cache empty both make the service, and the second one keeps an object that nobody else
  will ever see: a vault session unlocked there is gone with the request.
\<close>

lemma lru_cache_race:
  assumes "pr_cache s p = None" and "lru_finish p x s = (r1, s1)" and "lru_finish p y s1 = (r2, s2)"
  shows "r1 \<noteq> r2 \<and> pr_objects s2 ! r2 = y \<and> pr_cache s2 p = Some r1"
  using assms by (auto simp: lru_finish_def Let_def nth_append)

end
