(* ===== verification/FlowProps.thy ===== *)
theory FlowProps imports JobProps "HOL-Library.List_Lexorder" begin

text \<open>
  The whole BLIK flow over a Firefly server that keeps what it is told: what a job has applied is
  known as processed to every later preview.
\<close>

section \<open>A server that keeps its transactions\<close>



section \<open>The tag stays\<close>








section \<open>Previews\<close>



section \<open>A run\<close>

definition store_client :: "ff_tx list ff_client" where
  "store_client =
     \<lparr>cl_fetch_transactions = \<lambda>_ _ _ _ ts. (Inr ts, ts),
      cl_update_transaction = \<lambda>i u ts.
        (Inr (), map (\<lambda>t. if ff_id t = i
                         then (case ffu_tags u of None \<Rightarrow> t
                               | Some T \<Rightarrow> t\<lparr>ff_tags := sorted_list_of_set T\<rparr>) else t) ts),
      cl_get_transaction = \<lambda>_ ts. (Inr sample_ff_tx, ts),
      cl_fetch_categories = \<lambda>ts. (Inr [], ts),
      cl_fetch_with_stats = \<lambda>_ _ ts.
        (Inr (ts, \<lparr>st_total = 1, st_duration_ms = 5, st_invalid = 0, st_multipart = 0\<rparr>), ts)\<rparr>"


lemma store_client_calls [simp]:
  "cl_fetch_transactions store_client a b n p ts = (Inr ts, ts)"
  "cl_update_transaction store_client i u ts =
     (Inr (), map (\<lambda>t. if ff_id t = i then (case ffu_tags u of None \<Rightarrow> t
                     | Some T \<Rightarrow> t\<lparr>ff_tags := sorted_list_of_set T\<rparr>) else t) ts)"
  by (simp_all add: store_client_def)









section \<open>Applying twice\<close>

text \<open>
  Neither the decisions nor the automatic choice look at the status, and a bank record's text is added
  whether or not the notes have it: a second job on the same preview writes it again.
\<close>

lemma bank_notes_pile_up:
  "bank_build_tx_update r t = Inr u \<Longrightarrow> up_notes u = Some n \<Longrightarrow> n \<noteq> [] \<Longrightarrow>
     \<exists>u'. bank_build_tx_update r (t\<lparr>tx_notes := up_notes u\<rparr>) = Inr u' \<and>
       up_notes u' = Some (n @ [10] @ pretty_print r True None None)"
  by (simp add: bank_build_tx_update_def Let_def add_line_def)

end
