(* ===== verification/JobTermination.thy ===== *)
theory JobTermination imports JobProps begin

text \<open>
  Every started BLIK job comes to its end: a bound on the steps that the tasks still take, in any
  interleaving and whatever the Firefly client answers, and that no task is ever stuck before it.
\<close>

text \<open>A task still has to begin, to make its decisions one by one, and to publish its outcomes.\<close>

definition task_work :: "blik_task \<Rightarrow> nat" where
  "task_work t = Suc (length (bt_todo t)) + (if bt_begun t then 0 else 1)"

definition blik_work :: "'w blik_world \<Rightarrow> nat" where
  "blik_work W = sum_list (map task_work (bw_tasks W))"

text \<open>
  Runs in which no further job is started, with the number of steps that tasks took; the other steps
  (previews, and whatever happens to Firefly from elsewhere) are not counted.
\<close>

inductive blik_runs :: "'w ff_client \<Rightarrow> nat \<Rightarrow> 'w blik_world \<Rightarrow> 'w blik_world \<Rightarrow> bool"
  for cl :: "'w ff_client" where
  none: "blik_runs cl 0 W W"
| other:
    "blik_runs cl n W W' \<Longrightarrow> blik_step cl W' W'' \<Longrightarrow> bw_tasks W'' = bw_tasks W' \<Longrightarrow>
     blik_runs cl n W W''"
| work:
    "blik_runs cl n W W' \<Longrightarrow> blik_step cl W' W'' \<Longrightarrow> bw_tasks W'' \<noteq> bw_tasks W' \<Longrightarrow>
     length (bw_tasks W'') \<le> length (bw_tasks W') \<Longrightarrow> blik_runs cl (Suc n) W W''"

lemma blik_work_step:
  "blik_step cl W W' \<Longrightarrow> bw_tasks W' \<noteq> bw_tasks W \<Longrightarrow> length (bw_tasks W') \<le> length (bw_tasks W) \<Longrightarrow>
     Suc (blik_work W') = blik_work W"
  by (induction rule: blik_step.induct) (auto simp: blik_work_def task_work_def)

lemma blik_runs_work: "blik_runs cl n W W' \<Longrightarrow> n + blik_work W' = blik_work W"
proof (induction rule: blik_runs.induct)
  case (other n W W' W'')
  then show ?case by (simp add: blik_work_def)
next
  case (work n W W' W'')
  with blik_work_step [of cl W' W''] show ?case by simp
qed simp

lemma blik_runs_reachable: "blik_runs cl n W W' \<Longrightarrow> blik_reachable cl W \<Longrightarrow> blik_reachable cl W'"
  by (induction rule: blik_runs.induct) (auto intro: blik_reachable.step)

text \<open>The first task can always go on.\<close>

lemma blik_work_progress:
  assumes "blik_work W \<noteq> 0"
  shows "\<exists>W'. blik_step cl W W' \<and> bw_tasks W' \<noteq> bw_tasks W \<and> length (bw_tasks W') \<le> length (bw_tasks W)"
proof -
  from assms obtain t ts where tasks: "bw_tasks W = [] @ t # ts"
    by (cases "bw_tasks W") (auto simp: blik_work_def)
  consider "\<not> bt_begun t" | d ds where "bt_begun t" "bt_todo t = d # ds" | "bt_begun t" "bt_todo t = []"
    by (cases "bt_todo t") auto
  then show ?thesis
  proof cases
    case 1
    have "t\<lparr>bt_begun := True\<rparr> \<noteq> t" using 1 by (metis blik_task.select_convs(5) blik_task.surjective blik_task.update_convs(5))
    with blik_step.begin_task [OF tasks 1, of cl] tasks show ?thesis by (intro exI conjI) auto
  next
    case 2
    obtain r w' where r: "blik_try_decision cl (bt_index t) d (bw_remote W) = (r, w')" by fastforce
    have "bt_todo (t\<lparr>bt_todo := ds, bt_outcomes := bt_outcomes t @ [blik_outcome_of d r]\<rparr>) \<noteq> bt_todo t"
      using 2 by simp
    then have "t\<lparr>bt_todo := ds, bt_outcomes := bt_outcomes t @ [blik_outcome_of d r]\<rparr> \<noteq> t" by metis
    with blik_step.decide [OF tasks 2 r] tasks show ?thesis by (intro exI conjI) auto
  next
    case 3
    from blik_step.finish [OF tasks 3, of cl 0] tasks show ?thesis by (intro exI conjI) auto
  qed
qed

lemma no_work_all_done:
  assumes "blik_reachable cl W" and "blik_work W = 0" and "dget (bs_jobs (bw_store W)) k = Some j"
  shows "job_stat j = DONE"
proof -
  have "bw_tasks W = []" using assms(2) by (cases "bw_tasks W") (auto simp: blik_work_def task_work_def)
  with blik_inv_reachable [OF assms(1)] assms(3) show ?thesis by (auto simp: blik_inv_def job_closed_def)
qed

text \<open>
  C15. From any reachable state the tasks take a bounded number of steps, two for each and one for each
  decision left, in whatever order they are run and however the Firefly client answers; as long as
  they have taken fewer, another step is possible, and once they have taken them every job in the
  store is done. No job stays pending or running for ever.
\<close>

theorem blik_jobs_terminate:
  assumes "blik_reachable cl W" and "blik_runs cl n W W'"
  shows "n \<le> blik_work W \<and>
    (if n < blik_work W then \<exists>W''. blik_runs cl (Suc n) W W''
     else \<forall>k j. dget (bs_jobs (bw_store W')) k = Some j \<longrightarrow> job_stat j = DONE)"
proof -
  have eq: "n + blik_work W' = blik_work W" using assms(2) by (rule blik_runs_work)
  show ?thesis
  proof (cases "n < blik_work W")
    case True
    with eq have "blik_work W' \<noteq> 0" by simp
    from blik_work_progress [OF this] have "\<exists>W''. blik_runs cl (Suc n) W W''"
      using assms(2) blik_runs.work by blast
    with True show ?thesis by simp
  next
    case False
    with eq have "blik_work W' = 0" "n \<le> blik_work W" by simp_all
    with False no_work_all_done [OF blik_runs_reachable [OF assms(2,1)]] show ?thesis by auto
  qed
qed

theorem blik_jobs_terminate_witness:
  "blik_work sample_world = 3 \<and> (\<exists>W'. blik_runs sample_client 1 sample_world W')"
proof -
  have w: "blik_work sample_world = 3"
    by (simp add: blik_work_def sample_world_def sample_task_def task_work_def)
  with blik_jobs_terminate [OF sample_world_reachable blik_runs.none] show ?thesis by simp
qed

end
