(* ===== verification/Spec2Isabelle.thy ===== *)
theory Spec2Isabelle
  imports MatchingProps TxProps BlikProps JobProps VaultProps AccessProps OrdersProps CitiProps
    SnapshotProps MetricsProps RouterProps CategorizeProps
    MigrationProps SystemProps WiringProps AmountProps FlowProps JobTermination
begin

text \<open>
  A model of the Firefly III toolkit API, the FastAPI service under \<open>src/src\<close> with its database
  migrations under \<open>src/alembic\<close>, and what makes it correct.

  \<^bold>\<open>The program.\<close> The service explains the transactions that a Firefly III server keeps. A user
  uploads a bank's CSV file (the BLIK flow, \<open>services/blik_application_service.py\<close>) or stores a
  session cookie of Allegro in an encrypted vault (the Allegro flow,
  \<open>services/allegro_application_service.py\<close>). Both flows turn their input into candidates, fetch the
  transactions of the candidates' period from Firefly, propose pairs (\<open>services/matcher.py\<close>), keep
  the proposals in memory, and apply the user's decisions in a background job that writes
  descriptions, notes and tags back. Around this stand the screening of a month's uncategorized
  transactions, category suggestions from similar transactions, statistics over a shared snapshot of
  all transactions, an import of pages copied from a bank's site (Citi), users with tokens,
  invitations and an audit log, and the database.

  \<^bold>\<open>Values.\<close> Prelude has Python's text (lists of code points), insertion-ordered dictionaries
  (\<open>dict\<close>), and the exceptions of the program as one datatype; an operation that may raise returns
  \<open>res\<close>, a sum of exception and value. PyText, PyBytes, PyDate, PyDecimal, PyFloat, PyCsv, PySha,
  PyUuid, PyJson and SeqMatch model what the code uses of the language's library, down to the csv
  automaton, SHA-256 on 32-bit words, 28-digit decimals and the rounding of binary64 numbers.

  \<^bold>\<open>Components.\<close> The theories follow the directories of the code.

  \<^item> Transactions, Evidence: \<open>services/domain\<close>, \<open>services/mappers/firefly.py\<close>. A dataclass is a record, an
    enumeration a datatype; a bank record or an order payment compares itself with a transaction
    and builds the update.
  \<^item> Matcher, Firefly: \<open>services/matcher.py\<close>, the three \<open>services/firefly_*.py\<close>. The Firefly client is
    a record of functions over a remote state.
  \<^item> CsvReader, BlikApp, JobStores: the BLIK flow; an upload is an entry of a dictionary of files. Its
    job is written twice: as the function the coroutine computes, and as a step relation in which
    the tasks of several jobs interleave (\<open>blik_step\<close>).
  \<^item> AllegroOrders, AllegroApp: \<open>services/allegro\<close> and the Allegro flow, its page cache and jobs
    (\<open>allegro_step\<close>).
  \<^item> ApiMappers, TxApp, Routers: \<open>api/mappers\<close>, \<open>api/models\<close>, \<open>services/tx_application_service.py\<close>
    and the routers of the two flows and of transactions, with the HTTP errors they answer.
  \<^item> Db: \<open>services/db/models.py\<close> and \<open>services/db/repository.py\<close>. A session has the rows it sees and the
    rows last committed.
  \<^item> Vault, UserSecrets: key derivation, vault sessions with their expiry, secrets and their endpoints.
  \<^item> Auth: \<open>services/auth.py\<close>, \<open>services/guards.py\<close>, the routers \<open>auth\<close>, \<open>users\<close> and \<open>me\<close>.
  \<^item> Citi: \<open>services/citi_import\<close>, from the text to the exported CSV files.
  \<^item> Snapshot: \<open>services/snapshot\<close>, calls, fetches and cancellations as the step relation
    \<open>snapshot_step\<close>. Metrics: the statistics and the three managers that recompute them.
  \<^item> Categorize: \<open>services/categorization\<close>, preprocessor, similarity engine, ranking and endpoint.
  \<^item> Migrations: \<open>alembic/versions\<close> as schema operations, \<open>services/db/types.py\<close>, the schema that the ORM
    classes declare. System: \<open>settings.py\<close>, the application of \<open>main.py\<close>, cookies, request sessions, log
    lines, \<open>alembic/env.py\<close>, health and version. Wiring: \<open>api/deps_services.py\<close> and \<open>api/deps_runtime.py\<close>
    as state monad programs over the objects that a process has made and the cache of its providers.

  \<^bold>\<open>What is shown.\<close> Each theory whose name ends in Props, and JobTermination, has the lemmas and
  properties of its component.

  \<^item> Matching and Firefly (MatchingProps, TxProps): the matcher's loops compute their relational
    specification; which pairs are proposed, over a window that misses no candidate; what an update
    may touch; that order notes are written once; what the screening of a month shows.
  \<^item> BLIK files and jobs (BlikProps, JobProps, JobTermination, FlowProps): only uploads are opened; jobs
    update only pairs that were proposed, count every decision, agree with their sequential
    description, and end after a bounded number of steps in any interleaving; what a job has applied
    is known as processed to every later preview.
  \<^item> Allegro (JobProps, OrdersProps): counters and safety of the jobs, the page cache as a map, payments
    as a partition of the orders.
  \<^item> Access (VaultProps, AuthProps, AccessProps): secrets come back to their owner and to nobody else,
    failed requests change nothing, the tables of users stay consistent, invitations work once,
    guards admit by kind and expiry of tokens, and the audit log only grows.
  \<^item> Import (CitiProps): after a successful parse nothing else fails, and the export can be read back.
  \<^item> Snapshot and statistics (SnapshotProps, MetricsProps): one fetch at a time, no stale answers, every
    waiting call can be answered, and the numbers of the statistics agree.
  \<^item> Suggestions (CategorizeProps): ranked, bounded, from other categorized transactions.
  \<^item> Amounts (AmountProps): the double that is answered, read at the currency's places, is the amount.
  \<^item> Wiring (WiringProps, SystemProps): however requests follow one another, each service exists once, is
    made from the settings and is shared by all who use it; the lemma \<open>lru_cache_race\<close> shows what becomes
    of that when the first requests overlap.
  \<^item> Schema (MigrationProps): the migrations build the declared schema, keep every row well-typed, and
    are undone by their downgrades.

  Lemmas that are not properties record what the code does on awkward input: candidates that are
  empty, malformed ids, cancelled tasks, origins given as a JSON list, a database that is down.

  \<^bold>\<open>Termination and bounds.\<close> Every loop of the code is a structural recursion or has a measure, so all
  definitions are total. Two functions take a bound: \<open>script_order\<close> follows at most as many
  revisions as there are migrations, and the theorem about the schema shows that it finds them all.
  Step relations have no bound; their tasks' work is the measure of JobTermination.

  \<^bold>\<open>Parameters.\<close> Code outside the repository is an argument: the Firefly client, the HTTP session and
  payload validation of the Allegro client, Argon2 and AES-GCM (\<open>crypto\<close>), token signing (\<open>jwt\<close>) and
  password hashing, the zip container, the month buckets of pandas, Unicode's decomposition (\<open>nfkd\<close>),
  and the JSON reader of the settings. What the code relies on is a named predicate (\<open>crypto_ok\<close>,
  \<open>jwt_ok\<close>, \<open>hasher_ok\<close>), and every witness gives a concrete function for it. Random tokens, ids and
  the clock are arguments too.

  \<^bold>\<open>Not modelled.\<close> Which lines are logged and the registration with Python's logging; the script
  \<open>cli/allegro.py\<close>, which prints what the Allegro client returns; reading \<open>pyproject.toml\<close> and the
  environment. pydantic's checks of request bodies are modelled where an endpoint relies on a bound.
  The seconds that a preview measures are left out. The message of a built-in exception is not kept
  where it quotes its input. Letters beyond Latin Extended-A have no case, only ASCII digits are digits, a
  signalling NaN in a bank
  file is read as a quiet one, and exponents that overflow Python's decimals are not considered. The
  SQL engine appears as lists of rows in Db and as schema operations in Migrations.
\<close>

end
